(* ===== verification/Prelude.thy ===== *)
theory Prelude
  imports Main "HOL-Library.Word"
begin

text \<open>
  The prelude of the development: the result type of C code that may sleep for ever or oops,
  its sequencing combinator and the post-condition calculus the component proofs use, kernel
  pointers as a datatype, C arrays with the bounds written out, and the lemma collections
  (\<open>act_simps\<close>, \<open>post_intros\<close>) that the component theories extend.
\<close>

named_theorems act_simps \<open>unfolding rules for sequenced actions\<close>
named_theorems post_intros \<open>introduction rules of the post-condition calculus\<close>

type_synonym u8 = "8 word"
type_synonym u16 = "16 word"
type_synonym u32 = "32 word"
type_synonym u64 = "64 word"

section \<open>Actions: C statements that may sleep for ever or oops\<close>

text \<open>
  An action returns \<open>Inr (a, w)\<close>, the value and the new world, or \<open>Inl (why, w)\<close> when control
  does not come back: the thread sleeps and nothing wakes it, or the code dereferences a pointer
  that points to nothing (a kernel oops), or a \<open>BUG_ON\<close> fires, or it leaves one of the arrays of
  the swap traces (\<open>OutOfBounds\<close>), or a loop has used up its fuel.
\<close>

datatype stuck = Asleep | Oops | OutOfBounds | NoFuel

type_synonym ('w, 'a) act = "(stuck \<times> 'w) + ('a \<times> 'w)"

definition ret :: "'a \<Rightarrow> 'w \<Rightarrow> ('w, 'a) act" where
  "ret a w = Inr (a, w)"

definition bnd :: "('w, 'a) act \<Rightarrow> ('a \<Rightarrow> 'w \<Rightarrow> ('w, 'b) act) \<Rightarrow> ('w, 'b) act" where
  "bnd m f = (case m of Inl e \<Rightarrow> Inl e | Inr (a, w) \<Rightarrow> f a w)"

lemma bnd_Inl [simp, act_simps]: "bnd (Inl e) f = Inl e"
  by (simp add: bnd_def)

lemma bnd_Inr [simp, act_simps]: "bnd (Inr (a, w)) f = f a w"
  by (simp add: bnd_def)

lemma bnd_ret [simp, act_simps]: "bnd (ret a w) f = f a w"
  by (simp add: ret_def)

lemma ret_eq_Inr [simp, act_simps]: "ret a w = Inr (b, v) \<longleftrightarrow> a = b \<and> w = v"
  by (auto simp: ret_def)

lemma ret_neq_Inl [simp, act_simps]: "ret a w \<noteq> Inl e"
  by (simp add: ret_def)

lemma bnd_assoc: "bnd (bnd m f) g = bnd m (\<lambda>a w. bnd (f a w) g)"
  by (simp add: bnd_def split: sum.splits prod.splits)

lemma bnd_eq_Inr: "bnd m f = Inr r \<longleftrightarrow> (\<exists>a w. m = Inr (a, w) \<and> f a w = Inr r)"
  by (auto simp: bnd_def split: sum.splits)

lemma bnd_eq_Inl: "bnd m f = Inl e \<longleftrightarrow> m = Inl e \<or> (\<exists>a w. m = Inr (a, w) \<and> f a w = Inl e)"
  by (auto simp: bnd_def split: sum.splits)

text \<open>\<open>post P m\<close>: if the action returns, its value and world satisfy \<open>P\<close>.\<close>

definition post :: "('a \<Rightarrow> 'w \<Rightarrow> bool) \<Rightarrow> ('w, 'a) act \<Rightarrow> bool" where
  "post P m = (case m of Inl _ \<Rightarrow> True | Inr (a, w) \<Rightarrow> P a w)"

lemma post_Inl [simp, post_intros]: "post P (Inl e)"
  by (simp add: post_def)

lemma post_Inr [simp]: "post P (Inr (a, w)) = P a w"
  by (simp add: post_def)

lemma post_ret [simp]: "post P (ret a w) = P a w"
  by (simp add: ret_def)

lemma post_retI [post_intros]: "P a w \<Longrightarrow> post P (ret a w)"
  by simp

lemma post_bnd: "post P (bnd m f) = post (\<lambda>a w. post P (f a w)) m"
  by (simp add: post_def bnd_def split: sum.splits prod.splits)

lemma post_bndI: "post Q m \<Longrightarrow> (\<And>a w. Q a w \<Longrightarrow> post P (f a w)) \<Longrightarrow> post P (bnd m f)"
  by (fastforce simp: post_def bnd_def split: sum.splits prod.splits)

lemma post_mono: "post Q m \<Longrightarrow> (\<And>a w. Q a w \<Longrightarrow> P a w) \<Longrightarrow> post P m"
  by (auto simp: post_def split: sum.splits)

lemma postD: "post P m \<Longrightarrow> m = Inr (a, w) \<Longrightarrow> P a w"
  by simp

lemma post_conj: "post P m \<Longrightarrow> post Q m \<Longrightarrow> post (\<lambda>a w. P a w \<and> Q a w) m"
  by (auto simp: post_def split: sum.splits)

lemma post_if [post_intros]:
  "(c \<Longrightarrow> post P x) \<Longrightarrow> (\<not> c \<Longrightarrow> post P y) \<Longrightarrow> post P (if c then x else y)"
  by simp

section \<open>Kernel pointers\<close>

text \<open>
  A kernel pointer is NULL, an error encoded in the pointer value (\<open>ERR_PTR\<close>, what many
  kernel interfaces return instead of NULL), or the address of an object. A C test
  \<open>if (p)\<close> is \<open>p \<noteq> Null\<close>; following a pointer that is not an object is an oops.
\<close>

datatype ptr = Null | ErrPtr int | Ptr nat

fun IS_ERR :: "ptr \<Rightarrow> bool" where
  "IS_ERR (ErrPtr e) = True"
| "IS_ERR p = False"

fun PTR_ERR :: "ptr \<Rightarrow> int" where
  "PTR_ERR (ErrPtr e) = e"
| "PTR_ERR Null = 0"
| "PTR_ERR (Ptr n) = int n"

definition is_obj :: "ptr \<Rightarrow> bool" where
  "is_obj p = (case p of Ptr n \<Rightarrow> True | _ \<Rightarrow> False)"

lemma is_obj_simps [simp]: "is_obj (Ptr n)" "\<not> is_obj Null" "\<not> is_obj (ErrPtr e)"
  by (simp_all add: is_obj_def)

lemma is_obj_iff: "is_obj p \<longleftrightarrow> p \<noteq> Null \<and> \<not> IS_ERR p"
  by (cases p) simp_all

definition deref :: "ptr \<Rightarrow> 'w \<Rightarrow> ('w, 'a) act \<Rightarrow> ('w, 'a) act" where
  "deref p w k = (if is_obj p then k else Inl (Oops, w))"

lemma deref_obj [simp, act_simps]: "deref (Ptr n) w k = k"
  by (simp add: deref_def)

lemma deref_bad [simp, act_simps]:
  "deref Null w k = Inl (Oops, w)" "deref (ErrPtr e) w k = Inl (Oops, w)"
  by (simp_all add: deref_def)

lemma post_deref [post_intros]: "(is_obj p \<Longrightarrow> post P k) \<Longrightarrow> post P (deref p w k)"
  by (simp add: deref_def)

section \<open>Byte order\<close>

text \<open>
  The byte-order macros (\<open>htons\<close>, \<open>htonl\<close>, \<open>cpu_to_be64\<close>) come from the kernel headers; the
  model takes them as functions. These two byte swaps are what they are on a little-endian
  machine; the witnesses use them.
\<close>

unbundle bit_operations_syntax

definition swab16 :: "u16 \<Rightarrow> u16" where
  "swab16 x = push_bit 8 (take_bit 8 x) OR drop_bit 8 x"

definition swab32 :: "u32 \<Rightarrow> u32" where
  "swab32 x =
     push_bit 24 (take_bit 8 x) OR push_bit 16 (take_bit 8 (drop_bit 8 x)) OR
     push_bit 8 (take_bit 8 (drop_bit 16 x)) OR take_bit 8 (drop_bit 24 x)"

definition swab64 :: "u64 \<Rightarrow> u64" where
  "swab64 x =
     push_bit 56 (take_bit 8 x) OR push_bit 48 (take_bit 8 (drop_bit 8 x)) OR
     push_bit 40 (take_bit 8 (drop_bit 16 x)) OR push_bit 32 (take_bit 8 (drop_bit 24 x)) OR
     push_bit 24 (take_bit 8 (drop_bit 32 x)) OR push_bit 16 (take_bit 8 (drop_bit 40 x)) OR
     push_bit 8 (take_bit 8 (drop_bit 48 x)) OR take_bit 8 (drop_bit 56 x)"

lemma bit_swab32:
  assumes "n < 32"
  shows "bit (swab32 x) n \<longleftrightarrow>
    (if n < 8 then bit x (n + 24) else if n < 16 then bit x (n + 8)
     else if n < 24 then bit x (n - 8) else bit x (n - 24))"
proof -
  consider "n < 8" | "8 \<le> n" "n < 16" | "16 \<le> n" "n < 24" | "24 \<le> n" "n < 32"
    using assms by linarith
  then show ?thesis
    by cases (simp_all add: swab32_def bit_simps less_diff_conv2 add.commute)
qed

lemma swab32_swab32 [simp]: "swab32 (swab32 x) = x"
proof (rule bit_word_eqI)
  fix n assume n: "n < LENGTH(32)"
  consider "n < 8" | "8 \<le> n" "n < 16" | "16 \<le> n" "n < 24" | "24 \<le> n" "n < 32"
    using n by fastforce
  then show "bit (swab32 (swab32 x)) n \<longleftrightarrow> bit x n"
    by cases (simp_all add: bit_swab32 less_diff_conv2)
qed

lemma bit_swab64:
  assumes "n < 64"
  shows "bit (swab64 x) n \<longleftrightarrow>
    (if n < 8 then bit x (n + 56) else if n < 16 then bit x (n + 40)
     else if n < 24 then bit x (n + 24) else if n < 32 then bit x (n + 8)
     else if n < 40 then bit x (n - 8) else if n < 48 then bit x (n - 24)
     else if n < 56 then bit x (n - 40) else bit x (n - 56))"
proof -
  consider "n < 8" | "8 \<le> n" "n < 16" | "16 \<le> n" "n < 24" | "24 \<le> n" "n < 32"
    | "32 \<le> n" "n < 40" | "40 \<le> n" "n < 48" | "48 \<le> n" "n < 56" | "56 \<le> n" "n < 64"
    using assms by linarith
  then show ?thesis
    by cases (simp_all add: swab64_def bit_simps less_diff_conv2 add.commute)
qed

lemma swab64_swab64 [simp]: "swab64 (swab64 x) = x"
proof (rule bit_word_eqI)
  fix n assume n: "n < LENGTH(64)"
  consider "n < 8" | "8 \<le> n" "n < 16" | "16 \<le> n" "n < 24" | "24 \<le> n" "n < 32"
    | "32 \<le> n" "n < 40" | "40 \<le> n" "n < 48" | "48 \<le> n" "n < 56" | "56 \<le> n" "n < 64"
    using n by fastforce
  then show "bit (swab64 (swab64 x)) n \<longleftrightarrow> bit x n"
    by cases (simp_all add: bit_swab64 less_diff_conv2)
qed

section \<open>C arrays\<close>

text \<open>
  A store through an array is only defined inside the array. \<open>store\<close> is \<open>None\<close> outside it, and
  \<open>store2\<close> is the store through an array of row pointers.
\<close>

definition fetch :: "'a list \<Rightarrow> int \<Rightarrow> 'a option" where
  "fetch xs i = (if 0 \<le> i \<and> i < int (length xs) then Some (xs ! nat i) else None)"

definition store :: "'a list \<Rightarrow> int \<Rightarrow> 'a \<Rightarrow> 'a list option" where
  "store xs i x = (if 0 \<le> i \<and> i < int (length xs) then Some (xs[nat i := x]) else None)"

definition fetch2 :: "'a list list \<Rightarrow> int \<Rightarrow> int \<Rightarrow> 'a option" where
  "fetch2 xss i j = Option.bind (fetch xss i) (\<lambda>xs. fetch xs j)"

definition store2 :: "'a list list \<Rightarrow> int \<Rightarrow> int \<Rightarrow> 'a \<Rightarrow> 'a list list option" where
  "store2 xss i j x =
     Option.bind (fetch xss i) (\<lambda>xs. Option.bind (store xs j x) (\<lambda>xs'. store xss i xs'))"

lemma fetch_Some_iff: "fetch xs i = Some x \<longleftrightarrow> 0 \<le> i \<and> nat i < length xs \<and> x = xs ! nat i"
  by (auto simp: fetch_def)

lemma store_Some_length: "store xs i x = Some ys \<Longrightarrow> length ys = length xs"
  by (auto simp: store_def split: if_splits)

lemma store2_in:
  assumes "0 \<le> i" "nat i < length xss" "0 \<le> j" "nat j < length (xss ! nat i)"
  shows "store2 xss i j x = Some (xss[nat i := (xss ! nat i)[nat j := x]])"
proof -
  from assms have "i < int (length xss)" "j < int (length (xss ! nat i))" by linarith+
  with assms show ?thesis by (simp add: store2_def fetch_def store_def)
qed

lemma store2_row_out: "int (length xss) \<le> i \<Longrightarrow> store2 xss i j x = None"
  by (simp add: store2_def fetch_def)

end
