(* ===== verification/Verbs.thy ===== *)
theory Verbs
  imports Prelude
begin

text \<open>
  The interface between the two kernel modules and the code that is not in the repository: the
  RDMA connection manager, the verbs API, the allocator, the DMA API and the wait queue. The
  external code is the parameter \<open>verbs\<close>: for every history of calls it gives the answer of
  the next one, including the callbacks (completion and connection events, DMA writes,
  signals) that run before the call returns. The types of the control block, work requests
  and completions are those of the source; \<open>wait_event\<close> is the documented behaviour of
  \<open>wait_event_interruptible\<close>.
\<close>

section \<open>Types of the control block\<close>

datatype mem_type = DMA | FASTREG | MW | MR

record megaVM_stats =
  send_bytes :: u64
  send_msgs :: u64
  recv_bytes :: u64
  recv_msgs :: u64
  write_bytes :: u64
  write_msgs :: u64
  read_bytes :: u64
  read_msgs :: u64

datatype test_state =
    IDLE | CONNECT_REQUEST | ADDR_RESOLVED | ROUTE_RESOLVED | CONNECTED
  | RDMA_READ_ADV | RDMA_READ_COMPLETE | RDMA_WRITE_ADV | RDMA_WRITE_COMPLETE | ERROR

text \<open>The numeric values of the enumerators; the code compares states with \<open>>=\<close>.\<close>

fun state_val :: "test_state \<Rightarrow> nat" where
  "state_val IDLE = 1"
| "state_val CONNECT_REQUEST = 2"
| "state_val ADDR_RESOLVED = 3"
| "state_val ROUTE_RESOLVED = 4"
| "state_val CONNECTED = 5"
| "state_val RDMA_READ_ADV = 6"
| "state_val RDMA_READ_COMPLETE = 7"
| "state_val RDMA_WRITE_ADV = 8"
| "state_val RDMA_WRITE_COMPLETE = 9"
| "state_val ERROR = 10"

lemma state_val_inj: "state_val a = state_val b \<Longrightarrow> a = b"
  by (cases a; cases b) simp_all

instantiation test_state :: linorder
begin

definition less_eq_test_state :: "test_state \<Rightarrow> test_state \<Rightarrow> bool" where
  "less_eq_test_state a b = (state_val a \<le> state_val b)"

definition less_test_state :: "test_state \<Rightarrow> test_state \<Rightarrow> bool" where
  "less_test_state a b = (state_val a < state_val b)"

instance
  by standard (auto simp: less_eq_test_state_def less_test_state_def intro: state_val_inj)

end

lemmas test_state_order = less_eq_test_state_def less_test_state_def

record megaVM_rdma_info =
  buf :: u64
  rkey :: u32
  info_size :: u32

text \<open>\<open>sizeof(struct megaVM_rdma_info)\<close>: one 64-bit and two 32-bit fields, no padding.\<close>

definition sizeof_rdma_info :: nat where
  "sizeof_rdma_info = 16"

definition RPING_BUFSIZE :: int where
  "RPING_BUFSIZE = 128 * 1024"

definition RPING_SQ_DEPTH :: int where
  "RPING_SQ_DEPTH = 64"

section \<open>Work requests and completions\<close>

record ib_sge =
  sge_addr :: u64
  sge_length :: u32
  sge_lkey :: u32

text \<open>A work request points to one of the scatter/gather entries of its control block.\<close>

datatype sge_ref = NoSge | RecvSgl | SendSgl | RdmaSgl

datatype wr_opcode = IB_WR_RDMA_WRITE | IB_WR_SEND | IB_WR_RDMA_READ

datatype send_flag = NoFlags | IB_SEND_SIGNALED

record ib_recv_wr =
  rq_sg_list :: sge_ref
  rq_num_sge :: int

record ib_send_wr =
  wr_op :: wr_opcode
  wr_flags :: send_flag
  sg_list :: sge_ref
  num_sge :: int
  wr_rkey :: u32
  wr_remote_addr :: u64
  wr_next :: ptr

datatype wc_status = IB_WC_SUCCESS | IB_WC_WR_FLUSH_ERR | IB_WC_OTHER_ERR

datatype wc_opcode = IB_WC_SEND | IB_WC_RDMA_WRITE | IB_WC_RDMA_READ | IB_WC_RECV | IB_WC_OTHER

record ib_wc =
  wc_status :: wc_status
  wc_op :: wc_opcode
  byte_len :: u32

datatype cm_event =
    RDMA_CM_EVENT_ADDR_RESOLVED | RDMA_CM_EVENT_ROUTE_RESOLVED | RDMA_CM_EVENT_CONNECT_REQUEST
  | RDMA_CM_EVENT_ESTABLISHED | RDMA_CM_EVENT_ADDR_ERROR | RDMA_CM_EVENT_ROUTE_ERROR
  | RDMA_CM_EVENT_CONNECT_ERROR | RDMA_CM_EVENT_UNREACHABLE | RDMA_CM_EVENT_REJECTED
  | RDMA_CM_EVENT_DISCONNECTED | RDMA_CM_EVENT_DEVICE_REMOVAL | RDMA_CM_EVENT_OTHER

text \<open>The answers of \<open>ib_poll_cq\<close>: one completion (the call returned 1), or another return code.\<close>

datatype poll = Completion ib_wc | PollRet int

record sockaddr =
  sin_family :: u8
  sin_addr :: "u8 list"
  sin_port :: u16

record rdma_conn_param =
  responder_resources :: nat
  initiator_depth :: nat
  retry_count :: nat

datatype qp_type = IB_QPT_RC | IB_QPT_OTHER

datatype sig_type = IB_SIGNAL_ALL_WR | IB_SIGNAL_REQ_WR

datatype ib_access = IB_ACCESS_LOCAL_WRITE | IB_ACCESS_REMOTE_READ | IB_ACCESS_REMOTE_WRITE

text \<open>\<open>struct ib_qp_init_attr\<close>, the fields the modules set.\<close>

record ib_qp_init_attr =
  max_send_wr :: int
  max_recv_wr :: int
  max_recv_sge :: int
  max_send_sge :: int
  qp_send_cq :: ptr
  qp_recv_cq :: ptr
  qp_typ :: qp_type
  sq_sig :: sig_type

section \<open>The fields the two control blocks share\<close>

record ib_context =
  server :: int
  cq :: ptr
  pd :: ptr
  qp :: ptr
  mem :: mem_type
  dma_mr :: ptr
  rq_wr :: ib_recv_wr
  recv_sgl :: ib_sge
  recv_buf :: megaVM_rdma_info
  recv_dma_addr :: u64
  recv_mapping :: u64
  recv_mr :: ptr
  sq_wr :: ib_send_wr
  send_sgl :: ib_sge
  send_buf :: megaVM_rdma_info
  send_dma_addr :: u64
  send_mapping :: u64
  send_mr :: ptr
  rdma_sq_wr :: ib_send_wr
  rdma_sgl :: ib_sge
  rdma_buf :: ptr
  rdma_dma_addr :: u64
  rdma_mapping :: u64
  rdma_mr :: ptr
  state :: test_state
  stats :: megaVM_stats
  port :: u16
  addr :: "u8 list"
  addr_str :: string
  addr_type :: u8
  verbose :: int
  ping_count :: int
  buf_size :: int
  validate :: int
  txdepth :: int
  cm_id :: ptr
  child_cm_id :: ptr

section \<open>External calls, events and the world\<close>

text \<open>What is handed to the DMA API: the receive or the send buffer of the control block, or heap memory.\<close>

datatype buffer_ref = RecvBuf | SendBuf | HeapBuf ptr

datatype call =
    Kzalloc | Kmalloc int | Kfree ptr
  | DmaMap buffer_ref int | DmaUnmap u64 int
  | IbAllocPd ptr | IbDeallocPd ptr
  | IbCreateCq ptr int | IbDestroyCq ptr | IbReqNotifyCq ptr
  | RdmaCreateQp ptr ptr ib_qp_init_attr | IbDestroyQp ptr
  | IbGetDmaMr ptr "ib_access list" | IbDeregMr ptr
  | IbPostRecv ptr ib_recv_wr | IbPostSend ptr ib_send_wr "ib_sge option"
  | RdmaCreateId | RdmaDestroyId ptr
  | RdmaResolveAddr ptr sockaddr nat | RdmaResolveRoute ptr nat
  | RdmaBindAddr ptr sockaddr | RdmaListen ptr nat
  | RdmaAccept ptr rdma_conn_param | RdmaConnect ptr rdma_conn_param | RdmaDisconnect ptr
  | WaitEvent

text \<open>
  What can happen while the thread is inside an external call or asleep: a connection event, a
  completion-queue callback with the answers its polls get, a DMA write of the adapter into
  the receive buffer or into heap memory, a signal, and the scheduler running the thread.
\<close>

datatype event =
    CmEvent ptr cm_event
  | CqEvent ptr "poll list"
  | DmaRecv megaVM_rdma_info
  | DmaHeap nat "u8 list"
  | Signal
  | Run

record reply =
  rc :: int
  obj :: ptr
  dma :: u64
  fill :: "nat \<Rightarrow> u8"
  events :: "event list"

text \<open>
  The external code: the answer to the last call of a history, the fields the modules read from
  foreign objects, the byte-order macros, the address parser, and the value an uninitialised
  local variable happens to have.
\<close>

record verbs =
  answer :: "call list \<Rightarrow> reply"
  mr_lkey :: "ptr \<Rightarrow> u32"
  mr_rkey :: "ptr \<Rightarrow> u32"
  id_qp :: "ptr \<Rightarrow> ptr"
  htons :: "u16 \<Rightarrow> u16"
  htonl :: "u32 \<Rightarrow> u32"
  cpu_to_be64 :: "u64 \<Rightarrow> u64"
  in4_pton :: "string \<Rightarrow> u8 list"
  uninit :: int

text \<open>
  A world: the control block, the history of external calls, the kmalloc heap, and whether
  \<open>wake_up_interruptible\<close> was called since the sleeper last looked.
\<close>

record 'c world =
  ctx :: 'c
  log :: "call list"
  heap :: "nat \<Rightarrow> u8 list option"
  woken :: bool

definition upd :: "('c \<Rightarrow> 'c) \<Rightarrow> 'c world \<Rightarrow> 'c world" where
  "upd f w = w\<lparr>ctx := f (ctx w)\<rparr>"

definition wake_up_interruptible :: "'c world \<Rightarrow> 'c world" where
  "wake_up_interruptible w = w\<lparr>woken := True\<rparr>"

lemma upd_simps [simp]:
  "ctx (upd f w) = f (ctx w)" "log (upd f w) = log w" "heap (upd f w) = heap w"
  "woken (upd f w) = woken w"
  by (simp_all add: upd_def)

lemma wake_simps [simp]:
  "ctx (wake_up_interruptible w) = ctx w" "log (wake_up_interruptible w) = log w"
  "heap (wake_up_interruptible w) = heap w" "woken (wake_up_interruptible w) = True"
  by (simp_all add: wake_up_interruptible_def)

type_synonym 'c handler = "event \<Rightarrow> 'c world \<Rightarrow> ('c world, unit) act"

text \<open>The events of a call are handled in their order; \<open>Signal\<close> and \<open>Run\<close> only matter to a sleeper.\<close>

fun deliver :: "'c handler \<Rightarrow> event list \<Rightarrow> 'c world \<Rightarrow> ('c world, unit) act" where
  "deliver H [] w = ret () w"
| "deliver H (Signal # es) w = deliver H es w"
| "deliver H (Run # es) w = deliver H es w"
| "deliver H (e # es) w = bnd (H e w) (\<lambda>_ w'. deliver H es w')"

text \<open>A call from process context, and a call from a handler (handlers are not interrupted by handlers).\<close>

definition record_call :: "call \<Rightarrow> 'c world \<Rightarrow> 'c world" where
  "record_call c w = w\<lparr>log := log w @ [c]\<rparr>"

definition reply_to :: "verbs \<Rightarrow> call \<Rightarrow> 'c world \<Rightarrow> reply" where
  "reply_to V c w = answer V (log w @ [c])"

definition call :: "verbs \<Rightarrow> 'c handler \<Rightarrow> call \<Rightarrow> 'c world \<Rightarrow> ('c world, reply) act" where
  "call V H c w =
     bnd (deliver H (events (reply_to V c w)) (record_call c w)) (\<lambda>_ w'. ret (reply_to V c w) w')"

definition hcall :: "verbs \<Rightarrow> call \<Rightarrow> 'c world \<Rightarrow> ('c world, reply) act" where
  "hcall V c w = ret (reply_to V c w) (record_call c w)"

lemma record_call_simps [simp]:
  "ctx (record_call c w) = ctx w" "log (record_call c w) = log w @ [c]"
  "heap (record_call c w) = heap w" "woken (record_call c w) = woken w"
  by (simp_all add: record_call_def)

section \<open>The allocator\<close>

definition kmalloc :: "verbs \<Rightarrow> 'c handler \<Rightarrow> int \<Rightarrow> 'c world \<Rightarrow> ('c world, ptr) act" where
  "kmalloc V H n w =
     bnd (call V H (Kmalloc n) w) (\<lambda>r w'.
       case obj r of
         Ptr a \<Rightarrow> ret (Ptr a) (w'\<lparr>heap := (heap w')(a \<mapsto> map (fill r) [0..<nat n])\<rparr>)
       | _ \<Rightarrow> ret Null w')"

text \<open>
  \<open>kzalloc\<close> of the control block. The block is in the heap only so that its release can be
  checked; its fields are the world's \<open>ctx\<close>. No callback is registered before it returns.
\<close>

definition kzalloc :: "verbs \<Rightarrow> 'c world \<Rightarrow> ('c world, ptr) act" where
  "kzalloc V w =
     bnd (hcall V Kzalloc w) (\<lambda>r w'.
       case obj r of
         Ptr a \<Rightarrow> ret (Ptr a) (w'\<lparr>heap := (heap w')(a \<mapsto> [])\<rparr>)
       | _ \<Rightarrow> ret Null w')"

definition free_block :: "ptr \<Rightarrow> 'c world \<Rightarrow> 'c world" where
  "free_block p w = (case p of Ptr a \<Rightarrow> w\<lparr>heap := (heap w)(a := None)\<rparr> | _ \<Rightarrow> w)"

definition kfree :: "verbs \<Rightarrow> 'c handler \<Rightarrow> ptr \<Rightarrow> 'c world \<Rightarrow> ('c world, unit) act" where
  "kfree V H p w = bnd (call V H (Kfree p) w) (\<lambda>_ w'. ret () (free_block p w'))"

text \<open>A DMA write of the adapter fills the front of a live block; it never changes its length.\<close>

definition dma_write :: "nat \<Rightarrow> u8 list \<Rightarrow> 'c world \<Rightarrow> 'c world" where
  "dma_write a bs w =
     (case heap w a of
        None \<Rightarrow> w
      | Some old \<Rightarrow> w\<lparr>heap := (heap w)(a \<mapsto> take (length old) bs @ drop (length bs) old)\<rparr>)"

text \<open>\<open>strlen\<close> of a heap block: \<open>None\<close> when there is no terminating NUL in the block.\<close>

fun strlen :: "u8 list \<Rightarrow> nat option" where
  "strlen [] = None"
| "strlen (c # cs) = (if c = 0 then Some 0 else map_option Suc (strlen cs))"

text \<open>The address family of \<open>sys/socket.h\<close>.\<close>

definition AF_INET :: u8 where
  "AF_INET = 2"

section \<open>A zeroed control block\<close>

text \<open>The control block \<open>kzalloc\<close> returns: every field zero (no enumerator is 0, so the state is set first).\<close>

definition zero_info :: megaVM_rdma_info where
  "zero_info = \<lparr>buf = 0, rkey = 0, info_size = 0\<rparr>"

definition zero_sge :: ib_sge where
  "zero_sge = \<lparr>sge_addr = 0, sge_length = 0, sge_lkey = 0\<rparr>"

definition zero_send_wr :: ib_send_wr where
  "zero_send_wr = \<lparr>wr_op = IB_WR_RDMA_WRITE, wr_flags = NoFlags, sg_list = NoSge, num_sge = 0,
     wr_rkey = 0, wr_remote_addr = 0, wr_next = Null\<rparr>"

definition zero_stats :: megaVM_stats where
  "zero_stats = \<lparr>send_bytes = 0, send_msgs = 0, recv_bytes = 0, recv_msgs = 0,
     write_bytes = 0, write_msgs = 0, read_bytes = 0, read_msgs = 0\<rparr>"

section \<open>Sleeping\<close>

definition ERESTARTSYS :: int where
  "ERESTARTSYS = 512"

text \<open>
  The sleeper looks at its condition when the scheduler runs it after a wake-up or a signal. It
  leaves with 0 when the condition holds, with \<open>-ERESTARTSYS\<close> on a signal, and otherwise
  sleeps on; when nothing more happens it sleeps for ever.
\<close>

fun wait_loop ::
  "'c handler \<Rightarrow> ('c \<Rightarrow> bool) \<Rightarrow> bool \<Rightarrow> event list \<Rightarrow> 'c world \<Rightarrow> ('c world, int) act" where
  "wait_loop H cond sig [] w = Inl (Asleep, w)"
| "wait_loop H cond sig (Signal # es) w = wait_loop H cond True es w"
| "wait_loop H cond sig (Run # es) w =
     (if woken w \<or> sig then
        if cond (ctx w) then bnd (deliver H es w) (\<lambda>_ w'. ret 0 w')
        else if sig then bnd (deliver H es w) (\<lambda>_ w'. ret (- ERESTARTSYS) w')
        else wait_loop H cond sig es (w\<lparr>woken := False\<rparr>)
      else wait_loop H cond sig es w)"
| "wait_loop H cond sig (e # es) w = bnd (H e w) (\<lambda>_ w'. wait_loop H cond sig es w')"

definition wait_event ::
  "verbs \<Rightarrow> 'c handler \<Rightarrow> ('c \<Rightarrow> bool) \<Rightarrow> 'c world \<Rightarrow> ('c world, int) act" where
  "wait_event V H cond w =
     (if cond (ctx w) then ret 0 w
      else wait_loop H cond False (events (reply_to V WaitEvent w))
             ((record_call WaitEvent w)\<lparr>woken := False\<rparr>))"

section \<open>Invariants of a module and its callbacks\<close>

text \<open>
  The contract between a module's handlers and its main thread: an invariant that every handler
  keeps, and that going to sleep and waking up keep, survives every external call that records
  within it and every sleep, whatever the environment delivers.
\<close>

locale event_inv =
  fixes H :: "event \<Rightarrow> 'c world \<Rightarrow> ('c world, unit) act"
    and I :: "'c world \<Rightarrow> bool"
  assumes H_keeps: "I w \<Longrightarrow> post (\<lambda>_. I) (H e w)"
    and sleep_keeps: "I w \<Longrightarrow> I (record_call WaitEvent w)"
    and woken_keeps: "I w \<Longrightarrow> I (w\<lparr>woken := b\<rparr>)"
begin

lemma deliver_keeps: "I w \<Longrightarrow> post (\<lambda>_. I) (deliver H es w)"
proof (induction es arbitrary: w)
  case (Cons e es)
  then show ?case
    by (cases e) (auto intro: post_bndI [OF H_keeps])
qed simp

lemma call_keeps: "I (record_call c w) \<Longrightarrow> post (\<lambda>r w'. r = reply_to V c w \<and> I w') (call V H c w)"
  unfolding call_def by (rule post_bndI [OF deliver_keeps]) auto

lemma wait_loop_keeps: "I w \<Longrightarrow> post (\<lambda>_. I) (wait_loop H cond sig es w)"
proof (induction es arbitrary: sig w)
  case (Cons e es)
  then show ?case
    by (cases e) (auto intro: post_bndI [OF H_keeps] post_bndI [OF deliver_keeps] woken_keeps)
qed simp

lemma wait_keeps: "I w \<Longrightarrow> post (\<lambda>_. I) (wait_event V H cond w)"
  unfolding wait_event_def by (auto intro!: wait_loop_keeps woken_keeps sleep_keeps)

end

section \<open>The polling loop of a completion handler\<close>

text \<open>The opcodes of the successful completions the loop sees before its queue is empty or fails.\<close>

fun good_ops :: "poll list \<Rightarrow> wc_opcode list" where
  "good_ops [] = []"
| "good_ops (PollRet r # ps) = []"
| "good_ops (Completion wc # ps) =
     (if wc_status wc = IB_WC_SUCCESS then wc_op wc # good_ops ps else good_ops ps)"

text \<open>
  The contract of a polling loop: it stops on an empty queue, handles one completion at a time,
  and one successful completion moves the observed state by a pure step. Then a run of the loop
  that does not fail moves the observed state by the fold of that step over the successful
  completions, in their order.
\<close>

locale poll_loop =
  fixes loop :: "poll list \<Rightarrow> 'w \<Rightarrow> ('w, bool) act"
    and J :: "'w \<Rightarrow> bool"
    and obs :: "'w \<Rightarrow> 'o"
    and step :: "'o \<Rightarrow> wc_opcode \<Rightarrow> 'o"
  assumes loop_nil: "loop [] w = ret False w"
    and loop_ret: "loop (PollRet r # ps) w = ret (r \<noteq> 0) w"
    and loop_cons: "loop (Completion wc # ps) w =
          bnd (loop [Completion wc] w) (\<lambda>failed w'. if failed then ret True w' else loop ps w')"
    and loop_one: "J w \<Longrightarrow> post (\<lambda>failed w'. J w' \<and> (\<not> failed \<longrightarrow>
          obs w' = (if wc_status wc = IB_WC_SUCCESS then step (obs w) (wc_op wc) else obs w)))
          (loop [Completion wc] w)"
begin

lemma loop_fold:
  "J w \<Longrightarrow> post (\<lambda>failed w'. J w' \<and> (\<not> failed \<longrightarrow> obs w' = foldl step (obs w) (good_ops ps)))
     (loop ps w)"
proof (induction ps arbitrary: w rule: good_ops.induct)
  case 1
  then show ?case by (simp add: loop_nil)
next
  case (2 r ps)
  then show ?case by (simp add: loop_ret)
next
  case (3 wc ps)
  show ?case
  proof (subst loop_cons, rule post_bndI [OF loop_one [OF "3.prems"]])
    fix failed w'
    assume one: "J w' \<and> (\<not> failed \<longrightarrow> obs w' = (if wc_status wc = IB_WC_SUCCESS
      then step (obs w) (wc_op wc) else obs w))"
    then have "post (\<lambda>f v. J v \<and> (\<not> f \<longrightarrow> obs v = foldl step (obs w') (good_ops ps))) (loop ps w')"
      by (cases "wc_status wc = IB_WC_SUCCESS") (auto intro: "3.IH")
    with one show "post (\<lambda>f v. J v \<and>
        (\<not> f \<longrightarrow> obs v = foldl step (obs w) (good_ops (Completion wc # ps))))
      (if failed then ret True w' else loop ps w')"
      by (auto elim!: post_mono)
  qed
qed

lemma loop_fold_result:
  "J w \<Longrightarrow> loop ps w = Inr (False, w') \<Longrightarrow> obs w' = foldl step (obs w) (good_ops ps)"
  using loop_fold [of w ps] by simp

lemma loop_rel:
  assumes one: "\<And>w wc. post (\<lambda>failed w'. failed \<or> R w w') (loop [Completion wc] w)"
    and refl: "\<And>w. R w w" and trans: "\<And>u v w. R u v \<Longrightarrow> R v w \<Longrightarrow> R u w"
  shows "post (\<lambda>failed w'. failed \<or> R w w') (loop ps w)"
proof (induction ps arbitrary: w rule: good_ops.induct)
  case (3 wc ps)
  have IH: "post (\<lambda>failed w'. failed \<or> R w w') (loop ps w)" for w
    using 3 by (cases "wc_status wc = IB_WC_SUCCESS") auto
  show ?case
  proof (subst loop_cons, rule post_bndI [OF one])
    fix failed v
    assume "failed \<or> R w v"
    then show "post (\<lambda>failed w'. failed \<or> R w w') (if failed then ret True v else loop ps v)"
      by (auto intro: post_mono [OF IH] trans)
  qed
qed (simp_all add: loop_nil loop_ret refl)

end

text \<open>
  The pure effect of a successful completion on the statistics, given the lengths of the send
  entry and of the RDMA entry. (The receive counters count whole advertisements.)
\<close>

fun count_completion :: "u32 \<Rightarrow> u32 \<Rightarrow> megaVM_stats \<Rightarrow> wc_opcode \<Rightarrow> megaVM_stats" where
  "count_completion a b t IB_WC_SEND =
     t\<lparr>send_bytes := send_bytes t + ucast a, send_msgs := send_msgs t + 1\<rparr>"
| "count_completion a b t IB_WC_RDMA_WRITE =
     t\<lparr>write_bytes := write_bytes t + ucast b, write_msgs := write_msgs t + 1\<rparr>"
| "count_completion a b t IB_WC_RDMA_READ =
     t\<lparr>read_bytes := read_bytes t + ucast b, read_msgs := read_msgs t + 1\<rparr>"
| "count_completion a b t IB_WC_RECV =
     t\<lparr>recv_bytes := recv_bytes t + of_nat sizeof_rdma_info, recv_msgs := recv_msgs t + 1\<rparr>"
| "count_completion a b t IB_WC_OTHER = t"

lemma foldl_pair:
  "foldl (\<lambda>(s, t) x. (f s x, g t x)) (s, t) xs = (foldl f s xs, foldl g t xs)"
  by (induction xs arbitrary: s t) auto

section \<open>The calls that acquire and release resources\<close>

text \<open>
  The calls that acquire or release something. The handlers make none of them, so the list of
  the resource calls in a history belongs to the main thread, however it is interleaved with
  callbacks.
\<close>

fun is_resource :: "call \<Rightarrow> bool" where
  "is_resource (RdmaResolveRoute i n) = False"
| "is_resource (IbReqNotifyCq c) = False"
| "is_resource (IbPostRecv q r) = False"
| "is_resource WaitEvent = False"
| "is_resource _ = True"

definition owned :: "'c world \<Rightarrow> call list" where
  "owned w = filter is_resource (log w)"

lemma owned_simps [simp]:
  "owned (upd f w) = owned w" "owned (wake_up_interruptible w) = owned w"
  "owned (w\<lparr>woken := b\<rparr>) = owned w" "owned (w\<lparr>heap := h\<rparr>) = owned w"
  "owned (record_call c w) = (if is_resource c then owned w @ [c] else owned w)"
  by (simp_all add: owned_def)

text \<open>The shape of the heap: which blocks are live and how long they are.\<close>

definition heap_shape :: "'c world \<Rightarrow> nat \<Rightarrow> nat option" where
  "heap_shape w = (\<lambda>a. map_option length (heap w a))"

lemma heap_shape_simps [simp]:
  "heap_shape (upd f w) = heap_shape w" "heap_shape (wake_up_interruptible w) = heap_shape w"
  "heap_shape (w\<lparr>woken := b\<rparr>) = heap_shape w" "heap_shape (record_call c w) = heap_shape w"
  "heap_shape (w\<lparr>log := l\<rparr>) = heap_shape w"
  by (simp_all add: heap_shape_def)

text \<open>The shape after a block is released.\<close>

definition without :: "ptr \<Rightarrow> (nat \<Rightarrow> nat option) \<Rightarrow> nat \<Rightarrow> nat option" where
  "without p h = (case p of Ptr a \<Rightarrow> h(a := None) | _ \<Rightarrow> h)"

lemma heap_shape_free_block [simp]: "heap_shape (free_block p w) = without p (heap_shape w)"
  by (auto simp: heap_shape_def free_block_def without_def fun_eq_iff split: ptr.splits)

lemma free_block_simps [simp]:
  "ctx (free_block p w) = ctx w" "log (free_block p w) = log w" "owned (free_block p w) = owned w"
  by (simp_all add: free_block_def owned_def split: ptr.splits)

lemma heap_shape_alloc [simp]:
  "heap_shape (w\<lparr>heap := (heap w)(a \<mapsto> bs)\<rparr>) = (heap_shape w)(a \<mapsto> length bs)"
  by (auto simp: heap_shape_def fun_eq_iff)

lemma heap_shape_dma_write [simp]: "heap_shape (dma_write a bs w) = heap_shape w"
  by (auto simp: heap_shape_def dma_write_def fun_eq_iff split: option.splits)

lemma dma_write_simps [simp]:
  "ctx (dma_write a bs w) = ctx w" "log (dma_write a bs w) = log w"
  "woken (dma_write a bs w) = woken w" "owned (dma_write a bs w) = owned w"
  by (simp_all add: dma_write_def owned_def split: option.splits)

lemma heap_shape_empty_iff: "heap_shape w = Map.empty \<longleftrightarrow> heap w = Map.empty"
  by (auto simp: heap_shape_def fun_eq_iff)

text \<open>The addresses of the live blocks.\<close>

definition live_blocks :: "'c world \<Rightarrow> nat set" where
  "live_blocks w = dom (heap_shape w)"

lemma live_blocks_simps [simp]:
  "live_blocks (free_block p w) = live_blocks w - {a. p = Ptr a}"
  "live_blocks (w\<lparr>heap := h(a \<mapsto> bs)\<rparr>) = insert a (dom h)"
  "live_blocks (upd f w) = live_blocks w" "live_blocks (record_call c w) = live_blocks w"
  by (auto simp: live_blocks_def heap_shape_def free_block_def split: ptr.splits if_splits)

lemma heap_empty_iff: "heap w = Map.empty \<longleftrightarrow> live_blocks w = {}"
  by (simp add: live_blocks_def heap_shape_empty_iff [symmetric])

section \<open>Shared accessors of the control block\<close>

abbreviation set_state :: "test_state \<Rightarrow> 'a ib_context_scheme world \<Rightarrow> 'a ib_context_scheme world" where
  "set_state s w \<equiv> upd (\<lambda>cb. cb\<lparr>state := s\<rparr>) w"

text \<open>Following \<open>wr.sg_list\<close>: \<open>None\<close> is the null pointer of a work request that was never set up.\<close>

fun sge_of :: "sge_ref \<Rightarrow> 'a ib_context_scheme \<Rightarrow> ib_sge option" where
  "sge_of NoSge cb = None"
| "sge_of RecvSgl cb = Some (recv_sgl cb)"
| "sge_of SendSgl cb = Some (send_sgl cb)"
| "sge_of RdmaSgl cb = Some (rdma_sgl cb)"

fun set_sge_length :: "sge_ref \<Rightarrow> u32 \<Rightarrow> 'a ib_context_scheme \<Rightarrow> 'a ib_context_scheme" where
  "set_sge_length NoSge n cb = cb"
| "set_sge_length RecvSgl n cb = cb\<lparr>recv_sgl := (recv_sgl cb)\<lparr>sge_length := n\<rparr>\<rparr>"
| "set_sge_length SendSgl n cb = cb\<lparr>send_sgl := (send_sgl cb)\<lparr>sge_length := n\<rparr>\<rparr>"
| "set_sge_length RdmaSgl n cb = cb\<lparr>rdma_sgl := (rdma_sgl cb)\<lparr>sge_length := n\<rparr>\<rparr>"

text \<open>\<open>wr->sg_list->length\<close> as an rvalue and as an lvalue, an oops through a null pointer.\<close>

definition with_sg ::
  "sge_ref \<Rightarrow> 'a ib_context_scheme world \<Rightarrow> (ib_sge \<Rightarrow> ('a ib_context_scheme world, 'b) act)
     \<Rightarrow> ('a ib_context_scheme world, 'b) act" where
  "with_sg g w k = (case sge_of g (ctx w) of None \<Rightarrow> Inl (Oops, w) | Some s \<Rightarrow> k s)"

lemma with_sg_simps [simp, act_simps]:
  "with_sg NoSge w k = Inl (Oops, w)"
  "with_sg RecvSgl w k = k (recv_sgl (ctx w))"
  "with_sg SendSgl w k = k (send_sgl (ctx w))"
  "with_sg RdmaSgl w k = k (rdma_sgl (ctx w))"
  by (simp_all add: with_sg_def)

lemma post_with_sg [post_intros]:
  "(\<And>s. sge_of g (ctx w) = Some s \<Longrightarrow> post P (k s)) \<Longrightarrow> post P (with_sg g w k)"
  by (simp add: with_sg_def split: option.splits)

end
