(* ===== verification/ServerHandlers.thy ===== *)
theory ServerHandlers
  imports Verbs
begin

text \<open>
  The callbacks of \<open>server/megaVM_server.c\<close>: the server's control block, the connection-manager
  event handler, the receive path and the completion-queue handler with its polling loop, and
  the step relation they induce on the protocol state.
\<close>

section \<open>The server's control block\<close>

record server_ctx = ib_context +
  remote_rkey :: u32
  remote_addr :: u64
  remote_len :: u32

type_synonym server_world = "server_ctx world"

section \<open>Connection-manager events\<close>

definition megaVM_cma_event_handler_server ::
  "verbs \<Rightarrow> ptr \<Rightarrow> cm_event \<Rightarrow> server_world \<Rightarrow> (server_world, int) act" where
  "megaVM_cma_event_handler_server V cma_id ev w =
     (case ev of
        RDMA_CM_EVENT_ADDR_RESOLVED \<Rightarrow>
          bnd (hcall V (RdmaResolveRoute cma_id 2000) (set_state ADDR_RESOLVED w)) (\<lambda>r w.
            if rc r \<noteq> 0 then ret 0 (wake_up_interruptible w) else ret 0 w)
      | RDMA_CM_EVENT_ROUTE_RESOLVED \<Rightarrow>
          ret 0 (wake_up_interruptible (set_state ROUTE_RESOLVED w))
      | RDMA_CM_EVENT_CONNECT_REQUEST \<Rightarrow>
          ret 0 (wake_up_interruptible
            (upd (\<lambda>cb. cb\<lparr>child_cm_id := cma_id\<rparr>) (set_state CONNECT_REQUEST w)))
      | RDMA_CM_EVENT_ESTABLISHED \<Rightarrow>
          ret 0 (wake_up_interruptible
            (if server (ctx w) = 0 then set_state CONNECTED w else w))
      | RDMA_CM_EVENT_ADDR_ERROR \<Rightarrow> ret 0 (wake_up_interruptible (set_state ERROR w))
      | RDMA_CM_EVENT_ROUTE_ERROR \<Rightarrow> ret 0 (wake_up_interruptible (set_state ERROR w))
      | RDMA_CM_EVENT_CONNECT_ERROR \<Rightarrow> ret 0 (wake_up_interruptible (set_state ERROR w))
      | RDMA_CM_EVENT_UNREACHABLE \<Rightarrow> ret 0 (wake_up_interruptible (set_state ERROR w))
      | RDMA_CM_EVENT_REJECTED \<Rightarrow> ret 0 (wake_up_interruptible (set_state ERROR w))
      | RDMA_CM_EVENT_DISCONNECTED \<Rightarrow> ret 0 (wake_up_interruptible (set_state ERROR w))
      | RDMA_CM_EVENT_DEVICE_REMOVAL \<Rightarrow> ret 0 w
      | RDMA_CM_EVENT_OTHER \<Rightarrow> ret 0 (wake_up_interruptible w))"

section \<open>Completions\<close>

definition server_recv :: "verbs \<Rightarrow> ib_wc \<Rightarrow> server_ctx \<Rightarrow> int \<times> server_ctx" where
  "server_recv V wc cb =
     (if byte_len wc \<noteq> of_nat sizeof_rdma_info then (- 1, cb)
      else
        let cb = cb\<lparr>remote_rkey := htonl V (rkey (recv_buf cb)),
                    remote_addr := cpu_to_be64 V (buf (recv_buf cb)),
                    remote_len := htonl V (info_size (recv_buf cb))\<rparr>
        in (0, if state cb \<le> CONNECTED \<or> state cb = RDMA_WRITE_COMPLETE
               then cb\<lparr>state := RDMA_READ_ADV\<rparr>
               else cb\<lparr>state := RDMA_WRITE_ADV\<rparr>))"

text \<open>
  The polling loop. The answers of \<open>ib_poll_cq\<close> are the list; when it is used up the queue is
  empty (the call returns 0). The value says whether the code goes to its \<open>error\<close> label.
\<close>

fun cq_loop_server :: "verbs \<Rightarrow> poll list \<Rightarrow> server_world \<Rightarrow> (server_world, bool) act" where
  "cq_loop_server V [] w = ret False w"
| "cq_loop_server V (PollRet r # ps) w = ret (r \<noteq> 0) w"
| "cq_loop_server V (Completion wc # ps) w =
     (if wc_status wc \<noteq> IB_WC_SUCCESS then
        (if wc_status wc = IB_WC_WR_FLUSH_ERR then cq_loop_server V ps w else ret True w)
      else
        (case wc_op wc of
           IB_WC_SEND \<Rightarrow>
             cq_loop_server V ps
               (upd (\<lambda>cb. cb\<lparr>stats := (stats cb)
                 \<lparr>send_bytes := send_bytes (stats cb) + ucast (sge_length (send_sgl cb)),
                  send_msgs := send_msgs (stats cb) + 1\<rparr>\<rparr>) w)
         | IB_WC_RDMA_WRITE \<Rightarrow>
             with_sg (sg_list (rdma_sq_wr (ctx w))) w (\<lambda>s.
               cq_loop_server V ps
                 (wake_up_interruptible (set_state RDMA_WRITE_COMPLETE
                   (upd (\<lambda>cb. cb\<lparr>stats := (stats cb)
                     \<lparr>write_bytes := write_bytes (stats cb) + ucast (sge_length s),
                      write_msgs := write_msgs (stats cb) + 1\<rparr>\<rparr>) w))))
         | IB_WC_RDMA_READ \<Rightarrow>
             with_sg (sg_list (rdma_sq_wr (ctx w))) w (\<lambda>s.
               cq_loop_server V ps
                 (wake_up_interruptible (set_state RDMA_READ_COMPLETE
                   (upd (\<lambda>cb. cb\<lparr>stats := (stats cb)
                     \<lparr>read_bytes := read_bytes (stats cb) + ucast (sge_length s),
                      read_msgs := read_msgs (stats cb) + 1\<rparr>\<rparr>) w))))
         | IB_WC_RECV \<Rightarrow>
             (let w = upd (\<lambda>cb. cb\<lparr>stats := (stats cb)
                   \<lparr>recv_bytes := recv_bytes (stats cb) + of_nat sizeof_rdma_info,
                    recv_msgs := recv_msgs (stats cb) + 1\<rparr>\<rparr>) w;
                  (r, cb) = (if server (ctx w) \<noteq> 0 then server_recv V wc (ctx w) else (0, ctx w));
                  w = upd (\<lambda>_. cb) w
              in if r \<noteq> 0 then ret True w
                 else bnd (hcall V (IbPostRecv (qp (ctx w)) (rq_wr (ctx w))) w) (\<lambda>r w.
                        if rc r \<noteq> 0 then ret True w
                        else cq_loop_server V ps (wake_up_interruptible w)))
         | IB_WC_OTHER \<Rightarrow> ret True w))"

definition megaVM_cq_event_handler_server ::
  "verbs \<Rightarrow> ptr \<Rightarrow> poll list \<Rightarrow> server_world \<Rightarrow> (server_world, unit) act" where
  "megaVM_cq_event_handler_server V cqp ps w =
     (if cq (ctx w) \<noteq> cqp then Inl (Oops, w)
      else if state (ctx w) = ERROR then ret () w
      else
        bnd (hcall V (IbReqNotifyCq (cq (ctx w))) w) (\<lambda>_ w.
        bnd (cq_loop_server V ps w) (\<lambda>failed w.
          if failed then ret () (wake_up_interruptible (set_state ERROR w)) else ret () w)))"

section \<open>What the environment can do to the server\<close>

fun server_event :: "verbs \<Rightarrow> server_ctx handler" where
  "server_event V (CmEvent i ev) w =
     bnd (megaVM_cma_event_handler_server V i ev w) (\<lambda>_ w. ret () w)"
| "server_event V (CqEvent c ps) w = megaVM_cq_event_handler_server V c ps w"
| "server_event V (DmaRecv info) w = ret () (upd (\<lambda>cb. cb\<lparr>recv_buf := info\<rparr>) w)"
| "server_event V (DmaHeap a bs) w = ret () (dma_write a bs w)"
| "server_event V Signal w = ret () w"
| "server_event V Run w = ret () w"

section \<open>What the callbacks leave alone\<close>

text \<open>
  The callbacks write the state, the statistics, the child identifier, the receive buffer and the
  peer's advertisement; everything else of the control block is the main thread's.
\<close>

definition server_frame :: "server_ctx \<Rightarrow> server_ctx \<Rightarrow> bool" where
  "server_frame c c' \<longleftrightarrow>
     c'\<lparr>state := state c, stats := stats c, child_cm_id := child_cm_id c, recv_buf := recv_buf c,
        remote_rkey := remote_rkey c, remote_addr := remote_addr c, remote_len := remote_len c\<rparr> = c"

lemma server_frame_refl [simp]: "server_frame c c"
  by (simp add: server_frame_def)

lemma server_frame_trans: "server_frame a b \<Longrightarrow> server_frame b c \<Longrightarrow> server_frame a c"
  by (cases a; cases b; cases c) (simp add: server_frame_def)

lemma server_frameD:
  assumes "server_frame c c'"
  shows "server c' = server c" "cq c' = cq c" "pd c' = pd c" "qp c' = qp c" "mem c' = mem c"
    "dma_mr c' = dma_mr c" "rq_wr c' = rq_wr c" "recv_mr c' = recv_mr c" "sq_wr c' = sq_wr c"
    "send_sgl c' = send_sgl c" "recv_sgl c' = recv_sgl c" "send_buf c' = send_buf c"
    "send_mr c' = send_mr c" "rdma_sq_wr c' = rdma_sq_wr c" "rdma_sgl c' = rdma_sgl c"
    "rdma_buf c' = rdma_buf c" "rdma_mr c' = rdma_mr c" "recv_mapping c' = recv_mapping c"
    "send_mapping c' = send_mapping c" "rdma_mapping c' = rdma_mapping c"
    "port c' = port c" "addr c' = addr c" "addr_type c' = addr_type c"
    "buf_size c' = buf_size c" "txdepth c' = txdepth c" "cm_id c' = cm_id c"
  using assms by (cases c; cases c'; simp add: server_frame_def)+

lemma server_frame_upd [simp]:
  "server_frame c (c'\<lparr>state := s\<rparr>) = server_frame c c'"
  "server_frame c (c'\<lparr>stats := t\<rparr>) = server_frame c c'"
  "server_frame c (c'\<lparr>child_cm_id := i\<rparr>) = server_frame c c'"
  "server_frame c (c'\<lparr>recv_buf := b\<rparr>) = server_frame c c'"
  "server_frame c (c'\<lparr>remote_rkey := k\<rparr>) = server_frame c c'"
  "server_frame c (c'\<lparr>remote_addr := a\<rparr>) = server_frame c c'"
  "server_frame c (c'\<lparr>remote_len := l\<rparr>) = server_frame c c'"
  by (simp_all add: server_frame_def)

text \<open>The loop handles one completion at a time.\<close>

lemma cq_loop_server_cons:
  "cq_loop_server V (Completion wc # ps) w =
     bnd (cq_loop_server V [Completion wc] w)
       (\<lambda>failed w'. if failed then ret True w' else cq_loop_server V ps w')"
  by (auto simp: with_sg_def hcall_def Let_def split: option.splits wc_opcode.splits prod.splits)

lemma server_recv_frame: "server_recv V wc c = (r, c') \<Longrightarrow> server_frame c c'"
  by (auto simp: server_recv_def Let_def split: if_splits)

lemma server_recv_stats: "server_recv V wc c = (r, c') \<Longrightarrow> stats c' = stats c"
  by (auto simp: server_recv_def Let_def split: if_splits)

section \<open>The protocol the completions drive\<close>

text \<open>
  The server's protocol as a pure step on its state: an advertisement moves to
  \<open>RDMA_READ_ADV\<close> at the start of a round and to \<open>RDMA_WRITE_ADV\<close> inside one, the completion
  of an RDMA operation to the state that says so.
\<close>

fun server_step :: "test_state \<Rightarrow> wc_opcode \<Rightarrow> test_state" where
  "server_step s IB_WC_RECV =
     (if s \<le> CONNECTED \<or> s = RDMA_WRITE_COMPLETE then RDMA_READ_ADV else RDMA_WRITE_ADV)"
| "server_step s IB_WC_RDMA_READ = RDMA_READ_COMPLETE"
| "server_step s IB_WC_RDMA_WRITE = RDMA_WRITE_COMPLETE"
| "server_step s IB_WC_SEND = s"
| "server_step s IB_WC_OTHER = s"

definition rdma_len :: "'a ib_context_scheme \<Rightarrow> u32" where
  "rdma_len cb = (case sge_of (sg_list (rdma_sq_wr cb)) cb of None \<Rightarrow> 0 | Some s \<Rightarrow> sge_length s)"

definition server_obs :: "server_world \<Rightarrow> test_state \<times> megaVM_stats" where
  "server_obs w = (state (ctx w), stats (ctx w))"

definition server_obs_step ::
  "server_ctx \<Rightarrow> test_state \<times> megaVM_stats \<Rightarrow> wc_opcode \<Rightarrow> test_state \<times> megaVM_stats" where
  "server_obs_step c = (\<lambda>(s, t) op. (server_step s op,
     count_completion (sge_length (send_sgl c)) (rdma_len c) t op))"

definition server_keeps :: "server_world \<Rightarrow> server_world \<Rightarrow> bool" where
  "server_keeps v w \<longleftrightarrow> server_frame (ctx v) (ctx w) \<and> heap_shape w = heap_shape v \<and> owned w = owned v"

lemma server_keeps_refl [simp]: "server_keeps w w"
  by (simp add: server_keeps_def)

lemma server_keeps_trans: "server_keeps u v \<Longrightarrow> server_keeps v w \<Longrightarrow> server_keeps u w"
  by (auto simp: server_keeps_def intro: server_frame_trans)

lemma rdma_len_frame: "server_frame c c' \<Longrightarrow> rdma_len c' = rdma_len c"
  by (cases "sg_list (rdma_sq_wr c)") (auto simp: rdma_len_def server_frameD)

lemma server_recv_state:
  "server_recv V wc c = (0, c') \<Longrightarrow> state c' = server_step (state c) IB_WC_RECV"
  by (auto simp: server_recv_def Let_def split: if_splits)

lemma cq_loop_server_one:
  assumes "server_keeps v w" "server (ctx v) \<noteq> 0"
  shows "post (\<lambda>failed w'. (server_keeps v w' \<and> server (ctx v) \<noteq> 0) \<and> (\<not> failed \<longrightarrow>
    server_obs w' = (if wc_status wc = IB_WC_SUCCESS then server_obs_step (ctx v) (server_obs w) (wc_op wc)
                     else server_obs w)))
    (cq_loop_server V [Completion wc] w)"
proof -
  have k: "server_frame (ctx v) (ctx w)" "heap_shape w = heap_shape v" "owned w = owned v"
    using assms by (auto simp: server_keeps_def)
  note eqs = server_frameD [OF k(1)]
  have len: "rdma_len (ctx v) = rdma_len (ctx w)"
    using rdma_len_frame [OF k(1)] by simp
  show ?thesis
  proof (cases "wc_op wc")
    case IB_WC_RECV
    obtain r c where rc: "server_recv V wc ((ctx w)\<lparr>stats := (stats (ctx w))
        \<lparr>recv_bytes := recv_bytes (stats (ctx w)) + of_nat sizeof_rdma_info,
         recv_msgs := recv_msgs (stats (ctx w)) + 1\<rparr>\<rparr>) = (r, c)" (is "server_recv V wc ?c0 = _")
      by fastforce
    have "server_frame ?c0 c" by (rule server_recv_frame [OF rc])
    moreover have "server_frame (ctx v) ?c0" using k(1) by simp
    ultimately have f: "server_frame (ctx v) c" by (rule server_frame_trans [rotated])
    have st: "stats c = stats ?c0" by (rule server_recv_stats [OF rc])
    from IB_WC_RECV assms(2) eqs k rc f st server_recv_state show ?thesis
      by (auto simp: Let_def hcall_def server_keeps_def server_obs_def server_obs_step_def split: if_splits)
  qed (use assms(2) eqs k len in \<open>auto simp: with_sg_def server_keeps_def server_obs_def server_obs_step_def
         rdma_len_def split: option.splits\<close>)
qed

interpretation server_poll: poll_loop "cq_loop_server V"
    "\<lambda>w. server_keeps v w \<and> server (ctx v) \<noteq> 0" server_obs "server_obs_step (ctx v)" for V v
proof unfold_locales
  show "post (\<lambda>failed w'. (server_keeps v w' \<and> server (ctx v) \<noteq> 0) \<and> (\<not> failed \<longrightarrow>
      server_obs w' = (if wc_status wc = IB_WC_SUCCESS
        then server_obs_step (ctx v) (server_obs w) (wc_op wc) else server_obs w)))
      (cq_loop_server V [Completion wc] w)"
    if "server_keeps v w \<and> server (ctx v) \<noteq> 0" for w wc
    using that by (intro cq_loop_server_one) auto
qed (simp, simp, rule cq_loop_server_cons)

section \<open>Every callback keeps the main thread's fields\<close>

lemma cq_loop_server_one_keeps:
  "server_keeps v w \<Longrightarrow> post (\<lambda>failed w'. server_keeps v w' \<and> (\<not> failed \<longrightarrow> () = ()))
     (cq_loop_server V [Completion wc] w)"
proof (cases "server (ctx v) = 0")
  case False
  assume "server_keeps v w"
  then show ?thesis
    using cq_loop_server_one [where v = v and w = w and V = V and wc = wc] False by (auto elim!: post_mono)
next
  case True
  assume k: "server_keeps v w"
  with True have z: "server (ctx w) = 0"
    by (auto simp: server_keeps_def server_frameD)
  show ?thesis
  proof (cases "wc_op wc")
    case IB_WC_RECV
    with z k show ?thesis
      by (auto simp: Let_def hcall_def server_keeps_def)
  qed (use k in \<open>auto simp: with_sg_def server_keeps_def split: option.splits\<close>)
qed

interpretation server_poll_keeps: poll_loop "cq_loop_server V" "server_keeps v" "\<lambda>_. ()" "\<lambda>_ _. ()" for V v
proof unfold_locales
  show "post (\<lambda>failed w'. server_keeps v w' \<and> (\<not> failed \<longrightarrow>
      () = (if wc_status wc = IB_WC_SUCCESS then () else ()))) (cq_loop_server V [Completion wc] w)"
    if "server_keeps v w" for w wc
    using cq_loop_server_one_keeps [OF that] by simp
qed (simp, simp, rule cq_loop_server_cons)

lemma cq_loop_server_keeps: "post (\<lambda>_ w'. server_keeps w w') (cq_loop_server V ps w)"
  using server_poll_keeps.loop_fold [where v = w and w = w and V = V and ps = ps] by simp

lemma server_keeps_simps [simp]:
  "server_keeps v (wake_up_interruptible w) = server_keeps v w"
  "server_keeps v (w\<lparr>woken := b\<rparr>) = server_keeps v w"
  "server_keeps v (set_state s w) = server_keeps v w"
  "server_keeps v (dma_write a bs w) = server_keeps v w"
  "server_keeps v (upd (\<lambda>cb. cb\<lparr>child_cm_id := i\<rparr>) w) = server_keeps v w"
  "server_keeps v (upd (\<lambda>cb. cb\<lparr>recv_buf := d\<rparr>) w) = server_keeps v w"
  "\<not> is_resource c \<Longrightarrow> server_keeps v (record_call c w) = server_keeps v w"
  by (simp_all add: server_keeps_def)

lemma cma_server_keeps:
  "post (\<lambda>_ w'. server_keeps w w') (megaVM_cma_event_handler_server V i ev w)"
  by (cases ev) (simp_all add: megaVM_cma_event_handler_server_def hcall_def)

lemma cq_handler_server_keeps:
  "post (\<lambda>_ w'. server_keeps w w') (megaVM_cq_event_handler_server V c ps w)"
proof -
  have "post (\<lambda>_. server_keeps w) (cq_loop_server V ps (record_call (IbReqNotifyCq (cq (ctx w))) w))"
    by (rule post_mono [OF cq_loop_server_keeps]) (auto elim: server_keeps_trans [rotated])
  then show ?thesis
    by (auto simp: megaVM_cq_event_handler_server_def hcall_def elim!: post_bndI)
qed

lemma server_event_keeps: "post (\<lambda>_ w'. server_keeps w w') (server_event V e w)"
  by (cases e) (auto intro!: post_bndI [OF cma_server_keeps] cq_handler_server_keeps)

interpretation server_inv: event_inv "server_event V" "server_keeps v" for V v
proof unfold_locales
  show "server_keeps v w \<Longrightarrow> post (\<lambda>_. server_keeps v) (server_event V e w)" for w e
    by (rule post_mono [OF server_event_keeps]) (rule server_keeps_trans)
qed simp_all

end
