(* ===== verification/ServerMain.thy ===== *)
theory ServerMain
  imports ServerHandlers
begin

text \<open>
  The main thread of \<open>server/megaVM_server.c\<close>, function by function in the order of the source:
  accepting the connection, work requests, buffers, queue pair and completion queue, the RDMA
  read and write operations and their loop, binding, the server's life cycle with its cleanup
  labels, and the module's initialisation. Logging is left out; every other call is recorded.
\<close>

abbreviation scall :: "verbs \<Rightarrow> call \<Rightarrow> server_world \<Rightarrow> (server_world, reply) act" where
  "scall V \<equiv> call V (server_event V)"

abbreviation swait :: "verbs \<Rightarrow> (server_ctx \<Rightarrow> bool) \<Rightarrow> server_world \<Rightarrow> (server_world, int) act" where
  "swait V \<equiv> wait_event V (server_event V)"

section \<open>Accepting a connection\<close>

definition accept_connections :: "verbs \<Rightarrow> server_world \<Rightarrow> (server_world, int) act" where
  "accept_connections V w =
     bnd (scall V (RdmaAccept (child_cm_id (ctx w))
            \<lparr>responder_resources = 1, initiator_depth = 1, retry_count = 0\<rparr>) w) (\<lambda>r w.
     if rc r \<noteq> 0 then ret (rc r) w
     else
       bnd (swait V (\<lambda>cb. CONNECTED \<le> state cb) w) (\<lambda>_ w.
       if state (ctx w) = ERROR then ret (- 1) w else ret 0 w))"

section \<open>Work requests and buffers\<close>

definition setup_wr_server :: "verbs \<Rightarrow> server_world \<Rightarrow> (server_world, unit) act" where
  "setup_wr_server V w =
     deref (dma_mr (ctx w)) w (ret () (upd (\<lambda>cb. cb
       \<lparr>recv_sgl := \<lparr>sge_addr = recv_dma_addr cb, sge_length = of_nat sizeof_rdma_info,
                     sge_lkey = mr_lkey V (dma_mr cb)\<rparr>,
        rq_wr := (rq_wr cb)\<lparr>rq_sg_list := RecvSgl, rq_num_sge := 1\<rparr>,
        send_sgl := \<lparr>sge_addr = send_dma_addr cb, sge_length = of_nat sizeof_rdma_info,
                     sge_lkey = mr_lkey V (dma_mr cb)\<rparr>,
        sq_wr := (sq_wr cb)\<lparr>wr_op := IB_WR_SEND, wr_flags := IB_SEND_SIGNALED,
                            sg_list := SendSgl, num_sge := 1\<rparr>,
        rdma_sgl := (rdma_sgl cb)\<lparr>sge_addr := rdma_dma_addr cb\<rparr>,
        rdma_sq_wr := (rdma_sq_wr cb)\<lparr>wr_flags := IB_SEND_SIGNALED, sg_list := RdmaSgl,
                                      num_sge := 1\<rparr>\<rparr>) w))"

text \<open>\<open>if (mr) ib_dereg_mr(mr)\<close>, and the same with the additional \<open>!IS_ERR(mr)\<close> of the bail path.\<close>

definition dereg_if :: "verbs \<Rightarrow> bool \<Rightarrow> ptr \<Rightarrow> server_world \<Rightarrow> (server_world, unit) act" where
  "dereg_if V c p w = (if c then bnd (scall V (IbDeregMr p) w) (\<lambda>_ w. ret () w) else ret () w)"

definition setup_buffers_bail_server :: "verbs \<Rightarrow> server_world \<Rightarrow> (server_world, int) act" where
  "setup_buffers_bail_server V w =
     (let live = (\<lambda>p. p \<noteq> Null \<and> \<not> IS_ERR p) in
      bnd (dereg_if V (live (rdma_mr (ctx w))) (rdma_mr (ctx w)) w) (\<lambda>_ w.
      bnd (dereg_if V (live (dma_mr (ctx w))) (dma_mr (ctx w)) w) (\<lambda>_ w.
      bnd (dereg_if V (live (recv_mr (ctx w))) (recv_mr (ctx w)) w) (\<lambda>_ w.
      bnd (dereg_if V (live (send_mr (ctx w))) (send_mr (ctx w)) w) (\<lambda>_ w.
      if rdma_buf (ctx w) \<noteq> Null
      then bnd (kfree V (server_event V) (rdma_buf (ctx w)) w) (\<lambda>_ w. ret (- 1) w)
      else ret (- 1) w)))))"

definition setup_buffers :: "verbs \<Rightarrow> server_world \<Rightarrow> (server_world, int) act" where
  "setup_buffers V w =
     deref (pd (ctx w)) w (
     bnd (scall V (DmaMap RecvBuf (int sizeof_rdma_info)) w) (\<lambda>r w.
     let w = upd (\<lambda>cb. cb\<lparr>recv_dma_addr := dma r, recv_mapping := dma r\<rparr>) w in
     bnd (scall V (DmaMap SendBuf (int sizeof_rdma_info)) w) (\<lambda>r w.
     let w = upd (\<lambda>cb. cb\<lparr>send_dma_addr := dma r, send_mapping := dma r\<rparr>) w in
     bnd (scall V (IbGetDmaMr (pd (ctx w))
            [IB_ACCESS_LOCAL_WRITE, IB_ACCESS_REMOTE_READ, IB_ACCESS_REMOTE_WRITE]) w) (\<lambda>r w.
     let w = upd (\<lambda>cb. cb\<lparr>dma_mr := obj r\<rparr>) w in
     if dma_mr (ctx w) = Null then setup_buffers_bail_server V w
     else
       bnd (kmalloc V (server_event V) (buf_size (ctx w)) w) (\<lambda>p w.
       let w = upd (\<lambda>cb. cb\<lparr>rdma_buf := p\<rparr>) w in
       if rdma_buf (ctx w) = Null then setup_buffers_bail_server V w
       else
         bnd (scall V (DmaMap (HeapBuf (rdma_buf (ctx w))) (buf_size (ctx w))) w) (\<lambda>r w.
         let w = upd (\<lambda>cb. cb\<lparr>rdma_dma_addr := dma r, rdma_mapping := dma r\<rparr>) w in
         bnd (setup_wr_server V w) (\<lambda>_ w. ret 0 w)))))))"

definition megaVM_free_buffers_server :: "verbs \<Rightarrow> server_world \<Rightarrow> (server_world, unit) act" where
  "megaVM_free_buffers_server V w =
     bnd (dereg_if V (dma_mr (ctx w) \<noteq> Null) (dma_mr (ctx w)) w) (\<lambda>_ w.
     bnd (dereg_if V (send_mr (ctx w) \<noteq> Null) (send_mr (ctx w)) w) (\<lambda>_ w.
     bnd (dereg_if V (recv_mr (ctx w) \<noteq> Null) (recv_mr (ctx w)) w) (\<lambda>_ w.
     bnd (dereg_if V (rdma_mr (ctx w) \<noteq> Null) (rdma_mr (ctx w)) w) (\<lambda>_ w.
     deref (pd (ctx w)) w (
     bnd (scall V (DmaUnmap (recv_mapping (ctx w)) (int sizeof_rdma_info)) w) (\<lambda>_ w.
     bnd (scall V (DmaUnmap (send_mapping (ctx w)) (int sizeof_rdma_info)) w) (\<lambda>_ w.
     bnd (scall V (DmaUnmap (rdma_mapping (ctx w)) (buf_size (ctx w))) w) (\<lambda>_ w.
     kfree V (server_event V) (rdma_buf (ctx w)) w))))))))"

section \<open>Queue pair, completion queue and protection domain\<close>

definition create_qp :: "verbs \<Rightarrow> server_world \<Rightarrow> (server_world, int) act" where
  "create_qp V w =
     bnd (scall V (RdmaCreateQp (child_cm_id (ctx w)) (pd (ctx w))
            \<lparr>max_send_wr = txdepth (ctx w), max_recv_wr = 2, max_recv_sge = 1, max_send_sge = 1,
             qp_send_cq = cq (ctx w), qp_recv_cq = cq (ctx w),
             qp_typ = IB_QPT_RC, sq_sig = IB_SIGNAL_REQ_WR\<rparr>) w) (\<lambda>r w.
     if rc r = 0
     then deref (child_cm_id (ctx w)) w
            (ret (rc r) (upd (\<lambda>cb. cb\<lparr>qp := id_qp V (child_cm_id cb)\<rparr>) w))
     else ret (rc r) w)"

definition megaVM_free_qp_server :: "verbs \<Rightarrow> server_world \<Rightarrow> (server_world, unit) act" where
  "megaVM_free_qp_server V w =
     bnd (scall V (IbDestroyQp (qp (ctx w))) w) (\<lambda>_ w.
     bnd (scall V (IbDestroyCq (cq (ctx w))) w) (\<lambda>_ w.
     bnd (scall V (IbDeallocPd (pd (ctx w))) w) (\<lambda>_ w. ret () w)))"

text \<open>
  \<open>setup_pd_and_qp\<close> from its second step on, with the labels \<open>err2\<close> and \<open>err1\<close>. The local
  \<open>r0\<close> is the variable \<open>ret\<close>, not yet written when the creation of the completion queue fails.
\<close>

definition setup_pd_and_qp_tail ::
  "verbs \<Rightarrow> ptr \<Rightarrow> int \<Rightarrow> server_world \<Rightarrow> (server_world, int) act" where
  "setup_pd_and_qp_tail V i r0 w =
     (let err1 = (\<lambda>r w. bnd (scall V (IbDeallocPd (pd (ctx w))) w) (\<lambda>_ w. ret r w));
          err2 = (\<lambda>r w. bnd (scall V (IbDestroyCq (cq (ctx w))) w) (\<lambda>_ w. err1 r w)) in
      deref i w (
      bnd (scall V (IbCreateCq i (txdepth (ctx w) * 2)) w) (\<lambda>r w.
      let w = upd (\<lambda>cb. cb\<lparr>cq := obj r\<rparr>) w in
      if cq (ctx w) = Null then err1 r0 w
      else
        bnd (scall V (IbReqNotifyCq (cq (ctx w))) w) (\<lambda>r w.
        if rc r \<noteq> 0 then err2 (rc r) w
        else
          bnd (create_qp V w) (\<lambda>rt w.
          if rt \<noteq> 0 then err2 rt w else ret 0 w)))))"

definition setup_pd_and_qp :: "verbs \<Rightarrow> ptr \<Rightarrow> server_world \<Rightarrow> (server_world, int) act" where
  "setup_pd_and_qp V i w =
     (if i \<noteq> Null then
        deref i w (
        bnd (scall V (IbAllocPd i) w) (\<lambda>r w.
        let w = upd (\<lambda>cb. cb\<lparr>pd := obj r\<rparr>) w in
        if pd (ctx w) = Null then ret (- 1) w
        else setup_pd_and_qp_tail V i (uninit V) w))
      else setup_pd_and_qp_tail V i (uninit V) w)"

section \<open>RDMA operations\<close>

text \<open>\<open>ib_post_send\<close> of a work request of the control block: the call carries the entry it points to.\<close>

definition post_send ::
  "verbs \<Rightarrow> ib_send_wr \<Rightarrow> server_world \<Rightarrow> (server_world, int) act" where
  "post_send V wr w =
     bnd (scall V (IbPostSend (qp (ctx w)) wr (sge_of (sg_list wr) (ctx w))) w) (\<lambda>r w. ret (rc r) w)"

definition megaVM_rdma_read :: "verbs \<Rightarrow> server_world \<Rightarrow> (server_world, unit) act" where
  "megaVM_rdma_read V w =
     (let w = upd (\<lambda>cb. cb\<lparr>rdma_sq_wr := (rdma_sq_wr cb)
            \<lparr>wr_rkey := remote_rkey cb, wr_remote_addr := remote_addr cb\<rparr>\<rparr>) w in
      with_sg (sg_list (rdma_sq_wr (ctx w))) w (\<lambda>_.
      let w = upd (\<lambda>cb. set_sge_length (sg_list (rdma_sq_wr cb)) (remote_len cb) cb) w in
      deref (dma_mr (ctx w)) w (
      let w = upd (\<lambda>cb. cb\<lparr>rdma_sgl := (rdma_sgl cb)\<lparr>sge_lkey := mr_rkey V (dma_mr cb)\<rparr>,
                           rdma_sq_wr := (rdma_sq_wr cb)\<lparr>wr_next := Null, wr_op := IB_WR_RDMA_READ\<rparr>\<rparr>) w in
      bnd (post_send V (rdma_sq_wr (ctx w)) w) (\<lambda>_ w.
      let w = upd (\<lambda>cb. cb\<lparr>rdma_sq_wr := (rdma_sq_wr cb)\<lparr>wr_next := Null\<rparr>\<rparr>) w in
      bnd (swait V (\<lambda>cb. RDMA_READ_COMPLETE \<le> state cb) w) (\<lambda>_ w. ret () w)))))"

text \<open>\<open>strlen(cb->rdma_buf)\<close>: an oops on a pointer to no live block or without a NUL in the block.\<close>

definition buf_strlen ::
  "server_world \<Rightarrow> (nat \<Rightarrow> (server_world, 'b) act) \<Rightarrow> (server_world, 'b) act" where
  "buf_strlen w k =
     (case rdma_buf (ctx w) of
        Ptr a \<Rightarrow> (case Option.bind (heap w a) strlen of None \<Rightarrow> Inl (Oops, w) | Some n \<Rightarrow> k n)
      | _ \<Rightarrow> Inl (Oops, w))"

definition megaVM_rdma_write :: "verbs \<Rightarrow> server_world \<Rightarrow> (server_world, unit) act" where
  "megaVM_rdma_write V w =
     (let w = upd (\<lambda>cb. cb\<lparr>rdma_sq_wr := (rdma_sq_wr cb)
            \<lparr>wr_op := IB_WR_RDMA_WRITE, wr_rkey := remote_rkey cb,
             wr_remote_addr := remote_addr cb\<rparr>\<rparr>) w in
      with_sg (sg_list (rdma_sq_wr (ctx w))) w (\<lambda>_.
      buf_strlen w (\<lambda>n.
      let w = upd (\<lambda>cb. set_sge_length (sg_list (rdma_sq_wr cb)) (of_nat n + 1) cb) w in
      deref (dma_mr (ctx w)) w (
      let w = upd (\<lambda>cb. cb\<lparr>rdma_sgl := (rdma_sgl cb)\<lparr>sge_lkey := mr_rkey V (dma_mr cb)\<rparr>\<rparr>) w in
      bnd (post_send V (rdma_sq_wr (ctx w)) w) (\<lambda>_ w.
      bnd (swait V (\<lambda>cb. RDMA_WRITE_COMPLETE \<le> state cb) w) (\<lambda>_ w. ret () w))))))"

text \<open>The ten rounds of the ping loop.\<close>

fun rdma_rounds :: "verbs \<Rightarrow> nat \<Rightarrow> server_world \<Rightarrow> (server_world, unit) act" where
  "rdma_rounds V 0 w = ret () w"
| "rdma_rounds V (Suc n) w =
     bnd (megaVM_rdma_read V w) (\<lambda>_ w.
     bnd (megaVM_rdma_write V w) (\<lambda>_ w. rdma_rounds V n w))"

definition start_MegaVM_server :: "verbs \<Rightarrow> server_world \<Rightarrow> (server_world, unit) act" where
  "start_MegaVM_server V w =
     bnd (swait V (\<lambda>cb. RDMA_READ_ADV \<le> state cb) w) (\<lambda>_ w.
     bnd (rdma_rounds V 10 w) (\<lambda>_ w.
     bnd (post_send V (sq_wr (ctx w)) w) (\<lambda>_ w. ret () w)))"

section \<open>Binding, life cycle and initialisation\<close>

definition fill_sockaddr_server :: "server_ctx \<Rightarrow> sockaddr" where
  "fill_sockaddr_server cb =
     (if addr_type cb = AF_INET
      then \<lparr>sin_family = AF_INET, sin_addr = take 4 (addr cb), sin_port = port cb\<rparr>
      else \<lparr>sin_family = 0, sin_addr = replicate 4 0, sin_port = 0\<rparr>)"

definition bind_server :: "verbs \<Rightarrow> server_world \<Rightarrow> (server_world, int) act" where
  "bind_server V w =
     bnd (scall V (RdmaBindAddr (cm_id (ctx w)) (fill_sockaddr_server (ctx w))) w) (\<lambda>r w.
     if rc r \<noteq> 0 then ret (rc r) w
     else
       bnd (scall V (RdmaListen (cm_id (ctx w)) 3) w) (\<lambda>r w.
       if rc r \<noteq> 0 then ret (rc r) w
       else
         bnd (swait V (\<lambda>cb. CONNECT_REQUEST \<le> state cb) w) (\<lambda>_ w.
         if state (ctx w) \<noteq> CONNECT_REQUEST then ret (- 1) w else ret 0 w)))"

text \<open>The cleanup labels of \<open>megaVM_StartServer\<close>; each falls through to the next.\<close>

definition start_err0 :: "verbs \<Rightarrow> server_world \<Rightarrow> (server_world, unit) act" where
  "start_err0 V w = bnd (scall V (RdmaDestroyId (child_cm_id (ctx w))) w) (\<lambda>_ w. ret () w)"

definition start_err1 :: "verbs \<Rightarrow> server_world \<Rightarrow> (server_world, unit) act" where
  "start_err1 V w = bnd (megaVM_free_qp_server V w) (\<lambda>_ w. start_err0 V w)"

definition start_err2 :: "verbs \<Rightarrow> server_world \<Rightarrow> (server_world, unit) act" where
  "start_err2 V w = bnd (megaVM_free_buffers_server V w) (\<lambda>_ w. start_err1 V w)"

definition megaVM_StartServer :: "verbs \<Rightarrow> server_world \<Rightarrow> (server_world, unit) act" where
  "megaVM_StartServer V w =
     bnd (bind_server V w) (\<lambda>rt w.
     if rt \<noteq> 0 then ret () w
     else
       bnd (setup_pd_and_qp V (child_cm_id (ctx w)) w) (\<lambda>rt w.
       if rt \<noteq> 0 then start_err0 V w
       else
         bnd (setup_buffers V w) (\<lambda>rt w.
         if rt \<noteq> 0 then start_err1 V w
         else
           bnd (scall V (IbPostRecv (qp (ctx w)) (rq_wr (ctx w))) w) (\<lambda>r w.
           if rc r \<noteq> 0 then start_err2 V w
           else
             bnd (accept_connections V w) (\<lambda>rt w.
             if rt \<noteq> 0 then start_err2 V w
             else
               bnd (start_MegaVM_server V w) (\<lambda>_ w.
               bnd (scall V (RdmaDisconnect (child_cm_id (ctx w))) w) (\<lambda>_ w.
               start_err2 V w)))))))"

text \<open>The fields \<open>initialisation\<close> sets before it creates the connection identifier.\<close>

definition server_init_ctx :: "verbs \<Rightarrow> server_ctx" where
  "server_init_ctx V =
     \<lparr>server = 1, cq = Null, pd = Null, qp = Null, mem = DMA, dma_mr = Null,
      rq_wr = \<lparr>rq_sg_list = NoSge, rq_num_sge = 0\<rparr>, recv_sgl = zero_sge, recv_buf = zero_info,
      recv_dma_addr = 0, recv_mapping = 0, recv_mr = Null,
      sq_wr = zero_send_wr, send_sgl = zero_sge, send_buf = zero_info,
      send_dma_addr = 0, send_mapping = 0, send_mr = Null,
      rdma_sq_wr = zero_send_wr, rdma_sgl = zero_sge, rdma_buf = Null,
      rdma_dma_addr = 0, rdma_mapping = 0, rdma_mr = Null,
      state = IDLE, stats = zero_stats, port = htons V 9999, addr = in4_pton V ''12.12.12.1'' @ replicate 12 0,
      addr_str = [], addr_type = AF_INET, verbose = 0, ping_count = 0, buf_size = 64,
      validate = 0, txdepth = RPING_SQ_DEPTH, cm_id = Null, child_cm_id = Null,
      remote_rkey = 0, remote_addr = 0, remote_len = 0\<rparr>"

definition initialisation :: "verbs \<Rightarrow> server_world \<Rightarrow> (server_world, int) act" where
  "initialisation V w =
     bnd (kzalloc V w) (\<lambda>cb w.
     if cb = Null then ret (- 1) w
     else
       let w = upd (\<lambda>_. server_init_ctx V) w in
       bnd (scall V RdmaCreateId w) (\<lambda>r w.
       let w = upd (\<lambda>cb. cb\<lparr>cm_id := obj r\<rparr>) w in
       if cm_id (ctx w) = Null then bnd (kfree V (server_event V) cb w) (\<lambda>_ w. ret 0 w)
       else
         bnd (megaVM_StartServer V w) (\<lambda>_ w.
         bnd (scall V (RdmaDestroyId (cm_id (ctx w))) w) (\<lambda>_ w.
         bnd (kfree V (server_event V) cb w) (\<lambda>_ w. ret 0 w)))))"

end
