(* ===== verification/ServerLemmas.thy ===== *)
theory ServerLemmas
  imports ServerMain "HOL-Library.Multiset" "HOL-Library.Sublist"
begin

text \<open>
  Post-condition rules for the server's main thread: what an external call, a sleep and the
  allocator leave of the control block, the resource history and the heap, for every
  environment; and from them one lemma per function of the source.
\<close>

section \<open>Rules for calls, sleeps and the allocator\<close>

lemma scall_wp:
  assumes "\<And>w'. server_keeps (record_call c w) w' \<Longrightarrow> P (reply_to V c w) w'"
  shows "post P (scall V c w)"
  by (rule post_mono [OF server_inv.call_keeps [where v = "record_call c w"]]) (auto intro: assms)

lemma swait_wp:
  assumes "\<And>r w'. server_keeps w w' \<Longrightarrow> P r w'"
  shows "post P (swait V cond w)"
  by (rule post_mono [OF server_inv.wait_keeps [where v = w]]) (auto intro: assms)

lemma kmalloc_server_wp:
  assumes "\<And>w'. server_keeps (record_call (Kmalloc n) w) w' \<Longrightarrow> P Null w'"
    and "\<And>a f w'. server_keeps (record_call (Kmalloc n) w) w' \<Longrightarrow>
           P (Ptr a) (w'\<lparr>heap := (heap w')(a \<mapsto> map f [0..<nat n])\<rparr>)"
  shows "post P (kmalloc V (server_event V) n w)"
  unfolding kmalloc_def post_bnd
  by (rule scall_wp) (auto intro: assms split: ptr.splits)

lemma kfree_server_wp:
  assumes "\<And>w'. server_keeps (record_call (Kfree p) w) w' \<Longrightarrow> P () (free_block p w')"
  shows "post P (kfree V (server_event V) p w)"
  unfolding kfree_def post_bnd by (rule scall_wp) (auto intro: assms)

lemma post_bnd_intro [post_intros]: "post (\<lambda>a w. post P (f a w)) m \<Longrightarrow> post P (bnd m f)"
  by (simp add: post_bnd)

text \<open>
  What the main thread knows after an action that made the resource calls \<open>cs\<close>: its own fields
  and the heap's shape are the same, and the resource history grew by \<open>cs\<close>.
\<close>

definition same_fields :: "server_ctx \<Rightarrow> server_ctx \<Rightarrow> bool" where
  "same_fields c d \<longleftrightarrow> pd d = pd c \<and> cq d = cq c \<and> qp d = qp c \<and>
     dma_mr d = dma_mr c \<and> send_mr d = send_mr c \<and> recv_mr d = recv_mr c \<and> rdma_mr d = rdma_mr c \<and>
     rdma_buf d = rdma_buf c \<and> cm_id d = cm_id c \<and> recv_mapping d = recv_mapping c \<and>
     send_mapping d = send_mapping c \<and> rdma_mapping d = rdma_mapping c \<and> buf_size d = buf_size c"

definition res_ext :: "call list \<Rightarrow> server_world \<Rightarrow> server_world \<Rightarrow> bool" where
  "res_ext cs v w \<longleftrightarrow> same_fields (ctx v) (ctx w) \<and> heap_shape w = heap_shape v \<and> owned w = owned v @ cs"

lemma same_fields_trans: "same_fields a b \<Longrightarrow> same_fields b c \<Longrightarrow> same_fields a c"
  by (simp add: same_fields_def)

lemma res_ext_Nil [simp]: "res_ext [] w w"
  by (simp add: res_ext_def same_fields_def)

lemma res_ext_trans: "res_ext xs u v \<Longrightarrow> res_ext ys v w \<Longrightarrow> res_ext (xs @ ys) u w"
  by (auto simp: res_ext_def intro: same_fields_trans)

lemma keeps_res_ext:
  "server_keeps w w' \<Longrightarrow> res_ext [] w w'"
  "server_keeps (record_call c w) w' \<Longrightarrow> res_ext (if is_resource c then [c] else []) w w'"
  by (auto simp: server_keeps_def res_ext_def same_fields_def server_frameD)

lemma res_extD:
  assumes "res_ext cs v w"
  shows "pd (ctx w) = pd (ctx v)" "cq (ctx w) = cq (ctx v)" "qp (ctx w) = qp (ctx v)"
    "dma_mr (ctx w) = dma_mr (ctx v)" "send_mr (ctx w) = send_mr (ctx v)"
    "recv_mr (ctx w) = recv_mr (ctx v)" "rdma_mr (ctx w) = rdma_mr (ctx v)"
    "rdma_buf (ctx w) = rdma_buf (ctx v)" "cm_id (ctx w) = cm_id (ctx v)"
    "recv_mapping (ctx w) = recv_mapping (ctx v)" "send_mapping (ctx w) = send_mapping (ctx v)"
    "rdma_mapping (ctx w) = rdma_mapping (ctx v)" "buf_size (ctx w) = buf_size (ctx v)"
    "heap_shape w = heap_shape v" "owned w = owned v @ cs"
  using assms by (simp_all add: res_ext_def same_fields_def)

lemma scall_res [post_intros]:
  "(\<And>w'. res_ext (if is_resource c then [c] else []) w w' \<Longrightarrow> P (reply_to V c w) w') \<Longrightarrow>
     post P (scall V c w)"
  by (rule scall_wp) (simp add: keeps_res_ext)

lemma swait_res [post_intros]:
  "(\<And>r w'. res_ext [] w w' \<Longrightarrow> P r w') \<Longrightarrow> post P (swait V cond w)"
  by (rule swait_wp) (simp add: keeps_res_ext)

lemma kmalloc_server_res [post_intros]:
  assumes "\<And>w'. res_ext [Kmalloc n] w w' \<Longrightarrow> P Null w'"
    and "\<And>a f w'. res_ext [Kmalloc n] w w' \<Longrightarrow>
           P (Ptr a) (w'\<lparr>heap := (heap w')(a \<mapsto> map f [0..<nat n])\<rparr>)"
  shows "post P (kmalloc V (server_event V) n w)"
  by (rule kmalloc_server_wp) (drule keeps_res_ext, simp add: assms)+

lemma kfree_server_res [post_intros]:
  assumes "\<And>w'. res_ext [Kfree p] w w' \<Longrightarrow> P () (free_block p w')"
  shows "post P (kfree V (server_event V) p w)"
  by (rule kfree_server_wp) (drule keeps_res_ext, simp add: assms)

section \<open>Releasing\<close>

text \<open>The registration a release path drops: one that is not null.\<close>

definition dereg :: "ptr \<Rightarrow> call list" where
  "dereg p = (if p \<noteq> Null then [IbDeregMr p] else [])"

definition buffer_releases :: "server_ctx \<Rightarrow> call list" where
  "buffer_releases cb = dereg (dma_mr cb) @ dereg (send_mr cb) @ dereg (recv_mr cb) @ dereg (rdma_mr cb) @
     [DmaUnmap (recv_mapping cb) (int sizeof_rdma_info), DmaUnmap (send_mapping cb) (int sizeof_rdma_info),
      DmaUnmap (rdma_mapping cb) (buf_size cb), Kfree (rdma_buf cb)]"

definition qp_releases :: "server_ctx \<Rightarrow> call list" where
  "qp_releases cb = [IbDestroyQp (qp cb), IbDestroyCq (cq cb), IbDeallocPd (pd cb)]"

lemma dereg_if_res [post_intros]:
  assumes "\<And>w'. res_ext (dereg p) w w' \<Longrightarrow> P () w'"
  shows "post P (dereg_if V (p \<noteq> Null) p w)"
  unfolding dereg_if_def by (intro post_intros) (auto intro!: assms simp: dereg_def)

lemma free_buffers_server_res:
  "post (\<lambda>_ w'. same_fields (ctx w) (ctx w') \<and> owned w' = owned w @ buffer_releases (ctx w) \<and>
     heap_shape w' = without (rdma_buf (ctx w)) (heap_shape w))
   (megaVM_free_buffers_server V w)"
  unfolding megaVM_free_buffers_server_def buffer_releases_def
  by (intro post_intros) (simp add: res_ext_def same_fields_def)

lemma free_qp_server_res:
  "post (\<lambda>_ w'. res_ext (qp_releases (ctx w)) w w') (megaVM_free_qp_server V w)"
  unfolding megaVM_free_qp_server_def qp_releases_def
  by (intro post_intros) (simp add: res_ext_def same_fields_def)

lemma start_err0_res:
  "post (\<lambda>_ w'. \<exists>i. res_ext [RdmaDestroyId i] w w') (start_err0 V w)"
  unfolding start_err0_def by (intro post_intros) (auto simp: res_ext_def)

lemma start_err1_res:
  "post (\<lambda>_ w'. \<exists>i. res_ext (qp_releases (ctx w) @ [RdmaDestroyId i]) w w') (start_err1 V w)"
  unfolding start_err1_def
  by (rule post_bndI [OF free_qp_server_res], rule post_mono [OF start_err0_res])
    (blast intro: res_ext_trans)

lemma start_err2_res:
  "post (\<lambda>_ w'. same_fields (ctx w) (ctx w') \<and>
     (\<exists>i. owned w' = owned w @ buffer_releases (ctx w) @ qp_releases (ctx w) @ [RdmaDestroyId i]) \<and>
     heap_shape w' = without (rdma_buf (ctx w)) (heap_shape w))
   (start_err2 V w)"
  unfolding start_err2_def
  by (rule post_bndI [OF free_buffers_server_res], rule post_mono [OF start_err1_res])
    (auto simp: res_ext_def qp_releases_def same_fields_def)

section \<open>Acquiring\<close>

text \<open>
  What \<open>setup_pd_and_qp\<close> leaves: on success a protection domain, a completion queue and the call
  that created the queue pair; on failure either no protection domain, or one that was released
  after whatever had been created in it.
\<close>

definition setup_qp_outcome :: "ptr \<Rightarrow> server_world \<Rightarrow> int \<Rightarrow> server_world \<Rightarrow> bool" where
  "setup_qp_outcome i w rt w' \<longleftrightarrow>
     rdma_buf (ctx w') = rdma_buf (ctx w) \<and> rdma_mr (ctx w') = rdma_mr (ctx w) \<and>
     send_mr (ctx w') = send_mr (ctx w) \<and> recv_mr (ctx w') = recv_mr (ctx w) \<and>
     dma_mr (ctx w') = dma_mr (ctx w) \<and> cm_id (ctx w') = cm_id (ctx w) \<and> heap_shape w' = heap_shape w \<and>
     (\<exists>n a. (\<exists>c p attr. a = RdmaCreateQp c p attr) \<and>
      (if rt = 0
       then pd (ctx w') \<noteq> Null \<and> cq (ctx w') \<noteq> Null \<and> owned w' = owned w @ [IbAllocPd i, IbCreateCq i n, a]
       else if pd (ctx w') = Null then owned w' = owned w @ [IbAllocPd i]
       else owned w' \<in> (\<lambda>xs. owned w @ [IbAllocPd i, IbCreateCq i n] @ xs @ [IbDeallocPd (pd (ctx w'))]) `
              {[], [IbDestroyCq (cq (ctx w'))], [a, IbDestroyCq (cq (ctx w'))]}))"

lemma setup_pd_and_qp_res:
  assumes "uninit V \<noteq> 0" "i \<noteq> Null"
  shows "post (setup_qp_outcome i w) (setup_pd_and_qp V i w)"
  using assms unfolding setup_pd_and_qp_def setup_pd_and_qp_tail_def create_qp_def Let_def
  apply (simp only: if_True not_False_eq_True)
  apply (intro post_intros)
  by (auto simp: setup_qp_outcome_def res_ext_def same_fields_def)

section \<open>What the life cycle releases\<close>


text \<open>The releases of a protection domain in a list of calls, and the live blocks of a heap.\<close>

fun frees_pd :: "call \<Rightarrow> bool" where
  "frees_pd (IbDeallocPd p) = True"
| "frees_pd c = False"

definition pd_frees :: "call list \<Rightarrow> nat" where
  "pd_frees cs = length (filter frees_pd cs)"

lemma pd_frees_simps [simp]:
  "pd_frees [] = 0" "pd_frees (c # cs) = (if frees_pd c then 1 else 0) + pd_frees cs"
  "pd_frees (xs @ ys) = pd_frees xs + pd_frees ys" 
  by (simp_all add: pd_frees_def)

lemma frees_pd_iff: "frees_pd c \<longleftrightarrow> (\<exists>p. c = IbDeallocPd p)"
  by (cases c) simp_all

lemma pd_frees_dereg [simp]: "pd_frees (dereg p) = 0"
  by (simp add: dereg_def)

lemma pd_frees_releases [simp]: "pd_frees (buffer_releases cb) = 0" "pd_frees (qp_releases cb) = 1"
  by (simp_all add: buffer_releases_def qp_releases_def)

definition buf_blocks :: "'a ib_context_scheme world \<Rightarrow> nat set" where
  "buf_blocks w = {a. rdma_buf (ctx w) = Ptr a}"

text \<open>An action that keeps the main thread's fields and live blocks and releases no protection domain.\<close>

definition quiet :: "server_world \<Rightarrow> server_world \<Rightarrow> bool" where
  "quiet v w \<longleftrightarrow> same_fields (ctx v) (ctx w) \<and> heap_shape w = heap_shape v \<and>
     pd_frees (owned w) = pd_frees (owned v)"

lemma quiet_refl [simp]: "quiet w w"
  by (simp add: quiet_def same_fields_def)

lemma quiet_trans: "quiet u v \<Longrightarrow> quiet v w \<Longrightarrow> quiet u w"
  by (auto simp: quiet_def intro: same_fields_trans)

lemma res_ext_quiet: "res_ext cs v w \<Longrightarrow> pd_frees cs = 0 \<Longrightarrow> quiet v w"
  by (simp add: quiet_def res_ext_def)

lemma bail_res:
  assumes "rdma_buf (ctx w) = Null"
  shows "post (\<lambda>rt w'. rt \<noteq> 0 \<and> quiet w w') (setup_buffers_bail_server V w)"
proof -
  have d: "post P (dereg_if V c p v)" if "\<And>w'. quiet v w' \<Longrightarrow> P () w'" for c p v P
    unfolding dereg_if_def by (intro post_intros) (auto intro!: that elim: res_ext_quiet)
  show ?thesis
    unfolding setup_buffers_bail_server_def Let_def
    using assms by (intro post_intros d) (auto simp: quiet_def same_fields_def)
qed

text \<open>
  The ledger: the calls of a history that acquire one of the resources of a connection, or release it; and
  the call that releases what a call has acquired, when the control block holds it.
\<close>

fun undo :: "server_ctx \<Rightarrow> call \<Rightarrow> call" where
  "undo cb (IbAllocPd i) = IbDeallocPd (pd cb)"
| "undo cb (IbCreateCq i n) = IbDestroyCq (cq cb)"
| "undo cb (RdmaCreateQp i p attr) = IbDestroyQp (qp cb)"
| "undo cb (IbGetDmaMr p acc) = IbDeregMr (dma_mr cb)"
| "undo cb (DmaMap RecvBuf n) = DmaUnmap (recv_mapping cb) n"
| "undo cb (DmaMap SendBuf n) = DmaUnmap (send_mapping cb) n"
| "undo cb (DmaMap (HeapBuf p) n) = DmaUnmap (rdma_mapping cb) n"
| "undo cb (Kmalloc n) = Kfree (rdma_buf cb)"
| "undo cb c = c"

fun acquires :: "call \<Rightarrow> bool" where
  "acquires (IbAllocPd i) = True"
| "acquires (IbCreateCq i n) = True"
| "acquires (RdmaCreateQp i p attr) = True"
| "acquires (IbGetDmaMr p acc) = True"
| "acquires (DmaMap b n) = True"
| "acquires (Kmalloc n) = True"
| "acquires c = False"

fun releases :: "call \<Rightarrow> bool" where
  "releases (IbDeallocPd p) = True"
| "releases (IbDestroyCq c) = True"
| "releases (IbDestroyQp q) = True"
| "releases (IbDeregMr m) = True"
| "releases (DmaUnmap m n) = True"
| "releases (Kfree p) = True"
| "releases c = False"

definition entries :: "call list \<Rightarrow> call list" where
  "entries cs = filter (\<lambda>c. acquires c \<or> releases c) cs"

definition ledger :: "server_world \<Rightarrow> call list" where
  "ledger w = entries (owned w)"

lemma entries_simps [simp]:
  "entries [] = []" "entries (c # cs) = (if acquires c \<or> releases c then c # entries cs else entries cs)"
  "entries (xs @ ys) = entries xs @ entries ys"
  by (simp_all add: entries_def)

lemma pd_frees_entries: "pd_frees (entries cs) = pd_frees cs"
  by (induction cs) (auto simp: frees_pd_iff)

lemma ledger_upd [simp]: "ledger (upd f w) = ledger w" "ledger (w\<lparr>heap := h\<rparr>) = ledger w"
  by (simp_all add: ledger_def)

text \<open>An action that acquires nothing and releases nothing.\<close>

definition still :: "server_world \<Rightarrow> server_world \<Rightarrow> bool" where
  "still v w \<longleftrightarrow> same_fields (ctx v) (ctx w) \<and> heap_shape w = heap_shape v \<and> ledger w = ledger v"

lemma still_refl [simp]: "still w w"
  by (simp add: still_def same_fields_def)

lemma still_trans: "still u v \<Longrightarrow> still v w \<Longrightarrow> still u w"
  by (auto simp: still_def intro: same_fields_trans)

lemma still_quiet: "still v w \<Longrightarrow> quiet v w"
  by (simp add: still_def quiet_def ledger_def) (metis pd_frees_entries)

lemma setup_buffers_res:
  assumes "rdma_buf (ctx w) = Null"
  shows "post (\<lambda>rt w'. pd (ctx w') = pd (ctx w) \<and> cq (ctx w') = cq (ctx w) \<and> qp (ctx w') = qp (ctx w) \<and>
     cm_id (ctx w') = cm_id (ctx w) \<and> pd_frees (owned w') = pd_frees (owned w) \<and>
     live_blocks w' \<subseteq> live_blocks w \<union> (if rt = 0 then buf_blocks w' else {}))
   (setup_buffers V w)"
proof -
  have b: "post P (setup_buffers_bail_server V v)"
    if "rdma_buf (ctx v) = Null" "\<And>rt w'. rt \<noteq> 0 \<Longrightarrow> quiet v w' \<Longrightarrow> P rt w'" for v P
    by (rule post_mono [OF bail_res [OF that(1)]]) (auto intro: that(2))
  show ?thesis
    using assms unfolding setup_buffers_def setup_wr_server_def Let_def
    by (intro post_intros b)
      (auto simp: quiet_def res_ext_def same_fields_def live_blocks_def buf_blocks_def split: if_splits)
qed


lemma bind_server_still: "post (\<lambda>_ w'. still w w') (bind_server V w)"
  unfolding bind_server_def
  by (intro post_intros) (auto simp: still_def ledger_def res_ext_def same_fields_def)

lemma accept_still: "post (\<lambda>_ w'. still w w') (accept_connections V w)"
  unfolding accept_connections_def
  by (intro post_intros) (auto simp: still_def ledger_def res_ext_def same_fields_def)

lemma rdma_read_still: "post (\<lambda>_ w'. still w w') (megaVM_rdma_read V w)"
  unfolding megaVM_rdma_read_def post_send_def Let_def
  by (intro post_intros, cases "sg_list (rdma_sq_wr (ctx w))")
    (auto simp: still_def ledger_def res_ext_def same_fields_def)

lemma post_buf_strlen [post_intros]: "(\<And>n. post P (k n)) \<Longrightarrow> post P (buf_strlen w k)"
  by (simp add: buf_strlen_def split: ptr.splits option.splits)

lemma rdma_write_still: "post (\<lambda>_ w'. still w w') (megaVM_rdma_write V w)"
  unfolding megaVM_rdma_write_def post_send_def Let_def
  by (intro post_intros, cases "sg_list (rdma_sq_wr (ctx w))")
    (auto simp: still_def ledger_def res_ext_def same_fields_def)

lemma rdma_rounds_still: "post (\<lambda>_ w'. still w w') (rdma_rounds V n w)"
proof (induction n arbitrary: w)
  case (Suc n)
  have "post (\<lambda>_. still w) (rdma_rounds V n w2)" if "still w w1" "still w1 w2" for w1 w2
    by (rule post_mono [OF Suc.IH]) (use that in \<open>blast intro: still_trans\<close>)
  then show ?case
    by (auto intro!: post_bndI [OF rdma_read_still] post_bndI [OF rdma_write_still])
qed simp

lemma start_MegaVM_server_still: "post (\<lambda>_ w'. still w w') (start_MegaVM_server V w)"
proof -
  have r: "post P (rdma_rounds V n v)" if "\<And>w'. still v w' \<Longrightarrow> P () w'" for n v P
    by (rule post_mono [OF rdma_rounds_still]) (simp add: that)
  show ?thesis
    unfolding start_MegaVM_server_def post_send_def
    by (intro post_intros r) (auto simp: still_def ledger_def res_ext_def same_fields_def)
qed

lemma bind_server_res: "post (\<lambda>_ w'. quiet w w') (bind_server V w)"
  by (rule post_mono [OF bind_server_still still_quiet])

lemma accept_res: "post (\<lambda>_ w'. quiet w w') (accept_connections V w)"
  by (rule post_mono [OF accept_still still_quiet])

lemma start_MegaVM_server_res: "post (\<lambda>_ w'. quiet w w') (start_MegaVM_server V w)"
  by (rule post_mono [OF start_MegaVM_server_still still_quiet])

text \<open>
  The life cycle, from the outside in: \<open>released v w\<close> says that the main thread, which started
  in \<open>v\<close> without a protection domain, is done in \<open>w\<close>, and \<open>holding\<close> that it holds one.
\<close>

definition released :: "server_world \<Rightarrow> server_world \<Rightarrow> bool" where
  "released v w \<longleftrightarrow> cm_id (ctx w) = cm_id (ctx v) \<and> live_blocks w \<subseteq> live_blocks v \<and>
     pd_frees (owned w) = pd_frees (owned v) + (if pd (ctx w) = Null then 0 else 1)"

definition holding :: "server_world \<Rightarrow> server_world \<Rightarrow> bool" where
  "holding v w \<longleftrightarrow> cm_id (ctx w) = cm_id (ctx v) \<and> pd (ctx w) \<noteq> Null \<and>
     live_blocks w \<subseteq> live_blocks v \<union> buf_blocks w \<and> pd_frees (owned w) = pd_frees (owned v)"

lemma holding_quiet: "holding v w \<Longrightarrow> quiet w w' \<Longrightarrow> holding v w'"
  by (auto simp: holding_def quiet_def same_fields_def live_blocks_def buf_blocks_def)

lemma start_err0_released: "released v w \<Longrightarrow> post (\<lambda>_ w'. released v w') (start_err0 V w)"
  by (rule post_mono [OF start_err0_res])
    (auto simp: released_def res_ext_def same_fields_def live_blocks_def)

lemma start_err1_released:
  "holding v w \<Longrightarrow> live_blocks w \<subseteq> live_blocks v \<Longrightarrow> post (\<lambda>_ w'. released v w') (start_err1 V w)"
  by (rule post_mono [OF start_err1_res])
    (auto simp: released_def holding_def res_ext_def same_fields_def live_blocks_def)

lemma start_err2_released: "holding v w \<Longrightarrow> post (\<lambda>_ w'. released v w') (start_err2 V w)"
  by (rule post_mono [OF start_err2_res])
    (auto simp: released_def holding_def same_fields_def live_blocks_def buf_blocks_def without_def
       split: ptr.splits if_splits)

lemma serve_released:
  assumes "holding v w"
  shows "post (\<lambda>_ w'. released v w')
    (bnd (scall V (IbPostRecv q r) w) (\<lambda>r w.
       if rc r \<noteq> 0 then start_err2 V w
       else bnd (accept_connections V w) (\<lambda>rt w.
         if rt \<noteq> 0 then start_err2 V w
         else bnd (start_MegaVM_server V w) (\<lambda>_ w.
           bnd (scall V (RdmaDisconnect (child_cm_id (ctx w))) w) (\<lambda>_ w. start_err2 V w)))))"
proof -
  have hold: "post P (scall V c u)" if "holding v u" "\<not> frees_pd c" "\<And>r w'. holding v w' \<Longrightarrow> P r w'" for P c u
    by (rule scall_res)
      (use that in \<open>auto intro!: that(3) holding_quiet [OF that(1)] elim!: res_ext_quiet split: if_splits\<close>)
  have acc: "post P (accept_connections V u)" if "holding v u" "\<And>r w'. holding v w' \<Longrightarrow> P r w'" for P u
    by (rule post_mono [OF accept_res]) (blast intro: that holding_quiet)
  have run: "post P (start_MegaVM_server V u)" if "holding v u" "\<And>w'. holding v w' \<Longrightarrow> P () w'" for P u
    by (rule post_mono [OF start_MegaVM_server_res]) (auto intro: that holding_quiet)
  show ?thesis
    by (intro post_bnd_intro hold acc run post_if start_err2_released) (use assms in simp_all)
qed

lemma setup_outcome_cases:
  assumes "setup_qp_outcome i w rt w'" "pd_frees (owned w) = n"
  shows "rt \<noteq> 0 \<Longrightarrow> pd_frees (owned w') = n + (if pd (ctx w') = Null then 0 else 1)"
    and "rt = 0 \<Longrightarrow> pd (ctx w') \<noteq> Null \<and> pd_frees (owned w') = n"
  using assms by (auto simp: setup_qp_outcome_def frees_pd_iff split: if_splits)

lemma StartServer_res:
  assumes "uninit V \<noteq> 0" "rdma_buf (ctx w) = Null" "pd (ctx w) = Null"
  shows "post (\<lambda>_ w'. released w w') (megaVM_StartServer V w)"
proof -
  have sqp: "post P (setup_pd_and_qp V i u)" if "\<And>rt w'. setup_qp_outcome i u rt w' \<Longrightarrow> P rt w'" for P i u
  proof (cases "i = Null")
    case True
    then show ?thesis by (simp add: setup_pd_and_qp_def setup_pd_and_qp_tail_def Let_def)
  next
    case False
    show ?thesis by (rule post_mono [OF setup_pd_and_qp_res [OF assms(1) False]]) (rule that)
  qed
  have bufs: "post P (setup_buffers V u)"
    if "holding w u" "rdma_buf (ctx u) = Null"
      "\<And>rt w'. holding w w' \<Longrightarrow> (rt \<noteq> 0 \<longrightarrow> live_blocks w' \<subseteq> live_blocks w) \<Longrightarrow> P rt w'" for P u
  proof (rule post_mono [OF setup_buffers_res [OF that(2)]])
    fix rt :: int and v :: server_world
    assume v: "pd (ctx v) = pd (ctx u) \<and> cq (ctx v) = cq (ctx u) \<and> qp (ctx v) = qp (ctx u) \<and>
      cm_id (ctx v) = cm_id (ctx u) \<and> pd_frees (owned v) = pd_frees (owned u) \<and>
      live_blocks v \<subseteq> live_blocks u \<union> (if rt = 0 then buf_blocks v else {})"
    have "live_blocks u \<subseteq> live_blocks w"
      using that(1,2) by (auto simp: holding_def buf_blocks_def)
    with v that(1) have "holding w v" "rt \<noteq> 0 \<longrightarrow> live_blocks v \<subseteq> live_blocks w"
      by (auto simp: holding_def split: if_splits)
    then show "P rt v" by (rule that(3))
  qed
  show ?thesis
    unfolding megaVM_StartServer_def
  proof (rule post_bndI [OF bind_server_res], rule post_if)
    fix rt u
    assume "quiet w u"
    then show "post (\<lambda>_. released w) (ret () u)"
      using assms(3) by (simp add: released_def quiet_def same_fields_def live_blocks_def)
  next
    fix rt u
    assume q: "quiet w u"
    then have u: "rdma_buf (ctx u) = Null" "cm_id (ctx u) = cm_id (ctx w)"
        "heap_shape u = heap_shape w" "pd_frees (owned u) = pd_frees (owned w)"
      using assms(2) by (simp_all add: quiet_def same_fields_def)
    have o: "cm_id (ctx v) = cm_id (ctx w)" "live_blocks v = live_blocks w" "rdma_buf (ctx v) = Null"
      if "setup_qp_outcome i u r v" for i r v
      using that u by (auto simp: setup_qp_outcome_def live_blocks_def)
    show "post (\<lambda>_. released w) (bnd (setup_pd_and_qp V (child_cm_id (ctx u)) u) (\<lambda>rt w.
       if rt \<noteq> 0 then start_err0 V w
       else bnd (setup_buffers V w) (\<lambda>rt w. if rt \<noteq> 0 then start_err1 V w
         else bnd (scall V (IbPostRecv (qp (ctx w)) (rq_wr (ctx w))) w) (\<lambda>r w.
           if rc r \<noteq> 0 then start_err2 V w
           else bnd (accept_connections V w) (\<lambda>rt w. if rt \<noteq> 0 then start_err2 V w
             else bnd (start_MegaVM_server V w) (\<lambda>_ w.
               bnd (scall V (RdmaDisconnect (child_cm_id (ctx w))) w) (\<lambda>_ w. start_err2 V w)))))))"
      by (intro post_bnd_intro [of _ _ "setup_pd_and_qp _ _ _"] sqp post_if start_err0_released
           post_bnd_intro [of _ _ "setup_buffers _ _"] bufs start_err1_released serve_released)
        (use o setup_outcome_cases u(4) in \<open>fastforce simp: released_def holding_def\<close>)+
  qed
qed

section \<open>What the life cycle acquires and releases\<close>

text \<open>
  \<open>balanced v w\<close>: what \<open>megaVM_StartServer\<close> has entered into the ledger on its way from \<open>v\<close> to its end in \<open>w\<close>:
  the acquisitions, then the releases. As long as no buffer was touched the releases end the list of the
  opposites in reverse; afterwards the last three are the opposites of the first three in reverse, and those before
  belong to the buffers: all of them if the last mapping was reached, and nothing but registrations otherwise.
\<close>

definition balanced :: "server_world \<Rightarrow> server_world \<Rightarrow> bool" where
  "balanced v w \<longleftrightarrow> (\<exists>acq rel. ledger w = ledger v @ acq @ rel \<and> (\<forall>c \<in> set acq. acquires c) \<and> (\<forall>c \<in> set rel. releases c) \<and>
     (if length acq \<le> 3 then suffix rel (rev (map (undo (ctx w)) acq))
      else \<exists>bufs. rel = bufs @ rev (map (undo (ctx w)) (take 3 acq)) \<and>
        (if \<exists>p n. DmaMap (HeapBuf p) n \<in> set acq then mset bufs = mset (map (undo (ctx w)) (drop 3 acq))
         else \<forall>c \<in> set bufs. \<exists>m. c = IbDeregMr m)))"

text \<open>The buffers: all of them, or what the label \<open>bail\<close> leaves.\<close>

definition buffer_calls :: "server_ctx \<Rightarrow> call list" where
  "buffer_calls cb = [DmaMap RecvBuf (int sizeof_rdma_info), DmaMap SendBuf (int sizeof_rdma_info),
     IbGetDmaMr (pd cb) [IB_ACCESS_LOCAL_WRITE, IB_ACCESS_REMOTE_READ, IB_ACCESS_REMOTE_WRITE],
     Kmalloc (buf_size cb), DmaMap (HeapBuf (rdma_buf cb)) (buf_size cb)]"

definition no_registrations :: "server_ctx \<Rightarrow> bool" where
  "no_registrations cb \<longleftrightarrow> rdma_mr cb = Null \<and> send_mr cb = Null \<and> recv_mr cb = Null"

lemma bail_ledger:
  assumes "rdma_buf (ctx w) = Null"
  shows "post (\<lambda>rt w'. rt \<noteq> 0 \<and> same_fields (ctx w) (ctx w') \<and>
      (\<exists>rel. owned w' = owned w @ rel \<and> (\<forall>c \<in> set rel. \<exists>m. c = IbDeregMr m)))
    (setup_buffers_bail_server V w)"
proof -
  have d: "post P (dereg_if V c p v)" if "\<And>w'. res_ext (if c then [IbDeregMr p] else []) v w' \<Longrightarrow> P () w'" for c p v P
    unfolding dereg_if_def by (intro post_intros) (auto intro!: that)
  show ?thesis
    unfolding setup_buffers_bail_server_def Let_def
    using assms by (intro post_intros d) (auto simp: res_ext_def same_fields_def)
qed

definition bailed :: "call list \<Rightarrow> server_world \<Rightarrow> server_world \<Rightarrow> bool" where
  "bailed cs w w' \<longleftrightarrow> (\<exists>rel. owned w' = owned w @ cs @ rel \<and> (\<forall>c \<in> set rel. \<exists>m. c = IbDeregMr m))"

lemma setup_buffers_ledger:
  assumes "rdma_buf (ctx w) = Null"
  shows "post (\<lambda>rt w'. pd (ctx w') = pd (ctx w) \<and> cq (ctx w') = cq (ctx w) \<and> qp (ctx w') = qp (ctx w) \<and>
     rdma_mr (ctx w') = rdma_mr (ctx w) \<and> send_mr (ctx w') = send_mr (ctx w) \<and> recv_mr (ctx w') = recv_mr (ctx w) \<and>
     (if rt = 0 then dma_mr (ctx w') \<noteq> Null \<and> owned w' = owned w @ buffer_calls (ctx w')
      else bailed (take 3 (buffer_calls (ctx w'))) w w' \<or> bailed (take 4 (buffer_calls (ctx w'))) w w'))
   (setup_buffers V w)"
proof -
  have b: "post P (setup_buffers_bail_server V v)"
    if "rdma_buf (ctx v) = Null" "\<And>rt w' rel. rt \<noteq> 0 \<Longrightarrow> same_fields (ctx v) (ctx w') \<Longrightarrow> owned w' = owned v @ rel \<Longrightarrow>
      \<forall>c \<in> set rel. \<exists>m. c = IbDeregMr m \<Longrightarrow> P rt w'" for v P
    by (rule post_mono [OF bail_ledger [OF that(1)]]) (auto intro: that(2))
  have call: "post P (scall V c v)" if "\<And>r w'. res_ext (if is_resource c then [c] else []) v w' \<Longrightarrow> P r w'" for c v P
    by (rule scall_res) (rule that)
  show ?thesis
    using assms unfolding setup_buffers_def setup_wr_server_def Let_def
    by (intro post_bnd_intro post_deref post_if post_retI call kmalloc_server_res b)
      (simp_all add: res_ext_def same_fields_def buffer_calls_def bailed_def)
qed

text \<open>Everything is there.\<close>

definition furnished :: "server_world \<Rightarrow> server_world \<Rightarrow> bool" where
  "furnished v w \<longleftrightarrow> dma_mr (ctx w) \<noteq> Null \<and> no_registrations (ctx w) \<and>
     (\<exists>i n c p attr. ledger w = ledger v @ [IbAllocPd i, IbCreateCq i n, RdmaCreateQp c p attr] @ buffer_calls (ctx w))"

lemma entries_buffer_calls [simp]: "entries (buffer_calls cb) = buffer_calls cb"
  by (simp add: buffer_calls_def)

lemma same_fields_calls:
  assumes "same_fields c d"
  shows "buffer_calls d = buffer_calls c" "no_registrations d = no_registrations c" "dma_mr d = dma_mr c"
  using assms by (simp_all add: same_fields_def buffer_calls_def no_registrations_def)

lemma furnished_still: "furnished v w \<Longrightarrow> still w w' \<Longrightarrow> furnished v w'"
  by (auto simp: furnished_def still_def same_fields_calls)

lemma res_ext_still: "res_ext cs v w \<Longrightarrow> entries cs = [] \<Longrightarrow> still v w"
  by (simp add: still_def res_ext_def ledger_def)

lemma balanced_still: "balanced v w \<Longrightarrow> still w w' \<Longrightarrow> balanced v w'"
proof -
  assume b: "balanced v w" and s: "still w w'"
  have "undo (ctx w') c = undo (ctx w) c" for c
    using s by (cases "(ctx w, c)" rule: undo.cases) (auto simp: still_def same_fields_def)
  then have u: "undo (ctx w') = undo (ctx w)" by blast
  have l: "ledger w' = ledger w" using s by (simp add: still_def)
  show ?thesis using b unfolding balanced_def u l .
qed

lemma start_err2_balanced: "furnished v w \<Longrightarrow> post (\<lambda>_ w'. balanced v w') (start_err2 V w)"
proof (rule post_mono [OF start_err2_res])
  fix a w'
  assume f: "furnished v w" and r: "same_fields (ctx w) (ctx w') \<and>
     (\<exists>i. owned w' = owned w @ buffer_releases (ctx w) @ qp_releases (ctx w) @ [RdmaDestroyId i]) \<and>
     heap_shape w' = without (rdma_buf (ctx w)) (heap_shape w)"
  from f obtain i n c p attr where l: "dma_mr (ctx w) \<noteq> Null" "no_registrations (ctx w)"
    "ledger w = ledger v @ [IbAllocPd i, IbCreateCq i n, RdmaCreateQp c p attr] @ buffer_calls (ctx w)"
    by (auto simp: furnished_def)
  let ?acq = "[IbAllocPd i, IbCreateCq i n, RdmaCreateQp c p attr] @ buffer_calls (ctx w)"
  have "\<not> length ?acq \<le> 3" by (simp add: buffer_calls_def)
  moreover have "ledger w' = ledger v @ ?acq @ buffer_releases (ctx w) @ qp_releases (ctx w)"
    using r l by (auto simp: ledger_def buffer_releases_def qp_releases_def dereg_def no_registrations_def)
  moreover have "qp_releases (ctx w) = rev (map (undo (ctx w')) (take 3 ?acq))"
    using r by (simp add: qp_releases_def same_fields_def)
  moreover have "mset (buffer_releases (ctx w)) = mset (map (undo (ctx w')) (drop 3 ?acq))"
    using r l by (simp add: buffer_releases_def buffer_calls_def dereg_def no_registrations_def same_fields_def)
  moreover have "\<forall>x \<in> set ?acq. acquires x" "\<exists>p n. DmaMap (HeapBuf p) n \<in> set ?acq"
    by (auto simp: buffer_calls_def)
  moreover have "\<forall>x \<in> set (buffer_releases (ctx w) @ qp_releases (ctx w)). releases x"
    by (auto simp: buffer_releases_def qp_releases_def dereg_def)
  ultimately show "balanced v w'"
    unfolding balanced_def by (intro exI [of _ ?acq] exI [of _ "buffer_releases (ctx w) @ qp_releases (ctx w)"]) auto
qed

lemma serve_balanced:
  assumes "furnished v w"
  shows "post (\<lambda>_ w'. balanced v w')
    (bnd (scall V (IbPostRecv q r) w) (\<lambda>r w.
       if rc r \<noteq> 0 then start_err2 V w
       else bnd (accept_connections V w) (\<lambda>rt w.
         if rt \<noteq> 0 then start_err2 V w
         else bnd (start_MegaVM_server V w) (\<lambda>_ w.
           bnd (scall V (RdmaDisconnect (child_cm_id (ctx w))) w) (\<lambda>_ w. start_err2 V w)))))"
proof -
  have hold: "post P (scall V c u)" if "furnished v u" "entries [c] = []" "\<And>r w'. furnished v w' \<Longrightarrow> P r w'" for P c u
    by (rule scall_res) (use that in \<open>auto intro!: that(3) furnished_still [OF that(1)] elim!: res_ext_still split: if_splits\<close>)
  have acc: "post P (accept_connections V u)" if "furnished v u" "\<And>r w'. furnished v w' \<Longrightarrow> P r w'" for P u
    by (rule post_mono [OF accept_still]) (blast intro: that furnished_still)
  have run: "post P (start_MegaVM_server V u)" if "furnished v u" "\<And>w'. furnished v w' \<Longrightarrow> P () w'" for P u
    by (rule post_mono [OF start_MegaVM_server_still]) (auto intro: that furnished_still)
  show ?thesis
    by (intro post_bnd_intro hold acc run post_if start_err2_balanced) (use assms in simp_all)
qed

lemma start_err0_balanced: "balanced v w \<Longrightarrow> post (\<lambda>_ w'. balanced v w') (start_err0 V w)"
proof (rule post_mono [OF start_err0_res])
  fix a w' assume "balanced v w" "\<exists>i. res_ext [RdmaDestroyId i] w w'"
  then show "balanced v w'" using balanced_still res_ext_still by fastforce
qed

lemma start_err1_balanced:
  assumes "ledger w = ledger v @ [IbAllocPd i, IbCreateCq i n, RdmaCreateQp c p attr] @ acq @ rel" "acq \<noteq> []"
    "\<forall>c \<in> set acq. acquires c \<and> (\<forall>p n. c \<noteq> DmaMap (HeapBuf p) n)" "\<forall>c \<in> set rel. \<exists>m. c = IbDeregMr m"
  shows "post (\<lambda>_ w'. balanced v w') (start_err1 V w)"
proof (rule post_mono [OF start_err1_res])
  fix a w'
  let ?acq = "[IbAllocPd i, IbCreateCq i n, RdmaCreateQp c p attr] @ acq"
  assume q: "\<exists>i. res_ext (qp_releases (ctx w) @ [RdmaDestroyId i]) w w'"
  then have "ledger w' = ledger v @ ?acq @ rel @ qp_releases (ctx w)"
    using assms(1) by (auto simp: res_ext_def ledger_def qp_releases_def)
  moreover have "\<not> length ?acq \<le> 3" using assms(2) by (cases acq) auto
  moreover have "qp_releases (ctx w) = rev (map (undo (ctx w')) (take 3 ?acq))"
    using q by (auto simp: qp_releases_def res_ext_def same_fields_def)
  moreover have "\<forall>c \<in> set ?acq. acquires c" "\<not> (\<exists>p n. DmaMap (HeapBuf p) n \<in> set ?acq)"
    "\<forall>c \<in> set (rel @ qp_releases (ctx w)). releases c"
    using assms(3,4) by (auto simp: qp_releases_def)
  ultimately show "balanced v w'"
    unfolding balanced_def using assms(4)
    by (intro exI [of _ ?acq] exI [of _ "rel @ qp_releases (ctx w)"]) auto
qed

lemma setup_failed_balanced:
  assumes "setup_qp_outcome i w rt w'" "rt \<noteq> 0"
  shows "balanced w w'"
proof -
  have "\<exists>acq rel. ledger w' = ledger w @ acq @ rel \<and> (\<forall>c \<in> set acq. acquires c) \<and> (\<forall>c \<in> set rel. releases c) \<and>
      length acq \<le> 3 \<and> suffix rel (rev (map (undo (ctx w')) acq))"
  proof (cases "pd (ctx w') = Null")
    case True
    then have "ledger w' = ledger w @ [IbAllocPd i] @ []"
      using assms by (auto simp: setup_qp_outcome_def ledger_def)
    then show ?thesis by (intro exI [of _ "[IbAllocPd i]"] exI [of _ "[]"]) simp
  next
    case False
    then obtain n a where "\<exists>c p attr. a = RdmaCreateQp c p attr"
      and "owned w' \<in> (\<lambda>xs. owned w @ [IbAllocPd i, IbCreateCq i n] @ xs @ [IbDeallocPd (pd (ctx w'))]) `
        {[], [IbDestroyCq (cq (ctx w'))], [a, IbDestroyCq (cq (ctx w'))]}"
      using assms unfolding setup_qp_outcome_def by (metis (no_types, lifting))
    then obtain c p attr xs where o: "owned w' = owned w @ [IbAllocPd i, IbCreateCq i n] @ xs @ [IbDeallocPd (pd (ctx w'))]"
      and xs: "xs = [] \<or> xs = [IbDestroyCq (cq (ctx w'))] \<or> xs = [RdmaCreateQp c p attr, IbDestroyCq (cq (ctx w'))]"
      by blast
    then have "entries xs = xs" by (elim disjE) simp_all
    then have l: "ledger w' = ledger w @ [IbAllocPd i, IbCreateCq i n] @ xs @ [IbDeallocPd (pd (ctx w'))]"
      unfolding ledger_def o by simp
    show ?thesis
    proof (cases "xs = [RdmaCreateQp c p attr, IbDestroyCq (cq (ctx w'))]")
      case True
      then show ?thesis using l
        by (intro exI [of _ "[IbAllocPd i, IbCreateCq i n, RdmaCreateQp c p attr]"]
            exI [of _ "[IbDestroyCq (cq (ctx w')), IbDeallocPd (pd (ctx w'))]"]) (simp add: suffix_def)
    next
      case False
      then show ?thesis using l xs
        by (intro exI [of _ "[IbAllocPd i, IbCreateCq i n]"] exI [of _ "xs @ [IbDeallocPd (pd (ctx w'))]"])
          (auto simp: suffix_def)
    qed
  qed
  then show ?thesis unfolding balanced_def by (elim exE conjE) (intro exI conjI, assumption+, simp)
qed

lemma balanced_from: "balanced v w \<Longrightarrow> ledger v = ledger u \<Longrightarrow> balanced u w"
  by (simp add: balanced_def)

lemma StartServer_balanced:
  assumes "uninit V \<noteq> 0" "rdma_buf (ctx w) = Null" "no_registrations (ctx w)"
  shows "post (\<lambda>_ w'. balanced w w') (megaVM_StartServer V w)"
proof -
  have sqp: "post P (setup_pd_and_qp V i u)" if "\<And>rt w'. setup_qp_outcome i u rt w' \<Longrightarrow> P rt w'" for P i u
  proof (cases "i = Null")
    case True
    then show ?thesis by (simp add: setup_pd_and_qp_def setup_pd_and_qp_tail_def Let_def)
  next
    case False
    show ?thesis by (rule post_mono [OF setup_pd_and_qp_res [OF assms(1) False]]) (rule that)
  qed
  show ?thesis
    unfolding megaVM_StartServer_def
  proof (rule post_bndI [OF bind_server_still], rule post_if)
    fix rt u
    assume "still w u"
    then have "balanced w u" by (intro balanced_still [of w w u]) (auto simp: balanced_def intro!: exI [of _ "[]"])
    then show "post (\<lambda>_. balanced w) (ret () u)" by simp
  next
    fix rt u
    assume q: "still w u"
    have err0: "post (\<lambda>_. balanced w) (start_err0 V v)" if "setup_qp_outcome (child_cm_id (ctx u)) u r v" "r \<noteq> 0" for r v
      using q by (intro start_err0_balanced balanced_from [OF setup_failed_balanced [OF that]]) (simp add: still_def)
    have rest: "post (\<lambda>_. balanced w) (bnd (setup_buffers V v) (\<lambda>rt w. if rt \<noteq> 0 then start_err1 V w
         else bnd (scall V (IbPostRecv (qp (ctx w)) (rq_wr (ctx w))) w) (\<lambda>r w.
           if rc r \<noteq> 0 then start_err2 V w
           else bnd (accept_connections V w) (\<lambda>rt w. if rt \<noteq> 0 then start_err2 V w
             else bnd (start_MegaVM_server V w) (\<lambda>_ w.
               bnd (scall V (RdmaDisconnect (child_cm_id (ctx w))) w) (\<lambda>_ w. start_err2 V w))))))"
      if out: "setup_qp_outcome (child_cm_id (ctx u)) u 0 v" for v
    proof -
      from out obtain n c p attr where l: "ledger v = ledger w @ [IbAllocPd (child_cm_id (ctx u)),
          IbCreateCq (child_cm_id (ctx u)) n, RdmaCreateQp c p attr]"
        using q by (auto simp: setup_qp_outcome_def still_def ledger_def)
      have buf: "rdma_buf (ctx v) = Null" and reg: "no_registrations (ctx v)"
        using out q assms(2,3) by (auto simp: setup_qp_outcome_def still_def same_fields_def no_registrations_def)
      show ?thesis
      proof (rule post_bndI [OF setup_buffers_ledger [OF buf]], rule post_if, goal_cases)
        case (1 rt v')
        then obtain k rel where k: "k = 3 \<or> k = 4" and o: "owned v' = owned v @ take k (buffer_calls (ctx v')) @ rel"
          and rel: "\<forall>c \<in> set rel. \<exists>m. c = IbDeregMr m"
          unfolding bailed_def by (metis (no_types))
        define acq where "acq = take k (buffer_calls (ctx v'))"
        have a: "owned v' = owned v @ acq @ rel"
          "\<forall>c \<in> set acq. acquires c \<and> (\<forall>p n. c \<noteq> DmaMap (HeapBuf p) n)" "\<forall>c \<in> set rel. \<exists>m. c = IbDeregMr m"
          using k o rel by (auto simp: acq_def buffer_calls_def)
        have keep: "entries acq = acq" "entries rel = rel"
          using a(2,3) by (auto simp: entries_def filter_id_conv)
        have "ledger v' = ledger w @ [IbAllocPd (child_cm_id (ctx u)),
          IbCreateCq (child_cm_id (ctx u)) n, RdmaCreateQp c p attr] @ acq @ rel"
          using l a(1) keep by (simp add: ledger_def)
        moreover have "acq \<noteq> []" using k by (auto simp: acq_def buffer_calls_def)
        ultimately show ?case by (rule start_err1_balanced) (use a in auto)
      next
        case (2 rt v')
        then have "furnished w v'"
          using l reg by (auto simp: furnished_def no_registrations_def ledger_def)
        then show ?case by (rule serve_balanced)
      qed
    qed
    show "post (\<lambda>_. balanced w) (bnd (setup_pd_and_qp V (child_cm_id (ctx u)) u) (\<lambda>rt w.
       if rt \<noteq> 0 then start_err0 V w
       else bnd (setup_buffers V w) (\<lambda>rt w. if rt \<noteq> 0 then start_err1 V w
         else bnd (scall V (IbPostRecv (qp (ctx w)) (rq_wr (ctx w))) w) (\<lambda>r w.
           if rc r \<noteq> 0 then start_err2 V w
           else bnd (accept_connections V w) (\<lambda>rt w. if rt \<noteq> 0 then start_err2 V w
             else bnd (start_MegaVM_server V w) (\<lambda>_ w.
               bnd (scall V (RdmaDisconnect (child_cm_id (ctx w))) w) (\<lambda>_ w. start_err2 V w)))))))"
      by (intro post_bnd_intro [of _ _ "setup_pd_and_qp _ _ _"] sqp post_if err0 rest) simp_all
  qed
qed

section \<open>Wake-ups\<close>

text \<open>
  A waiter for a state of at least \<open>s\<close> misses nothing: whoever moves the state to \<open>s\<close> or beyond
  sets the wake-up flag, and nobody but the sleeper clears it.
\<close>

definition wakes_at :: "test_state \<Rightarrow> 'a ib_context_scheme world \<Rightarrow> 'a ib_context_scheme world \<Rightarrow> bool" where
  "wakes_at s w w' \<longleftrightarrow> (woken w \<longrightarrow> woken w') \<and> (s \<le> state (ctx w') \<longrightarrow> s \<le> state (ctx w) \<or> woken w')"

lemma wakes_at_refl [simp]: "wakes_at s w w"
  by (simp add: wakes_at_def)

lemma wakes_at_trans: "wakes_at s u v \<Longrightarrow> wakes_at s v w \<Longrightarrow> wakes_at s u w"
  by (auto simp: wakes_at_def)

lemma wakes_at_woken [simp]: "wakes_at s w (wake_up_interruptible v)"
  by (simp add: wakes_at_def)

lemma cq_loop_server_one_wakes:
  "post (\<lambda>failed w'. failed \<or> wakes_at s w w') (cq_loop_server V [Completion wc] w)"
proof (cases "wc_op wc")
  case IB_WC_RECV
  then show ?thesis
    by (auto simp: Let_def hcall_def split: prod.splits)
qed (auto simp: with_sg_def wakes_at_def split: option.splits)

lemma cq_loop_server_wakes:
  "post (\<lambda>failed w'. failed \<or> wakes_at s w w') (cq_loop_server V ps w)"
  by (rule server_poll_keeps.loop_rel [OF cq_loop_server_one_wakes]) (auto intro: wakes_at_trans)

text \<open>The one event that moves the state without waking anybody (when the route can be asked for).\<close>

fun resolves_addr :: "event \<Rightarrow> bool" where
  "resolves_addr (CmEvent i RDMA_CM_EVENT_ADDR_RESOLVED) = True"
| "resolves_addr e = False"

lemma server_event_wakes:
  assumes "ADDR_RESOLVED < s \<or> \<not> resolves_addr e"
  shows "post (\<lambda>_ w'. wakes_at s w w') (server_event V e w)"
proof (cases e)
  case (CmEvent i ev)
  then show ?thesis
    using assms by (cases ev) (auto simp: megaVM_cma_event_handler_server_def hcall_def wakes_at_def)
next
  case (CqEvent c ps)
  have "post (\<lambda>failed w'. failed \<or> wakes_at s w w')
      (cq_loop_server V ps (record_call (IbReqNotifyCq (cq (ctx w))) w))"
    by (rule post_mono [OF cq_loop_server_wakes [of s]]) (auto simp: wakes_at_def)
  then show ?thesis
    unfolding CqEvent
    by (auto simp: megaVM_cq_event_handler_server_def hcall_def wakes_at_def elim!: post_bndI)
qed (auto simp: wakes_at_def)

lemma wait_loop_asleep_events:
  assumes "Run \<notin> set es" "Signal \<notin> set es" "deliver H es w = Inr ((), w')"
  shows "wait_loop H cond sig (es @ fs) w = wait_loop H cond sig fs w'"
  using assms
proof (induction es arbitrary: w)
  case (Cons e es)
  show ?case
  proof (cases e)
    case Signal
    then show ?thesis using Cons.prems by simp
  next
    case Run
    then show ?thesis using Cons.prems by simp
  qed (use Cons in \<open>auto simp: bnd_eq_Inr\<close>)
qed simp

lemma deliver_server_wakes:
  "ADDR_RESOLVED < s \<or> (\<forall>e \<in> set es. \<not> resolves_addr e) \<Longrightarrow> post (\<lambda>_ w'. wakes_at s w w') (deliver (server_event V) es w)"
proof (induction es arbitrary: w)
  case (Cons e es)
  have e: "ADDR_RESOLVED < s \<or> \<not> resolves_addr e" "ADDR_RESOLVED < s \<or> (\<forall>e \<in> set es. \<not> resolves_addr e)"
    using Cons.prems by auto
  have st: "post (\<lambda>_ w'. wakes_at s w w') (bnd (server_event V e w) (\<lambda>_ w'. deliver (server_event V) es w'))"
    by (rule post_bndI [OF server_event_wakes [OF e(1)]])
      (rule post_mono [OF Cons.IH [OF e(2)]], rule wakes_at_trans)
  show ?case
    using st Cons by (cases e) (auto simp: ret_def)
qed simp

lemma flushed_loop:
  assumes "\<forall>p\<in>set fl. \<exists>wc. p = Completion wc \<and> wc_status wc = IB_WC_WR_FLUSH_ERR"
  shows "cq_loop_server V (fl @ ps) w = cq_loop_server V ps w"
  using assms by (induction fl) auto

section \<open>RDMA operations when nothing else happens\<close>

text \<open>
  \<open>silent\<close>: the environment delivers no event during any call; \<open>silent_after\<close>: during no call after a
  history. The requests the two RDMA functions post, written out, and what they do in such an environment.
\<close>

definition silent :: "verbs \<Rightarrow> bool" where
  "silent V \<longleftrightarrow> (\<forall>h. events (answer V h) = [])"

definition silent_after :: "verbs \<Rightarrow> call list \<Rightarrow> bool" where
  "silent_after V h \<longleftrightarrow> (\<forall>c cs. events (answer V (h @ c # cs)) = [])"

lemma silent_silent_after [simp]: "silent V \<Longrightarrow> silent_after V h"
  by (simp add: silent_def silent_after_def)

lemma silent_after_append [simp]: "silent_after V h \<Longrightarrow> silent_after V (h @ cs)"
  by (cases cs) (simp_all add: silent_after_def)

lemma silent_after_call [simp]: "silent_after V (log w) \<Longrightarrow> call V H c w = Inr (reply_to V c w, record_call c w)"
  by (simp add: silent_after_def call_def reply_to_def ret_def)

lemma silent_after_wait: "silent_after V (log w) \<Longrightarrow> wait_event V H cond w =
   (if cond (ctx w) then Inr (0, w) else Inl (Asleep, (record_call WaitEvent w)\<lparr>woken := False\<rparr>))"
  by (simp add: silent_after_def wait_event_def reply_to_def ret_def)

lemma silent_call [simp]: "silent V \<Longrightarrow> call V H c w = Inr (reply_to V c w, record_call c w)"
  by simp

lemma silent_wait: "silent V \<Longrightarrow> wait_event V H cond w =
   (if cond (ctx w) then Inr (0, w) else Inl (Asleep, (record_call WaitEvent w)\<lparr>woken := False\<rparr>))"
  by (rule silent_after_wait) simp

definition read_request :: "verbs \<Rightarrow> server_ctx \<Rightarrow> call" where
  "read_request V cb = IbPostSend (qp cb)
     ((rdma_sq_wr cb)\<lparr>wr_rkey := remote_rkey cb, wr_remote_addr := remote_addr cb,
        wr_next := Null, wr_op := IB_WR_RDMA_READ\<rparr>)
     (Some (\<lparr>sge_addr = sge_addr (rdma_sgl cb), sge_length = remote_len cb, sge_lkey = mr_rkey V (dma_mr cb)\<rparr>))"

definition write_request :: "verbs \<Rightarrow> nat \<Rightarrow> server_ctx \<Rightarrow> call" where
  "write_request V k cb = IbPostSend (qp cb)
     ((rdma_sq_wr cb)\<lparr>wr_op := IB_WR_RDMA_WRITE, wr_rkey := remote_rkey cb, wr_remote_addr := remote_addr cb\<rparr>)
     (Some (\<lparr>sge_addr = sge_addr (rdma_sgl cb), sge_length = of_nat k + 1, sge_lkey = mr_rkey V (dma_mr cb)\<rparr>))"

definition rdma_ready :: "server_ctx \<Rightarrow> bool" where
  "rdma_ready cb \<longleftrightarrow> sg_list (rdma_sq_wr cb) = RdmaSgl \<and> is_obj (dma_mr cb)"

lemma rdma_read_silent:
  assumes "silent_after V (log w)" "rdma_ready (ctx w)"
  shows "\<exists>w'. log w' = log w @ [read_request V (ctx w)] @
       (if state (ctx w) < RDMA_READ_COMPLETE then [WaitEvent] else []) \<and>
     state (ctx w') = state (ctx w) \<and> heap w' = heap w \<and> rdma_ready (ctx w') \<and>
     rdma_buf (ctx w') = rdma_buf (ctx w) \<and>
     megaVM_rdma_read V w =
       (if state (ctx w) < RDMA_READ_COMPLETE then Inl (Asleep, w') else Inr ((), w'))"
proof -
  obtain n where n: "dma_mr (ctx w) = Ptr n"
    using assms(2) by (auto simp: rdma_ready_def is_obj_def split: ptr.splits)
  show ?thesis
    using assms n
    by (cases "state (ctx w) < RDMA_READ_COMPLETE") (auto simp: Let_def megaVM_rdma_read_def post_send_def rdma_ready_def silent_after_wait read_request_def not_le not_less ret_def)
qed

lemma rdma_write_silent:
  assumes "silent_after V (log w)" "rdma_ready (ctx w)" "rdma_buf (ctx w) = Ptr a" "heap w a = Some m" "strlen m = Some k"
  shows "\<exists>w'. log w' = log w @ [write_request V k (ctx w)] @
       (if state (ctx w) < RDMA_WRITE_COMPLETE then [WaitEvent] else []) \<and>
     state (ctx w') = state (ctx w) \<and> heap w' = heap w \<and> rdma_ready (ctx w') \<and>
     rdma_buf (ctx w') = rdma_buf (ctx w) \<and>
     megaVM_rdma_write V w =
       (if state (ctx w) < RDMA_WRITE_COMPLETE then Inl (Asleep, w') else Inr ((), w'))"
proof -
  obtain n where n: "dma_mr (ctx w) = Ptr n"
    using assms(2) by (auto simp: rdma_ready_def is_obj_def split: ptr.splits)
  show ?thesis
    using assms n
    by (cases "state (ctx w) < RDMA_WRITE_COMPLETE") (auto simp: Let_def megaVM_rdma_write_def post_send_def buf_strlen_def rdma_ready_def silent_after_wait write_request_def not_le not_less ret_def)
qed

lemma rdma_write_no_string:
  assumes "silent_after V (log w)" "rdma_ready (ctx w)" "rdma_buf (ctx w) = Ptr a" "heap w a = Some m" "strlen m = None"
  shows "\<exists>w'. megaVM_rdma_write V w = Inl (Oops, w') \<and> log w' = log w"
  using assms by (simp add: Let_def megaVM_rdma_write_def buf_strlen_def rdma_ready_def)

fun posted_op :: "call \<Rightarrow> wr_opcode option" where
  "posted_op (IbPostSend q wr s) = Some (wr_op wr)"
| "posted_op c = None"

text \<open>
  The rounds of the ping loop in the state \<open>RDMA_WRITE_COMPLETE\<close>, and the teardown of a connection, when
  nothing else happens: both return.
\<close>

lemma rdma_rounds_silent:
  assumes "silent_after V (log w)" "rdma_ready (ctx w)" "rdma_buf (ctx w) = Ptr a" "heap w a = Some m" "strlen m = Some k"
    "RDMA_WRITE_COMPLETE \<le> state (ctx w)"
  shows "\<exists>w' rs. rdma_rounds V n w = Inr ((), w') \<and> log w' = log w @ rs \<and>
    map posted_op rs = concat (replicate n [Some IB_WR_RDMA_READ, Some IB_WR_RDMA_WRITE])"
  using assms
proof (induction n arbitrary: w)
  case (Suc n)
  have st: "\<not> state (ctx w) < RDMA_READ_COMPLETE" "\<not> state (ctx w) < RDMA_WRITE_COMPLETE"
    using Suc.prems(6) by (auto simp: test_state_order)
  obtain u where u: "log u = log w @ [read_request V (ctx w)]" "state (ctx u) = state (ctx w)" "heap u = heap w"
    "rdma_ready (ctx u)" "rdma_buf (ctx u) = rdma_buf (ctx w)" "megaVM_rdma_read V w = Inr ((), u)"
    using rdma_read_silent [OF Suc.prems(1,2)] st by auto
  have su: "silent_after V (log u)" unfolding u(1) by (rule silent_after_append [OF Suc.prems(1)])
  obtain v where v: "log v = log u @ [write_request V k (ctx u)]" "state (ctx v) = state (ctx u)" "heap v = heap u"
    "rdma_ready (ctx v)" "rdma_buf (ctx v) = rdma_buf (ctx u)" "megaVM_rdma_write V u = Inr ((), v)"
    using rdma_write_silent [OF su u(4), of a m k] u Suc.prems st by auto
  have sv: "silent_after V (log v)" unfolding v(1) by (rule silent_after_append [OF su])
  obtain w' rs where "rdma_rounds V n v = Inr ((), w')" "log w' = log v @ rs"
      "map posted_op rs = concat (replicate n [Some IB_WR_RDMA_READ, Some IB_WR_RDMA_WRITE])"
    using Suc.IH [of v] sv u v Suc.prems by auto
  then show ?case
    using u v by (auto simp: read_request_def write_request_def)
qed (simp add: ret_def)

lemma start_err2_silent:
  assumes "silent_after V (log w)" "is_obj (pd (ctx w))"
  shows "\<exists>w' cs. start_err2 V w = Inr ((), w') \<and> log w' = log w @ cs \<and> ctx w' = ctx w"
proof -
  obtain n where "pd (ctx w) = Ptr n" using assms(2) by (cases "pd (ctx w)") simp_all
  with assms(1) show ?thesis
    by (simp add: start_err2_def start_err1_def start_err0_def megaVM_free_qp_server_def megaVM_free_buffers_server_def
        dereg_if_def kfree_def ret_def)
qed

lemma strlen_None_iff: "strlen m = None \<longleftrightarrow> 0 \<notin> set m"
  by (induction m) auto

lemma strlen_bound: "strlen m = Some k \<Longrightarrow> k < length m \<and> m ! k = 0 \<and> (\<forall>i<k. m ! i \<noteq> 0)"
proof (induction m arbitrary: k)
  case (Cons c cs)
  then show ?case
    by (auto split: if_splits simp: nth_Cons less_Suc_eq_0_disj)
qed simp

section \<open>Live blocks and the whole life cycle\<close>

lemma res_ext_shape:
  "res_ext cs v w \<Longrightarrow> live_blocks w = live_blocks v \<and> pd_frees (owned w) = pd_frees (owned v) + pd_frees cs \<and>
     pd (ctx w) = pd (ctx v) \<and> cm_id (ctx w) = cm_id (ctx v) \<and> rdma_buf (ctx w) = rdma_buf (ctx v)"
  by (simp add: res_ext_def same_fields_def live_blocks_def)

section \<open>The protocol of a ping\<close>

text \<open>
  The completions of a ping in their order, round after round, and the state they lead to.
\<close>

fun ping_state :: "nat \<Rightarrow> test_state" where
  "ping_state n = [RDMA_WRITE_COMPLETE, RDMA_READ_ADV, RDMA_READ_COMPLETE, RDMA_WRITE_ADV] ! (n mod 4)"

definition ping_ops :: "nat \<Rightarrow> wc_opcode list" where
  "ping_ops n = map (\<lambda>i. [IB_WC_RECV, IB_WC_RDMA_READ, IB_WC_RECV, IB_WC_RDMA_WRITE] ! (i mod 4)) [0..<n]"

lemma ping_ops_Suc:
  "ping_ops (Suc n) = ping_ops n @ [[IB_WC_RECV, IB_WC_RDMA_READ, IB_WC_RECV, IB_WC_RDMA_WRITE] ! (n mod 4)]"
  by (simp add: ping_ops_def)

lemma mod4_cases: "(n::nat) mod 4 = 0 \<or> n mod 4 = 1 \<or> n mod 4 = 2 \<or> n mod 4 = 3"
  by presburger

lemma fold_ping:
  assumes "s \<le> CONNECTED \<or> s = RDMA_WRITE_COMPLETE"
  shows "foldl server_step s (ping_ops (Suc n)) = ping_state (Suc n)"
proof (induction n)
  case 0
  then show ?case using assms by (simp add: ping_ops_def)
next
  case (Suc n)
  have "foldl server_step s (ping_ops (Suc (Suc n))) =
      server_step (ping_state (Suc n)) ([IB_WC_RECV, IB_WC_RDMA_READ, IB_WC_RECV, IB_WC_RDMA_WRITE] ! (Suc n mod 4))"
    by (subst ping_ops_Suc) (simp only: foldl_append foldl.simps Suc.IH)
  also have "\<dots> = ping_state (Suc (Suc n))"
    using mod4_cases [of n] by (auto simp: mod_Suc test_state_order)
  finally show ?case .
qed

lemma count_completion_counts:
  "read_msgs (foldl (count_completion a b) t ops) = read_msgs t + of_nat (count_list ops IB_WC_RDMA_READ)"
  "write_msgs (foldl (count_completion a b) t ops) = write_msgs t + of_nat (count_list ops IB_WC_RDMA_WRITE)"
  "recv_msgs (foldl (count_completion a b) t ops) = recv_msgs t + of_nat (count_list ops IB_WC_RECV)"
  "send_msgs (foldl (count_completion a b) t ops) = send_msgs t + of_nat (count_list ops IB_WC_SEND)"
proof (induction ops arbitrary: t)
  case (Cons x xs)
  { case 1 then show ?case by (cases x) (simp_all add: Cons) }
  { case 2 then show ?case by (cases x) (simp_all add: Cons) }
  { case 3 then show ?case by (cases x) (simp_all add: Cons) }
  { case 4 then show ?case by (cases x) (simp_all add: Cons) }
qed simp_all

lemma count_list_snoc [simp]: "count_list (xs @ [x]) y = count_list xs y + (if x = y then 1 else 0)"
  by (induction xs) auto

lemma ping_ops_counts:
  "count_list (ping_ops n) IB_WC_RECV = (n + 1) div 2"
  "count_list (ping_ops n) IB_WC_RDMA_READ = (n + 2) div 4"
  "count_list (ping_ops n) IB_WC_RDMA_WRITE = n div 4"
proof (induction n)
  case (Suc n)
  let ?op = "[IB_WC_RECV, IB_WC_RDMA_READ, IB_WC_RECV, IB_WC_RDMA_WRITE] ! (n mod 4)"
  have op: "(?op = IB_WC_RECV) = (n mod 4 = 0 \<or> n mod 4 = 2)"
    "(?op = IB_WC_RDMA_READ) = (n mod 4 = 1)" "(?op = IB_WC_RDMA_WRITE) = (n mod 4 = 3)"
    using mod4_cases [of n] by (elim disjE; simp)+
  note snoc = ping_ops_Suc count_list_snoc Suc op
  { case 1 show ?case unfolding snoc by presburger }
  { case 2 show ?case unfolding snoc by presburger }
  { case 3 show ?case unfolding snoc by presburger }
qed (simp_all add: ping_ops_def)

lemma server_recv_ok:
  "byte_len wc = of_nat sizeof_rdma_info \<Longrightarrow>
     \<exists>c'. server_recv V wc c = (0, c') \<and> sg_list (rdma_sq_wr c') = sg_list (rdma_sq_wr c)"
  by (simp add: server_recv_def Let_def)

text \<open>Only an error of a completion, of its length or of the re-posted receive makes the loop fail.\<close>

lemma server_loop_ok:
  assumes "\<And>h. rc (answer V h) = 0"
    and "\<And>p. p \<in> set ps \<Longrightarrow> \<exists>wc. p = Completion wc \<and> wc_status wc = IB_WC_SUCCESS \<and>
          wc_op wc \<noteq> IB_WC_OTHER \<and> byte_len wc = of_nat sizeof_rdma_info"
    and "sg_list (rdma_sq_wr (ctx w)) \<noteq> NoSge"
  shows "\<exists>w'. cq_loop_server V ps w = Inr (False, w')"
  using assms(2,3)
proof (induction ps arbitrary: w)
  case (Cons p ps)
  obtain wc where p: "p = Completion wc" "wc_status wc = IB_WC_SUCCESS"
    and wc: "wc_op wc \<noteq> IB_WC_OTHER" "byte_len wc = of_nat sizeof_rdma_info"
    using Cons.prems(1) by fastforce
  have IH: "\<exists>w'. cq_loop_server V ps u = Inr (False, w')" if "sg_list (rdma_sq_wr (ctx u)) \<noteq> NoSge" for u
    using Cons that by simp
  have rc0: "rc (reply_to V c u) = 0" for c u
    by (simp add: reply_to_def assms(1))
  obtain s where s: "sge_of (sg_list (rdma_sq_wr (ctx w))) (ctx w) = Some s"
    using Cons.prems(2) by (cases "sg_list (rdma_sq_wr (ctx w))") auto
  show ?case
  proof (cases "wc_op wc")
    case IB_WC_RECV
    let ?w = "upd (\<lambda>cb. cb\<lparr>stats := (stats cb)
                   \<lparr>recv_bytes := recv_bytes (stats cb) + of_nat sizeof_rdma_info,
                    recv_msgs := recv_msgs (stats cb) + 1\<rparr>\<rparr>) w"
    obtain c where "(if server (ctx ?w) \<noteq> 0 then server_recv V wc (ctx ?w) else (0, ctx ?w)) = (0, c)"
        "sg_list (rdma_sq_wr c) = sg_list (rdma_sq_wr (ctx w))"
      using server_recv_ok [OF wc(2), of V "ctx ?w"] by (cases "server (ctx ?w) = 0") auto
    with IB_WC_RECV p rc0 Cons.prems(2) show ?thesis
      by (auto simp: Let_def hcall_def intro!: IH)
  qed (use p wc s Cons.prems(2) in \<open>auto simp: with_sg_def intro!: IH\<close>)
qed (simp add: ret_def)

end
