(* ===== verification/ClientHandlers.thy ===== *)
theory ClientHandlers
  imports Verbs
begin

text \<open>
  The callbacks of \<open>client/megaVM_client.c\<close>: the client's control block, the connection-manager
  event handler, the receive path and the completion-queue handler.
\<close>

section \<open>The client's control block\<close>

record client_ctx = ib_context +
  start_buf :: ptr
  start_dma_addr :: u64
  start_mapping :: u64
  start_mr :: ptr

type_synonym client_world = "client_ctx world"

section \<open>Connection-manager events\<close>

definition megaVM_cma_event_handler_client ::
  "verbs \<Rightarrow> ptr \<Rightarrow> cm_event \<Rightarrow> client_world \<Rightarrow> (client_world, int) act" where
  "megaVM_cma_event_handler_client V cma_id ev w =
     (case ev of
        RDMA_CM_EVENT_ADDR_RESOLVED \<Rightarrow>
          bnd (hcall V (RdmaResolveRoute cma_id 2000) (set_state ADDR_RESOLVED w)) (\<lambda>r w.
            if rc r \<noteq> 0 then ret 0 (wake_up_interruptible w) else ret 0 w)
      | RDMA_CM_EVENT_ROUTE_RESOLVED \<Rightarrow>
          ret 0 (wake_up_interruptible (set_state ROUTE_RESOLVED w))
      | RDMA_CM_EVENT_CONNECT_REQUEST \<Rightarrow>
          ret 0 (wake_up_interruptible
            (upd (\<lambda>cb. cb\<lparr>child_cm_id := cma_id\<rparr>) (set_state CONNECT_REQUEST w)))
      | RDMA_CM_EVENT_ESTABLISHED \<Rightarrow>
          ret 0 (wake_up_interruptible
            (if server (ctx w) = 0 then set_state CONNECTED w else w))
      | RDMA_CM_EVENT_ADDR_ERROR \<Rightarrow> ret 0 (wake_up_interruptible (set_state ERROR w))
      | RDMA_CM_EVENT_ROUTE_ERROR \<Rightarrow> ret 0 (wake_up_interruptible (set_state ERROR w))
      | RDMA_CM_EVENT_CONNECT_ERROR \<Rightarrow> ret 0 (wake_up_interruptible (set_state ERROR w))
      | RDMA_CM_EVENT_UNREACHABLE \<Rightarrow> ret 0 (wake_up_interruptible (set_state ERROR w))
      | RDMA_CM_EVENT_REJECTED \<Rightarrow> ret 0 (wake_up_interruptible (set_state ERROR w))
      | RDMA_CM_EVENT_DISCONNECTED \<Rightarrow> ret 0 (wake_up_interruptible (set_state ERROR w))
      | RDMA_CM_EVENT_DEVICE_REMOVAL \<Rightarrow> ret 0 w
      | RDMA_CM_EVENT_OTHER \<Rightarrow> ret 0 (wake_up_interruptible w))"

section \<open>Completions\<close>

definition client_recv :: "ib_wc \<Rightarrow> client_ctx \<Rightarrow> int \<times> client_ctx" where
  "client_recv wc cb =
     (if byte_len wc \<noteq> of_nat sizeof_rdma_info then (- 1, cb)
      else (0, if state cb = RDMA_READ_ADV then cb\<lparr>state := RDMA_WRITE_ADV\<rparr>
               else cb\<lparr>state := RDMA_WRITE_COMPLETE\<rparr>))"

text \<open>The polling loop, over the answers of \<open>ib_poll_cq\<close>; the value says whether the code goes to \<open>error\<close>.\<close>

fun cq_loop_client :: "verbs \<Rightarrow> poll list \<Rightarrow> client_world \<Rightarrow> (client_world, bool) act" where
  "cq_loop_client V [] w = ret False w"
| "cq_loop_client V (PollRet r # ps) w = ret (r \<noteq> 0) w"
| "cq_loop_client V (Completion wc # ps) w =
     (if wc_status wc \<noteq> IB_WC_SUCCESS then
        (if wc_status wc = IB_WC_WR_FLUSH_ERR then cq_loop_client V ps w else ret True w)
      else
        (case wc_op wc of
           IB_WC_SEND \<Rightarrow>
             cq_loop_client V ps
               (upd (\<lambda>cb. cb\<lparr>stats := (stats cb)
                 \<lparr>send_bytes := send_bytes (stats cb) + ucast (sge_length (send_sgl cb)),
                  send_msgs := send_msgs (stats cb) + 1\<rparr>\<rparr>) w)
         | IB_WC_RDMA_WRITE \<Rightarrow>
             with_sg (sg_list (rdma_sq_wr (ctx w))) w (\<lambda>s.
               cq_loop_client V ps
                 (wake_up_interruptible (set_state RDMA_WRITE_COMPLETE
                   (upd (\<lambda>cb. cb\<lparr>stats := (stats cb)
                     \<lparr>write_bytes := write_bytes (stats cb) + ucast (sge_length s),
                      write_msgs := write_msgs (stats cb) + 1\<rparr>\<rparr>) w))))
         | IB_WC_RDMA_READ \<Rightarrow>
             with_sg (sg_list (rdma_sq_wr (ctx w))) w (\<lambda>s.
               cq_loop_client V ps
                 (wake_up_interruptible (set_state RDMA_READ_COMPLETE
                   (upd (\<lambda>cb. cb\<lparr>stats := (stats cb)
                     \<lparr>read_bytes := read_bytes (stats cb) + ucast (sge_length s),
                      read_msgs := read_msgs (stats cb) + 1\<rparr>\<rparr>) w))))
         | IB_WC_RECV \<Rightarrow>
             (let w = upd (\<lambda>cb. cb\<lparr>stats := (stats cb)
                   \<lparr>recv_bytes := recv_bytes (stats cb) + of_nat sizeof_rdma_info,
                    recv_msgs := recv_msgs (stats cb) + 1\<rparr>\<rparr>) w;
                  (r, cb) = (if server (ctx w) = 0 then client_recv wc (ctx w)
                             else (server (ctx w), ctx w));
                  w = upd (\<lambda>_. cb) w
              in if r \<noteq> 0 then ret True w
                 else bnd (hcall V (IbPostRecv (qp (ctx w)) (rq_wr (ctx w))) w) (\<lambda>r w.
                        if rc r \<noteq> 0 then ret True w
                        else cq_loop_client V ps (wake_up_interruptible w)))
         | IB_WC_OTHER \<Rightarrow> ret True w))"

definition megaVM_cq_event_handler_client ::
  "verbs \<Rightarrow> ptr \<Rightarrow> poll list \<Rightarrow> client_world \<Rightarrow> (client_world, unit) act" where
  "megaVM_cq_event_handler_client V cqp ps w =
     (if cq (ctx w) \<noteq> cqp then Inl (Oops, w)
      else if state (ctx w) = ERROR then ret () w
      else
        bnd (hcall V (IbReqNotifyCq (cq (ctx w))) w) (\<lambda>_ w.
        bnd (cq_loop_client V ps w) (\<lambda>failed w.
          if failed then ret () (wake_up_interruptible (set_state ERROR w)) else ret () w)))"

section \<open>What the environment can do to the client\<close>

fun client_event :: "verbs \<Rightarrow> client_ctx handler" where
  "client_event V (CmEvent i ev) w =
     bnd (megaVM_cma_event_handler_client V i ev w) (\<lambda>_ w. ret () w)"
| "client_event V (CqEvent c ps) w = megaVM_cq_event_handler_client V c ps w"
| "client_event V (DmaRecv info) w = ret () (upd (\<lambda>cb. cb\<lparr>recv_buf := info\<rparr>) w)"
| "client_event V (DmaHeap a bs) w = ret () (dma_write a bs w)"
| "client_event V Signal w = ret () w"
| "client_event V Run w = ret () w"

end
