(* ===== verification/ClientMain.thy ===== *)
theory ClientMain
  imports ClientHandlers
begin

text \<open>
  The main thread of \<open>client/megaVM_client.c\<close>, function by function: work requests, buffers,
  queue pair, the advertisement message, the ping pattern, connecting, and the client's life
  cycle. Logging is left out; every other external call is recorded.
\<close>

abbreviation ccall :: "verbs \<Rightarrow> call \<Rightarrow> client_world \<Rightarrow> (client_world, reply) act" where
  "ccall V \<equiv> call V (client_event V)"

abbreviation cwait :: "verbs \<Rightarrow> (client_ctx \<Rightarrow> bool) \<Rightarrow> client_world \<Rightarrow> (client_world, int) act" where
  "cwait V \<equiv> wait_event V (client_event V)"

definition ENOMEM :: int where
  "ENOMEM = 12"

definition EINTR :: int where
  "EINTR = 4"

section \<open>Work requests and buffers\<close>

definition megaVM_setup_wr :: "verbs \<Rightarrow> client_world \<Rightarrow> (client_world, unit) act" where
  "megaVM_setup_wr V w =
     deref (dma_mr (ctx w)) w (ret () (upd (\<lambda>cb. cb
       \<lparr>recv_sgl := \<lparr>sge_addr = recv_dma_addr cb, sge_length = of_nat sizeof_rdma_info,
                     sge_lkey = mr_lkey V (dma_mr cb)\<rparr>,
        rq_wr := (rq_wr cb)\<lparr>rq_sg_list := RecvSgl, rq_num_sge := 1\<rparr>,
        send_sgl := \<lparr>sge_addr = send_dma_addr cb, sge_length = of_nat sizeof_rdma_info,
                     sge_lkey = mr_lkey V (dma_mr cb)\<rparr>,
        sq_wr := (sq_wr cb)\<lparr>wr_op := IB_WR_SEND, wr_flags := IB_SEND_SIGNALED,
                            sg_list := SendSgl, num_sge := 1\<rparr>\<rparr>) w))"

definition dereg_if_client :: "verbs \<Rightarrow> bool \<Rightarrow> ptr \<Rightarrow> client_world \<Rightarrow> (client_world, unit) act" where
  "dereg_if_client V c p w =
     (if c then bnd (ccall V (IbDeregMr p) w) (\<lambda>_ w. ret () w) else ret () w)"

definition kfree_if_client :: "verbs \<Rightarrow> ptr \<Rightarrow> client_world \<Rightarrow> (client_world, unit) act" where
  "kfree_if_client V p w = (if p \<noteq> Null then kfree V (client_event V) p w else ret () w)"

definition setup_buffers_bail_client :: "verbs \<Rightarrow> int \<Rightarrow> client_world \<Rightarrow> (client_world, int) act" where
  "setup_buffers_bail_client V rt w =
     (let live = (\<lambda>p. p \<noteq> Null \<and> \<not> IS_ERR p) in
      bnd (dereg_if_client V (live (rdma_mr (ctx w))) (rdma_mr (ctx w)) w) (\<lambda>_ w.
      bnd (dereg_if_client V (live (dma_mr (ctx w))) (dma_mr (ctx w)) w) (\<lambda>_ w.
      bnd (dereg_if_client V (live (recv_mr (ctx w))) (recv_mr (ctx w)) w) (\<lambda>_ w.
      bnd (dereg_if_client V (live (send_mr (ctx w))) (send_mr (ctx w)) w) (\<lambda>_ w.
      bnd (kfree_if_client V (rdma_buf (ctx w)) w) (\<lambda>_ w.
      bnd (kfree_if_client V (start_buf (ctx w)) w) (\<lambda>_ w. ret rt w)))))))"

text \<open>\<open>megaVM_setup_buffers\<close> from the allocation of \<open>rdma_buf\<close> on.\<close>

definition megaVM_setup_buffers_heap :: "verbs \<Rightarrow> client_world \<Rightarrow> (client_world, int) act" where
  "megaVM_setup_buffers_heap V w =
     bnd (kmalloc V (client_event V) (buf_size (ctx w)) w) (\<lambda>p w.
     let w = upd (\<lambda>cb. cb\<lparr>rdma_buf := p\<rparr>) w in
     if rdma_buf (ctx w) = Null then setup_buffers_bail_client V (- 1) w
     else
       bnd (ccall V (DmaMap (HeapBuf (rdma_buf (ctx w))) (buf_size (ctx w))) w) (\<lambda>r w.
       let w = upd (\<lambda>cb. cb\<lparr>rdma_dma_addr := dma r, rdma_mapping := dma r\<rparr>) w in
       bnd (kmalloc V (client_event V) (buf_size (ctx w)) w) (\<lambda>p w.
       let w = upd (\<lambda>cb. cb\<lparr>start_buf := p\<rparr>) w in
       if start_buf (ctx w) = Null then setup_buffers_bail_client V (- ENOMEM) w
       else
         bnd (ccall V (DmaMap (HeapBuf (start_buf (ctx w))) (buf_size (ctx w))) w) (\<lambda>r w.
         let w = upd (\<lambda>cb. cb\<lparr>start_dma_addr := dma r, start_mapping := dma r\<rparr>) w in
         bnd (megaVM_setup_wr V w) (\<lambda>_ w. ret 0 w)))))"

definition megaVM_setup_buffers :: "verbs \<Rightarrow> client_world \<Rightarrow> (client_world, int) act" where
  "megaVM_setup_buffers V w =
     deref (pd (ctx w)) w (
     bnd (ccall V (DmaMap RecvBuf (int sizeof_rdma_info)) w) (\<lambda>r w.
     let w = upd (\<lambda>cb. cb\<lparr>recv_dma_addr := dma r, recv_mapping := dma r\<rparr>) w in
     bnd (ccall V (DmaMap SendBuf (int sizeof_rdma_info)) w) (\<lambda>r w.
     let w = upd (\<lambda>cb. cb\<lparr>send_dma_addr := dma r, send_mapping := dma r\<rparr>) w in
     if mem (ctx w) = DMA then
       bnd (ccall V (IbGetDmaMr (pd (ctx w))
              [IB_ACCESS_LOCAL_WRITE, IB_ACCESS_REMOTE_READ, IB_ACCESS_REMOTE_WRITE]) w) (\<lambda>r w.
       let w = upd (\<lambda>cb. cb\<lparr>dma_mr := obj r\<rparr>) w in
       if dma_mr (ctx w) = Null then setup_buffers_bail_client V (- 1) w
       else megaVM_setup_buffers_heap V w)
     else megaVM_setup_buffers_heap V w)))"

definition megaVM_free_buffers_client :: "verbs \<Rightarrow> client_world \<Rightarrow> (client_world, unit) act" where
  "megaVM_free_buffers_client V w =
     bnd (dereg_if_client V (dma_mr (ctx w) \<noteq> Null) (dma_mr (ctx w)) w) (\<lambda>_ w.
     bnd (dereg_if_client V (send_mr (ctx w) \<noteq> Null) (send_mr (ctx w)) w) (\<lambda>_ w.
     bnd (dereg_if_client V (recv_mr (ctx w) \<noteq> Null) (recv_mr (ctx w)) w) (\<lambda>_ w.
     bnd (dereg_if_client V (rdma_mr (ctx w) \<noteq> Null) (rdma_mr (ctx w)) w) (\<lambda>_ w.
     bnd (dereg_if_client V (start_mr (ctx w) \<noteq> Null) (start_mr (ctx w)) w) (\<lambda>_ w.
     deref (pd (ctx w)) w (
     bnd (ccall V (DmaUnmap (recv_mapping (ctx w)) (int sizeof_rdma_info)) w) (\<lambda>_ w.
     bnd (ccall V (DmaUnmap (send_mapping (ctx w)) (int sizeof_rdma_info)) w) (\<lambda>_ w.
     bnd (ccall V (DmaUnmap (rdma_mapping (ctx w)) (buf_size (ctx w))) w) (\<lambda>_ w.
     bnd (kfree V (client_event V) (rdma_buf (ctx w)) w) (\<lambda>_ w.
     if start_buf (ctx w) \<noteq> Null
     then bnd (ccall V (DmaUnmap (start_mapping (ctx w)) (buf_size (ctx w))) w) (\<lambda>_ w.
            kfree V (client_event V) (start_buf (ctx w)) w)
     else ret () w))))))))))"

section \<open>Queue pair, completion queue and protection domain\<close>

definition megaVM_create_qp :: "verbs \<Rightarrow> client_world \<Rightarrow> (client_world, int) act" where
  "megaVM_create_qp V w =
     bnd (ccall V (RdmaCreateQp (cm_id (ctx w)) (pd (ctx w))
            \<lparr>max_send_wr = txdepth (ctx w), max_recv_wr = 2, max_recv_sge = 1, max_send_sge = 1,
             qp_send_cq = cq (ctx w), qp_recv_cq = cq (ctx w),
             qp_typ = IB_QPT_RC, sq_sig = IB_SIGNAL_REQ_WR\<rparr>) w) (\<lambda>r w.
     if rc r = 0
     then deref (cm_id (ctx w)) w (ret (rc r) (upd (\<lambda>cb. cb\<lparr>qp := id_qp V (cm_id cb)\<rparr>) w))
     else ret (rc r) w)"

definition megaVM_free_qp_client :: "verbs \<Rightarrow> client_world \<Rightarrow> (client_world, unit) act" where
  "megaVM_free_qp_client V w =
     bnd (ccall V (IbDestroyQp (qp (ctx w))) w) (\<lambda>_ w.
     bnd (ccall V (IbDestroyCq (cq (ctx w))) w) (\<lambda>_ w.
     bnd (ccall V (IbDeallocPd (pd (ctx w))) w) (\<lambda>_ w. ret () w)))"

definition megaVM_setup_qp :: "verbs \<Rightarrow> ptr \<Rightarrow> client_world \<Rightarrow> (client_world, int) act" where
  "megaVM_setup_qp V i w =
     (let err1 = (\<lambda>r w. bnd (ccall V (IbDeallocPd (pd (ctx w))) w) (\<lambda>_ w. ret r w));
          err2 = (\<lambda>r w. bnd (ccall V (IbDestroyCq (cq (ctx w))) w) (\<lambda>_ w. err1 r w)) in
      deref i w (
      bnd (ccall V (IbAllocPd i) w) (\<lambda>r w.
      let w = upd (\<lambda>cb. cb\<lparr>pd := obj r\<rparr>) w in
      if IS_ERR (pd (ctx w)) then ret (PTR_ERR (pd (ctx w))) w
      else
        bnd (ccall V (IbCreateCq i (txdepth (ctx w) * 2)) w) (\<lambda>r w.
        let w = upd (\<lambda>cb. cb\<lparr>cq := obj r\<rparr>) w in
        if IS_ERR (cq (ctx w)) then err1 (PTR_ERR (cq (ctx w))) w
        else
          bnd (ccall V (IbReqNotifyCq (cq (ctx w))) w) (\<lambda>r w.
          if rc r \<noteq> 0 then err2 (rc r) w
          else
            bnd (megaVM_create_qp V w) (\<lambda>rt w.
            if rt \<noteq> 0 then err2 rt w else ret 0 w))))))"

section \<open>The advertisement and the ping pattern\<close>

definition megaVM_format_send :: "verbs \<Rightarrow> u64 \<Rightarrow> client_world \<Rightarrow> (client_world, unit) act" where
  "megaVM_format_send V a w =
     deref (dma_mr (ctx w)) w (ret () (upd (\<lambda>cb. cb\<lparr>send_buf :=
       \<lparr>buf = cpu_to_be64 V a, rkey = htonl V (mr_rkey V (dma_mr cb)),
        info_size = htonl V (of_int (buf_size cb))\<rparr>\<rparr>) w))"

definition fill_sockaddr_client :: "client_ctx \<Rightarrow> sockaddr" where
  "fill_sockaddr_client cb =
     (if addr_type cb = AF_INET
      then \<lparr>sin_family = AF_INET, sin_addr = take 4 (addr cb), sin_port = port cb\<rparr>
      else \<lparr>sin_family = 0, sin_addr = replicate 4 0, sin_port = 0\<rparr>)"

text \<open>\<open>sprintf\<close> of a string without conversions: its characters and a NUL, and its length.\<close>

definition ping_prefix :: "u8 list" where
  "ping_prefix = map of_char ''rdma-ping-1: ''"

fun store_bytes :: "u8 list \<Rightarrow> int \<Rightarrow> u8 list \<Rightarrow> u8 list option" where
  "store_bytes m i [] = Some m"
| "store_bytes m i (b # bs) = Option.bind (store m i b) (\<lambda>m. store_bytes m (i + 1) bs)"

text \<open>The loop that writes the letters from \<open>A\<close> to \<open>z\<close> and starts again.\<close>

function fill_letters :: "int \<Rightarrow> int \<Rightarrow> u8 \<Rightarrow> u8 list \<Rightarrow> u8 list option" where
  "fill_letters i n c m =
     (if i < n then
        Option.bind (store m i c) (\<lambda>m.
          let c = c + 1; c = (if c > 122 then 65 else c) in fill_letters (i + 1) n c m)
      else Some m)"
  by pat_completeness auto
termination
  by (relation "measure (\<lambda>(i, n, c, m). nat (n - i))") auto

declare fill_letters.simps [simp del]

definition ping_pattern :: "int \<Rightarrow> u8 list \<Rightarrow> u8 list option" where
  "ping_pattern n m =
     Option.bind (store_bytes m 0 (ping_prefix @ [0])) (\<lambda>m.
     Option.bind (fill_letters (int (length ping_prefix)) n 65 m) (\<lambda>m.
     store m (n - 1) 0))"

definition write_start_buf :: "client_world \<Rightarrow> (client_world, unit) act" where
  "write_start_buf w =
     (case start_buf (ctx w) of
        Ptr a \<Rightarrow>
          (case Option.bind (heap w a) (ping_pattern (buf_size (ctx w))) of
             None \<Rightarrow> Inl (Oops, w)
           | Some m \<Rightarrow> ret () (w\<lparr>heap := (heap w)(a \<mapsto> m)\<rparr>))
      | _ \<Rightarrow> Inl (Oops, w))"

definition megaVM_test_client :: "verbs \<Rightarrow> client_world \<Rightarrow> (client_world, unit) act" where
  "megaVM_test_client V w =
     (let w = set_state RDMA_READ_ADV w in
      bnd (write_start_buf w) (\<lambda>_ w.
      bnd (megaVM_format_send V (start_dma_addr (ctx w)) w) (\<lambda>_ w.
      bnd (ccall V (IbPostSend (qp (ctx w)) (sq_wr (ctx w)) (sge_of (sg_list (sq_wr (ctx w))) (ctx w))) w)
        (\<lambda>_ w.
      bnd (cwait V (\<lambda>cb. RDMA_WRITE_ADV \<le> state cb) w) (\<lambda>_ w. ret () w)))))"

section \<open>Connecting, life cycle and initialisation\<close>

definition megaVM_connect_client :: "verbs \<Rightarrow> client_world \<Rightarrow> (client_world, int) act" where
  "megaVM_connect_client V w =
     bnd (ccall V (RdmaConnect (cm_id (ctx w))
            \<lparr>responder_resources = 1, initiator_depth = 1, retry_count = 10\<rparr>) w) (\<lambda>r w.
     if rc r \<noteq> 0 then ret (rc r) w
     else
       bnd (cwait V (\<lambda>cb. CONNECTED \<le> state cb) w) (\<lambda>_ w.
       if state (ctx w) = ERROR then ret (- 1) w else ret 0 w))"

definition megaVM_bind_client :: "verbs \<Rightarrow> client_world \<Rightarrow> (client_world, int) act" where
  "megaVM_bind_client V w =
     bnd (ccall V (RdmaResolveAddr (cm_id (ctx w)) (fill_sockaddr_client (ctx w)) 2000) w) (\<lambda>r w.
     if rc r \<noteq> 0 then ret (rc r) w
     else
       bnd (cwait V (\<lambda>cb. ROUTE_RESOLVED \<le> state cb) w) (\<lambda>_ w.
       if state (ctx w) \<noteq> ROUTE_RESOLVED then ret (- EINTR) w else ret 0 w))"

definition run_err1 :: "verbs \<Rightarrow> client_world \<Rightarrow> (client_world, unit) act" where
  "run_err1 V w = megaVM_free_qp_client V w"

definition run_err2 :: "verbs \<Rightarrow> client_world \<Rightarrow> (client_world, unit) act" where
  "run_err2 V w = bnd (megaVM_free_buffers_client V w) (\<lambda>_ w. run_err1 V w)"

definition megaVM_run_client :: "verbs \<Rightarrow> client_world \<Rightarrow> (client_world, unit) act" where
  "megaVM_run_client V w =
     bnd (megaVM_bind_client V w) (\<lambda>rt w.
     if rt \<noteq> 0 then ret () w
     else
       bnd (megaVM_setup_qp V (cm_id (ctx w)) w) (\<lambda>rt w.
       if rt \<noteq> 0 then ret () w
       else
         bnd (megaVM_setup_buffers V w) (\<lambda>rt w.
         if rt \<noteq> 0 then run_err1 V w
         else
           bnd (ccall V (IbPostRecv (qp (ctx w)) (rq_wr (ctx w))) w) (\<lambda>r w.
           if rc r \<noteq> 0 then run_err2 V w
           else
             bnd (megaVM_connect_client V w) (\<lambda>rt w.
             if rt \<noteq> 0 then run_err2 V w
             else
               bnd (megaVM_test_client V w) (\<lambda>_ w.
               bnd (ccall V (RdmaDisconnect (cm_id (ctx w))) w) (\<lambda>_ w.
               run_err2 V w)))))))"

definition client_init_ctx :: "verbs \<Rightarrow> client_ctx" where
  "client_init_ctx V =
     \<lparr>server = 0, cq = Null, pd = Null, qp = Null, mem = DMA, dma_mr = Null,
      rq_wr = \<lparr>rq_sg_list = NoSge, rq_num_sge = 0\<rparr>, recv_sgl = zero_sge, recv_buf = zero_info,
      recv_dma_addr = 0, recv_mapping = 0, recv_mr = Null,
      sq_wr = zero_send_wr, send_sgl = zero_sge, send_buf = zero_info,
      send_dma_addr = 0, send_mapping = 0, send_mr = Null,
      rdma_sq_wr = zero_send_wr, rdma_sgl = zero_sge, rdma_buf = Null,
      rdma_dma_addr = 0, rdma_mapping = 0, rdma_mr = Null,
      state = IDLE, stats = zero_stats, port = htons V 9999,
      addr = in4_pton V ''12.12.12.1'' @ replicate 12 0, addr_str = ''12.12.12.1'',
      addr_type = AF_INET, verbose = 0, ping_count = 1, buf_size = 64, validate = 0,
      txdepth = RPING_SQ_DEPTH, cm_id = Null, child_cm_id = Null,
      start_buf = Null, start_dma_addr = 0, start_mapping = 0, start_mr = Null\<rparr>"

definition megaVM_doit :: "verbs \<Rightarrow> client_world \<Rightarrow> (client_world, int) act" where
  "megaVM_doit V w =
     bnd (kzalloc V w) (\<lambda>cb w.
     if cb = Null then ret (- 1) w
     else
       let w = upd (\<lambda>_. client_init_ctx V) w in
       bnd (ccall V RdmaCreateId w) (\<lambda>r w.
       let w = upd (\<lambda>cb. cb\<lparr>cm_id := obj r\<rparr>) w in
       if cm_id (ctx w) = Null
       then bnd (kfree V (client_event V) cb w) (\<lambda>_ w. ret (- 1) w)
       else
         bnd (megaVM_run_client V w) (\<lambda>_ w.
         bnd (ccall V (RdmaDestroyId (cm_id (ctx w))) w) (\<lambda>_ w.
         bnd (kfree V (client_event V) cb w) (\<lambda>_ w. ret 0 w)))))"

end
