(* ===== verification/ServerProps.thy ===== *)
theory ServerProps
  imports ServerLemmas ClientMain
begin

text \<open>
  The properties of the RDMA server, with a concrete environment in which their hypotheses
  hold: a peer that connects, advertises a buffer, and completes every request.
\<close>

section \<open>A concrete environment\<close>

definition wc_ok :: "wc_opcode \<Rightarrow> ib_wc" where
  "wc_ok op = \<lparr>wc_status = IB_WC_SUCCESS, wc_op = op, byte_len = 16\<rparr>"

definition wc_bad :: "wc_status \<Rightarrow> ib_wc" where
  "wc_bad s = \<lparr>wc_status = s, wc_op = IB_WC_SEND, byte_len = 0\<rparr>"

definition plain :: "int \<Rightarrow> ptr \<Rightarrow> event list \<Rightarrow> reply" where
  "plain r p es = \<lparr>rc = r, obj = p, dma = 4096, fill = (\<lambda>_. 0), events = es\<rparr>"

text \<open>The objects the calls return; \<open>es\<close> is what happens while the server sleeps.\<close>

definition peer :: "event list \<Rightarrow> ptr \<Rightarrow> call list \<Rightarrow> reply" where
  "peer es q h = (case last h of
      Kzalloc \<Rightarrow> plain 0 (Ptr 1) []
    | RdmaCreateId \<Rightarrow> plain 0 (Ptr 2) []
    | IbAllocPd i \<Rightarrow> plain 0 (Ptr 4) []
    | IbCreateCq i n \<Rightarrow> plain 0 q []
    | IbGetDmaMr p a \<Rightarrow> plain 0 (Ptr 6) []
    | Kmalloc n \<Rightarrow> plain 0 (Ptr 7) []
    | WaitEvent \<Rightarrow> plain 0 Null es
    | _ \<Rightarrow> plain 0 Null [])"

definition peer_verbs :: "event list \<Rightarrow> ptr \<Rightarrow> int \<Rightarrow> verbs" where
  "peer_verbs es q u = \<lparr>answer = peer es q, mr_lkey = (\<lambda>_. 1), mr_rkey = (\<lambda>_. 2), id_qp = (\<lambda>_. Ptr 8),
     htons = swab16, htonl = swab32, cpu_to_be64 = swab64, in4_pton = (\<lambda>_. [12, 12, 12, 1]), uninit = u\<rparr>"

definition quiet_verbs :: verbs where
  "quiet_verbs = peer_verbs [] (Ptr 5) 5"

definition server_world0 :: "server_ctx \<Rightarrow> server_world" where
  "server_world0 c = \<lparr>ctx = c, log = [], heap = Map.empty, woken = False\<rparr>"

text \<open>A control block after \<open>setup_pd_and_qp\<close> and \<open>setup_buffers\<close>.\<close>

definition ready_ctx :: server_ctx where
  "ready_ctx = (server_init_ctx quiet_verbs)\<lparr>cq := Ptr 5, pd := Ptr 4, qp := Ptr 8, dma_mr := Ptr 6,
     rdma_buf := Ptr 7, rdma_sq_wr := zero_send_wr\<lparr>wr_flags := IB_SEND_SIGNALED, sg_list := RdmaSgl, num_sge := 1\<rparr>\<rparr>"

lemma silent_quiet_verbs [simp]: "silent quiet_verbs"
  by (simp add: silent_def quiet_verbs_def peer_verbs_def peer_def plain_def split: call.splits)

lemma rc_quiet_verbs [simp]: "rc (answer quiet_verbs h) = 0"
  by (simp add: quiet_verbs_def peer_verbs_def peer_def plain_def split: call.splits)

lemmas env_defs = quiet_verbs_def peer_verbs_def peer_def plain_def wc_ok_def wc_bad_def server_world0_def
  reply_to_def hcall_def ready_ctx_def server_init_ctx_def

text \<open>
  A peer that talks: while the server sleeps for the first time a connection is requested; for the second time,
  it is established and an advertisement arrives; then the read and the write complete. Nothing happens after that.
\<close>

fun waits :: "call list \<Rightarrow> nat" where
  "waits [] = 0"
| "waits (WaitEvent # h) = Suc (waits h)"
| "waits (c # h) = waits h"

definition speaker :: "call list \<Rightarrow> event list" where
  "speaker h =
     (if last h \<noteq> WaitEvent then []
      else if waits h = 1 then [CmEvent (Ptr 3) RDMA_CM_EVENT_CONNECT_REQUEST, Run]
      else if waits h = 2 then [CmEvent (Ptr 3) RDMA_CM_EVENT_ESTABLISHED, DmaRecv \<lparr>buf = 1, rkey = 2, info_size = 3\<rparr>,
        CqEvent (Ptr 5) [Completion (wc_ok IB_WC_RECV)], Run]
      else if waits h = 3 then [DmaHeap 7 [65, 66, 0], CqEvent (Ptr 5) [Completion (wc_ok IB_WC_RDMA_READ)], Run]
      else if waits h = 4 then [CqEvent (Ptr 5) [Completion (wc_ok IB_WC_RDMA_WRITE)], Run]
      else [])"

definition serving :: verbs where
  "serving = quiet_verbs\<lparr>answer := (\<lambda>h. peer (speaker h) (Ptr 5) h)\<rparr>"

text \<open>The world in which \<open>initialisation\<close> calls \<open>megaVM_StartServer\<close>, and the run to the end of the first round.\<close>

definition serving_world :: server_world where
  "serving_world = \<lparr>ctx = (server_init_ctx serving)\<lparr>cm_id := Ptr 2\<rparr>, log = [Kzalloc, RdmaCreateId], heap = [1 \<mapsto> []], woken = False\<rparr>"

definition returns :: "('w, 'a) act \<Rightarrow> ('a \<Rightarrow> 'w \<Rightarrow> bool) \<Rightarrow> bool" where
  "returns m P = (case m of Inl e \<Rightarrow> False | Inr (r, w) \<Rightarrow> P r w)"

lemma returnsE: "returns m P \<Longrightarrow> (\<And>r w. m = Inr (r, w) \<Longrightarrow> P r w \<Longrightarrow> Q) \<Longrightarrow> Q"
  by (auto simp: returns_def split: sum.splits)

definition first_round_done :: "server_world \<Rightarrow> bool" where
  "first_round_done w \<longleftrightarrow> state (ctx w) = RDMA_WRITE_COMPLETE \<and> waits (log w) = 4 \<and> rdma_ready (ctx w) \<and>
     rdma_buf (ctx w) = Ptr 7 \<and> map_option strlen (heap w 7) = Some (Some 2) \<and> is_obj (pd (ctx w)) \<and>
     {Kmalloc 64, DmaMap (HeapBuf (Ptr 7)) 64} \<subseteq> set (log w) \<and> length (filter acquires (log w)) = 8"

lemma serving_run:
  "returns (bind_server serving serving_world) (\<lambda>r w. r = 0 \<and>
   returns (setup_pd_and_qp serving (child_cm_id (ctx w)) w) (\<lambda>r w. r = 0 \<and>
   returns (setup_buffers serving w) (\<lambda>r w. r = 0 \<and>
   returns (scall serving (IbPostRecv (qp (ctx w)) (rq_wr (ctx w))) w) (\<lambda>r w. rc r = 0 \<and>
   returns (accept_connections serving w) (\<lambda>r w. r = 0 \<and>
   returns (swait serving (\<lambda>cb. RDMA_READ_ADV \<le> state cb) w) (\<lambda>r w.
   returns (megaVM_rdma_read serving w) (\<lambda>r w.
   returns (megaVM_rdma_write serving w) (\<lambda>r w. first_round_done w))))))))"
  by code_simp

lemma waits_append [simp]: "waits (h @ cs) = waits h + waits cs"
  by (induction h rule: waits.induct) simp_all

lemma waits_last: "cs \<noteq> [] \<Longrightarrow> last cs = WaitEvent \<Longrightarrow> 0 < waits cs"
  by (induction cs rule: waits.induct) (auto split: if_splits)

lemma events_serving: "events (answer serving h) = speaker h"
  by (simp add: serving_def peer_def plain_def speaker_def split: call.splits)

lemma serving_silent_after:
  assumes "4 \<le> waits h"
  shows "silent_after serving h"
proof -
  have "speaker (h @ c # cs) = []" for c cs
    using assms waits_last [of "c # cs"] by (auto simp: speaker_def)
  then show ?thesis by (simp add: silent_after_def events_serving)
qed

text \<open>The server up to the end of its first round, and what it does after it: it returns without sleeping again.\<close>

definition first_round :: "verbs \<Rightarrow> server_world \<Rightarrow> (server_world, unit) act" where
  "first_round V w =
     bnd (bind_server V w) (\<lambda>_ w.
     bnd (setup_pd_and_qp V (child_cm_id (ctx w)) w) (\<lambda>_ w.
     bnd (setup_buffers V w) (\<lambda>_ w.
     bnd (scall V (IbPostRecv (qp (ctx w)) (rq_wr (ctx w))) w) (\<lambda>_ w.
     bnd (accept_connections V w) (\<lambda>_ w.
     bnd (swait V (\<lambda>cb. RDMA_READ_ADV \<le> state cb) w) (\<lambda>_ w.
     bnd (megaVM_rdma_read V w) (\<lambda>_ w. megaVM_rdma_write V w)))))))"

lemma serving_first_round: "\<exists>w. first_round serving serving_world = Inr ((), w) \<and> first_round_done w"
  using serving_run by (auto simp: first_round_def elim!: returnsE)

lemma first_round_doneE:
  assumes "first_round_done w"
  obtains m where "heap w 7 = Some m" "strlen m = Some 2" "silent_after serving (log w)" "rdma_ready (ctx w)"
    "rdma_buf (ctx w) = Ptr 7" "RDMA_WRITE_COMPLETE \<le> state (ctx w)"
  using assms serving_silent_after [of "log w"] by (auto simp: first_round_done_def)

lemma serving_StartServer:
  "\<exists>w'. megaVM_StartServer serving serving_world = Inr ((), w') \<and> silent_after serving (log w') \<and>
     is_obj (pd (ctx w')) \<and> {Kmalloc 64, DmaMap (HeapBuf (Ptr 7)) 64} \<subseteq> set (log w') \<and> 8 \<le> length (filter acquires (log w'))"
proof -
  from serving_run obtain w1 w2 w3 w4 w5 w6 w7 w8 r4 r6 where
    run: "bind_server serving serving_world = Inr (0, w1)" "setup_pd_and_qp serving (child_cm_id (ctx w1)) w1 = Inr (0, w2)"
      "setup_buffers serving w2 = Inr (0, w3)" "scall serving (IbPostRecv (qp (ctx w3)) (rq_wr (ctx w3))) w3 = Inr (r4, w4)"
      "rc r4 = 0" "accept_connections serving w4 = Inr (0, w5)" "swait serving (\<lambda>cb. RDMA_READ_ADV \<le> state cb) w5 = Inr (r6, w6)"
      "megaVM_rdma_read serving w6 = Inr ((), w7)" "megaVM_rdma_write serving w7 = Inr ((), w8)"
    and fin: "first_round_done w8"
    by (auto elim!: returnsE)
  from fin obtain m where m: "heap w8 7 = Some m" "strlen m = Some 2" "silent_after serving (log w8)" "rdma_ready (ctx w8)"
    "rdma_buf (ctx w8) = Ptr 7" "RDMA_WRITE_COMPLETE \<le> state (ctx w8)" by (rule first_round_doneE)
  obtain w9 rs where w9: "rdma_rounds serving 9 w8 = Inr ((), w9)" "log w9 = log w8 @ rs"
    using rdma_rounds_silent [OF m(3,4,5,1,2,6)] by blast
  have "post (\<lambda>_ w'. still w8 w') (rdma_rounds serving 9 w8)" by (rule rdma_rounds_still)
  then have pd9: "pd (ctx w9) = pd (ctx w8)" by (simp add: w9 still_def same_fields_def)
  have s9: "silent_after serving (log w9)" unfolding w9(2) by (rule silent_after_append [OF m(3)])
  have "rdma_rounds serving 10 w6 = Inr ((), w9)"
    using run(8,9) w9(1) by (simp add: eval_nat_numeral)
  moreover obtain r10 w10 where w10: "post_send serving (sq_wr (ctx w9)) w9 = Inr (r10, w10)" "ctx w10 = ctx w9"
      "\<exists>c. log w10 = log w9 @ [c]"
    using s9 by (auto simp: post_send_def ret_def)
  ultimately have start: "start_MegaVM_server serving w5 = Inr ((), w10)"
    using run(7) by (simp add: start_MegaVM_server_def ret_def del: rdma_rounds.simps)
  have s10: "silent_after serving (log w10)" using w10(3) s9 by auto
  let ?c = "RdmaDisconnect (child_cm_id (ctx w10))"
  obtain w' cs where w': "start_err2 serving (record_call ?c w10) = Inr ((), w')" "log w' = log w10 @ ?c # cs" "ctx w' = ctx w10"
    using start_err2_silent [of serving "record_call ?c w10"] s10 w10(2) pd9 fin
    by (auto simp: first_round_done_def)
  have "megaVM_StartServer serving serving_world = Inr ((), w')"
    using run(1-6) start s10 w'(1) by (simp add: megaVM_StartServer_def)
  moreover have "silent_after serving (log w')" unfolding w'(2) by (rule silent_after_append [OF s10])
  moreover have "is_obj (pd (ctx w'))" "{Kmalloc 64, DmaMap (HeapBuf (Ptr 7)) 64} \<subseteq> set (log w')"
    "8 \<le> length (filter acquires (log w'))"
    using fin w'(2,3) w10 pd9 w9(2) by (auto simp: first_round_done_def)
  ultimately show ?thesis by blast
qed

lemma serving_call: "c \<noteq> WaitEvent \<Longrightarrow> call serving H c w = Inr (reply_to serving c w, record_call c w)"
  by (simp add: call_def events_serving speaker_def reply_to_def ret_def)

lemma serving_initialisation:
  "\<exists>w'. initialisation serving (server_world0 ready_ctx) = Inr (0, w') \<and> is_obj (pd (ctx w')) \<and> Kmalloc 64 \<in> set (log w')"
proof -
  obtain w' where w': "megaVM_StartServer serving serving_world = Inr ((), w')" "silent_after serving (log w')"
    "is_obj (pd (ctx w'))" "Kmalloc 64 \<in> set (log w')"
    using serving_StartServer by auto
  define v where "v = (record_call Kzalloc (server_world0 ready_ctx))\<lparr>heap := [1 \<mapsto> []]\<rparr>"
  define u where "u = upd (\<lambda>_. server_init_ctx serving) v"
  have k: "kzalloc serving (server_world0 ready_ctx) = Inr (Ptr 1, v)"
    by (simp add: kzalloc_def hcall_def serving_def peer_def plain_def reply_to_def server_world0_def ret_def v_def)
  have c: "obj (reply_to serving RdmaCreateId u) = Ptr 2"
    by (simp add: reply_to_def serving_def peer_def plain_def)
  have s: "upd (\<lambda>cb. cb\<lparr>cm_id := Ptr 2\<rparr>) (record_call RdmaCreateId u) = serving_world"
    by (simp add: upd_def record_call_def server_world0_def serving_world_def u_def v_def)
  show ?thesis
    using w' unfolding initialisation_def k Let_def
    by (simp add: u_def [symmetric] serving_call c s kfree_def ret_def)
qed

section \<open>Completions\<close>

text \<open>
  C1: A run of the server's polling loop that does not fail moves the protocol state by
  \<open>server_step\<close> and the statistics by \<open>count_completion\<close>, once per successful completion and
  in their order; flushed completions and the end of the queue change nothing.
\<close>

theorem server_protocol:
  assumes "server (ctx w) \<noteq> 0" "cq_loop_server V ps w = Inr (False, w')"
  shows "state (ctx w') = foldl server_step (state (ctx w)) (good_ops ps) \<and>
    stats (ctx w') = foldl (count_completion (sge_length (send_sgl (ctx w))) (rdma_len (ctx w)))
      (stats (ctx w)) (good_ops ps)"
  using server_poll.loop_fold_result [where v = w and w = w and ps = ps, OF _ assms(2)] assms(1)
  by (simp add: server_obs_def server_obs_step_def foldl_pair)

theorem server_protocol_witness:
  "\<exists>w'. cq_loop_server quiet_verbs [Completion (wc_bad IB_WC_WR_FLUSH_ERR), Completion (wc_ok IB_WC_RECV), PollRet 0]
     (server_world0 ready_ctx) = Inr (False, w') \<and> state (ctx w') = RDMA_READ_ADV"
proof -
  have s: "server (ctx (server_world0 ready_ctx)) \<noteq> 0" by (simp add: env_defs)
  obtain w' where w': "cq_loop_server quiet_verbs [Completion (wc_bad IB_WC_WR_FLUSH_ERR),
      Completion (wc_ok IB_WC_RECV), PollRet 0] (server_world0 ready_ctx) = Inr (False, w')"
    by (simp add: env_defs server_recv_def sizeof_rdma_info_def Let_def ret_def)
  have "state (ctx w') = RDMA_READ_ADV"
    using server_protocol [OF s w'] by (simp add: env_defs test_state_order)
  with w' show ?thesis by blast
qed

text \<open>
  C2: From a connected (or finished) state, the completions of a ping (advertisement, read,
  advertisement, write, and again) lead through \<open>RDMA_READ_ADV\<close>, \<open>RDMA_READ_COMPLETE\<close>,
  \<open>RDMA_WRITE_ADV\<close> and \<open>RDMA_WRITE_COMPLETE\<close>, wherever the sequence is cut, and the message
  counters count them.
\<close>

theorem server_ping:
  assumes "server (ctx w) \<noteq> 0" "state (ctx w) \<le> CONNECTED \<or> state (ctx w) = RDMA_WRITE_COMPLETE"
    "good_ops ps = ping_ops (Suc n)" "cq_loop_server V ps w = Inr (False, w')"
  shows "state (ctx w') = ping_state (Suc n) \<and>
    recv_msgs (stats (ctx w')) = recv_msgs (stats (ctx w)) + of_nat ((Suc n + 1) div 2) \<and>
    read_msgs (stats (ctx w')) = read_msgs (stats (ctx w)) + of_nat ((Suc n + 2) div 4) \<and>
    write_msgs (stats (ctx w')) = write_msgs (stats (ctx w)) + of_nat (Suc n div 4)"
  using server_poll.loop_fold_result [where v = w and w = w and ps = ps, OF _ assms(4)] assms(1)
  unfolding server_obs_def server_obs_step_def foldl_pair assms(3) fold_ping [OF assms(2)]
  by (simp only: count_completion_counts ping_ops_counts prod.inject simp_thms server_keeps_refl)

theorem server_ping_witness:
  "\<exists>w'. cq_loop_server quiet_verbs (map (\<lambda>x. Completion (wc_ok x)) [IB_WC_RECV, IB_WC_RDMA_READ, IB_WC_RECV, IB_WC_RDMA_WRITE])
     (server_world0 ready_ctx) = Inr (False, w') \<and> state (ctx w') = RDMA_WRITE_COMPLETE \<and> write_msgs (stats (ctx w')) = 1"
proof -
  let ?ps = "map (\<lambda>x. Completion (wc_ok x)) [IB_WC_RECV, IB_WC_RDMA_READ, IB_WC_RECV, IB_WC_RDMA_WRITE]"
  have s: "server (ctx (server_world0 ready_ctx)) \<noteq> 0"
      "state (ctx (server_world0 ready_ctx)) \<le> CONNECTED \<or> state (ctx (server_world0 ready_ctx)) = RDMA_WRITE_COMPLETE"
    by (simp_all add: env_defs test_state_order)
  have p: "good_ops ?ps = ping_ops (Suc 3)"
    by code_simp
  have "\<exists>w'. cq_loop_server quiet_verbs ?ps (server_world0 ready_ctx) = Inr (False, w')"
  proof (rule server_loop_ok)
    show "\<exists>wc. p = Completion wc \<and> wc_status wc = IB_WC_SUCCESS \<and> wc_op wc \<noteq> IB_WC_OTHER \<and>
        byte_len wc = of_nat sizeof_rdma_info" if "p \<in> set ?ps" for p
      using that by (auto simp: wc_ok_def sizeof_rdma_info_def)
  qed (simp_all add: server_world0_def ready_ctx_def)
  then obtain w' where w': "cq_loop_server quiet_verbs ?ps (server_world0 ready_ctx) = Inr (False, w')"
    by blast
  from server_ping [OF s p w'] w' show ?thesis
    by (auto simp: env_defs zero_stats_def simp del: cq_loop_server.simps)
qed

text \<open>
  C3: Once the RDMA work request has its scatter entry, the polling loop comes back from every
  list of completions, whatever they are, and touches nothing of the main thread's part of the
  control block, of the heap's shape and of the resource history.
\<close>

theorem server_loop_total:
  assumes "sg_list (rdma_sq_wr (ctx w)) \<noteq> NoSge"
  shows "\<exists>failed w'. cq_loop_server V ps w = Inr (failed, w') \<and> server_keeps w w'"
proof -
  have "\<exists>r. cq_loop_server V ps v = Inr r" if "sg_list (rdma_sq_wr (ctx v)) \<noteq> NoSge" for v
    using that
  proof (induction ps arbitrary: v)
    case (Cons p ps)
    have *: "\<exists>r. cq_loop_server V [p] v = Inr r"
      by (cases p, cases "wc_op (case p of Completion wc \<Rightarrow> wc)"; cases "sg_list (rdma_sq_wr (ctx v))")
        (use Cons.prems in \<open>auto simp: Let_def hcall_def split: prod.splits\<close>)
    show ?case
    proof (cases p)
      case (PollRet r)
      then show ?thesis by simp
    next
      case (Completion wc)
      from * Completion obtain f u where u: "cq_loop_server V [Completion wc] v = Inr (f, u)" by fastforce
      then have "server_keeps v u" using cq_loop_server_keeps [of v V "[Completion wc]"] by simp
      then have "sg_list (rdma_sq_wr (ctx u)) \<noteq> NoSge"
        using Cons.prems by (auto simp: server_keeps_def server_frameD)
      from Cons.IH [OF this] show ?thesis
        unfolding Completion
        by (subst cq_loop_server_cons, subst u, cases f) (auto simp: ret_def simp del: cq_loop_server.simps )
    qed
  qed (auto simp: ret_def simp del: ret_eq_Inr)
  then show ?thesis
    using assms cq_loop_server_keeps [of w V ps] by fastforce
qed

theorem server_loop_total_witness:
  "\<exists>failed w'. cq_loop_server quiet_verbs [Completion (wc_ok IB_WC_RDMA_WRITE)] (server_world0 ready_ctx) = Inr (failed, w') \<and>
     server_keeps (server_world0 ready_ctx) w'"
  by (rule server_loop_total) (simp add: env_defs zero_send_wr_def)

text \<open>
  C4: A completion with a hard error ends the handler: after any number of flushed completions
  the state is \<open>ERROR\<close>, the sleeper is woken, and nothing behind the error is looked at.
\<close>

theorem server_hard_error:
  assumes "state (ctx w) \<noteq> ERROR"
    and "\<forall>p\<in>set fl. \<exists>wc. p = Completion wc \<and> wc_status wc = IB_WC_WR_FLUSH_ERR"
    and "wc_status bad = IB_WC_OTHER_ERR"
  shows "server_event V (CqEvent (cq (ctx w)) (fl @ Completion bad # ps)) w =
    Inr ((), wake_up_interruptible (set_state ERROR (record_call (IbReqNotifyCq (cq (ctx w))) w)))"
  using assms by (simp add: megaVM_cq_event_handler_server_def hcall_def flushed_loop ret_def)

theorem server_hard_error_witness:
  "\<exists>w'. server_event quiet_verbs (CqEvent (Ptr 5) ([Completion (wc_bad IB_WC_WR_FLUSH_ERR)] @
     Completion (wc_bad IB_WC_OTHER_ERR) # [Completion (wc_ok IB_WC_RECV)])) (server_world0 ready_ctx) = Inr ((), w') \<and>
     state (ctx w') = ERROR \<and> woken w'"
proof -
  have "cq (ctx (server_world0 ready_ctx)) = Ptr 5" "state (ctx (server_world0 ready_ctx)) \<noteq> ERROR"
    by (simp_all add: server_world0_def ready_ctx_def server_init_ctx_def)
  with server_hard_error [of "server_world0 ready_ctx" "[Completion (wc_bad IB_WC_WR_FLUSH_ERR)]"
    "wc_bad IB_WC_OTHER_ERR" quiet_verbs "[Completion (wc_ok IB_WC_RECV)]"]
  show ?thesis by (simp add: wc_bad_def del: server_event.simps)
qed

section \<open>Sleeping and waking\<close>

text \<open>
  C5: No lost wake-up, with one exception: if the events that happen while the server sleeps leave the
  state at or beyond the awaited one, the sleeper returns with 0 as soon as the scheduler runs it, in the
  world those events left; unless it waits for a state up to \<open>ADDR_RESOLVED\<close> (as \<open>bind_server\<close>
  does) and one of the events is \<open>ADDR_RESOLVED\<close>, the one event that moves the state and wakes nobody.
\<close>

theorem server_wakes_sleeper:
  assumes "ADDR_RESOLVED < s \<or> (\<forall>e\<in>set es. \<not> resolves_addr e)" "state (ctx w) < s"
    and "events (reply_to V WaitEvent w) = es @ [Run]" "Run \<notin> set es" "Signal \<notin> set es"
    and "deliver (server_event V) es ((record_call WaitEvent w)\<lparr>woken := False\<rparr>) = Inr ((), w')"
    and "s \<le> state (ctx w')"
  shows "wait_event V (server_event V) (\<lambda>cb. s \<le> state cb) w = Inr (0, w')"
proof -
  have "wakes_at s ((record_call WaitEvent w)\<lparr>woken := False\<rparr>) w'"
    using deliver_server_wakes [OF assms(1)] assms(6) by (metis postD)
  with assms(2,7) have "woken w'" by (auto simp: wakes_at_def not_less [symmetric])
  with assms show ?thesis
    by (simp add: wait_event_def wait_loop_asleep_events [OF assms(4,5,6)] not_le ret_def)
qed

theorem server_wakes_sleeper_witness:
  "(\<exists>w'. let V = peer_verbs [CqEvent (Ptr 5) [Completion (wc_ok IB_WC_RDMA_READ)], Run] (Ptr 5) 5 in
     wait_event V (server_event V) (\<lambda>cb. RDMA_READ_COMPLETE \<le> state cb) (server_world0 ready_ctx) = Inr (0, w')) \<and>
   (\<exists>w'. let V = peer_verbs [CmEvent (Ptr 3) RDMA_CM_EVENT_CONNECT_REQUEST, Run] (Ptr 5) 5 in
     wait_event V (server_event V) (\<lambda>cb. CONNECT_REQUEST \<le> state cb) (server_world0 ready_ctx) = Inr (0, w'))"
proof
  let ?es = "[CqEvent (Ptr 5) [Completion (wc_ok IB_WC_RDMA_READ)]]"
  let ?V = "peer_verbs [CqEvent (Ptr 5) [Completion (wc_ok IB_WC_RDMA_READ)], Run] (Ptr 5) 5"
  obtain w' where w': "deliver (server_event ?V) ?es
      ((record_call WaitEvent (server_world0 ready_ctx))\<lparr>woken := False\<rparr>) = Inr ((), w')"
    "state (ctx w') = RDMA_READ_COMPLETE"
    by (simp add: env_defs megaVM_cq_event_handler_server_def zero_send_wr_def ret_def)
  have "wait_event ?V (server_event ?V) (\<lambda>cb. RDMA_READ_COMPLETE \<le> state cb) (server_world0 ready_ctx) = Inr (0, w')"
    by (rule server_wakes_sleeper [where es = ?es])
      (use w' in \<open>simp_all add: env_defs test_state_order\<close>)
  then show "\<exists>w'. let V = ?V in wait_event V (server_event V) (\<lambda>cb. RDMA_READ_COMPLETE \<le> state cb)
      (server_world0 ready_ctx) = Inr (0, w')" by (auto simp: Let_def)
next
  let ?es = "[CmEvent (Ptr 3) RDMA_CM_EVENT_CONNECT_REQUEST]"
  let ?V = "peer_verbs [CmEvent (Ptr 3) RDMA_CM_EVENT_CONNECT_REQUEST, Run] (Ptr 5) 5"
  obtain w' where w': "deliver (server_event ?V) ?es
      ((record_call WaitEvent (server_world0 ready_ctx))\<lparr>woken := False\<rparr>) = Inr ((), w')"
    "state (ctx w') = CONNECT_REQUEST"
    by (simp add: env_defs megaVM_cma_event_handler_server_def ret_def)
  have "wait_event ?V (server_event ?V) (\<lambda>cb. CONNECT_REQUEST \<le> state cb) (server_world0 ready_ctx) = Inr (0, w')"
    by (rule server_wakes_sleeper [where es = ?es])
      (use w' in \<open>simp_all add: env_defs test_state_order\<close>)
  then show "\<exists>w'. let V = ?V in wait_event V (server_event V) (\<lambda>cb. CONNECT_REQUEST \<le> state cb)
      (server_world0 ready_ctx) = Inr (0, w')" by (auto simp: Let_def)
qed

text \<open>The exception is real: \<open>ADDR_RESOLVED\<close> satisfies the condition of the sleeper and leaves it asleep.\<close>

lemma server_lost_wakeup:
  assumes "state (ctx w) < s" "s \<le> ADDR_RESOLVED" "events (reply_to V WaitEvent w) = [CmEvent i RDMA_CM_EVENT_ADDR_RESOLVED, Run]"
    and "rc (answer V (log w @ [WaitEvent, RdmaResolveRoute i 2000])) = 0"
  shows "\<exists>w'. wait_event V (server_event V) (\<lambda>cb. s \<le> state cb) w = Inl (Asleep, w') \<and> s \<le> state (ctx w')"
  using assms
  by (simp add: wait_event_def megaVM_cma_event_handler_server_def hcall_def reply_to_def not_le)

section \<open>RDMA operations\<close>

text \<open>
  C6: \<open>megaVM_rdma_read\<close> posts exactly one request: a read of the advertised length, whatever
  the size of the local buffer, from the advertised address and key; then it sleeps unless the
  state already says that a read is complete.
\<close>

theorem rdma_read_posts:
  assumes "silent V" "rdma_ready (ctx w)"
  shows "\<exists>w'. log w' = log w @ [read_request V (ctx w)] @
       (if state (ctx w) < RDMA_READ_COMPLETE then [WaitEvent] else []) \<and>
     heap w' = heap w \<and>
     megaVM_rdma_read V w =
       (if state (ctx w) < RDMA_READ_COMPLETE then Inl (Asleep, w') else Inr ((), w'))"
  using rdma_read_silent [OF silent_silent_after [OF assms(1)] assms(2)] by auto

theorem rdma_read_posts_witness:
  "\<exists>w'. log w' = [read_request quiet_verbs (ready_ctx\<lparr>remote_len := 0xFFFFFFFF\<rparr>), WaitEvent] \<and>
     megaVM_rdma_read quiet_verbs (server_world0 (ready_ctx\<lparr>remote_len := 0xFFFFFFFF\<rparr>)) = Inl (Asleep, w')"
  using rdma_read_posts [of quiet_verbs "server_world0 (ready_ctx\<lparr>remote_len := 0xFFFFFFFF\<rparr>)"]
  by (auto simp: rdma_ready_def server_world0_def ready_ctx_def server_init_ctx_def test_state_order)

text \<open>
  C7: \<open>megaVM_rdma_write\<close> takes the length it sends from the buffer the peer fills. If there is a NUL
  in the buffer, it sends the string before the first one with that NUL, bytes that lie inside the buffer, to the
  advertised address, then it sleeps unless the state already says that a write is complete. If
  there is none, it runs off the end of the buffer before anything is posted.
\<close>

theorem rdma_write_posts:
  assumes "silent V" "rdma_ready (ctx w)" "rdma_buf (ctx w) = Ptr a" "heap w a = Some m"
  shows "if 0 \<in> set m
    then \<exists>k w'. k < length m \<and> m ! k = 0 \<and> (\<forall>i<k. m ! i \<noteq> 0) \<and>
      log w' = log w @ [write_request V k (ctx w)] @
        (if state (ctx w) < RDMA_WRITE_COMPLETE then [WaitEvent] else []) \<and>
      megaVM_rdma_write V w =
        (if state (ctx w) < RDMA_WRITE_COMPLETE then Inl (Asleep, w') else Inr ((), w'))
    else \<exists>w'. megaVM_rdma_write V w = Inl (Oops, w') \<and> log w' = log w"
proof (cases "strlen m")
  case None
  then show ?thesis
    using rdma_write_no_string [OF silent_silent_after [OF assms(1)] assms(2-4)] by (simp add: strlen_None_iff)
next
  case (Some k)
  then have "0 \<in> set m" using strlen_None_iff [of m] by auto
  with Some show ?thesis
    using rdma_write_silent [OF silent_silent_after [OF assms(1)] assms(2-4) Some] strlen_bound [OF Some] by auto
qed

theorem rdma_write_posts_witness:
  "(\<exists>k w'. [65, 66, 0, 67 :: u8] ! k = 0 \<and> k < 4 \<and> log w' = [write_request quiet_verbs k ready_ctx, WaitEvent] \<and>
     megaVM_rdma_write quiet_verbs ((server_world0 ready_ctx)\<lparr>heap := [7 \<mapsto> [65, 66, 0, 67]]\<rparr>) = Inl (Asleep, w')) \<and>
   (\<exists>w'. megaVM_rdma_write quiet_verbs ((server_world0 ready_ctx)\<lparr>heap := [7 \<mapsto> replicate 64 65]\<rparr>) = Inl (Oops, w') \<and>
     log w' = [])"
  using rdma_write_posts [of quiet_verbs "(server_world0 ready_ctx)\<lparr>heap := [7 \<mapsto> [65, 66, 0, 67]]\<rparr>" 7 "[65, 66, 0, 67]"]
    rdma_write_posts [of quiet_verbs "(server_world0 ready_ctx)\<lparr>heap := [7 \<mapsto> replicate 64 65]\<rparr>" 7 "replicate 64 65"]
  by (auto simp: rdma_ready_def server_world0_def ready_ctx_def server_init_ctx_def test_state_order)

text \<open>
  C8: Once the state is \<open>RDMA_WRITE_COMPLETE\<close>, and as long as no completion or other event is delivered,
  the rounds of the ping loop no longer wait for anything: nothing in the loop resets the state, so
  \<open>n\<close> rounds post \<open>n\<close> reads and \<open>n\<close> writes back to back. (A read completion delivered later sets
  \<open>RDMA_READ_COMPLETE\<close>, and the next write waits again.)
\<close>

theorem rdma_rounds_stale:
  assumes "silent_after V (log w)" "rdma_ready (ctx w)" "rdma_buf (ctx w) = Ptr a" "heap w a = Some m" "strlen m = Some k"
    "RDMA_WRITE_COMPLETE \<le> state (ctx w)"
  shows "\<exists>w' rs. rdma_rounds V n w = Inr ((), w') \<and> log w' = log w @ rs \<and>
    map posted_op rs = concat (replicate n [Some IB_WR_RDMA_READ, Some IB_WR_RDMA_WRITE])"
  using rdma_rounds_silent [OF assms] .

theorem rdma_rounds_stale_witness:
  "\<exists>w w' rs. first_round serving serving_world = Inr ((), w) \<and> rdma_rounds serving 9 w = Inr ((), w') \<and> log w' = log w @ rs \<and>
    map posted_op rs = concat (replicate 9 [Some IB_WR_RDMA_READ, Some IB_WR_RDMA_WRITE])"
proof -
  obtain w where w: "first_round serving serving_world = Inr ((), w)" "first_round_done w"
    using serving_first_round by blast
  obtain m where "heap w 7 = Some m" "strlen m = Some 2" "silent_after serving (log w)" "rdma_ready (ctx w)"
    "rdma_buf (ctx w) = Ptr 7" "RDMA_WRITE_COMPLETE \<le> state (ctx w)"
    using w(2) by (rule first_round_doneE)
  with rdma_rounds_stale [of serving w 7 m 2 9] w(1) show ?thesis by blast
qed

section \<open>Set-up and teardown\<close>

text \<open>
  C9: Provided the uninitialised \<open>ret\<close> of \<open>setup_pd_and_qp\<close> does not happen to be 0, the module entry point of
  the server leaves no block of the heap allocated, on every path it can return on, and releases the
  protection domain exactly once if it had one.
\<close>

theorem initialisation_releases:
  assumes "uninit V \<noteq> 0" "heap w = Map.empty" "owned w = []"
  shows "post (\<lambda>r w'. heap w' = Map.empty \<and>
      (r = 0 \<longrightarrow> pd_frees (owned w') = (if pd (ctx w') = Null then 0 else 1)))
    (initialisation V w)"
proof -
  have none: "dom (heap w) = {}" "live_blocks w = {}"
    using assms(2) by (simp_all add: heap_empty_iff [symmetric])
  have pd0: "pd (server_init_ctx V) = Null" "rdma_buf (server_init_ctx V) = Null"
    by (simp_all add: server_init_ctx_def)
  have start: "post P (megaVM_StartServer V u)"
    if "rdma_buf (ctx u) = Null" "pd (ctx u) = Null" "\<And>w'. released u w' \<Longrightarrow> P () w'" for P u
    by (rule post_mono [OF StartServer_res [OF assms(1) that(1,2)]]) (simp add: that(3))
  show ?thesis
    using assms(3) pd0
    unfolding initialisation_def kzalloc_def hcall_def Let_def
    by (auto split: ptr.splits intro!: post_bnd_intro scall_res start kfree_server_res post_if
      dest!: res_ext_shape simp: released_def heap_empty_iff none)
qed

theorem initialisation_releases_witness:
  "\<exists>w'. initialisation serving (server_world0 ready_ctx) = Inr (0, w') \<and> Kmalloc 64 \<in> set (log w') \<and>
     heap w' = Map.empty \<and> pd_frees (owned w') = 1"
proof -
  obtain w' where w': "initialisation serving (server_world0 ready_ctx) = Inr (0, w')" "is_obj (pd (ctx w'))"
    "Kmalloc 64 \<in> set (log w')"
    using serving_initialisation by blast
  have "post (\<lambda>r w'. heap w' = Map.empty \<and> (r = 0 \<longrightarrow> pd_frees (owned w') = (if pd (ctx w') = Null then 0 else 1)))
    (initialisation serving (server_world0 ready_ctx))"
    by (rule initialisation_releases)
      (simp_all add: serving_def quiet_verbs_def peer_verbs_def server_world0_def owned_def)
  with w' show ?thesis by auto
qed

text \<open>
  C10: When the completion queue cannot be created, \<open>setup_pd_and_qp\<close> returns the value its
  uninitialised local happens to have: with 0 there, it reports success after it has released
  the protection domain, and leaves the dangling pointer and a null completion queue.
\<close>

theorem setup_pd_and_qp_false_success:
  assumes "silent V" "uninit V = 0" "is_obj i" "obj (reply_to V (IbAllocPd i) w) = Ptr p"
    and "obj (reply_to V (IbCreateCq i (txdepth (ctx w) * 2)) (record_call (IbAllocPd i) w)) = Null"
  shows "\<exists>w'. setup_pd_and_qp V i w = Inr (0, w') \<and> cq (ctx w') = Null \<and> pd (ctx w') = Ptr p \<and>
    log w' = log w @ [IbAllocPd i, IbCreateCq i (txdepth (ctx w) * 2), IbDeallocPd (Ptr p)]"
proof -
  obtain n where "i = Ptr n" using assms(3) by (cases i) simp_all
  then show ?thesis
    using assms by (simp add: setup_pd_and_qp_def setup_pd_and_qp_tail_def Let_def ret_def reply_to_def)
qed

theorem setup_pd_and_qp_false_success_witness:
  "\<exists>w'. setup_pd_and_qp (peer_verbs [] Null 0) (Ptr 3) (server_world0 ready_ctx) = Inr (0, w') \<and> cq (ctx w') = Null"
proof -
  have "silent (peer_verbs [] Null 0)"
    by (simp add: silent_def peer_verbs_def peer_def plain_def split: call.splits)
  from setup_pd_and_qp_false_success [OF this, of "Ptr 3" "server_world0 ready_ctx" 4] show ?thesis
    by (auto simp: peer_verbs_def peer_def plain_def reply_to_def)
qed


lemma filter_acquires_log: "filter acquires (log w) = filter acquires (ledger w)"
proof -
  have "(is_resource c \<and> (acquires c \<or> releases c) \<and> acquires c) = acquires c" for c
    by (cases c) simp_all
  then show ?thesis by (simp add: ledger_def entries_def owned_def)
qed

lemma filter_acquires_releases: "\<forall>c \<in> set rel. releases c \<Longrightarrow> filter acquires rel = []"
  by (auto simp: filter_empty_conv elim!: releases.elims)


text \<open>
  C12: The advertisement survives the byte-order conversions of the two machines: what the
  client puts into its send buffer is the address, key and size the server ends up with.
\<close>

theorem advertisement_roundtrip:
  assumes "\<And>x. htonl VS (htonl VC x) = x" "\<And>x. cpu_to_be64 VS (cpu_to_be64 VC x) = x"
    and "megaVM_format_send VC a w = Inr ((), w1)" "recv_buf cb = send_buf (ctx w1)"
    and "byte_len wc = of_nat sizeof_rdma_info"
  shows "\<exists>cb'. server_recv VS wc cb = (0, cb') \<and> remote_addr cb' = a \<and>
    remote_rkey cb' = mr_rkey VC (dma_mr (ctx w)) \<and> remote_len cb' = of_int (buf_size (ctx w))"
proof -
  obtain n where n: "dma_mr (ctx w) = Ptr n"
    using assms(3) by (cases "dma_mr (ctx w)") (simp_all add: megaVM_format_send_def)
  with assms(3) have "send_buf (ctx w1) = \<lparr>buf = cpu_to_be64 VC a,
      rkey = htonl VC (mr_rkey VC (Ptr n)), info_size = htonl VC (of_int (buf_size (ctx w)))\<rparr>"
    by (auto simp: megaVM_format_send_def)
  with assms n show ?thesis
    by (simp add: server_recv_def Let_def)
qed

theorem advertisement_roundtrip_witness:
  "\<exists>w1 cb'. megaVM_format_send quiet_verbs 0x1234 \<lparr>ctx = (client_init_ctx quiet_verbs)\<lparr>dma_mr := Ptr 6\<rparr>,
       log = [], heap = Map.empty, woken = False\<rparr> = Inr ((), w1) \<and>
     server_recv quiet_verbs (wc_ok IB_WC_RECV) (ready_ctx\<lparr>recv_buf := send_buf (ctx w1)\<rparr>) = (0, cb') \<and>
     remote_addr cb' = 0x1234 \<and> remote_rkey cb' = 2 \<and> remote_len cb' = 64"
proof -
  let ?w = "\<lparr>ctx = (client_init_ctx quiet_verbs)\<lparr>dma_mr := Ptr 6\<rparr>, log = [], heap = Map.empty, woken = False\<rparr>"
  have b: "htonl quiet_verbs = swab32" "cpu_to_be64 quiet_verbs = swab64" "mr_rkey quiet_verbs = (\<lambda>_. 2)"
    by (simp_all add: quiet_verbs_def peer_verbs_def)
  obtain w1 where w1: "megaVM_format_send quiet_verbs 0x1234 ?w = Inr ((), w1)"
    by (simp add: megaVM_format_send_def ret_def)
  have "\<exists>cb'. server_recv quiet_verbs (wc_ok IB_WC_RECV) (ready_ctx\<lparr>recv_buf := send_buf (ctx w1)\<rparr>) = (0, cb') \<and>
      remote_addr cb' = 0x1234 \<and> remote_rkey cb' = mr_rkey quiet_verbs (dma_mr (ctx ?w)) \<and>
      remote_len cb' = of_int (buf_size (ctx ?w))"
    by (rule advertisement_roundtrip [OF _ _ w1]) (simp_all add: b wc_ok_def sizeof_rdma_info_def)
  with w1 show ?thesis by (auto simp: b client_init_ctx_def)
qed

end
