(* ===== verification/ClientLemmas.thy ===== *)
theory ClientLemmas imports ServerLemmas ClientMain begin

text \<open>
  Post-condition rules for the client: what the callbacks leave alone, what a call and a sleep
  leave of the control block and the heap, and one lemma per function of the source.
\<close>

section \<open>What the callbacks leave alone\<close>

definition client_frame :: "client_ctx \<Rightarrow> client_ctx \<Rightarrow> bool" where
  "client_frame c c' \<longleftrightarrow>
     c'\<lparr>state := state c, stats := stats c, child_cm_id := child_cm_id c, recv_buf := recv_buf c\<rparr> = c"

lemma client_frame_refl [simp]: "client_frame c c"
  by (simp add: client_frame_def)

lemma client_frame_trans: "client_frame a b \<Longrightarrow> client_frame b c \<Longrightarrow> client_frame a c"
  by (cases a; cases b; cases c) (simp add: client_frame_def)

lemma client_frameD:
  assumes "client_frame c c'"
  shows "server c' = server c" "cq c' = cq c" "pd c' = pd c" "qp c' = qp c" "mem c' = mem c"
    "dma_mr c' = dma_mr c" "rq_wr c' = rq_wr c" "sq_wr c' = sq_wr c" "send_sgl c' = send_sgl c"
    "recv_sgl c' = recv_sgl c" "send_buf c' = send_buf c" "rdma_sq_wr c' = rdma_sq_wr c"
    "rdma_sgl c' = rdma_sgl c" "rdma_buf c' = rdma_buf c" "start_buf c' = start_buf c"
    "buf_size c' = buf_size c" "cm_id c' = cm_id c"
  using assms by (cases c; cases c'; simp add: client_frame_def)+

lemma client_frame_upd [simp]:
  "client_frame c (c'\<lparr>state := s\<rparr>) = client_frame c c'"
  "client_frame c (c'\<lparr>stats := t\<rparr>) = client_frame c c'"
  "client_frame c (c'\<lparr>child_cm_id := i\<rparr>) = client_frame c c'"
  "client_frame c (c'\<lparr>recv_buf := b\<rparr>) = client_frame c c'"
  by (simp_all add: client_frame_def)

lemma cq_loop_client_cons:
  "cq_loop_client V (Completion wc # ps) w =
     bnd (cq_loop_client V [Completion wc] w)
       (\<lambda>failed w'. if failed then ret True w' else cq_loop_client V ps w')"
  by (auto simp: with_sg_def hcall_def Let_def split: option.splits wc_opcode.splits prod.splits)

lemma client_recv_frame: "client_recv wc c = (r, c') \<Longrightarrow> client_frame c c'"
  by (auto simp: client_recv_def split: if_splits)

lemma client_recv_stats: "client_recv wc c = (r, c') \<Longrightarrow> stats c' = stats c"
  by (auto simp: client_recv_def split: if_splits)

section \<open>The protocol the completions drive\<close>

text \<open>
  The client's protocol: the first message of the server after the advertisement is its go-ahead
  for the write, every other one says that the write is complete.
\<close>

fun client_step :: "test_state \<Rightarrow> wc_opcode \<Rightarrow> test_state" where
  "client_step s IB_WC_RECV = (if s = RDMA_READ_ADV then RDMA_WRITE_ADV else RDMA_WRITE_COMPLETE)"
| "client_step s IB_WC_RDMA_READ = RDMA_READ_COMPLETE"
| "client_step s IB_WC_RDMA_WRITE = RDMA_WRITE_COMPLETE"
| "client_step s IB_WC_SEND = s"
| "client_step s IB_WC_OTHER = s"

lemma client_recv_state: "client_recv wc c = (0, c') \<Longrightarrow> state c' = client_step (state c) IB_WC_RECV"
  by (auto simp: client_recv_def split: if_splits)

definition client_obs :: "client_world \<Rightarrow> test_state \<times> megaVM_stats" where
  "client_obs w = (state (ctx w), stats (ctx w))"

definition client_obs_step ::
  "client_ctx \<Rightarrow> test_state \<times> megaVM_stats \<Rightarrow> wc_opcode \<Rightarrow> test_state \<times> megaVM_stats" where
  "client_obs_step c = (\<lambda>(s, t) op. (client_step s op,
     count_completion (sge_length (send_sgl c)) (rdma_len c) t op))"

definition client_keeps :: "client_world \<Rightarrow> client_world \<Rightarrow> bool" where
  "client_keeps v w \<longleftrightarrow> client_frame (ctx v) (ctx w) \<and> heap_shape w = heap_shape v \<and> owned w = owned v"

lemma client_keeps_refl [simp]: "client_keeps w w"
  by (simp add: client_keeps_def)

lemma client_keeps_trans: "client_keeps u v \<Longrightarrow> client_keeps v w \<Longrightarrow> client_keeps u w"
  by (auto simp: client_keeps_def intro: client_frame_trans)

lemma rdma_len_client_frame: "client_frame c c' \<Longrightarrow> rdma_len c' = rdma_len c"
  by (cases "sg_list (rdma_sq_wr c)") (auto simp: rdma_len_def client_frameD)

lemma cq_loop_client_one:
  assumes "client_keeps v w" "server (ctx v) = 0"
  shows "post (\<lambda>failed w'. (client_keeps v w' \<and> server (ctx v) = 0) \<and> (\<not> failed \<longrightarrow>
    client_obs w' = (if wc_status wc = IB_WC_SUCCESS then client_obs_step (ctx v) (client_obs w) (wc_op wc)
                     else client_obs w)))
    (cq_loop_client V [Completion wc] w)"
proof -
  have k: "client_frame (ctx v) (ctx w)" "heap_shape w = heap_shape v" "owned w = owned v"
    using assms by (auto simp: client_keeps_def)
  note eqs = client_frameD [OF k(1)]
  have len: "rdma_len (ctx v) = rdma_len (ctx w)"
    using rdma_len_client_frame [OF k(1)] by simp
  show ?thesis
  proof (cases "wc_op wc")
    case IB_WC_RECV
    obtain r c where rc: "client_recv wc ((ctx w)\<lparr>stats := (stats (ctx w))
        \<lparr>recv_bytes := recv_bytes (stats (ctx w)) + of_nat sizeof_rdma_info,
         recv_msgs := recv_msgs (stats (ctx w)) + 1\<rparr>\<rparr>) = (r, c)" (is "client_recv wc ?c0 = _")
      by fastforce
    have "client_frame ?c0 c" by (rule client_recv_frame [OF rc])
    moreover have "client_frame (ctx v) ?c0" using k(1) by simp
    ultimately have f: "client_frame (ctx v) c" by (rule client_frame_trans [rotated])
    have st: "stats c = stats ?c0" by (rule client_recv_stats [OF rc])
    from IB_WC_RECV assms(2) eqs k rc f st client_recv_state show ?thesis
      by (auto simp: Let_def hcall_def client_keeps_def client_obs_def client_obs_step_def split: if_splits)
  qed (use assms(2) eqs k len in \<open>auto simp: with_sg_def client_keeps_def client_obs_def client_obs_step_def
         rdma_len_def split: option.splits\<close>)
qed

interpretation client_poll: poll_loop "cq_loop_client V"
    "\<lambda>w. client_keeps v w \<and> server (ctx v) = 0" client_obs "client_obs_step (ctx v)" for V v
proof unfold_locales
  show "post (\<lambda>failed w'. (client_keeps v w' \<and> server (ctx v) = 0) \<and> (\<not> failed \<longrightarrow>
      client_obs w' = (if wc_status wc = IB_WC_SUCCESS
        then client_obs_step (ctx v) (client_obs w) (wc_op wc) else client_obs w)))
      (cq_loop_client V [Completion wc] w)"
    if "client_keeps v w \<and> server (ctx v) = 0" for w wc
    using that by (intro cq_loop_client_one) auto
qed (simp, simp, rule cq_loop_client_cons)

section \<open>Every callback keeps the main thread's fields\<close>

lemma cq_loop_client_one_keeps:
  "client_keeps v w \<Longrightarrow> post (\<lambda>failed w'. client_keeps v w' \<and> (\<not> failed \<longrightarrow> () = ()))
     (cq_loop_client V [Completion wc] w)"
proof (cases "server (ctx v) = 0")
  case True
  assume "client_keeps v w"
  then show ?thesis
    using cq_loop_client_one [where v = v and w = w and V = V and wc = wc] True by (auto elim!: post_mono)
next
  case False
  assume k: "client_keeps v w"
  with False have z: "server (ctx w) \<noteq> 0"
    by (auto simp: client_keeps_def client_frameD)
  show ?thesis
  proof (cases "wc_op wc")
    case IB_WC_RECV
    with z k show ?thesis
      by (auto simp: Let_def hcall_def client_keeps_def)
  qed (use k in \<open>auto simp: with_sg_def client_keeps_def split: option.splits\<close>)
qed

interpretation client_poll_keeps: poll_loop "cq_loop_client V" "client_keeps v" "\<lambda>_. ()" "\<lambda>_ _. ()" for V v
proof unfold_locales
  show "post (\<lambda>failed w'. client_keeps v w' \<and> (\<not> failed \<longrightarrow>
      () = (if wc_status wc = IB_WC_SUCCESS then () else ()))) (cq_loop_client V [Completion wc] w)"
    if "client_keeps v w" for w wc
    using cq_loop_client_one_keeps [OF that] by simp
qed (simp, simp, rule cq_loop_client_cons)

lemma cq_loop_client_keeps: "post (\<lambda>_ w'. client_keeps w w') (cq_loop_client V ps w)"
  using client_poll_keeps.loop_fold [where v = w and w = w and V = V and ps = ps] by simp

lemma client_keeps_simps [simp]:
  "client_keeps v (wake_up_interruptible w) = client_keeps v w"
  "client_keeps v (w\<lparr>woken := b\<rparr>) = client_keeps v w"
  "client_keeps v (set_state s w) = client_keeps v w"
  "client_keeps v (dma_write a bs w) = client_keeps v w"
  "client_keeps v (upd (\<lambda>cb. cb\<lparr>child_cm_id := i\<rparr>) w) = client_keeps v w"
  "client_keeps v (upd (\<lambda>cb. cb\<lparr>recv_buf := d\<rparr>) w) = client_keeps v w"
  "\<not> is_resource c \<Longrightarrow> client_keeps v (record_call c w) = client_keeps v w"
  by (simp_all add: client_keeps_def)

lemma cma_client_keeps:
  "post (\<lambda>_ w'. client_keeps w w') (megaVM_cma_event_handler_client V i ev w)"
  by (cases ev) (simp_all add: megaVM_cma_event_handler_client_def hcall_def)

lemma cq_handler_client_keeps:
  "post (\<lambda>_ w'. client_keeps w w') (megaVM_cq_event_handler_client V c ps w)"
proof -
  have "post (\<lambda>_. client_keeps w) (cq_loop_client V ps (record_call (IbReqNotifyCq (cq (ctx w))) w))"
    by (rule post_mono [OF cq_loop_client_keeps]) (auto elim: client_keeps_trans [rotated])
  then show ?thesis
    by (auto simp: megaVM_cq_event_handler_client_def hcall_def elim!: post_bndI)
qed

lemma client_event_keeps: "post (\<lambda>_ w'. client_keeps w w') (client_event V e w)"
  by (cases e) (auto intro!: post_bndI [OF cma_client_keeps] cq_handler_client_keeps)

interpretation client_inv: event_inv "client_event V" "client_keeps v" for V v
proof unfold_locales
  show "client_keeps v w \<Longrightarrow> post (\<lambda>_. client_keeps v) (client_event V e w)" for w e
    by (rule post_mono [OF client_event_keeps]) (rule client_keeps_trans)
qed simp_all

section \<open>Rules for calls, sleeps and the allocator\<close>

text \<open>What a client action that is not an allocation or a release keeps.\<close>

definition cquiet :: "client_world \<Rightarrow> client_world \<Rightarrow> bool" where
  "cquiet v w \<longleftrightarrow> rdma_buf (ctx w) = rdma_buf (ctx v) \<and> start_buf (ctx w) = start_buf (ctx v) \<and>
     cm_id (ctx w) = cm_id (ctx v) \<and> live_blocks w = live_blocks v"

lemma cquiet_refl [simp]: "cquiet w w"
  by (simp add: cquiet_def)

lemma cquiet_trans: "cquiet u v \<Longrightarrow> cquiet v w \<Longrightarrow> cquiet u w"
  by (simp add: cquiet_def)

lemma keeps_cquiet: "client_keeps (record_call c w) w' \<Longrightarrow> cquiet w w'" "client_keeps w w' \<Longrightarrow> cquiet w w'"
  by (simp_all add: client_keeps_def cquiet_def client_frameD live_blocks_def)

lemma ccall_quiet [post_intros]:
  "(\<And>w'. cquiet w w' \<Longrightarrow> P (reply_to V c w) w') \<Longrightarrow> post P (ccall V c w)"
  by (rule post_mono [OF client_inv.call_keeps [where v = "record_call c w"]]) (auto dest: keeps_cquiet)

lemma cwait_quiet [post_intros]:
  "(\<And>r w'. cquiet w w' \<Longrightarrow> P r w') \<Longrightarrow> post P (cwait V cond w)"
  by (rule post_mono [OF client_inv.wait_keeps [where v = w]]) (auto dest: keeps_cquiet)

lemma kmalloc_client_res [post_intros]:
  assumes "\<And>w'. cquiet w w' \<Longrightarrow> P Null w'"
    and "\<And>a w' w''. cquiet w w' \<Longrightarrow> ctx w'' = ctx w' \<Longrightarrow> live_blocks w'' = insert a (live_blocks w') \<Longrightarrow> P (Ptr a) w''"
  shows "post P (kmalloc V (client_event V) n w)"
  unfolding kmalloc_def
  by (intro post_intros)
    (auto intro!: assms(1) elim!: assms(2) simp: live_blocks_def heap_shape_def split: ptr.splits)

lemma kfree_client_res [post_intros]:
  assumes "\<And>w' w''. cquiet w w' \<Longrightarrow> ctx w'' = ctx w' \<Longrightarrow> live_blocks w'' = live_blocks w' - {a. p = Ptr a} \<Longrightarrow> P () w''"
  shows "post P (kfree V (client_event V) p w)"
  unfolding kfree_def by (intro post_intros) (auto intro!: assms)

lemma dereg_client_res [post_intros]:
  "(\<And>w'. cquiet w w' \<Longrightarrow> P () w') \<Longrightarrow> post P (dereg_if_client V c p w)"
  unfolding dereg_if_client_def by (intro post_intros) auto

lemma kfree_if_client_res [post_intros]:
  assumes "\<And>w' w''. cquiet w w' \<Longrightarrow> ctx w'' = ctx w' \<Longrightarrow> live_blocks w'' = live_blocks w' - {a. p = Ptr a} \<Longrightarrow> P () w''"
  shows "post P (kfree_if_client V p w)"
  unfolding kfree_if_client_def
  by (intro post_intros) (auto intro: assms [of w w] elim!: assms)

section \<open>Life cycle\<close>

definition client_blocks :: "client_ctx \<Rightarrow> nat set" where
  "client_blocks cb = {a. rdma_buf cb = Ptr a \<or> start_buf cb = Ptr a}"

lemma client_bail_res:
  "post (\<lambda>r w'. r = rt \<and> cm_id (ctx w') = cm_id (ctx w) \<and> live_blocks w' = live_blocks w - client_blocks (ctx w))
     (setup_buffers_bail_client V rt w)"
  unfolding setup_buffers_bail_client_def Let_def client_blocks_def
  by (intro post_intros) (auto simp: cquiet_def)

lemma setup_buffers_client_res:
  assumes "rdma_buf (ctx w) = Null" "start_buf (ctx w) = Null"
  shows "post (\<lambda>rt w'. cm_id (ctx w') = cm_id (ctx w) \<and>
      live_blocks w' \<subseteq> live_blocks w \<union> (if rt = 0 then client_blocks (ctx w') else {}))
    (megaVM_setup_buffers V w)"
proof -
  have b: "post P (setup_buffers_bail_client V rt v)"
    if "\<And>w'. cm_id (ctx w') = cm_id (ctx v) \<Longrightarrow> live_blocks w' = live_blocks v - client_blocks (ctx v) \<Longrightarrow> P rt w'"
    for P rt v
    by (rule post_mono [OF client_bail_res]) (use that in auto)
  show ?thesis
    using assms unfolding megaVM_setup_buffers_def megaVM_setup_buffers_heap_def megaVM_setup_wr_def Let_def ENOMEM_def
    by (intro post_intros b) (auto simp: cquiet_def client_blocks_def)
qed

lemma free_buffers_client_res:
  "post (\<lambda>_ w'. cm_id (ctx w') = cm_id (ctx w) \<and> live_blocks w' = live_blocks w - client_blocks (ctx w))
     (megaVM_free_buffers_client V w)"
  unfolding megaVM_free_buffers_client_def client_blocks_def
  by (intro post_intros) (auto simp: cquiet_def)

lemma free_qp_client_res: "post (\<lambda>_ w'. cquiet w w') (megaVM_free_qp_client V w)"
  unfolding megaVM_free_qp_client_def by (intro post_intros) (auto simp: cquiet_def)

lemma setup_qp_client_res: "post (\<lambda>_ w'. cquiet w w') (megaVM_setup_qp V i w)"
  unfolding megaVM_setup_qp_def megaVM_create_qp_def Let_def
  by (intro post_intros) (auto simp: cquiet_def)

lemma bind_client_res: "post (\<lambda>_ w'. cquiet w w') (megaVM_bind_client V w)"
  unfolding megaVM_bind_client_def by (intro post_intros) (auto simp: cquiet_def)

lemma connect_client_res: "post (\<lambda>_ w'. cquiet w w') (megaVM_connect_client V w)"
  unfolding megaVM_connect_client_def by (intro post_intros) (auto simp: cquiet_def)

lemma write_start_buf_res: "post (\<lambda>_ w'. cquiet w w') (write_start_buf w)"
  by (auto simp: write_start_buf_def cquiet_def live_blocks_def heap_shape_def dom_def
       split: ptr.splits option.splits bind_splits)

lemma test_client_res: "post (\<lambda>_ w'. cquiet w w') (megaVM_test_client V w)"
proof -
  have w: "post P (write_start_buf v)" if "\<And>w'. cquiet v w' \<Longrightarrow> P () w'" for P v
    by (rule post_mono [OF write_start_buf_res]) (simp add: that)
  show ?thesis
    unfolding megaVM_test_client_def megaVM_format_send_def Let_def
    by (intro post_intros post_bndI [OF write_start_buf_res]) (auto simp: cquiet_def live_blocks_def)
qed


text \<open>The client holds at most its two buffers, or is done with them.\<close>

definition cholding :: "client_world \<Rightarrow> client_world \<Rightarrow> bool" where
  "cholding v w \<longleftrightarrow> cm_id (ctx w) = cm_id (ctx v) \<and> live_blocks w \<subseteq> live_blocks v \<union> client_blocks (ctx w)"

definition creleased :: "client_world \<Rightarrow> client_world \<Rightarrow> bool" where
  "creleased v w \<longleftrightarrow> cm_id (ctx w) = cm_id (ctx v) \<and> live_blocks w \<subseteq> live_blocks v"

lemma cholding_quiet: "cholding v w \<Longrightarrow> cquiet w w' \<Longrightarrow> cholding v w'"
  by (simp add: cholding_def cquiet_def client_blocks_def)

lemma creleased_quiet: "creleased v w \<Longrightarrow> cquiet w w' \<Longrightarrow> creleased v w'"
  by (simp add: creleased_def cquiet_def)

lemma run_err1_released: "creleased v w \<Longrightarrow> post (\<lambda>_ w'. creleased v w') (run_err1 V w)"
  unfolding run_err1_def by (rule post_mono [OF free_qp_client_res]) (rule creleased_quiet)

lemma run_err2_released: "cholding v w \<Longrightarrow> post (\<lambda>_ w'. creleased v w') (run_err2 V w)"
  unfolding run_err2_def
  by (rule post_bndI [OF free_buffers_client_res], rule run_err1_released)
    (auto simp: creleased_def cholding_def)

lemma client_serve_released:
  assumes "cholding v w"
  shows "post (\<lambda>_ w'. creleased v w')
    (bnd (ccall V (IbPostRecv q r) w) (\<lambda>r w.
       if rc r \<noteq> 0 then run_err2 V w
       else bnd (megaVM_connect_client V w) (\<lambda>rt w.
         if rt \<noteq> 0 then run_err2 V w
         else bnd (megaVM_test_client V w) (\<lambda>_ w.
           bnd (ccall V (RdmaDisconnect (cm_id (ctx w))) w) (\<lambda>_ w. run_err2 V w)))))"
proof -
  have c: "post P (ccall V c u)" if "cholding v u" "\<And>r w'. cholding v w' \<Longrightarrow> P r w'" for P c u
    by (rule ccall_quiet) (auto intro: that cholding_quiet)
  have n: "post P (megaVM_connect_client V u)" if "cholding v u" "\<And>r w'. cholding v w' \<Longrightarrow> P r w'" for P u
    by (rule post_mono [OF connect_client_res]) (auto intro: that cholding_quiet)
  have t: "post P (megaVM_test_client V u)" if "cholding v u" "\<And>w'. cholding v w' \<Longrightarrow> P () w'" for P u
    by (rule post_mono [OF test_client_res]) (auto intro: that cholding_quiet)
  show ?thesis
    by (intro post_bnd_intro c n t post_if run_err2_released) (use assms in simp_all)
qed

lemma run_client_released:
  assumes "rdma_buf (ctx w) = Null" "start_buf (ctx w) = Null"
  shows "post (\<lambda>_ w'. creleased w w') (megaVM_run_client V w)"
proof -
  have s: "post P (megaVM_setup_buffers V u)" if "cquiet w u"
      "\<And>rt w'. (if rt = 0 then cholding w w' else creleased w w') \<Longrightarrow> P rt w'" for P u
  proof (rule post_mono [OF setup_buffers_client_res])
    fix rt :: int and v :: client_world
    assume "cm_id (ctx v) = cm_id (ctx u) \<and>
      live_blocks v \<subseteq> live_blocks u \<union> (if rt = 0 then client_blocks (ctx v) else {})"
    with that(1) have "if rt = 0 then cholding w v else creleased w v"
      by (simp add: cquiet_def cholding_def creleased_def split: if_splits)
    then show "P rt v" by (rule that(2))
  qed (use that(1) assms in \<open>simp_all add: cquiet_def\<close>)
  have b: "post P (megaVM_bind_client V u)" if "\<And>r w'. cquiet u w' \<Longrightarrow> P r w'" for P u
    by (rule post_mono [OF bind_client_res]) (rule that)
  have q: "post P (megaVM_setup_qp V i u)" if "cquiet w u" "\<And>r w'. cquiet w w' \<Longrightarrow> P r w'" for P i u
    by (rule post_mono [OF setup_qp_client_res]) (auto intro: that cquiet_trans)
  show ?thesis
    unfolding megaVM_run_client_def
    by (intro post_bnd_intro [of _ _ "megaVM_bind_client _ _"] post_bnd_intro [of _ _ "megaVM_setup_qp _ _ _"]
          post_bnd_intro [of _ _ "megaVM_setup_buffers _ _"] b q s post_if run_err1_released client_serve_released)
      (auto simp: creleased_def cquiet_def)
qed

text \<open>
  What \<open>megaVM_setup_qp\<close> leaves: 0 with a protection domain and a completion queue that are not
  error pointers, or an error after it released what it had created, in reverse order.
\<close>

definition client_qp_outcome :: "ptr \<Rightarrow> client_world \<Rightarrow> int \<Rightarrow> client_world \<Rightarrow> bool" where
  "client_qp_outcome i w rt w' \<longleftrightarrow> (\<exists>n a.
      owned w' \<in> (\<lambda>xs. owned w @ IbAllocPd i # xs) `
       (if rt = 0 then (if IS_ERR (pd (ctx w')) \<or> IS_ERR (cq (ctx w')) then {} else {[IbCreateCq i n, a]})
        else if IS_ERR (pd (ctx w')) then {[]}
        else if IS_ERR (cq (ctx w')) then {[IbCreateCq i n, IbDeallocPd (pd (ctx w'))]}
        else {[IbCreateCq i n, IbDestroyCq (cq (ctx w')), IbDeallocPd (pd (ctx w'))],
              [IbCreateCq i n, a, IbDestroyCq (cq (ctx w')), IbDeallocPd (pd (ctx w'))]}))"

lemma ccall_wp:
  assumes "\<And>w'. client_frame (ctx w) (ctx w') \<Longrightarrow> owned w' = owned w @ (if is_resource c then [c] else []) \<Longrightarrow>
    P (reply_to V c w) w'"
  shows "post P (ccall V c w)"
  by (rule post_mono [OF client_inv.call_keeps [where v = "record_call c w"]])
    (auto intro!: assms simp: client_keeps_def)

section \<open>The ping pattern\<close>

definition letter :: "nat \<Rightarrow> u8" where
  "letter j = of_nat (65 + j mod 58)"

lemma letter_0: "letter 0 = 65"
  by (simp add: letter_def)

lemma unat_of_nat_u8: "x < 256 \<Longrightarrow> unat (of_nat x :: u8) = x"
  by (simp add: unat_of_nat take_bit_nat_def)

lemma letter_Suc: "(if letter j + 1 > 122 then 65 else letter j + 1) = letter (Suc j)"
proof -
  have lt: "65 + j mod 58 < 256" "65 + j mod 58 < 255"
    using mod_less_divisor [of 58 j] by linarith+
  have arith: "56 < j mod 58 \<longleftrightarrow> j mod 58 = 57"
    by presburger
  have "letter j + 1 = of_nat (Suc (65 + j mod 58))"
    by (simp add: letter_def)
  moreover have "unat (of_nat (Suc (65 + j mod 58)) :: u8) = Suc (65 + j mod 58)"
    using lt by (intro unat_of_nat_u8) simp
  ultimately have "letter j + 1 > 122 \<longleftrightarrow> j mod 58 = 57"
    using arith by (simp add: word_less_nat_alt)
  then show ?thesis
    by (simp add: letter_def mod_Suc)
qed

lemma store_nat: "a < length m \<Longrightarrow> store m (int a) x = Some (m[a := x])"
  by (simp add: store_def)

lemma fill_letters_run:
  assumes "a \<le> b" "b \<le> length m"
  shows "fill_letters (int a) (int b) (letter j) m =
    Some (take a m @ map (\<lambda>k. letter (j + k)) [0..<b - a] @ drop b m)"
  using assms
proof (induction "b - a" arbitrary: a j m)
  case 0
  then show ?case by (subst fill_letters.simps) simp
next
  case (Suc d)
  then have a: "a < b" "a < length m" by linarith+
  have eq: "fill_letters (int a) (int b) (letter j) m =
      fill_letters (int a + 1) (int b) (letter (Suc j)) (m[a := letter j])"
    using a by (subst fill_letters.simps) (simp add: store_nat letter_Suc Let_def)
  have IH: "fill_letters (int a + 1) (int b) (letter (Suc j)) (m[a := letter j]) =
      Some (take (Suc a) (m[a := letter j]) @ map (\<lambda>k. letter (Suc j + k)) [0..<b - Suc a] @ drop b m)"
    using Suc.hyps(1) [of "Suc a" "m[a := letter j]" "Suc j"] Suc.hyps(2) Suc.prems a by (simp add: add.commute)
  have "map (\<lambda>k. letter (j + k)) [0..<b - a] = letter j # map (\<lambda>k. letter (Suc j + k)) [0..<b - Suc a]"
    using a by (subst upt_conv_Cons) (simp_all add: map_Suc_upt [symmetric] Suc_diff_Suc [symmetric] del: map_Suc_upt upt_Suc)
  then show ?case
    using a by (simp add: eq IH take_Suc_conv_app_nth)
qed

lemma store_bytes_run:
  "i + length bs \<le> length m \<Longrightarrow>
     store_bytes m (int i) bs = Some (take i m @ bs @ drop (i + length bs) m)"
proof (induction bs arbitrary: i m)
  case (Cons b bs)
  have "store_bytes m (int i) (b # bs) = store_bytes (m[i := b]) (int (Suc i)) bs"
    using Cons.prems by (simp add: store_nat add.commute)
  also have "\<dots> = Some (take (Suc i) (m[i := b]) @ bs @ drop (Suc i + length bs) m)"
    using Cons.IH [of "Suc i" "m[i := b]"] Cons.prems by simp
  finally show ?case
    using Cons.prems by (simp add: take_Suc_conv_app_nth)
qed simp

lemma store_bytes_short:
  "length m < i + length bs \<Longrightarrow> i \<le> length m \<Longrightarrow> store_bytes m (int i) bs = None"
proof (induction bs arbitrary: i m)
  case (Cons b bs)
  show ?case
  proof (cases "i < length m")
    case True
    then show ?thesis
      using Cons.IH [of "m[i := b]" "Suc i"] Cons.prems by (simp add: store_nat add.commute)
  qed (simp add: store_def)
qed simp

lemma length_ping_prefix [simp]: "length ping_prefix = 13"
  by (simp add: ping_prefix_def)

lemma strlen_append_zero: "\<forall>x\<in>set xs. x \<noteq> 0 \<Longrightarrow> strlen (xs @ 0 # ys) = Some (length xs)"
  by (induction xs) auto

lemma letter_nonzero: "letter j \<noteq> 0"
proof -
  have "unat (letter j) = 65 + j mod 58"
    unfolding letter_def using mod_less_divisor [of 58 j] by (intro unat_of_nat_u8) linarith
  then show ?thesis by (metis unat_0 add_is_0 zero_neq_numeral)
qed

lemma ping_prefix_nonzero: "0 \<notin> set ping_prefix"
  by (simp add: ping_prefix_def of_char_def)

lemma ping_pattern_run:
  assumes "14 \<le> n" "n \<le> length m"
  shows "ping_pattern (int n) m =
      Some (ping_prefix @ map letter [0..<n - 14] @ 0 # drop n m)"
proof -
  have m1: "store_bytes m 0 (ping_prefix @ [0]) = Some (ping_prefix @ 0 # drop 14 m)" (is "_ = Some ?m1")
    using store_bytes_run [of 0 "ping_prefix @ [0]" m] assms by simp
  have "fill_letters 13 (int n) (letter 0) ?m1 =
      Some (take 13 ?m1 @ map (\<lambda>k. letter (0 + k)) [0..<n - 13] @ drop n ?m1)"
    using fill_letters_run [of 13 n ?m1 0] assms by simp
  moreover have "drop n ?m1 = drop n m"
    using assms by (simp add: drop_Cons')
  moreover have "map letter [0..<n - 13] = map letter [0..<n - 14] @ [letter (n - 14)]"
  proof -
    have "n - 13 = Suc (n - 14)" using assms by simp
    then show ?thesis by simp
  qed
  ultimately have m2: "fill_letters 13 (int n) 65 ?m1 =
      Some (ping_prefix @ map letter [0..<n - 14] @ letter (n - 14) # drop n m)"
    by (simp add: letter_0)
  have "store (ping_prefix @ map letter [0..<n - 14] @ letter (n - 14) # drop n m) (int (n - 1)) 0 =
      Some (ping_prefix @ map letter [0..<n - 14] @ 0 # drop n m)"
    using assms by (subst store_nat) (auto simp: list_update_append nth_append)
  then show ?thesis
    using assms by (simp add: ping_pattern_def m1 m2 of_nat_diff)
qed

end
