(* ===== verification/ClientProps.thy ===== *)
theory ClientProps
  imports ClientLemmas ServerProps
begin

text \<open>
  The properties of the RDMA client, with witnesses in the concrete environment of
  \<open>ServerProps\<close>.
\<close>

definition client_world0 :: "client_ctx \<Rightarrow> client_world" where
  "client_world0 c = \<lparr>ctx = c, log = [], heap = Map.empty, woken = False\<rparr>"

definition client_ready :: client_ctx where
  "client_ready = (client_init_ctx quiet_verbs)\<lparr>cq := Ptr 5, pd := Ptr 4, qp := Ptr 8, dma_mr := Ptr 6,
     start_buf := Ptr 9, cm_id := Ptr 2\<rparr>"

section \<open>Completions\<close>

text \<open>
  C13: A run of the client's polling loop that does not fail moves the protocol state by
  \<open>client_step\<close> and the statistics by \<open>count_completion\<close>, once per successful completion.
\<close>

theorem client_protocol:
  assumes "server (ctx w) = 0" "cq_loop_client V ps w = Inr (False, w')"
  shows "state (ctx w') = foldl client_step (state (ctx w)) (good_ops ps) \<and>
    stats (ctx w') = foldl (count_completion (sge_length (send_sgl (ctx w))) (rdma_len (ctx w)))
      (stats (ctx w)) (good_ops ps)"
  using client_poll.loop_fold_result [where v = w and w = w and ps = ps, OF _ assms(2)] assms(1)
  by (simp add: client_obs_def client_obs_step_def foldl_pair)

theorem client_protocol_witness:
  "\<exists>w'. cq_loop_client quiet_verbs [Completion (wc_ok IB_WC_RECV)]
     (client_world0 (client_ready\<lparr>state := RDMA_READ_ADV\<rparr>)) = Inr (False, w') \<and> state (ctx w') = RDMA_WRITE_ADV"
proof -
  let ?w = "client_world0 (client_ready\<lparr>state := RDMA_READ_ADV\<rparr>)"
  have s: "server (ctx ?w) = 0" by (simp add: client_world0_def client_ready_def client_init_ctx_def)
  obtain w' where w': "cq_loop_client quiet_verbs [Completion (wc_ok IB_WC_RECV)] ?w = Inr (False, w')"
    by (simp add: client_world0_def client_ready_def client_init_ctx_def client_recv_def wc_ok_def
        sizeof_rdma_info_def Let_def ret_def hcall_def reply_to_def)
  have "state (ctx w') = RDMA_WRITE_ADV"
    using client_protocol [OF s w'] by (simp add: client_world0_def wc_ok_def)
  with w' show ?thesis by blast
qed

section \<open>The ping pattern\<close>

text \<open>
  C14: With a buffer of at least 14 bytes the client fills exactly the first \<open>n\<close> bytes: the
  prefix, the letters from \<open>A\<close> to \<open>z\<close> over and over, and a NUL in the last one, so that the
  string has length \<open>n - 1\<close>; what lies behind is not touched.
\<close>

theorem ping_pattern_spec:
  assumes "14 \<le> n" "n \<le> length m"
  shows "\<exists>m'. ping_pattern (int n) m = Some m' \<and> length m' = length m \<and> take 13 m' = ping_prefix \<and>
    (\<forall>i<n - 14. m' ! (13 + i) = of_nat (65 + i mod 58)) \<and> drop n m' = drop n m \<and> strlen m' = Some (n - 1)"
proof (intro exI conjI)
  let ?xs = "ping_prefix @ map letter [0..<n - 14]"
  let ?m' = "?xs @ 0 # drop n m"
  show "ping_pattern (int n) m = Some ?m'"
    using ping_pattern_run [OF assms] by simp
  show "length ?m' = length m" "take 13 ?m' = ping_prefix" "drop n ?m' = drop n m"
    using assms by (auto simp: drop_Cons')
  show "\<forall>i<n - 14. ?m' ! (13 + i) = of_nat (65 + i mod 58)"
    by (auto simp: nth_append letter_def)
  have "\<forall>x\<in>set ?xs. x \<noteq> 0"
    using letter_nonzero ping_prefix_nonzero by fastforce
  then show "strlen ?m' = Some (n - 1)"
    using strlen_append_zero [of ?xs "drop n m"] assms by simp
qed

theorem ping_pattern_spec_witness:
  "\<exists>m'. ping_pattern (int 64) (replicate 64 0) = Some m' \<and> m' ! (13 + 1) = 66 \<and> strlen m' = Some (64 - 1)"
proof -
  obtain m' where "ping_pattern (int 64) (replicate 64 0) = Some m'" "strlen m' = Some (64 - 1)"
      and l: "\<forall>i<64 - 14. m' ! (13 + i) = of_nat (65 + i mod 58)"
    using ping_pattern_spec [of 64 "replicate 64 0"] by auto
  moreover have "m' ! (13 + 1) = 66"
    using l [rule_format, of 1] by simp
  ultimately show ?thesis by blast
qed

text \<open>C15: Into a buffer of fewer than 14 bytes the prefix itself is written out of bounds.\<close>

theorem ping_pattern_short: "length m < 14 \<Longrightarrow> ping_pattern n m = None"
  using store_bytes_short [of m 0 "ping_prefix @ [0]"] by (simp add: ping_pattern_def)

theorem ping_pattern_short_witness: "ping_pattern 8 (replicate 8 0) = None"
  by (rule ping_pattern_short) simp

section \<open>Errors\<close>

text \<open>
  C16: \<open>megaVM_test_client\<close> overwrites the state when it starts: an error reported just before is
  forgotten, the advertisement is posted all the same, and when nothing more happens the
  thread sleeps for ever.
\<close>

theorem client_forgets_error:
  assumes "silent V" "is_obj (dma_mr (ctx w))" "start_buf (ctx w) = Ptr a" "heap w a = Some m"
    and "buf_size (ctx w) = int n" "14 \<le> n" "n \<le> length m"
  shows "\<exists>w'. megaVM_test_client V w = Inl (Asleep, w') \<and> state (ctx w') = RDMA_READ_ADV \<and>
    (\<exists>wr s. log w' = log w @ [IbPostSend (qp (ctx w)) wr s, WaitEvent])"
proof -
  obtain d where d: "dma_mr (ctx w) = Ptr d"
    using assms(2) by (cases "dma_mr (ctx w)") auto
  obtain m' where "ping_pattern (int n) m = Some m'"
    using ping_pattern_spec [OF assms(6,7)] by blast
  with assms d show ?thesis
    by (simp add: megaVM_test_client_def write_start_buf_def megaVM_format_send_def silent_wait test_state_order Let_def)
qed

theorem client_forgets_error_witness:
  "\<exists>w'. megaVM_test_client quiet_verbs ((client_world0 (client_ready\<lparr>state := ERROR\<rparr>))
     \<lparr>heap := [9 \<mapsto> replicate 64 0]\<rparr>) = Inl (Asleep, w') \<and> state (ctx w') = RDMA_READ_ADV"
  using client_forgets_error [of quiet_verbs "(client_world0 (client_ready\<lparr>state := ERROR\<rparr>))
     \<lparr>heap := [9 \<mapsto> replicate 64 0]\<rparr>" 9 "replicate 64 0" 64]
  by (auto simp: client_world0_def client_ready_def client_init_ctx_def)

text \<open>
  C17: When the route cannot be resolved from within the event handler, the handler wakes the
  sleeper but leaves the state at \<open>ADDR_RESOLVED\<close>: the sleeper in \<open>megaVM_bind_client\<close> goes
  back to sleep and never learns of the failure.
\<close>

theorem client_bind_sleeps:
  assumes "rc (reply_to V (RdmaResolveAddr (cm_id (ctx w)) (fill_sockaddr_client (ctx w)) 2000) w) = 0"
    and "events (reply_to V (RdmaResolveAddr (cm_id (ctx w)) (fill_sockaddr_client (ctx w)) 2000) w) = []"
    and "\<And>h. last h = WaitEvent \<Longrightarrow> events (answer V h) = [CmEvent i RDMA_CM_EVENT_ADDR_RESOLVED, Run]"
    and "\<And>h. last h = RdmaResolveRoute i 2000 \<Longrightarrow> rc (answer V h) \<noteq> 0"
    and "state (ctx w) = IDLE"
  shows "\<exists>w'. megaVM_bind_client V w = Inl (Asleep, w') \<and> state (ctx w') = ADDR_RESOLVED"
  using assms
  by (simp add: megaVM_bind_client_def call_def wait_event_def reply_to_def megaVM_cma_event_handler_client_def hcall_def
     test_state_order)

definition route_fails :: "call list \<Rightarrow> reply" where
  "route_fails h = (case last h of
      RdmaResolveRoute i n \<Rightarrow> plain (- 22) Null []
    | WaitEvent \<Rightarrow> plain 0 Null [CmEvent (Ptr 2) RDMA_CM_EVENT_ADDR_RESOLVED, Run]
    | _ \<Rightarrow> plain 0 Null [])"

theorem client_bind_sleeps_witness:
  "\<exists>w'. megaVM_bind_client (quiet_verbs\<lparr>answer := route_fails\<rparr>) (client_world0 client_ready) = Inl (Asleep, w') \<and>
     state (ctx w') = ADDR_RESOLVED"
  by (rule client_bind_sleeps [where i = "Ptr 2"])
    (simp_all add: route_fails_def plain_def reply_to_def client_world0_def client_ready_def client_init_ctx_def)

text \<open>
  C18: \<open>megaVM_setup_qp\<close> returns 0 exactly with a protection domain and a completion queue that
  are not error pointers, and on every error has released, in reverse order, what it created.
\<close>

theorem setup_qp_client_outcome:
  assumes "\<And>h e. obj (answer V h) = ErrPtr e \<Longrightarrow> e \<noteq> 0"
  shows "post (client_qp_outcome i w) (megaVM_setup_qp V i w)"
proof -
  have err: "IS_ERR (obj (reply_to V c u)) \<Longrightarrow> PTR_ERR (obj (reply_to V c u)) \<noteq> 0" for c u
    using assms by (cases "obj (reply_to V c u)") (auto simp: reply_to_def)
  have dis: "post P (ccall V c u)"
    if "\<And>r w'. pd (ctx w') = pd (ctx u) \<Longrightarrow> cq (ctx w') = cq (ctx u) \<Longrightarrow>
      owned w' = owned u @ (if is_resource c then [c] else []) \<Longrightarrow>
      (IS_ERR (obj r) \<longrightarrow> PTR_ERR (obj r) \<noteq> 0) \<Longrightarrow> P r w'" for P c u
    by (rule ccall_wp) (rule that; simp add: client_frameD err)
  show ?thesis
    unfolding megaVM_setup_qp_def megaVM_create_qp_def Let_def
    by (intro post_deref post_bnd_intro dis post_if post_retI)
      (auto simp: client_qp_outcome_def)
qed

theorem setup_qp_client_outcome_witness:
  "post (client_qp_outcome (Ptr 2) (client_world0 client_ready))
     (megaVM_setup_qp quiet_verbs (Ptr 2) (client_world0 client_ready))"
  by (rule setup_qp_client_outcome)
    (simp add: quiet_verbs_def peer_verbs_def peer_def plain_def split: call.splits)

section \<open>Life cycle\<close>

text \<open>
  C19: The client's entry point leaves no block of the heap allocated, on every path it can
  return on and whatever the callbacks do meanwhile.
\<close>

theorem doit_releases:
  assumes "heap w = Map.empty"
  shows "post (\<lambda>_ w'. heap w' = Map.empty) (megaVM_doit V w)"
proof -
  have none: "dom (heap w) = {}" "live_blocks w = {}"
    using assms by (simp_all add: heap_empty_iff [symmetric])
  have ini: "rdma_buf (client_init_ctx V) = Null" "start_buf (client_init_ctx V) = Null"
    by (simp_all add: client_init_ctx_def)
  have run: "post P (megaVM_run_client V u)"
    if "rdma_buf (ctx u) = Null" "start_buf (ctx u) = Null" "\<And>w'. creleased u w' \<Longrightarrow> P () w'" for P u
    by (rule post_mono [OF run_client_released [OF that(1,2)]]) (simp add: that(3))
  have fin: "post (\<lambda>_ w'. live_blocks w' = {}) (bnd (kfree V (client_event V) (Ptr a) u) (\<lambda>_ w. ret r w))"
    if "live_blocks u \<subseteq> {a}" for a u and r :: int
    by (intro post_intros) (use that in \<open>auto simp: cquiet_def\<close>)
  show ?thesis
  proof (cases "obj (reply_to V Kzalloc w)")
    case (Ptr a)
    let ?u = "upd (\<lambda>_. client_init_ctx V) ((record_call Kzalloc w)\<lparr>heap := (heap w)(a \<mapsto> [])\<rparr>)"
    have u: "live_blocks ?u = {a}" using none by simp
    show ?thesis
      using ini u unfolding megaVM_doit_def kzalloc_def hcall_def Let_def heap_empty_iff
      by (simp add: Ptr del: live_blocks_simps)
        (intro post_bnd_intro [of _ _ "call _ _ _ _"] ccall_quiet post_if fin post_bnd_intro [of _ _ "megaVM_run_client _ _"] run;
         simp add: creleased_def cquiet_def none)
  qed (use none in \<open>simp_all add: megaVM_doit_def kzalloc_def hcall_def heap_empty_iff\<close>)
qed

text \<open>
  A server that answers: the address and the route are resolved during the first sleep of the client, the
  connection is established during the second one, and then a message arrives.
\<close>

definition client_speaker :: "call list \<Rightarrow> event list" where
  "client_speaker h =
     (if last h \<noteq> WaitEvent then []
      else if waits h = 1 then [CmEvent (Ptr 2) RDMA_CM_EVENT_ADDR_RESOLVED, CmEvent (Ptr 2) RDMA_CM_EVENT_ROUTE_RESOLVED, Run]
      else if waits h = 2 then [CmEvent (Ptr 2) RDMA_CM_EVENT_ESTABLISHED, Run]
      else [CqEvent (Ptr 5) [Completion (wc_ok IB_WC_RECV)], Run])"

definition answering :: verbs where
  "answering = quiet_verbs\<lparr>answer := (\<lambda>h.
     (peer (client_speaker h) (Ptr 5) h)\<lparr>obj := if last h = Kmalloc 64 \<and> length (filter (\<lambda>c. c = Kmalloc 64) h) = 2
        then Ptr 9 else obj (peer (client_speaker h) (Ptr 5) h)\<rparr>)\<rparr>"

lemma answering_call: "c \<noteq> WaitEvent \<Longrightarrow> call answering H c w = Inr (reply_to answering c w, record_call c w)"
  by (simp add: call_def reply_to_def answering_def peer_def plain_def client_speaker_def ret_def split: call.splits)

lemma answering_wait: "last h = WaitEvent \<Longrightarrow> events (answer answering h) = client_speaker h"
  by (simp add: answering_def peer_def plain_def)

definition client_connected :: "client_world \<Rightarrow> bool" where
  "client_connected w \<longleftrightarrow> waits (log w) = 2 \<and> cq (ctx w) = Ptr 5 \<and> server (ctx w) = 0 \<and> buf_size (ctx w) = 64 \<and>
     is_obj (dma_mr (ctx w)) \<and> is_obj (pd (ctx w)) \<and> start_buf (ctx w) = Ptr 9 \<and> map_option length (heap w 9) = Some 64 \<and>
     Kmalloc 64 \<in> set (log w)"

lemma answering_run:
  "returns (kzalloc answering (client_world0 client_ready)) (\<lambda>cb w. cb = Ptr 1 \<and>
   returns (ccall answering RdmaCreateId (upd (\<lambda>_. client_init_ctx answering) w)) (\<lambda>r w. obj r = Ptr 2 \<and>
   returns (megaVM_bind_client answering (upd (\<lambda>cb. cb\<lparr>cm_id := obj r\<rparr>) w)) (\<lambda>r w. r = 0 \<and>
   returns (megaVM_setup_qp answering (cm_id (ctx w)) w) (\<lambda>r w. r = 0 \<and>
   returns (megaVM_setup_buffers answering w) (\<lambda>r w. r = 0 \<and>
   returns (ccall answering (IbPostRecv (qp (ctx w)) (rq_wr (ctx w))) w) (\<lambda>r w. rc r = 0 \<and>
   returns (megaVM_connect_client answering w) (\<lambda>r w. r = 0 \<and> client_connected w)))))))"
  by code_simp

lemma answering_test:
  assumes "client_connected w"
  shows "\<exists>w' cs. megaVM_test_client answering w = Inr ((), w') \<and> log w' = log w @ cs \<and> pd (ctx w') = pd (ctx w)"
proof -
  obtain m where m: "heap w 9 = Some m" "length m = 64" using assms by (auto simp: client_connected_def)
  obtain d where d: "dma_mr (ctx w) = Ptr d"
    using assms by (cases "dma_mr (ctx w)") (auto simp: client_connected_def)
  obtain m' where p: "ping_pattern 64 m = Some m'"
    using ping_pattern_run [of 64 m] m by simp
  show ?thesis
    using assms m d p
    by (simp add: megaVM_test_client_def write_start_buf_def megaVM_format_send_def Let_def answering_call client_connected_def
      wait_event_def reply_to_def answering_wait client_speaker_def test_state_order megaVM_cq_event_handler_client_def
      client_recv_def wc_ok_def sizeof_rdma_info_def hcall_def ret_def)
qed

lemma answering_run_err2:
  assumes "is_obj (pd (ctx w))"
  shows "\<exists>w' cs. run_err2 answering w = Inr ((), w') \<and> log w' = log w @ cs"
proof -
  obtain n where "pd (ctx w) = Ptr n" using assms by (cases "pd (ctx w)") simp_all
  then show ?thesis
    by (simp add: run_err2_def run_err1_def megaVM_free_qp_client_def megaVM_free_buffers_client_def
        dereg_if_client_def kfree_def answering_call ret_def)
qed

lemma answering_doit:
  "\<exists>w'. megaVM_doit answering (client_world0 client_ready) = Inr (0, w') \<and> Kmalloc 64 \<in> set (log w')"
proof -
  from answering_run obtain r w1 w2 w3 w4 w5 r6 w6 w7 where
    run: "kzalloc answering (client_world0 client_ready) = Inr (Ptr 1, w1)"
      "ccall answering RdmaCreateId (upd (\<lambda>_. client_init_ctx answering) w1) = Inr (r, w2)" "obj r = Ptr 2"
      "megaVM_bind_client answering (upd (\<lambda>cb. cb\<lparr>cm_id := obj r\<rparr>) w2) = Inr (0, w3)"
      "megaVM_setup_qp answering (cm_id (ctx w3)) w3 = Inr (0, w4)" "megaVM_setup_buffers answering w4 = Inr (0, w5)"
      "ccall answering (IbPostRecv (qp (ctx w5)) (rq_wr (ctx w5))) w5 = Inr (r6, w6)" "rc r6 = 0"
      "megaVM_connect_client answering w6 = Inr (0, w7)"
    and con: "client_connected w7"
    by (auto elim!: returnsE)
  obtain w8 cs where w8: "megaVM_test_client answering w7 = Inr ((), w8)" "log w8 = log w7 @ cs" "pd (ctx w8) = pd (ctx w7)"
    using answering_test [OF con] by blast
  let ?c = "RdmaDisconnect (cm_id (ctx w8))"
  obtain w9 cs' where w9: "run_err2 answering (record_call ?c w8) = Inr ((), w9)" "log w9 = log w8 @ ?c # cs'"
    using answering_run_err2 [of "record_call ?c w8"] con w8(3) by (auto simp: client_connected_def)
  have "megaVM_run_client answering (upd (\<lambda>cb. cb\<lparr>cm_id := obj r\<rparr>) w2) = Inr ((), w9)"
    using run(4-) w8(1) w9(1) by (simp add: megaVM_run_client_def answering_call [of ?c])
  then show ?thesis
    using run(1-3) con w8(2) w9(2)
    by (simp add: megaVM_doit_def Let_def answering_call [of "RdmaDestroyId _"] answering_call [of "Kfree _"] kfree_def
      client_connected_def ret_def)
qed

theorem doit_releases_witness:
  "\<exists>w'. megaVM_doit answering (client_world0 client_ready) = Inr (0, w') \<and> heap w' = Map.empty \<and> Kmalloc 64 \<in> set (log w')"
proof -
  have "post (\<lambda>_ w'. heap w' = Map.empty) (megaVM_doit answering (client_world0 client_ready))"
    by (rule doit_releases) (simp add: client_world0_def)
  with answering_doit show ?thesis by auto
qed

end
