(* ===== verification/PteStore.thy ===== *)
theory PteStore
  imports Prelude
begin

text \<open>
  The two-level array of swap entries: \<open>SharedPageExperiment/pteStore.c\<close> and its copies in the
  patched kernel files \<open>memory.c\<close> (the entries read back in) and \<open>vmscan.c\<close> (the entries written
  out). A row is a list; a row or table whose allocation failed is the empty list, so that any
  access through it is out of bounds. \<open>None\<close> is an access out of bounds.
\<close>

section \<open>The store\<close>

record pte_arrays =
  myPtes :: "u64 list list"
  numberOfArrays :: int
  maxSizeArray :: int
  currentArray :: int
  currentIndex :: int

text \<open>The initial values of the globals, for each of the three copies.\<close>

definition initial_store :: pte_arrays where
  "initial_store = \<lparr>myPtes = [], numberOfArrays = 5, maxSizeArray = 100, currentArray = 0, currentIndex = - 1\<rparr>"

definition initial_IN :: pte_arrays where
  "initial_IN = \<lparr>myPtes = [], numberOfArrays = 20, maxSizeArray = 20000, currentArray = 0, currentIndex = - 1\<rparr>"

definition initial_OUT :: pte_arrays where
  "initial_OUT = \<lparr>myPtes = [], numberOfArrays = 20, maxSizeArray = 20000, currentArray = 0, currentIndex = - 1\<rparr>"

text \<open>
  The allocation: \<open>table\<close> says whether the table of rows was allocated, \<open>row i\<close> is what the
  \<open>i\<close>-th allocation of a row returns (its uninitialised contents). The loop writes the row
  pointers through the table.
\<close>

definition allocateArray :: "bool \<Rightarrow> (nat \<Rightarrow> u64 list) \<Rightarrow> pte_arrays \<Rightarrow> pte_arrays option" where
  "allocateArray table row s =
     (if table \<or> numberOfArrays s \<le> 0
      then Some (s\<lparr>myPtes := map row [0..<nat (numberOfArrays s)]\<rparr>)
      else None)"

definition allocateArray_IN :: "bool \<Rightarrow> (nat \<Rightarrow> u64 list) \<Rightarrow> pte_arrays \<Rightarrow> pte_arrays option" where
  "allocateArray_IN table row s =
     (if table \<or> numberOfArrays s \<le> 0
      then Some (s\<lparr>myPtes := map row [0..<nat (numberOfArrays s)]\<rparr>)
      else None)"

definition allocateArray_OUT :: "bool \<Rightarrow> (nat \<Rightarrow> u64 list) \<Rightarrow> pte_arrays \<Rightarrow> pte_arrays option" where
  "allocateArray_OUT table row s =
     (if table \<or> numberOfArrays s \<le> 0
      then Some (s\<lparr>myPtes := map row [0..<nat (numberOfArrays s)]\<rparr>)
      else None)"

text \<open>After the rows and the table are freed, no access through them is in bounds.\<close>

definition freeArray :: "pte_arrays \<Rightarrow> pte_arrays option" where
  "freeArray s =
     (if numberOfArrays s \<le> int (length (myPtes s)) then Some (s\<lparr>myPtes := []\<rparr>) else None)"

definition freeArray_IN :: "pte_arrays \<Rightarrow> pte_arrays option" where
  "freeArray_IN s =
     (if numberOfArrays s \<le> int (length (myPtes s)) then Some (s\<lparr>myPtes := []\<rparr>) else None)"

definition freeArray_OUT :: "pte_arrays \<Rightarrow> pte_arrays option" where
  "freeArray_OUT s =
     (if numberOfArrays s \<le> int (length (myPtes s)) then Some (s\<lparr>myPtes := []\<rparr>) else None)"

definition addInArray :: "pte_arrays \<Rightarrow> u64 \<Rightarrow> pte_arrays option" where
  "addInArray s element =
     (if currentArray s < numberOfArrays s then
        let s = (if currentIndex s < maxSizeArray s - 1
                 then s\<lparr>currentIndex := currentIndex s + 1\<rparr>
                 else s\<lparr>currentArray := currentArray s + 1, currentIndex := 0\<rparr>)
        in map_option (\<lambda>rows. s\<lparr>myPtes := rows\<rparr>) (store2 (myPtes s) (currentArray s) (currentIndex s) element)
      else Some s)"

definition addInArray_IN :: "pte_arrays \<Rightarrow> u64 \<Rightarrow> pte_arrays option" where
  "addInArray_IN s element =
     (if currentArray s < numberOfArrays s then
        let s = (if currentIndex s < maxSizeArray s - 1
                 then s\<lparr>currentIndex := currentIndex s + 1\<rparr>
                 else s\<lparr>currentArray := currentArray s + 1, currentIndex := 0\<rparr>)
        in map_option (\<lambda>rows. s\<lparr>myPtes := rows\<rparr>) (store2 (myPtes s) (currentArray s) (currentIndex s) element)
      else Some s)"

definition addInArray_OUT :: "pte_arrays \<Rightarrow> u64 \<Rightarrow> pte_arrays option" where
  "addInArray_OUT s element =
     (if currentArray s < numberOfArrays s then
        let s = (if currentIndex s < maxSizeArray s - 1
                 then s\<lparr>currentIndex := currentIndex s + 1\<rparr>
                 else s\<lparr>currentArray := currentArray s + 1, currentIndex := 0\<rparr>)
        in map_option (\<lambda>rows. s\<lparr>myPtes := rows\<rparr>) (store2 (myPtes s) (currentArray s) (currentIndex s) element)
      else Some s)"

text \<open>What \<open>printArray\<close> prints: the whole table, row by row.\<close>

definition print_rows :: "int \<Rightarrow> int \<Rightarrow> u64 list list \<Rightarrow> u64 list list option" where
  "print_rows n m rows = those (map (\<lambda>i. those (map (\<lambda>j. fetch2 rows i j) (map int [0..<nat m]))) (map int [0..<nat n]))"

definition printArray :: "pte_arrays \<Rightarrow> u64 list list option" where
  "printArray s = print_rows (numberOfArrays s) (maxSizeArray s) (myPtes s)"

definition printArray_IN :: "pte_arrays \<Rightarrow> u64 list list option" where
  "printArray_IN s = print_rows (numberOfArrays s) (maxSizeArray s) (myPtes s)"

definition printArray_OUT :: "pte_arrays \<Rightarrow> u64 list list option" where
  "printArray_OUT s = print_rows (numberOfArrays s) (maxSizeArray s) (myPtes s)"

fun add_all :: "('s \<Rightarrow> u64 \<Rightarrow> 's option) \<Rightarrow> 's \<Rightarrow> u64 list \<Rightarrow> 's option" where
  "add_all add s [] = Some s"
| "add_all add s (x # xs) = Option.bind (add s x) (\<lambda>s. add_all add s xs)"

definition fillArray :: "pte_arrays \<Rightarrow> pte_arrays option" where
  "fillArray s = add_all addInArray s
     (concat (map (\<lambda>i. map (\<lambda>j. of_nat (i + j)) [0..<nat (maxSizeArray s)]) [0..<nat (numberOfArrays s)]))"

definition main_pteStore :: "bool \<Rightarrow> (nat \<Rightarrow> u64 list) \<Rightarrow> u64 list list option" where
  "main_pteStore table row =
     Option.bind (allocateArray table row initial_store) (\<lambda>s.
     Option.bind (fillArray s) (\<lambda>s.
     Option.bind (printArray s) (\<lambda>out.
     map_option (\<lambda>_. out) (freeArray s))))"

section \<open>The contract of an append-only trace\<close>

text \<open>
  What the users of the three copies rely on: a store with room appends the element, a full one
  writes out of bounds.
\<close>

locale append_trace =
  fixes add :: "'s \<Rightarrow> u64 \<Rightarrow> 's option"
    and valid :: "'s \<Rightarrow> bool"
    and contents :: "'s \<Rightarrow> u64 list"
    and capacity :: "'s \<Rightarrow> nat"
  assumes add_room: "valid s \<Longrightarrow> length (contents s) < capacity s \<Longrightarrow>
        \<exists>s'. add s x = Some s' \<and> valid s' \<and> contents s' = contents s @ [x] \<and> capacity s' = capacity s"
    and add_full: "valid s \<Longrightarrow> length (contents s) = capacity s \<Longrightarrow> add s x = None"
begin

lemma add_all_room:
  "valid s \<Longrightarrow> length (contents s) + length xs \<le> capacity s \<Longrightarrow>
     \<exists>s'. add_all add s xs = Some s' \<and> valid s' \<and> contents s' = contents s @ xs \<and> capacity s' = capacity s"
proof (induction xs arbitrary: s)
  case (Cons x xs)
  obtain s1 where s1: "add s x = Some s1" "valid s1" "contents s1 = contents s @ [x]" "capacity s1 = capacity s"
    using add_room [of s x] Cons.prems by auto
  then show ?case using Cons.IH [of s1] Cons.prems by auto
qed simp

lemma add_all_overflow:
  assumes "valid s" "length (contents s) \<le> capacity s" "capacity s < length (contents s) + length xs"
  shows "add_all add s xs = None"
  using assms
proof (induction xs arbitrary: s)
  case (Cons x xs)
  show ?case
  proof (cases "length (contents s) < capacity s")
    case True
    obtain s1 where "add s x = Some s1" "valid s1" "contents s1 = contents s @ [x]" "capacity s1 = capacity s"
      using add_room [of s x] Cons.prems True by auto
    then show ?thesis using Cons.IH [of s1] Cons.prems True by simp
  next
    case False
    then show ?thesis using add_full [of s x] Cons.prems by simp
  qed
qed simp

end

section \<open>The three copies keep the contract\<close>

text \<open>
  The store is used in order: \<open>used\<close> cells from the first row on. It is valid when its rows are
  allocated and the position is inside the table.
\<close>

definition used :: "pte_arrays \<Rightarrow> nat" where
  "used s = nat (currentArray s * maxSizeArray s + currentIndex s + 1)"

definition store_capacity :: "pte_arrays \<Rightarrow> nat" where
  "store_capacity s = nat (numberOfArrays s) * nat (maxSizeArray s)"

definition valid_store :: "pte_arrays \<Rightarrow> bool" where
  "valid_store s \<longleftrightarrow> 0 < maxSizeArray s \<and> 0 \<le> currentArray s \<and> currentArray s < numberOfArrays s \<and>
     - 1 \<le> currentIndex s \<and> currentIndex s < maxSizeArray s \<and>
     length (myPtes s) = nat (numberOfArrays s) \<and> (\<forall>r\<in>set (myPtes s). length r = nat (maxSizeArray s))"

definition stored :: "pte_arrays \<Rightarrow> u64 list" where
  "stored s = take (used s) (concat (myPtes s))"

lemma length_concat_rows: "\<forall>r\<in>set rows. length r = m \<Longrightarrow> length (concat rows) = length rows * m"
  by (induction rows) auto

lemma concat_update:
  assumes "\<forall>r\<in>set rows. length r = m" "a < length rows" "i < m"
  shows "concat (rows[a := (rows ! a)[i := x]]) = (concat rows)[a * m + i := x]"
  using assms
proof (induction rows arbitrary: a)
  case (Cons r rows)
  show ?case
  proof (cases a)
    case 0
    then show ?thesis using Cons.prems by (simp add: list_update_append)
  next
    case (Suc b)
    then show ?thesis
      using Cons.IH [of b] Cons.prems by (simp add: list_update_append add.assoc)
  qed
qed simp

lemma concat_nth:
  assumes "\<forall>r\<in>set rows. length r = m" "a < length rows" "i < m"
  shows "concat rows ! (a * m + i) = rows ! a ! i"
  using assms
proof (induction rows arbitrary: a)
  case (Cons r rows)
  then show ?case
    by (cases a) (auto simp: nth_append add.assoc)
qed simp

lemma used_le_capacity: "valid_store s \<Longrightarrow> used s \<le> store_capacity s"
proof -
  assume v: "valid_store s"
  then have "currentArray s * maxSizeArray s + currentIndex s + 1 \<le> (currentArray s + 1) * maxSizeArray s"
    by (simp add: valid_store_def algebra_simps)
  also have "\<dots> \<le> numberOfArrays s * maxSizeArray s"
    using v by (intro mult_right_mono) (auto simp: valid_store_def)
  finally show ?thesis
    using v by (simp add: used_def store_capacity_def nat_mult_distrib [symmetric] valid_store_def)
qed

lemma length_stored:
  assumes "valid_store s"
  shows "length (stored s) = used s"
proof -
  have "length (concat (myPtes s)) = store_capacity s"
    using assms length_concat_rows [of "myPtes s" "nat (maxSizeArray s)"]
    by (simp add: valid_store_def store_capacity_def)
  then show ?thesis
    using used_le_capacity [OF assms] by (simp add: stored_def)
qed

text \<open>Where the next element goes.\<close>

definition advance :: "pte_arrays \<Rightarrow> pte_arrays" where
  "advance s = (if currentIndex s < maxSizeArray s - 1
                then s\<lparr>currentIndex := currentIndex s + 1\<rparr>
                else s\<lparr>currentArray := currentArray s + 1, currentIndex := 0\<rparr>)"

lemma advance_simps [simp]:
  "myPtes (advance s) = myPtes s" "numberOfArrays (advance s) = numberOfArrays s"
  "maxSizeArray (advance s) = maxSizeArray s"
  by (simp_all add: advance_def)

lemma addInArray_advance:
  "valid_store s \<Longrightarrow> addInArray s x = map_option (\<lambda>rows. (advance s)\<lparr>myPtes := rows\<rparr>)
     (store2 (myPtes s) (currentArray (advance s)) (currentIndex (advance s)) x)"
  by (simp add: addInArray_def valid_store_def advance_def Let_def)

lemma advance_position:
  assumes "valid_store s"
  shows "used (advance s) = Suc (used s)" "0 \<le> currentIndex (advance s)"
    "currentIndex (advance s) < maxSizeArray s" "0 \<le> currentArray (advance s)"
    "currentArray (advance s) * maxSizeArray s + currentIndex (advance s) = int (used s)"
proof -
  have pos: "0 \<le> currentArray s * maxSizeArray s"
    using assms by (simp add: valid_store_def)
  have eq: "currentArray (advance s) * maxSizeArray s + currentIndex (advance s) =
      currentArray s * maxSizeArray s + currentIndex s + 1"
    using assms by (simp add: advance_def valid_store_def algebra_simps)
  have nonneg: "0 \<le> currentArray s * maxSizeArray s + currentIndex s + 1"
    using pos assms unfolding valid_store_def by linarith
  show "0 \<le> currentIndex (advance s)" "currentIndex (advance s) < maxSizeArray s"
      "0 \<le> currentArray (advance s)"
    using assms by (auto simp: advance_def valid_store_def)
  show "currentArray (advance s) * maxSizeArray s + currentIndex (advance s) = int (used s)"
    unfolding eq using nonneg by (simp add: used_def)
  show "used (advance s) = Suc (used s)"
    unfolding used_def advance_simps eq using nonneg by (simp add: Suc_nat_eq_nat_zadd1)
qed

lemma addInArray_room:
  assumes v: "valid_store s" and room: "length (stored s) < store_capacity s"
  shows "\<exists>s'. addInArray s x = Some s' \<and> valid_store s' \<and> stored s' = stored s @ [x] \<and>
    store_capacity s' = store_capacity s"
proof -
  let ?a = "currentArray (advance s)" and ?i = "currentIndex (advance s)" and ?m = "maxSizeArray s"
  note pos = advance_position [OF v]
  have m: "0 < ?m" "length (myPtes s) = nat (numberOfArrays s)"
      and rows: "\<forall>r\<in>set (myPtes s). length r = nat ?m"
    using v by (auto simp: valid_store_def)
  have "int (used s) < numberOfArrays s * ?m"
    using room v length_stored [OF v]
    by (simp add: store_capacity_def valid_store_def nat_mult_distrib [symmetric] zless_nat_eq_int_zless)
  then have "?a * ?m < numberOfArrays s * ?m"
    using pos(2,5) by linarith
  then have a: "?a < numberOfArrays s" using m by (simp add: mult_less_cancel_right)
  define rows' where "rows' = (myPtes s)[nat ?a := (myPtes s ! nat ?a)[nat ?i := x]]"
  have len: "length (myPtes s ! nat ?a) = nat ?m"
    using rows m a pos(4) by (simp add: nat_less_iff)
  have add: "addInArray s x = Some ((advance s)\<lparr>myPtes := rows'\<rparr>)"
    using a m pos len by (simp add: addInArray_advance [OF v] store2_in rows'_def nat_less_iff)
  have idx: "nat ?a * nat ?m + nat ?i = used s"
    using pos(2,4,5) m by (simp add: nat_mult_distrib [symmetric] nat_add_distrib [symmetric])
  have "concat rows' = (concat (myPtes s))[used s := x]"
    unfolding rows'_def idx [symmetric] by (rule concat_update [OF rows]) (use a m pos in auto)
  moreover have "used s < length (concat (myPtes s))"
    using room length_stored [OF v] by (simp add: length_concat_rows [OF rows] m store_capacity_def)
  ultimately have "stored ((advance s)\<lparr>myPtes := rows'\<rparr>) = stored s @ [x]"
    using pos(1) by (simp add: stored_def used_def take_Suc_conv_app_nth)
  moreover have "valid_store ((advance s)\<lparr>myPtes := rows'\<rparr>)"
    using v pos a len rows by (auto simp: valid_store_def rows'_def dest!: subsetD [OF set_update_subset_insert])
  ultimately show ?thesis
    using add by (simp add: store_capacity_def)
qed

lemma addInArray_full:
  assumes v: "valid_store s" and full: "length (stored s) = store_capacity s"
  shows "addInArray s x = None"
proof -
  let ?a = "currentArray (advance s)" and ?m = "maxSizeArray s"
  note pos = advance_position [OF v]
  have "numberOfArrays s * ?m = ?a * ?m + currentIndex (advance s)"
    using pos(5) full length_stored [OF v] v
    by (simp add: store_capacity_def valid_store_def nat_mult_distrib [symmetric])
  then have "numberOfArrays s * ?m < (?a + 1) * ?m"
    using pos(3) by (simp add: algebra_simps)
  then have "numberOfArrays s \<le> ?a"
    using v by (simp add: valid_store_def mult_less_cancel_right)
  then show ?thesis
    using v by (simp add: addInArray_advance [OF v] store2_row_out valid_store_def)
qed

lemma addInArray_copies: "addInArray_IN = addInArray" "addInArray_OUT = addInArray"
  by (simp_all add: fun_eq_iff addInArray_def addInArray_IN_def addInArray_OUT_def)

interpretation user_store: append_trace addInArray valid_store stored store_capacity
  by unfold_locales (auto intro: addInArray_room addInArray_full)

interpretation swapin_store: append_trace addInArray_IN valid_store stored store_capacity
  by unfold_locales (auto simp: addInArray_copies intro: addInArray_room addInArray_full)

interpretation swapout_store: append_trace addInArray_OUT valid_store stored store_capacity
  by unfold_locales (auto simp: addInArray_copies intro: addInArray_room addInArray_full)


section \<open>Filling and printing\<close>

text \<open>The store after a successful allocation is valid and empty.\<close>

lemma fresh_valid:
  assumes "s = initial_store \<or> s = initial_IN \<or> s = initial_OUT"
    and "\<And>i. i < nat (numberOfArrays s) \<Longrightarrow> length (row i) = nat (maxSizeArray s)"
  shows "valid_store (s\<lparr>myPtes := map row [0..<nat (numberOfArrays s)]\<rparr>)"
    "stored (s\<lparr>myPtes := map row [0..<nat (numberOfArrays s)]\<rparr>) = []"
    "store_capacity (s\<lparr>myPtes := map row [0..<nat (numberOfArrays s)]\<rparr>) = store_capacity s"
  using assms
  by (auto simp: valid_store_def stored_def used_def store_capacity_def initial_store_def initial_IN_def initial_OUT_def)

lemma those_map_Some: "(\<And>x. x \<in> set xs \<Longrightarrow> f x = Some (g x)) \<Longrightarrow> those (map f xs) = Some (map g xs)"
  by (induction xs) auto

lemma print_valid:
  assumes "valid_store s"
  shows "print_rows (numberOfArrays s) (maxSizeArray s) (myPtes s) = Some (myPtes s)"
proof -
  let ?n = "nat (numberOfArrays s)" and ?m = "nat (maxSizeArray s)"
  have v: "length (myPtes s) = ?n" "\<And>i. i < ?n \<Longrightarrow> length (myPtes s ! i) = ?m"
    using assms by (auto simp: valid_store_def)
  have row: "those (map (\<lambda>j. fetch2 (myPtes s) (int i) j) (map int [0..<?m])) = Some (myPtes s ! i)" if "i < ?n" for i
  proof -
    have "those (map (\<lambda>j. fetch2 (myPtes s) (int i) j) (map int [0..<?m])) = Some (map (\<lambda>j. myPtes s ! i ! j) [0..<?m])"
      unfolding map_map
    proof (rule those_map_Some)
      fix j assume "j \<in> set [0..<?m]"
      then have "i < length (myPtes s)" "j < length (myPtes s ! i)"
        using v(1) v(2) [OF that] that by simp_all
      then show "((\<lambda>j. fetch2 (myPtes s) (int i) j) \<circ> int) j = Some (myPtes s ! i ! j)"
        by (simp add: fetch2_def fetch_def)
    qed
    then show ?thesis
      using map_nth [of "myPtes s ! i"] v(2) [OF that] by simp
  qed
  have "print_rows (numberOfArrays s) (maxSizeArray s) (myPtes s) = Some (map (\<lambda>i. myPtes s ! i) [0..<?n])"
    unfolding print_rows_def map_map by (rule those_map_Some) (use row in \<open>simp add: comp_def\<close>)
  then show ?thesis
    using v(1) map_nth [of "myPtes s"] by simp
qed

lemma concat_inj:
  "\<forall>r\<in>set xs. length r = m \<Longrightarrow> \<forall>r\<in>set ys. length r = m \<Longrightarrow> length xs = length ys \<Longrightarrow>
     concat xs = concat ys \<Longrightarrow> xs = ys"
proof (induction xs arbitrary: ys)
  case (Cons x xs)
  from Cons.prems(3) obtain z zs where ys: "ys = z # zs" by (cases ys) simp_all
  then have "x = z \<and> concat xs = concat zs"
    using Cons.prems by (simp add: append_eq_append_conv)
  then show ?case
    using Cons.IH [of zs] Cons.prems ys by simp
qed simp

text \<open>A full store holds exactly its rows, so its contents determine the table.\<close>

lemma full_rows:
  assumes "valid_store s" "stored s = concat tab" "length tab = nat (numberOfArrays s)"
    "\<forall>r\<in>set tab. length r = nat (maxSizeArray s)"
  shows "myPtes s = tab"
proof (rule concat_inj)
  have rows: "\<forall>r\<in>set (myPtes s). length r = nat (maxSizeArray s)" "length (myPtes s) = nat (numberOfArrays s)"
    using assms(1) by (auto simp: valid_store_def)
  have "length (concat tab) = length (concat (myPtes s))"
    using length_concat_rows [OF assms(4)] length_concat_rows [OF rows(1)] assms(3) rows(2) by metis
  then have "used s = length (concat (myPtes s))"
    using length_stored [OF assms(1)] assms(2) by simp
  then show "concat (myPtes s) = concat tab"
    using assms(2) by (simp add: stored_def)
  show "\<forall>r\<in>set (myPtes s). length r = nat (maxSizeArray s)" "length (myPtes s) = length tab"
    using rows assms(3) by simp_all
qed (use assms in simp)

end
