(* ===== verification/SwapExperiment.thy ===== *)
theory SwapExperiment
  imports PteStore
begin

text \<open>
  \<open>SharedPageExperiment/pteExp.c\<close>: the module that compares the swap entries read back in with
  those written out, and the recorded contents of the pages. The two traces are the stores of
  \<open>PteStore\<close>; a loop over indices is a recursion over the list of the indices.
\<close>

section \<open>Counting common entries\<close>

text \<open>What the two inner loops do for one element: \<open>goto nextIter\<close>, with or without a hit, or run out.\<close>

datatype search = GotoNextIter bool | LoopEnd

fun match_y ::
  "u64 list list \<Rightarrow> int \<Rightarrow> int \<Rightarrow> u64 list list \<Rightarrow> int \<Rightarrow> int \<Rightarrow> int \<Rightarrow> int list \<Rightarrow> search option" where
  "match_y array1 i j array2 ca ci x [] = Some LoopEnd"
| "match_y array1 i j array2 ca ci x (y # ys) =
     (if x = ca \<and> ci < y then Some (GotoNextIter False)
      else
        Option.bind (fetch2 array1 i j) (\<lambda>v.
        Option.bind (fetch2 array2 x y) (\<lambda>u.
        if v = u then Some (GotoNextIter True) else match_y array1 i j array2 ca ci x ys)))"

fun match_x ::
  "u64 list list \<Rightarrow> int \<Rightarrow> int \<Rightarrow> u64 list list \<Rightarrow> int \<Rightarrow> int \<Rightarrow> nat \<Rightarrow> int list \<Rightarrow> bool option" where
  "match_x array1 i j array2 ca ci m [] = Some False"
| "match_x array1 i j array2 ca ci m (x # xs) =
     Option.bind (match_y array1 i j array2 ca ci x (map int [0..<m])) (\<lambda>r.
       case r of GotoNextIter hit \<Rightarrow> Some hit | LoopEnd \<Rightarrow> match_x array1 i j array2 ca ci m xs)"

text \<open>The loop over \<open>j\<close>: whether it went to \<open>finish\<close>, and \<open>similarity\<close>.\<close>

fun comp_j ::
  "pte_arrays \<Rightarrow> pte_arrays \<Rightarrow> nat \<Rightarrow> int \<Rightarrow> int list \<Rightarrow> int \<Rightarrow> (bool \<times> int) option" where
  "comp_j s_in s_out m i [] similarity = Some (False, similarity)"
| "comp_j s_in s_out m i (j # js) similarity =
     (if i = currentArray s_in \<and> currentIndex s_in < j then Some (True, similarity)
      else
        Option.bind (match_x (myPtes s_in) i j (myPtes s_out) (currentArray s_out) (currentIndex s_out) m
            (map int [0..<nat (currentArray s_out + 1)])) (\<lambda>hit.
          comp_j s_in s_out m i js (if hit then similarity + 1 else similarity)))"

fun comp_i ::
  "pte_arrays \<Rightarrow> pte_arrays \<Rightarrow> nat \<Rightarrow> int list \<Rightarrow> int \<Rightarrow> int option" where
  "comp_i s_in s_out m [] similarity = Some similarity"
| "comp_i s_in s_out m (i # is) similarity =
     Option.bind (comp_j s_in s_out m i (map int [0..<m]) similarity) (\<lambda>(finish, similarity).
       if finish then Some similarity else comp_i s_in s_out m is similarity)"

text \<open>\<open>m\<close> is the global \<open>maxElements\<close>.\<close>

definition compTwoArrays :: "nat \<Rightarrow> pte_arrays \<Rightarrow> pte_arrays \<Rightarrow> int option" where
  "compTwoArrays m s_in s_out = comp_i s_in s_out m (map int [0..<nat (currentArray s_in + 1)]) 0"

definition maxElements :: nat where
  "maxElements = 20000"

definition maxArrays :: nat where
  "maxArrays = 5"

definition printArray_exp :: "u64 list list option \<Rightarrow> u64 list list option" where
  "printArray_exp inp = (case inp of None \<Rightarrow> Some [] | Some rows \<Rightarrow> print_rows (int maxArrays) (int maxElements) rows)"

section \<open>Comparing page contents\<close>

record page_content_store =
  page_value :: u64
  page_content :: "u8 list"

datatype message =
    SameElements int | Position int int | Matching u64 u64 | PageContentsMatch | End

text \<open>The byte loop; it only ever clears \<open>decision\<close>.\<close>

definition compare_bytes :: "u8 list \<Rightarrow> u8 list \<Rightarrow> bool \<Rightarrow> bool" where
  "compare_bytes a b decision = foldl (\<lambda>d j. if a ! j \<noteq> b ! j then False else d) decision [0..<4096]"

text \<open>The loop over \<open>k\<close>: whether it went to \<open>tag1\<close>, and what it printed.\<close>

fun scan_k ::
  "page_content_store list \<Rightarrow> page_content_store \<Rightarrow> bool \<Rightarrow> int list \<Rightarrow> (bool \<times> message list) option" where
  "scan_k out p decision [] = Some (False, [])"
| "scan_k out p decision (k # ks) =
     Option.bind (fetch out k) (\<lambda>q.
       if page_value q = page_value p then
         let decision = compare_bytes (page_content q) (page_content p) decision;
             msg = Matching (page_value q) (page_value p) in
         if decision then Some (True, [msg, PageContentsMatch])
         else map_option (\<lambda>(tag1, ms). (tag1, msg # ms)) (scan_k out p decision ks)
       else scan_k out p decision ks)"

fun scan_i ::
  "page_content_store list \<Rightarrow> page_content_store list \<Rightarrow> int list \<Rightarrow> message list option" where
  "scan_i out pin [] = Some []"
| "scan_i out pin (i # is) =
     Option.bind (fetch pin i) (\<lambda>p.
     Option.bind (scan_k out p True (map int [0..<1000])) (\<lambda>(tag1, ms).
       if tag1 then Some ms else map_option (\<lambda>ns. ms @ ns) (scan_i out pin is)))"

text \<open>
  \<open>init_module\<close>: a trace that was never allocated is \<open>None\<close>; \<open>filled\<close> is \<open>pageFilled_IN\<close>.
\<close>

definition init_module_exp ::
  "pte_arrays option \<Rightarrow> pte_arrays option \<Rightarrow> page_content_store list \<Rightarrow> page_content_store list \<Rightarrow> nat \<Rightarrow>
     message list option" where
  "init_module_exp s_in s_out out pin filled =
     Option.bind
       (case (s_in, s_out) of
          (Some a, Some b) \<Rightarrow>
            map_option (\<lambda>x. [SameElements x, Position (currentArray a) (currentIndex a),
                Position (currentArray b) (currentIndex b)])
              (compTwoArrays maxElements a b)
        | _ \<Rightarrow> Some [])
       (\<lambda>ms. map_option (\<lambda>ns. ms @ ns @ [End]) (scan_i out pin (map int [0..<filled])))"

section \<open>The traces as lists\<close>

lemma stored_rows:
  assumes "valid_store s"
  shows "stored s = concat (take (nat (currentArray s)) (myPtes s)) @
     take (nat (currentIndex s + 1)) (myPtes s ! nat (currentArray s))"
proof -
  let ?a = "nat (currentArray s)" and ?m = "nat (maxSizeArray s)" and ?k = "nat (currentIndex s + 1)"
  have v: "?a < length (myPtes s)" "\<forall>r\<in>set (myPtes s). length r = ?m" "?k \<le> ?m"
    using assms by (auto simp: valid_store_def nat_less_iff)
  have used: "used s = ?a * ?m + ?k"
    using assms by (simp add: used_def valid_store_def nat_mult_distrib [symmetric] nat_add_distrib [symmetric] algebra_simps)
  have split: "myPtes s = take ?a (myPtes s) @ (myPtes s ! ?a) # drop (Suc ?a) (myPtes s)"
    using v(1) by (rule id_take_nth_drop)
  have rows: "\<forall>r\<in>set (take ?a (myPtes s)). length r = ?m"
    using v(2) by (auto dest: in_set_takeD)
  have len: "length (concat (take ?a (myPtes s))) = ?a * ?m"
    using length_concat_rows [OF rows] v(1) by simp
  have row: "length (myPtes s ! ?a) = ?m" using v by simp
  have "stored s = take (?a * ?m + ?k) (concat (take ?a (myPtes s)) @ (myPtes s ! ?a) @ concat (drop (Suc ?a) (myPtes s)))"
    unfolding stored_def used by (subst split) simp
  then show ?thesis
    using len row v(3) by simp
qed


section \<open>The nested loops as membership\<close>

lemma match_y_app:
  assumes "fetch2 array1 i j = Some v"
    and "\<And>y. y \<in> set ys \<Longrightarrow> \<not> (x = ca \<and> ci < y) \<and> fetch2 array2 x y = Some (f y)"
  shows "match_y array1 i j array2 ca ci x (ys @ zs) =
    (if v \<in> f ` set ys then Some (GotoNextIter True) else match_y array1 i j array2 ca ci x zs)"
  using assms(2) by (induction ys) (auto simp: assms(1))

lemma fetch2_cell:
  assumes "valid_store s" "a < length (myPtes s)" "b < nat (maxSizeArray s)"
  shows "fetch2 (myPtes s) (int a) (int b) = Some (myPtes s ! a ! b)"
  using assms by (simp add: valid_store_def fetch2_def fetch_def)

text \<open>The inner loop on a full row, and on the last row, which is used up to \<open>currentIndex\<close>.\<close>

lemma match_y_full_row:
  assumes "valid_store s" "a < nat (currentArray s)" "fetch2 array1 i j = Some v" "m = nat (maxSizeArray s)"
  shows "match_y array1 i j (myPtes s) (currentArray s) (currentIndex s) (int a) (map int [0..<m]) =
    Some (if v \<in> set (myPtes s ! a) then GotoNextIter True else LoopEnd)"
proof -
  have a: "a < length (myPtes s)" "int a \<noteq> currentArray s" "length (myPtes s ! a) = m"
    using assms(1,2,4) by (auto simp: valid_store_def nat_less_iff)
  have "set (myPtes s ! a) = (\<lambda>y. myPtes s ! a ! nat y) ` set (map int [0..<m])"
    using a(3) by (force simp: set_conv_nth image_iff)
  moreover have "\<not> (int a = currentArray s \<and> currentIndex s < y) \<and>
      fetch2 (myPtes s) (int a) y = Some (myPtes s ! a ! nat y)" if "y \<in> set (map int [0..<m])" for y
    using that a fetch2_cell [OF assms(1) a(1)] assms(4) by auto
  ultimately show ?thesis
    using match_y_app [OF assms(3), of "map int [0..<m]" "int a" "currentArray s" "currentIndex s" "myPtes s"
        "\<lambda>y. myPtes s ! a ! nat y" "[]"] by simp
qed

lemma match_y_last_row:
  assumes "valid_store s" "fetch2 array1 i j = Some v" "m = nat (maxSizeArray s)"
  shows "match_y array1 i j (myPtes s) (currentArray s) (currentIndex s) (currentArray s) (map int [0..<m]) =
    Some (if v \<in> set (take (nat (currentIndex s + 1)) (myPtes s ! nat (currentArray s))) then GotoNextIter True
          else if nat (currentIndex s + 1) < m then GotoNextIter False else LoopEnd)"
proof -
  let ?a = "nat (currentArray s)" and ?k = "nat (currentIndex s + 1)"
  have a: "?a < length (myPtes s)" "int ?a = currentArray s" "length (myPtes s ! ?a) = m" "?k \<le> m"
      "int ?k = currentIndex s + 1"
    using assms(1,3) by (auto simp: valid_store_def nat_less_iff)
  have split: "map int [0..<m] = map int [0..<?k] @ map int [?k..<m]"
    using a(4) by (metis le_add_diff_inverse map_append upt_add_eq_append zero_le)
  have "set (take ?k (myPtes s ! ?a)) = (\<lambda>y. myPtes s ! ?a ! nat y) ` set (map int [0..<?k])"
    using a(3,4) by (force simp: set_conv_nth image_iff)
  moreover have "match_y array1 i j (myPtes s) (currentArray s) (currentIndex s) (currentArray s) (map int [?k..<m]) =
      Some (if ?k < m then GotoNextIter False else LoopEnd)"
    using a(5) by (cases "?k < m") (simp_all add: upt_conv_Cons)
  moreover have "\<not> (currentArray s = currentArray s \<and> currentIndex s < y) \<and>
      fetch2 (myPtes s) (currentArray s) y = Some (myPtes s ! ?a ! nat y)" if "y \<in> set (map int [0..<?k])" for y
    using that a fetch2_cell [OF assms(1) a(1)] assms(3) by auto
  ultimately show ?thesis
    unfolding split
    by (subst match_y_app [OF assms(2), where f = "\<lambda>y. myPtes s ! ?a ! nat y"]) auto
qed

lemma map_nth_take: "a \<le> length xs \<Longrightarrow> map (\<lambda>i. xs ! i) [0..<a] = take a xs"
  by (rule nth_equalityI) simp_all

lemma match_x_run:
  assumes v: "valid_store s" and f: "fetch2 array1 i j = Some v" and m: "m = nat (maxSizeArray s)"
  shows "match_x array1 i j (myPtes s) (currentArray s) (currentIndex s) m (map int [0..<nat (currentArray s + 1)]) =
    Some (v \<in> set (stored s))"
proof -
  let ?a = "nat (currentArray s)" and ?last = "take (nat (currentIndex s + 1)) (myPtes s ! nat (currentArray s))"
  have a: "int ?a = currentArray s" "nat (currentArray s + 1) = Suc ?a" "?a < length (myPtes s)"
    using v by (auto simp: valid_store_def nat_less_iff)
  have last: "match_x array1 i j (myPtes s) (currentArray s) (currentIndex s) m [currentArray s] = Some (v \<in> set ?last)"
    using match_y_last_row [OF v f m] by simp
  have "match_x array1 i j (myPtes s) (currentArray s) (currentIndex s) m (map int [b..<?a] @ [currentArray s]) =
      Some (v \<in> set (concat (map (\<lambda>x. myPtes s ! x) [b..<?a])) \<or> v \<in> set ?last)" if "b \<le> ?a" for b
    using that
  proof (induction "?a - b" arbitrary: b)
    case 0
    then show ?case using last by simp
  next
    case (Suc d)
    then have b: "b < ?a" "d = ?a - Suc b" "Suc b \<le> ?a" by linarith+
    show ?case
      using match_y_full_row [OF v b(1) f m] Suc.hyps(1) [OF b(2,3)] b(1)
      by (simp add: upt_conv_Cons)
  qed
  from this [of 0] have "match_x array1 i j (myPtes s) (currentArray s) (currentIndex s) m (map int [0..<?a] @ [currentArray s]) =
      Some (v \<in> set (concat (map (\<lambda>x. myPtes s ! x) [0..<?a])) \<or> v \<in> set ?last)" by simp
  moreover have "map (\<lambda>x. myPtes s ! x) [0..<?a] = take ?a (myPtes s)"
    using a(3) by (intro map_nth_take) simp
  ultimately show ?thesis
    using a by (simp add: stored_rows [OF v])
qed

text \<open>The outer loops count the elements of the first trace that occur in the second.\<close>

definition common :: "pte_arrays \<Rightarrow> u64 list \<Rightarrow> int" where
  "common s_out xs = int (length (filter (\<lambda>v. v \<in> set (stored s_out)) xs))"

lemma common_simps [simp]:
  "common s [] = 0" "common s (x # xs) = (if x \<in> set (stored s) then 1 else 0) + common s xs"
  "common s (xs @ ys) = common s xs + common s ys"
  by (simp_all add: common_def)

lemma comp_j_app:
  assumes "valid_store s_out" "m = nat (maxSizeArray s_out)"
    and "\<And>j. j \<in> set js \<Longrightarrow> \<not> (i = currentArray s_in \<and> currentIndex s_in < j) \<and> fetch2 (myPtes s_in) i j = Some (f j)"
  shows "comp_j s_in s_out m i (js @ ks) n = comp_j s_in s_out m i ks (n + common s_out (map f js))"
  using assms(3)
proof (induction js arbitrary: n)
  case (Cons j js)
  have j: "\<not> (i = currentArray s_in \<and> currentIndex s_in < j)" "fetch2 (myPtes s_in) i j = Some (f j)"
    using Cons.prems by auto
  show ?case
    unfolding append_Cons comp_j.simps if_not_P [OF j(1)]
    using match_x_run [OF assms(1) j(2) assms(2)] Cons.IH Cons.prems by (simp add: add.assoc)
qed simp

lemma comp_j_full_row:
  assumes "valid_store s_out" "m = nat (maxSizeArray s_out)" "valid_store s_in" "m = nat (maxSizeArray s_in)"
    and "a < nat (currentArray s_in)"
  shows "comp_j s_in s_out m (int a) (map int [0..<m]) n = Some (False, n + common s_out (myPtes s_in ! a))"
proof -
  have a: "a < length (myPtes s_in)" "int a \<noteq> currentArray s_in" "length (myPtes s_in ! a) = m"
    using assms(3-5) by (auto simp: valid_store_def nat_less_iff)
  have "map (\<lambda>j. myPtes s_in ! a ! nat j) (map int [0..<m]) = myPtes s_in ! a"
    using a(3) map_nth [of "myPtes s_in ! a"] by (simp add: comp_def)
  moreover have "\<not> (int a = currentArray s_in \<and> currentIndex s_in < y) \<and>
      fetch2 (myPtes s_in) (int a) y = Some (myPtes s_in ! a ! nat y)" if "y \<in> set (map int [0..<m])" for y
    using that a fetch2_cell [OF assms(3) a(1)] assms(4) by auto
  ultimately show ?thesis
    using comp_j_app [OF assms(1,2), of "map int [0..<m]" "int a" s_in "\<lambda>j. myPtes s_in ! a ! nat j" "[]" n]
    by simp
qed

lemma comp_j_last_row:
  assumes "valid_store s_out" "m = nat (maxSizeArray s_out)" "valid_store s_in" "m = nat (maxSizeArray s_in)"
  shows "\<exists>fin. comp_j s_in s_out m (currentArray s_in) (map int [0..<m]) n =
    Some (fin, n + common s_out (take (nat (currentIndex s_in + 1)) (myPtes s_in ! nat (currentArray s_in))))"
proof -
  let ?a = "nat (currentArray s_in)" and ?k = "nat (currentIndex s_in + 1)"
  have a: "?a < length (myPtes s_in)" "int ?a = currentArray s_in" "length (myPtes s_in ! ?a) = m" "?k \<le> m"
      "int ?k = currentIndex s_in + 1"
    using assms(3,4) by (auto simp: valid_store_def nat_less_iff)
  have split: "map int [0..<m] = map int [0..<?k] @ map int [?k..<m]"
    using a(4) by (metis le_add_diff_inverse map_append upt_add_eq_append zero_le)
  have "map (\<lambda>j. myPtes s_in ! ?a ! nat j) (map int [0..<?k]) = take ?k (myPtes s_in ! ?a)"
    using a(3,4) by (auto intro: nth_equalityI)
  moreover have "\<exists>fin. comp_j s_in s_out m (currentArray s_in) (map int [?k..<m]) l = Some (fin, l)" for l
    using a(5) by (cases "?k < m") (auto simp: upt_conv_Cons)
  moreover have "\<not> (currentArray s_in = currentArray s_in \<and> currentIndex s_in < y) \<and>
      fetch2 (myPtes s_in) (currentArray s_in) y = Some (myPtes s_in ! ?a ! nat y)" if "y \<in> set (map int [0..<?k])" for y
    using that a fetch2_cell [OF assms(3) a(1)] assms(4) by auto
  ultimately show ?thesis
    unfolding split
    by (subst comp_j_app [OF assms(1,2), where f = "\<lambda>y. myPtes s_in ! ?a ! nat y"]) auto
qed


section \<open>The content comparison\<close>

lemma compare_bytes_iff:
  assumes "length a = 4096" "length b = 4096"
  shows "compare_bytes a b d \<longleftrightarrow> d \<and> a = b"
proof -
  have "foldl (\<lambda>d j. if a ! j \<noteq> b ! j then False else d) d js \<longleftrightarrow> d \<and> (\<forall>j\<in>set js. a ! j = b ! j)" for js d
    by (induction js arbitrary: d) auto
  then show ?thesis
    using assms by (auto simp: compare_bytes_def list_eq_iff_nth_eq)
qed

text \<open>Once \<open>decision\<close> is false it stays so for the rest of the scan: nothing is a match any more.\<close>

lemma scan_k_false:
  assumes "\<And>k. k \<in> set ks \<Longrightarrow> \<exists>q. fetch out k = Some q \<and> length (page_content q) = 4096" "length (page_content p) = 4096"
  shows "\<exists>ms. scan_k out p False ks = Some (False, ms) \<and> PageContentsMatch \<notin> set ms"
  using assms(1)
proof (induction ks)
  case (Cons k ks)
  obtain q where q: "fetch out k = Some q" "length (page_content q) = 4096" using Cons.prems by fastforce
  then have "\<not> compare_bytes (page_content q) (page_content p) False"
    using assms(2) by (simp add: compare_bytes_iff)
  with q Cons show ?case by (auto simp: Let_def)
qed simp

definition same_value :: "page_content_store \<Rightarrow> page_content_store \<Rightarrow> bool" where
  "same_value p q \<longleftrightarrow> page_value q = page_value p"

end
