(* ===== verification/HeapSwap.thy ===== *)
theory HeapSwap
  imports Prelude
begin

text \<open>
  \<open>heap copy/file_fault.c\<close>: the module that walks the heaps of two processes in step and exchanges
  the contents of their pages. The page-table walk, the page flags and the locking of an
  \<open>anon_vma\<close> come from the kernel and are parameters; the pages, the spin locks and the byte
  buffer are the state. \<open>Oops\<close> is a null dereference or a \<open>VM_BUG_ON_PAGE\<close>.
\<close>

section \<open>The environment and the state\<close>

record pte_entry =
  pte_present :: bool
  pte_page :: nat

record page_flags =
  PageAnon :: bool
  PageKsm :: bool
  PageLocked :: bool
  page_mapping :: bool

record mm_struct =
  start_brk :: u64
  brk :: u64

record swap_env =
  walk1 :: "u64 \<Rightarrow> pte_entry option"
  walk2 :: "u64 \<Rightarrow> pte_entry option"
  flags_of :: "nat \<Rightarrow> page_flags"
  anon_vma_locks :: "nat \<Rightarrow> bool"
  task1 :: "mm_struct option"
  task2 :: "mm_struct option"
  vma1 :: bool
  debug_vm :: bool
  buffer_of :: "u8 list option"

text \<open>\<open>locks\<close> counts the page-table locks the module holds; \<open>old_content\<close> is its buffer.\<close>

record swap_world =
  pages :: "nat \<Rightarrow> u8 list"
  old_content :: "u8 list option"
  locks :: nat
  file_ops_installed :: bool

definition PAGE_SIZE :: nat where
  "PAGE_SIZE = 4096"

section \<open>One page\<close>

text \<open>One turn of the byte loop; \<open>a\<close> and \<open>b\<close> may be the same page.\<close>

definition swap_byte :: "nat \<Rightarrow> nat \<Rightarrow> (nat \<Rightarrow> u8 list) \<times> u8 list \<Rightarrow> nat \<Rightarrow> (nat \<Rightarrow> u8 list) \<times> u8 list" where
  "swap_byte a b = (\<lambda>(pg, old) j.
     let old = old[j := pg b ! j];
         pg = pg(b := (pg b)[j := pg a ! j]);
         pg = pg(a := (pg a)[j := old ! j])
     in (pg, old))"

definition swap_bytes :: "nat \<Rightarrow> nat \<Rightarrow> (nat \<Rightarrow> u8 list) \<times> u8 list \<Rightarrow> (nat \<Rightarrow> u8 list) \<times> u8 list" where
  "swap_bytes a b s = foldl (swap_byte a b) s [0..<4096]"

text \<open>The body of the loop over the addresses; \<open>False\<close> is the early \<open>return -1\<close>.\<close>

definition swap_pages :: "nat \<Rightarrow> nat \<Rightarrow> swap_world \<Rightarrow> (swap_world, bool) act" where
  "swap_pages a b w =
     (case old_content w of
        None \<Rightarrow> Inl (Oops, w)
      | Some old \<Rightarrow>
          let (pg, old) = swap_bytes a b (pages w, old)
          in ret True (w\<lparr>pages := pg, old_content := Some old\<rparr>))"

definition swap_one :: "swap_env \<Rightarrow> u64 \<Rightarrow> u64 \<Rightarrow> swap_world \<Rightarrow> (swap_world, bool) act" where
  "swap_one e i i2 w =
     (case (walk1 e i, walk2 e i2) of
        (Some pte, Some pte2) \<Rightarrow>
          if pte_present pte \<and> pte_present pte2 then
            let newPage = pte_page pte; newPage2 = pte_page pte2; f = flags_of e newPage in
            if PageAnon f then
              (if anon_vma_locks e newPage then swap_pages newPage newPage2 w else ret False w)
            else if \<not> PageKsm f then
              (if debug_vm e \<and> \<not> PageLocked f then Inl (Oops, w)
               else if \<not> page_mapping f then ret False w
               else swap_pages newPage newPage2 w)
            else swap_pages newPage newPage2 w
          else ret True w
      | _ \<Rightarrow> ret True w)"

section \<open>The walk over the two heaps\<close>

text \<open>The loop ends when either address hits its break exactly; it may run for ever (\<open>None\<close>).\<close>

partial_function (option) heap_loop ::
  "swap_env \<Rightarrow> u64 \<Rightarrow> u64 \<Rightarrow> u64 \<Rightarrow> u64 \<Rightarrow> swap_world \<Rightarrow> (swap_world, bool) act option" where
  "heap_loop e b b2 i i2 w =
     (if i \<noteq> b \<and> i2 \<noteq> b2 then
        (case swap_one e i i2 w of
           Inl x \<Rightarrow> Some (Inl x)
         | Inr r \<Rightarrow>
             if fst r then heap_loop e b b2 (i + of_nat PAGE_SIZE) (i2 + of_nat PAGE_SIZE) (snd r)
             else Some (Inr r))
      else Some (Inr (True, w)))"

definition init_module_heap :: "swap_env \<Rightarrow> swap_world \<Rightarrow> (swap_world, int) act option" where
  "init_module_heap e w =
     (let w = w\<lparr>old_content := buffer_of e\<rparr> in
      case (task1 e, task2 e) of
        (Some mm, Some mm2) \<Rightarrow>
          let w = w\<lparr>locks := locks w + 2\<rparr> in
          if \<not> vma1 e then Some (Inl (Oops, w))
          else
            let w = w\<lparr>file_ops_installed := True\<rparr> in
            Option.bind (heap_loop e (brk mm) (brk mm2) (start_brk mm) (start_brk mm2) w) (\<lambda>m.
              Some (bnd m (\<lambda>ok w.
                if \<not> ok then ret (- 1) w
                else ret 0 (w\<lparr>old_content := None, locks := locks w - 2\<rparr>))))
      | _ \<Rightarrow> Some (Inl (Oops, w)))"

text \<open>\<open>lol_fault\<close> logs and passes on the result of \<open>filemap_fault\<close>.\<close>

definition lol_fault :: "('v \<Rightarrow> 'f \<Rightarrow> int) \<Rightarrow> 'v \<Rightarrow> 'f \<Rightarrow> int" where
  "lol_fault filemap_fault vma vmf = filemap_fault vma vmf"

section \<open>The byte loop exchanges two pages\<close>

text \<open>After \<open>n\<close> turns the first \<open>n\<close> bytes are exchanged, and saved in the buffer.\<close>

lemma swap_bytes_prefix:
  assumes "a \<noteq> b" "length (pg a) = 4096" "length (pg b) = 4096" "length old = 4096" "n \<le> 4096"
  shows "foldl (swap_byte a b) (pg, old) [0..<n] =
    (pg(a := take n (pg b) @ drop n (pg a), b := take n (pg a) @ drop n (pg b)), take n (pg b) @ drop n old)"
  using assms(5)
proof (induction n)
  case 0
  then show ?case by (simp add: fun_upd_idem)
next
  case (Suc n)
  then have n: "n < 4096" by simp
  have upd: "(take n xs @ drop n ys)[n := xs ! n] = take (Suc n) xs @ drop (Suc n) ys"
    if "length xs = 4096" "length ys = 4096" for xs ys :: "u8 list"
    using that n by (simp add: list_update_append take_Suc_conv_app_nth Cons_nth_drop_Suc [symmetric])
  have nth: "(take n xs @ drop n ys) ! n = ys ! n" if "length xs = 4096" "length ys = 4096" for xs ys :: "u8 list"
    using that n by (simp add: nth_append)
  have nth2: "(take (Suc n) xs @ drop (Suc n) ys) ! n = xs ! n" if "length xs = 4096" for xs ys :: "u8 list"
    using that n by (simp add: nth_append)
  show ?case
    using Suc n assms(1-4)
    by (simp add: swap_byte_def Let_def upd nth) (auto simp: fun_eq_iff upd nth nth2)
qed

lemma swap_bytes_distinct:
  assumes "a \<noteq> b" "length (pg a) = 4096" "length (pg b) = 4096" "length old = 4096"
  shows "swap_bytes a b (pg, old) = (pg(a := pg b, b := pg a), pg b)"
  using swap_bytes_prefix [where n = 4096 and old = old, OF assms(1-3)] assms by (simp add: swap_bytes_def)

lemma swap_bytes_same:
  assumes "length (pg a) = 4096" "length old = 4096"
  shows "fst (swap_bytes a a (pg, old)) = pg \<and> length (snd (swap_bytes a a (pg, old))) = 4096"
proof -
  have "fst (foldl (swap_byte a a) (pg, old) js) = pg \<and> length (snd (foldl (swap_byte a a) (pg, old) js)) = 4096"
    if "\<forall>j\<in>set js. j < 4096" for js
    using that assms(2)
    by (induction js arbitrary: old) (simp_all add: swap_byte_def Let_def assms(1))
  then show ?thesis by (simp add: swap_bytes_def)
qed


section \<open>The whole walk\<close>

text \<open>A pair of addresses whose pages are present, anonymous and lockable.\<close>

definition swappable :: "swap_env \<Rightarrow> u64 \<Rightarrow> u64 \<Rightarrow> nat \<Rightarrow> nat \<Rightarrow> bool" where
  "swappable e i i2 p q \<longleftrightarrow> walk1 e i = Some \<lparr>pte_present = True, pte_page = p\<rparr> \<and>
     walk2 e i2 = Some \<lparr>pte_present = True, pte_page = q\<rparr> \<and> PageAnon (flags_of e p) \<and> anon_vma_locks e p"

definition full_pages :: "swap_world \<Rightarrow> bool" where
  "full_pages w \<longleftrightarrow> (\<forall>p. length (pages w p) = 4096) \<and> (\<exists>old. old_content w = Some old \<and> length old = 4096)"

lemma swap_one_swappable:
  assumes "swappable e i i2 p q" "full_pages w" "p \<noteq> q"
  shows "\<exists>w'. swap_one e i i2 w = Inr (True, w') \<and> full_pages w' \<and> locks w' = locks w \<and>
    pages w' = (pages w)(p := pages w q, q := pages w p)"
proof -
  obtain old where old: "old_content w = Some old" "length old = 4096" and len: "\<And>p. length (pages w p) = 4096"
    using assms(2) by (auto simp: full_pages_def)
  have "swap_bytes p q (pages w, old) = ((pages w)(p := pages w q, q := pages w p), pages w q)"
    by (rule swap_bytes_distinct [OF assms(3) len len old(2)])
  then show ?thesis
    using assms(1) old len by (auto simp: swap_one_def swappable_def swap_pages_def ret_def full_pages_def)
qed

text \<open>Offsets below the break are not the break: no wrap-around hits it early.\<close>

lemma offset_neq:
  assumes "k < n" "n < 2 ^ 52"
  shows "(i :: u64) + of_nat (PAGE_SIZE * k) \<noteq> i + of_nat (PAGE_SIZE * n)"
proof
  assume "i + of_nat (PAGE_SIZE * k) = i + of_nat (PAGE_SIZE * n)"
  then have "(of_nat (PAGE_SIZE * k) :: u64) = of_nat (PAGE_SIZE * n)" by simp
  then have "PAGE_SIZE * k = PAGE_SIZE * n"
    using assms by (subst (asm) word_of_nat_eq_iff) (simp add: take_bit_nat_def PAGE_SIZE_def)
  with assms show False by (simp add: PAGE_SIZE_def)
qed

lemma heap_loop_exchanges:
  assumes "n < 2 ^ 52"
    and "\<And>k. k < n \<Longrightarrow> swappable e (i + of_nat (PAGE_SIZE * k)) (i2 + of_nat (PAGE_SIZE * k)) (p k) (q k)"
    and "\<And>k. k < n \<Longrightarrow> i2 + of_nat (PAGE_SIZE * k) \<noteq> b2"
    and "inj_on p {..<n}" "inj_on q {..<n}" "p ` {..<n} \<inter> q ` {..<n} = {}" "full_pages w"
  shows "\<exists>w'. heap_loop e (i + of_nat (PAGE_SIZE * n)) b2 i i2 w = Some (Inr (True, w')) \<and>
    full_pages w' \<and> locks w' = locks w \<and>
    (\<forall>k<n. pages w' (p k) = pages w (q k) \<and> pages w' (q k) = pages w (p k)) \<and>
    (\<forall>r. r \<notin> p ` {..<n} \<union> q ` {..<n} \<longrightarrow> pages w' r = pages w r)"
proof -
  let ?b = "i + of_nat (PAGE_SIZE * n)"
  have "\<exists>w'. heap_loop e ?b b2 (i + of_nat (PAGE_SIZE * k)) (i2 + of_nat (PAGE_SIZE * k)) v = Some (Inr (True, w')) \<and>
      full_pages w' \<and> locks w' = locks v \<and>
      (\<forall>j. k \<le> j \<and> j < n \<longrightarrow> pages w' (p j) = pages v (q j) \<and> pages w' (q j) = pages v (p j)) \<and>
      (\<forall>r. r \<notin> p ` {k..<n} \<union> q ` {k..<n} \<longrightarrow> pages w' r = pages v r)"
    if "k \<le> n" "full_pages v" for k v
    using that
  proof (induction "n - k" arbitrary: k v)
    case 0
    then show ?case by (subst heap_loop.simps) auto
  next
    case (Suc d)
    then have k: "k < n" "d = n - Suc k" "Suc k \<le> n" by linarith+
    have pq: "p k \<noteq> q k" using assms(6) k(1) by blast
    obtain u where u: "swap_one e (i + of_nat (PAGE_SIZE * k)) (i2 + of_nat (PAGE_SIZE * k)) v = Inr (True, u)"
        "full_pages u" "locks u = locks v" "pages u = (pages v)(p k := pages v (q k), q k := pages v (p k))"
      using swap_one_swappable [OF assms(2) [OF k(1)] Suc.prems(2) pq] by blast
    have step: "x + of_nat (PAGE_SIZE * k) + of_nat PAGE_SIZE = x + of_nat (PAGE_SIZE * Suc k)" for x :: u64
      by (simp add: algebra_simps)
    obtain w' where w': "heap_loop e ?b b2 (i + of_nat (PAGE_SIZE * Suc k)) (i2 + of_nat (PAGE_SIZE * Suc k)) u = Some (Inr (True, w'))"
        "full_pages w'" "locks w' = locks u"
        "\<And>j. Suc k \<le> j \<Longrightarrow> j < n \<Longrightarrow> pages w' (p j) = pages u (q j) \<and> pages w' (q j) = pages u (p j)"
        "\<And>r. r \<notin> p ` {Suc k..<n} \<union> q ` {Suc k..<n} \<Longrightarrow> pages w' r = pages u r"
      using Suc.hyps(1) [OF k(2,3) u(2)] by blast
    have run: "heap_loop e ?b b2 (i + of_nat (PAGE_SIZE * k)) (i2 + of_nat (PAGE_SIZE * k)) v = Some (Inr (True, w'))"
    proof -
      have "i + of_nat (PAGE_SIZE * k) \<noteq> ?b \<and> i2 + of_nat (PAGE_SIZE * k) \<noteq> b2"
        using offset_neq [OF k(1) assms(1)] assms(3) [OF k(1)] by blast
      then show ?thesis
        by (subst heap_loop.simps) (simp only: u(1) sum.case fst_conv snd_conv if_True step w'(1) simp_thms not_False_eq_True)
    qed
    have other: "p j \<noteq> p k" "p j \<noteq> q k" "q j \<noteq> p k" "q j \<noteq> q k" if "Suc k \<le> j" "j < n" for j
    proof -
      have jk: "j \<in> {..<n}" "k \<in> {..<n}" "j \<noteq> k" using that k(1) by simp_all
      then show "p j \<noteq> p k" "q j \<noteq> q k"
        using inj_on_eq_iff [OF assms(4)] inj_on_eq_iff [OF assms(5)] by blast+
      show "p j \<noteq> q k" "q j \<noteq> p k"
        using jk assms(6) by blast+
    qed
    have now: "pages w' (p k) = pages v (q k)" "pages w' (q k) = pages v (p k)"
    proof -
      have "r \<notin> p ` {Suc k..<n} \<union> q ` {Suc k..<n}" if "r = p k \<or> r = q k" for r
      proof
        assume "r \<in> p ` {Suc k..<n} \<union> q ` {Suc k..<n}"
        then obtain j where "Suc k \<le> j" "j < n" "r = p j \<or> r = q j" by auto
        with that show False using other [of j] by auto
      qed
      then have "p k \<notin> p ` {Suc k..<n} \<union> q ` {Suc k..<n}" "q k \<notin> p ` {Suc k..<n} \<union> q ` {Suc k..<n}"
        by blast+
      then show "pages w' (p k) = pages v (q k)" "pages w' (q k) = pages v (p k)"
        using w'(5) u(4) pq by simp_all
    qed
    have "pages w' (p j) = pages v (q j) \<and> pages w' (q j) = pages v (p j)" if "k \<le> j" "j < n" for j
      using now w'(4) [of j] other [of j] u(4) that by (cases "j = k") auto
    moreover have "pages w' r = pages v r" if "r \<notin> p ` {k..<n} \<union> q ` {k..<n}" for r
    proof -
      have "{k..<n} = insert k {Suc k..<n}" using k(1) by auto
      with that w'(5) [of r] u(4) show ?thesis by simp
    qed
    ultimately show ?case
      using run w'(2,3) u(3) by auto
  qed
  from this [of 0 w] assms(7) show ?thesis
    by (auto simp: lessThan_atLeast0)
qed

end
