(* ===== verification/ExperimentProps.thy ===== *)
theory ExperimentProps
  imports SwapExperiment HeapSwap
begin

text \<open>The properties of the trace stores, of the experiment that compares them and of the heap swap.\<close>

text \<open>A page filled with one byte, for the witnesses.\<close>

definition blank :: "u8 \<Rightarrow> u8 list" where
  "blank b = replicate 4096 b"

lemma length_blank [simp]: "length (blank b) = 4096"
  by (simp add: blank_def)

lemma blank_eq [simp]: "blank a = blank b \<longleftrightarrow> a = b"
  unfolding blank_def replicate_eq_replicate by simp

section \<open>The trace of swap entries\<close>

text \<open>
  C20: \<open>pteStore.c\<close> run as a program, with its allocations succeeding, fills its five rows of a
  hundred in order, never writes out of bounds, and prints the table of the sums \<open>i + j\<close>.
\<close>

theorem main_pteStore_prints:
  assumes "\<And>i. i < 5 \<Longrightarrow> length (row i) = 100"
  shows "main_pteStore True row = Some (map (\<lambda>i. map (\<lambda>j. of_nat (i + j)) [0..<100]) [0..<5])"
proof -
  let ?s = "initial_store\<lparr>myPtes := map row [0..<nat (numberOfArrays initial_store)]\<rparr>"
  let ?tab = "map (\<lambda>i. map (\<lambda>j. of_nat (i + j) :: u64) [0..<100]) [0..<5]"
  have dims: "numberOfArrays initial_store = 5" "maxSizeArray initial_store = 100"
    by (simp_all add: initial_store_def)
  have fresh: "valid_store ?s" "stored ?s = []" "store_capacity ?s = 500"
    using fresh_valid [of initial_store row] assms by (simp_all add: dims store_capacity_def)
  have "length (concat ?tab) = 500"
    by (subst length_concat_rows [where m = 100]) auto
  then obtain s' where s': "add_all addInArray ?s (concat ?tab) = Some s'" "valid_store s'" "stored s' = concat ?tab"
      "store_capacity s' = 500"
    using user_store.add_all_room [of ?s "concat ?tab"] fresh by auto
  have keep: "numberOfArrays s' = 5 \<and> maxSizeArray s' = 100"
  proof -
    have "add_all addInArray u xs = Some v \<Longrightarrow> numberOfArrays v = numberOfArrays u \<and> maxSizeArray v = maxSizeArray u" for u v xs
      by (induction xs arbitrary: u)
        (force simp: addInArray_def Let_def split: bind_splits if_splits)+
    from this [OF s'(1)] show ?thesis by (simp add: dims)
  qed
  have rows: "myPtes s' = ?tab"
    using full_rows [OF s'(2,3)] keep by auto
  have "fillArray ?s = Some s'"
    using s'(1) by (simp add: fillArray_def dims)
  moreover have "printArray s' = Some ?tab"
    using print_valid [OF s'(2)] rows by (simp add: printArray_def)
  moreover have "freeArray s' = Some (s'\<lparr>myPtes := []\<rparr>)"
    using s'(2) keep by (simp add: freeArray_def valid_store_def)
  ultimately show ?thesis
    by (simp add: main_pteStore_def allocateArray_def)
qed

theorem main_pteStore_prints_witness:
  "main_pteStore True (\<lambda>_. replicate 100 7) = Some (map (\<lambda>i. map (\<lambda>j. of_nat (i + j)) [0..<100]) [0..<5])"
  by (rule main_pteStore_prints) simp

text \<open>
  C34: The trace of written-out entries in \<open>vmscan.c\<close> keeps, after its allocation, the first
  20 * 20000 entries in their order; the next one is written through a row pointer behind the table.
\<close>

theorem swapout_trace:
  assumes "\<And>i. i < 20 \<Longrightarrow> length (row i) = 20000"
  shows "\<exists>s. allocateArray_OUT True row initial_OUT = Some s \<and>
    (if length xs \<le> 20 * 20000 then \<exists>s'. add_all addInArray_OUT s xs = Some s' \<and> stored s' = xs
     else add_all addInArray_OUT s xs = None)"
proof -
  let ?s = "initial_OUT\<lparr>myPtes := map row [0..<nat (numberOfArrays initial_OUT)]\<rparr>"
  have dims: "numberOfArrays initial_OUT = 20" "maxSizeArray initial_OUT = 20000"
    by (simp_all add: initial_OUT_def)
  have fresh: "valid_store ?s" "stored ?s = []" "store_capacity ?s = 20 * 20000"
    using fresh_valid [of initial_OUT row] assms by (simp_all add: dims store_capacity_def)
  have "allocateArray_OUT True row initial_OUT = Some ?s" by (simp add: allocateArray_OUT_def)
  moreover have "if length xs \<le> 20 * 20000 then \<exists>s'. add_all addInArray_OUT ?s xs = Some s' \<and> stored s' = xs
      else add_all addInArray_OUT ?s xs = None"
    using swapout_store.add_all_room [of ?s xs] swapout_store.add_all_overflow [of ?s xs] fresh by auto
  ultimately show ?thesis by blast
qed

theorem swapout_trace_witness:
  "\<exists>s s'. allocateArray_OUT True (\<lambda>_. replicate 20000 0) initial_OUT = Some s \<and>
     add_all addInArray_OUT s [7, 8, 9] = Some s' \<and> stored s' = [7, 8, 9]"
  using swapout_trace [of "\<lambda>_. replicate 20000 0" "[7, 8, 9]"] by auto

section \<open>Comparing the two traces\<close>

text \<open>
  C35: On two valid traces, \<open>compTwoArrays\<close> counts the entries of the first that occur in the
  second, and its four nested loops with their two labels stay inside both tables.
\<close>

theorem compTwoArrays_counts:
  assumes "valid_store s_in" "valid_store s_out" "m = nat (maxSizeArray s_in)" "m = nat (maxSizeArray s_out)"
  shows "compTwoArrays m s_in s_out = Some (int (length (filter (\<lambda>v. v \<in> set (stored s_out)) (stored s_in))))"
proof -
  let ?a = "nat (currentArray s_in)" and ?last = "take (nat (currentIndex s_in + 1)) (myPtes s_in ! nat (currentArray s_in))"
  have a: "int ?a = currentArray s_in" "nat (currentArray s_in + 1) = Suc ?a" "?a < length (myPtes s_in)"
    using assms(1) by (auto simp: valid_store_def nat_less_iff)
  have last: "comp_i s_in s_out m [currentArray s_in] n = Some (n + common s_out ?last)" for n
    using comp_j_last_row [OF assms(2,4,1,3), of n] by auto
  have "comp_i s_in s_out m (map int [b..<?a] @ [currentArray s_in]) n =
      Some (n + common s_out (concat (map (\<lambda>x. myPtes s_in ! x) [b..<?a])) + common s_out ?last)" if "b \<le> ?a" for b n
    using that
  proof (induction "?a - b" arbitrary: b n)
    case 0
    then show ?case using last by simp
  next
    case (Suc d)
    then have b: "b < ?a" "d = ?a - Suc b" "Suc b \<le> ?a" by linarith+
    show ?case
      using comp_j_full_row [OF assms(2,4,1,3) b(1)] Suc.hyps(1) [OF b(2,3)] b(1)
      by (simp add: upt_conv_Cons add.assoc)
  qed
  from this [of 0 0] have "comp_i s_in s_out m (map int [0..<?a] @ [currentArray s_in]) 0 =
      Some (common s_out (concat (take ?a (myPtes s_in)) @ ?last))"
    using map_nth_take [of ?a "myPtes s_in"] a(3) by simp
  then show ?thesis
    using a by (simp add: compTwoArrays_def stored_rows [OF assms(1)] common_def)
qed

definition small_store :: "u64 list list \<Rightarrow> int \<Rightarrow> int \<Rightarrow> pte_arrays" where
  "small_store rows a i = \<lparr>myPtes = rows, numberOfArrays = 2, maxSizeArray = 2, currentArray = a, currentIndex = i\<rparr>"

theorem compTwoArrays_counts_witness:
  "compTwoArrays 2 (small_store [[1, 2], [3, 0]] 1 0) (small_store [[3, 1], [0, 0]] 0 1) = Some 2"
proof -
  let ?a = "small_store [[1, 2], [3, 0]] 1 0" and ?b = "small_store [[3, 1], [0, 0]] 0 1"
  have v: "valid_store ?a" "valid_store ?b" "2 = nat (maxSizeArray ?a)" "2 = nat (maxSizeArray ?b)"
    by (simp_all add: small_store_def valid_store_def)
  have "stored ?a = [1, 2, 3]" "stored ?b = [3, 1]"
    by (simp_all add: small_store_def stored_def used_def numeral_3_eq_3 eval_nat_numeral)
  then show ?thesis
    using compTwoArrays_counts [OF v] by simp
qed

text \<open>
  C36: The scan for one page reports a match exactly if the first recorded page with its swap
  entry has its contents: \<open>decision\<close> is not set back for the next candidate, so a stale first
  candidate hides every later match.
\<close>

theorem scan_k_first:
  assumes "\<And>k. k \<in> set ks \<Longrightarrow> fetch out k = Some (f k) \<and> length (page_content (f k)) = 4096" "length (page_content p) = 4096"
  shows "\<exists>tag1 ms. scan_k out p True ks = Some (tag1, ms) \<and> (tag1 \<longleftrightarrow> PageContentsMatch \<in> set ms) \<and>
    (tag1 \<longleftrightarrow> (case find (same_value p) (map f ks) of None \<Rightarrow> False | Some q \<Rightarrow> page_content q = page_content p))"
  using assms(1)
proof (induction ks)
  case (Cons k ks)
  have k: "fetch out k = Some (f k)" "length (page_content (f k)) = 4096" using Cons.prems by auto
  note cb = compare_bytes_iff [OF k(2) assms(2)]
  have sv: "same_value p (f k) \<longleftrightarrow> page_value (f k) = page_value p"
    by (simp add: same_value_def)
  obtain ms where ms: "scan_k out p False ks = Some (False, ms)" "PageContentsMatch \<notin> set ms"
    using scan_k_false [of ks out p] Cons.prems assms(2) by fastforce
  have IH: "\<exists>tag1 ms. scan_k out p True ks = Some (tag1, ms) \<and> (tag1 \<longleftrightarrow> PageContentsMatch \<in> set ms) \<and>
    (tag1 \<longleftrightarrow> (case find (same_value p) (map f ks) of None \<Rightarrow> False | Some q \<Rightarrow> page_content q = page_content p))"
    using Cons by auto
  show ?case
    using k(1) ms IH by (cases "page_value (f k) = page_value p") (auto simp: cb Let_def sv)
qed auto

theorem scan_k_first_witness:
  "\<exists>ms. scan_k [\<lparr>page_value = 5, page_content = blank 1\<rparr>, \<lparr>page_value = 5, page_content = blank 0\<rparr>]
     \<lparr>page_value = 5, page_content = blank 0\<rparr> True [0, 1] = Some (False, ms)"
proof -
  let ?out = "[\<lparr>page_value = 5, page_content = blank 1\<rparr>, \<lparr>page_value = 5, page_content = blank 0\<rparr>]"
  let ?p = "\<lparr>page_value = 5, page_content = blank 0\<rparr>"
  have "\<exists>tag1 ms. scan_k ?out ?p True [0, 1] = Some (tag1, ms) \<and> (tag1 \<longleftrightarrow> PageContentsMatch \<in> set ms) \<and>
    (tag1 \<longleftrightarrow> (case find (same_value ?p) (map (\<lambda>k. ?out ! nat k) [0, 1]) of None \<Rightarrow> False
      | Some q \<Rightarrow> page_content q = page_content ?p))"
    by (rule scan_k_first) (auto simp: fetch_def)
  then show ?thesis by (auto simp: same_value_def simp del: scan_k.simps)
qed

text \<open>
  A scan that finds no match among the recorded pages reads past their end, if it is asked to go there.
\<close>

lemma scan_k_overread:
  assumes "\<And>q. q \<in> set out \<Longrightarrow> length (page_content q) = 4096" "length (page_content p) = 4096"
    and "\<And>q. q \<in> set out \<Longrightarrow> same_value p q \<Longrightarrow> page_content q \<noteq> page_content p"
    and "\<exists>k\<in>set ks. int (length out) \<le> k" "\<And>k. k \<in> set ks \<Longrightarrow> 0 \<le> k"
  shows "scan_k out p d ks = None"
  using assms(4,5)
proof (induction ks arbitrary: d)
  case (Cons k ks)
  show ?case
  proof (cases "k < int (length out)")
    case True
    then obtain q where q: "fetch out k = Some q" "q \<in> set out"
      using Cons.prems by (fastforce simp: fetch_def nat_less_iff)
    then have "page_value q = page_value p \<Longrightarrow> \<not> compare_bytes (page_content q) (page_content p) d"
      using assms(1-3) by (simp add: compare_bytes_iff same_value_def)
    moreover have "scan_k out p d' ks = None" for d'
      using Cons True by auto
    ultimately show ?thesis using q by (auto simp: Let_def)
  qed (simp add: fetch_def)
qed simp

section \<open>Exchanging two heaps\<close>

text \<open>
  C38: When the two heaps have the same number of pages, all present, anonymous and distinct, the
  module exchanges their contents page by page, touches no other page, and returns 0 with its
  locks released and its buffer freed.
\<close>

theorem init_module_heap_success:
  assumes "task1 e = Some mm" "task2 e = Some mm2" "vma1 e" "buffer_of e = Some old" "length old = 4096"
    and "\<And>p. length (pages w p) = 4096" "n < 2 ^ 52"
    and "brk mm = start_brk mm + of_nat (PAGE_SIZE * n)" "brk mm2 = start_brk mm2 + of_nat (PAGE_SIZE * n)"
    and "\<And>k. k < n \<Longrightarrow> swappable e (start_brk mm + of_nat (PAGE_SIZE * k)) (start_brk mm2 + of_nat (PAGE_SIZE * k)) (p k) (q k)"
    and "inj_on p {..<n}" "inj_on q {..<n}" "p ` {..<n} \<inter> q ` {..<n} = {}"
  shows "\<exists>w'. init_module_heap e w = Some (Inr (0, w')) \<and> locks w' = locks w \<and> old_content w' = None \<and>
    (\<forall>k<n. pages w' (p k) = pages w (q k) \<and> pages w' (q k) = pages w (p k)) \<and>
    (\<forall>r. r \<notin> p ` {..<n} \<union> q ` {..<n} \<longrightarrow> pages w' r = pages w r)"
proof -
  let ?w = "w\<lparr>old_content := buffer_of e, locks := locks w + 2, file_ops_installed := True\<rparr>"
  have "full_pages ?w" using assms(4-6) by (simp add: full_pages_def)
  from heap_loop_exchanges [OF assms(7,10) _ assms(11-13) this, of "brk mm2"] offset_neq [OF _ assms(7)]
  obtain w' where "heap_loop e (brk mm) (brk mm2) (start_brk mm) (start_brk mm2) ?w = Some (Inr (True, w'))"
      "locks w' = locks w + 2"
      "\<forall>k<n. pages w' (p k) = pages w (q k) \<and> pages w' (q k) = pages w (p k)"
      "\<forall>r. r \<notin> p ` {..<n} \<union> q ` {..<n} \<longrightarrow> pages w' r = pages w r"
    unfolding assms(8,9) by auto
  then show ?thesis
    using assms(1-3) by (simp add: init_module_heap_def Let_def ret_def)
qed

definition one_page_env :: "bool \<Rightarrow> u64 \<Rightarrow> swap_env" where
  "one_page_env lockable len =
     \<lparr>walk1 = (\<lambda>_. Some \<lparr>pte_present = True, pte_page = 1\<rparr>), walk2 = (\<lambda>_. Some \<lparr>pte_present = True, pte_page = 2\<rparr>),
      flags_of = (\<lambda>_. \<lparr>PageAnon = True, PageKsm = False, PageLocked = False, page_mapping = True\<rparr>),
      anon_vma_locks = (\<lambda>_. lockable), task1 = Some \<lparr>start_brk = 8192, brk = 8192 + len\<rparr>,
      task2 = Some \<lparr>start_brk = 40960, brk = 40960 + len\<rparr>, vma1 = True, debug_vm = False,
      buffer_of = Some (blank 0)\<rparr>"

definition two_pages :: swap_world where
  "two_pages = \<lparr>pages = (\<lambda>p. blank (of_nat p)), old_content = None, locks = 0, file_ops_installed = False\<rparr>"

theorem init_module_heap_success_witness:
  "\<exists>w'. init_module_heap (one_page_env True 4096) two_pages = Some (Inr (0, w')) \<and> locks w' = 0 \<and>
     pages w' 1 = blank 2 \<and> pages w' 2 = blank 1"
proof -
  have "\<exists>w'. init_module_heap (one_page_env True 4096) two_pages = Some (Inr (0, w')) \<and> locks w' = locks two_pages \<and>
    old_content w' = None \<and>
    (\<forall>k<1::nat. pages w' ((\<lambda>_. 1) k) = pages two_pages ((\<lambda>_. 2) k) \<and> pages w' ((\<lambda>_. 2) k) = pages two_pages ((\<lambda>_. 1) k)) \<and>
    (\<forall>r. r \<notin> (\<lambda>_. 1) ` {..<1::nat} \<union> (\<lambda>_. 2) ` {..<1::nat} \<longrightarrow> pages w' r = pages two_pages r)"
    by (rule init_module_heap_success [where n = "1::nat" and p = "\<lambda>_::nat. 1" and q = "\<lambda>_::nat. 2"
        and mm = "\<lparr>start_brk = 8192, brk = 8192 + 4096\<rparr>" and ?mm2.0 = "\<lparr>start_brk = 40960, brk = 40960 + 4096\<rparr>"
        and old = "blank 0"])
      (auto simp: one_page_env_def two_pages_def swappable_def PAGE_SIZE_def inj_on_def)
  then show ?thesis by (auto simp: two_pages_def)
qed

text \<open>
  C39: When neither heap ends on a page boundary relative to its start, the walk steps over both
  breaks and, with no error to stop it, never ends.
\<close>

theorem heap_loop_diverges:
  assumes "\<And>p. PageAnon (flags_of e p) \<and> anon_vma_locks e p" "old_content w \<noteq> None"
    and "unat (b - i) mod PAGE_SIZE \<noteq> 0" "unat (b2 - i2) mod PAGE_SIZE \<noteq> 0"
  shows "heap_loop e b b2 i i2 w = None"
proof -
  have step: "unat (c - (x + of_nat PAGE_SIZE)) mod PAGE_SIZE = unat (c - x) mod PAGE_SIZE" for c x :: u64
  proof -
    have "c - x = c - (x + of_nat PAGE_SIZE) + of_nat PAGE_SIZE" by simp
    then have "unat (c - x) = (unat (c - (x + of_nat PAGE_SIZE)) + 4096) mod 2 ^ 64"
      by (simp only: unat_word_ariths) (simp add: PAGE_SIZE_def)
    then show ?thesis
      by (simp add: mod_mod_cancel PAGE_SIZE_def)
  qed
  have one: "\<exists>w'. swap_one e i i2 w = Inr (True, w') \<and> old_content w' \<noteq> None" if "old_content w \<noteq> None" for i i2 w
    using assms(1) that
    by (auto simp: swap_one_def swap_pages_def ret_def Let_def split: option.splits prod.splits)
  define P where "P e' b b2 i i2 w (r :: (swap_world, bool) act) \<longleftrightarrow> \<not> (e' = e \<and> old_content w \<noteq> None \<and>
      unat (b - i) mod PAGE_SIZE \<noteq> 0 \<and> unat (b2 - i2) mod PAGE_SIZE \<noteq> 0)"
    for e' and b b2 i i2 :: u64 and w :: swap_world and r
  have "P e b b2 i i2 w r" if "heap_loop e b b2 i i2 w = Some r" for r
  proof (rule heap_loop.raw_induct [of P, OF _ that])
    fix loop e' b b2 i i2 w r
    assume IH: "\<And>e b b2 i i2 w r. loop e b b2 i i2 w = Some r \<Longrightarrow> P e b b2 i i2 w r"
      and body: "(if i \<noteq> b \<and> i2 \<noteq> b2 then
        (case swap_one e' i i2 w of
           Inl x \<Rightarrow> Some (Inl x)
         | Inr r \<Rightarrow>
             if fst r then loop e' b b2 (i + of_nat PAGE_SIZE) (i2 + of_nat PAGE_SIZE) (snd r)
             else Some (Inr r))
      else Some (Inr (True, w))) = Some r"
    show "P e' b b2 i i2 w r"
    proof (rule ccontr)
      assume "\<not> P e' b b2 i i2 w r"
      then have h: "e' = e" "old_content w \<noteq> None" "unat (b - i) mod PAGE_SIZE \<noteq> 0"
          "unat (b2 - i2) mod PAGE_SIZE \<noteq> 0"
        by (simp_all add: P_def)
      obtain w' where w': "swap_one e i i2 w = Inr (True, w')" "old_content w' \<noteq> None"
        using one [OF h(2)] by blast
      have "i \<noteq> b \<and> i2 \<noteq> b2" using h(3,4) by auto
      with body h(1) w'(1) have "loop e b b2 (i + of_nat PAGE_SIZE) (i2 + of_nat PAGE_SIZE) w' = Some r"
        by simp
      then have "P e b b2 (i + of_nat PAGE_SIZE) (i2 + of_nat PAGE_SIZE) w' r" by (rule IH)
      then show False
        using h(3,4) w'(2) by (simp add: P_def step)
    qed
  qed
  then show ?thesis
    using assms(2-4) by (cases "heap_loop e b b2 i i2 w") (auto simp: P_def)
qed

theorem heap_loop_diverges_witness:
  "heap_loop (one_page_env True 100) (8192 + 100) (40960 + 100) 8192 40960
     (two_pages\<lparr>old_content := Some (blank 0)\<rparr>) = None"
  by (rule heap_loop_diverges) (simp_all add: one_page_env_def PAGE_SIZE_def)

text \<open>
  C40: The early return for an \<open>anon_vma\<close> that cannot be locked reports -1 with both page-table
  locks still held and the buffer still allocated.
\<close>

theorem init_module_heap_error:
  assumes "task1 e = Some mm" "task2 e = Some mm2" "vma1 e"
    and "start_brk mm \<noteq> brk mm" "start_brk mm2 \<noteq> brk mm2"
    and "walk1 e (start_brk mm) = Some \<lparr>pte_present = True, pte_page = p\<rparr>"
    and "walk2 e (start_brk mm2) = Some \<lparr>pte_present = True, pte_page = q\<rparr>"
    and "PageAnon (flags_of e p)" "\<not> anon_vma_locks e p"
  shows "\<exists>w'. init_module_heap e w = Some (Inr (- 1, w')) \<and> locks w' = locks w + 2 \<and> old_content w' = buffer_of e"
  using assms
  by (simp add: init_module_heap_def Let_def heap_loop.simps swap_one_def ret_def)

theorem init_module_heap_error_witness:
  "\<exists>w'. init_module_heap (one_page_env False 4096) two_pages = Some (Inr (- 1, w')) \<and> locks w' = 2"
  using init_module_heap_error [of "one_page_env False 4096" "\<lparr>start_brk = 8192, brk = 8192 + 4096\<rparr>"
    "\<lparr>start_brk = 40960, brk = 40960 + 4096\<rparr>" 1 2 two_pages]
  by (auto simp: one_page_env_def two_pages_def)

end
