(* ===== verification/Kernel.thy ===== *)
theory Kernel
  imports Prelude
begin

text \<open>
  The world of the memory-management code (\<open>memory.c\<close>, \<open>vmscan.c\<close>). Its functions are glue
  between services of the kernel that are not part of this repository: page tables, locks, the
  page allocator, reverse maps, the swap cache. Each such service is a call (a constructor of the
  component's call type); what it answers is a parameter of the model, the function \<open>ans\<close> of the
  world, which may depend on everything that has happened so far. The history of calls is kept in
  \<open>log\<close>, the latest call first. A statement that holds for every world therefore holds for every
  behaviour of the rest of the kernel, and under every interleaving that shows itself in answers.
\<close>

section \<open>The world and its calls\<close>

record 'c kworld =
  ans :: "('c \<times> int) list \<Rightarrow> 'c \<Rightarrow> int"
  log :: "('c \<times> int) list"

definition kcall :: "'c \<Rightarrow> ('c, 'z) kworld_scheme \<Rightarrow> (('c, 'z) kworld_scheme, int) act" where
  "kcall c w = (let r = ans w (log w) c in Inr (r, w\<lparr>log := (c, r) # log w\<rparr>))"

text \<open>A call whose answer the code does not look at (a procedure).\<close>

definition kdo :: "'c \<Rightarrow> ('c, 'z) kworld_scheme \<Rightarrow> (('c, 'z) kworld_scheme, unit) act" where
  "kdo c w = bnd (kcall c w) (\<lambda>r w. ret () w)"

text \<open>A call whose answer the code only tests.\<close>

definition kask :: "'c \<Rightarrow> ('c, 'z) kworld_scheme \<Rightarrow> (('c, 'z) kworld_scheme, bool) act" where
  "kask c w = bnd (kcall c w) (\<lambda>r w. ret (r \<noteq> 0) w)"

definition BUG_ON :: "bool \<Rightarrow> 'w \<Rightarrow> ('w, unit) act" where
  "BUG_ON b w = (if b then Inl (Oops, w) else ret () w)"

definition cond :: "bool \<Rightarrow> ('w \<Rightarrow> ('w, unit) act) \<Rightarrow> 'w \<Rightarrow> ('w, unit) act" where
  "cond b m w = (if b then m w else ret () w)"

text \<open>The condition \<open>c \<and> m\<close> of C, which evaluates \<open>m\<close> only when \<open>c\<close> holds.\<close>

definition andalso :: "bool \<Rightarrow> ('w \<Rightarrow> ('w, bool) act) \<Rightarrow> 'w \<Rightarrow> ('w, bool) act" where
  "andalso b m w = (if b then m w else ret False w)"

fun each :: "('a \<Rightarrow> 'w \<Rightarrow> ('w, unit) act) \<Rightarrow> 'a list \<Rightarrow> 'w \<Rightarrow> ('w, unit) act" where
  "each f [] w = ret () w"
| "each f (x # xs) w = bnd (f x w) (\<lambda>_ w. each f xs w)"

text \<open>
  The loop \<open>do body while (...)\<close>. The body returns whether to go round again and the loop's
  variables; \<open>continue\<close> and \<open>break\<close> are the two values it can return early. The loop runs on fuel
  and ends in \<open>NoFuel\<close> when it is used up; the theorems about loops show that it is not.
\<close>

fun do_while :: "nat \<Rightarrow> ('s \<Rightarrow> 'w \<Rightarrow> ('w, bool \<times> 's) act) \<Rightarrow> 's \<Rightarrow> 'w \<Rightarrow> ('w, 's) act" where
  "do_while 0 body s w = Inl (NoFuel, w)"
| "do_while (Suc n) body s w =
     bnd (body s w) (\<lambda>(again, s) w. if again then do_while n body s w else ret s w)"

lemma do_while_numeral [simp]:
  "do_while (numeral k) body s w =
     bnd (body s w) (\<lambda>(again, s) w. if again then do_while (pred_numeral k) body s w else ret s w)"
  by (simp add: numeral_eq_Suc)

text \<open>The fuel of a walk over the addresses from \<open>a\<close> to \<open>e\<close>, which moves forward at each step.\<close>

definition range_fuel :: "u64 \<Rightarrow> u64 \<Rightarrow> nat" where
  "range_fuel a e = Suc (unat (e - a))"

section \<open>Ghost states\<close>

text \<open>
  What the calls so far amount to: \<open>ghost st s0 w\<close> folds the component's step function over the
  history of the world. The safety properties of the kernel code are stated over such states
  (which locks are held, how many references were taken, what was freed).
\<close>

fun replay :: "('s \<Rightarrow> 'c \<Rightarrow> int \<Rightarrow> 's) \<Rightarrow> 's \<Rightarrow> ('c \<times> int) list \<Rightarrow> 's" where
  "replay st s0 [] = s0"
| "replay st s0 ((c, r) # h) = st (replay st s0 h) c r"

lemma replay_append: "replay st s0 (h @ h') = replay st (replay st s0 h') h"
  by (induction h) auto

definition ghost :: "('s \<Rightarrow> 'c \<Rightarrow> int \<Rightarrow> 's) \<Rightarrow> 's \<Rightarrow> ('c, 'z) kworld_scheme \<Rightarrow> 's" where
  "ghost st s0 w = replay st s0 (log w)"

lemma ghost_log [simp]:
  "ghost st s0 (w\<lparr>log := h\<rparr>) = replay st s0 h" "replay st s0 (log w) = ghost st s0 w"
  by (simp_all add: ghost_def)

section \<open>Partial and total post-conditions of kernel code\<close>

text \<open>
  \<open>post\<close> of the prelude speaks of the runs that return. \<open>tpost\<close> also promises that the run does
  not get lost in a loop: it returns, sleeps or stops at a \<open>BUG_ON\<close>.
\<close>

definition tpost :: "('a \<Rightarrow> 'w \<Rightarrow> bool) \<Rightarrow> ('w, 'a) act \<Rightarrow> bool" where
  "tpost P m = (case m of Inl (e, _) \<Rightarrow> e \<noteq> NoFuel | Inr (a, w) \<Rightarrow> P a w)"

lemma tpost_simps [simp]:
  "tpost P (Inr (a, w)) = P a w" "tpost P (Inl (e, w)) = (e \<noteq> NoFuel)" "tpost P (ret a w) = P a w"
  by (simp_all add: tpost_def ret_def)

lemma tpost_bndI: "tpost Q m \<Longrightarrow> (\<And>a w. Q a w \<Longrightarrow> tpost P (f a w)) \<Longrightarrow> tpost P (bnd m f)"
  by (fastforce simp: tpost_def bnd_def split: sum.splits prod.splits)

lemma tpost_bnd: "tpost P (bnd m f) = tpost (\<lambda>a w. tpost P (f a w)) m"
  by (simp add: tpost_def bnd_def split: sum.splits prod.splits)

lemma tpost_mono: "tpost Q m \<Longrightarrow> (\<And>a w. Q a w \<Longrightarrow> P a w) \<Longrightarrow> tpost P m"
  by (auto simp: tpost_def split: sum.splits prod.splits)

lemma tpost_post: "tpost P m \<Longrightarrow> post P m"
  by (auto simp: tpost_def post_def split: sum.splits prod.splits)

lemma tpost_conj: "tpost P m \<Longrightarrow> tpost Q m \<Longrightarrow> tpost (\<lambda>a w. P a w \<and> Q a w) m"
  by (auto simp: tpost_def split: sum.splits)

lemma tpost_kcall [simp]:
  "tpost P (kcall c w) = (let r = ans w (log w) c in P r (w\<lparr>log := (c, r) # log w\<rparr>))"
  by (simp add: kcall_def Let_def)

lemma post_kcall [simp]:
  "post P (kcall c w) = (let r = ans w (log w) c in P r (w\<lparr>log := (c, r) # log w\<rparr>))"
  by (simp add: kcall_def Let_def)

lemma tpost_if: "tpost P (if c then x else y) = (if c then tpost P x else tpost P y)"
  by simp

text \<open>
  The rules of a symbolic execution: an unknown answer is any answer.
\<close>

named_theorems run_intros \<open>symbolic execution of kernel code\<close>

lemma tpost_bnd_kcall [run_intros]:
  "(\<And>r. tpost P (f r (w\<lparr>log := (c, r) # log w\<rparr>))) \<Longrightarrow> tpost P (bnd (kcall c w) f)"
  by (simp add: kcall_def Let_def)

lemma tpost_bnd_kdo [run_intros]:
  "(\<And>r. tpost P (f () (w\<lparr>log := (c, r) # log w\<rparr>))) \<Longrightarrow> tpost P (bnd (kdo c w) f)"
  by (simp add: kdo_def kcall_def Let_def)

lemma tpost_bnd_kask [run_intros]:
  assumes "\<And>r. r \<noteq> 0 \<Longrightarrow> tpost P (f True (w\<lparr>log := (c, r) # log w\<rparr>))"
    and "tpost P (f False (w\<lparr>log := (c, 0) # log w\<rparr>))"
  shows "tpost P (bnd (kask c w) f)"
  using assms by (cases "ans w (log w) c = 0") (simp_all add: kask_def kcall_def Let_def)

lemma tpost_bnd_BUG_ON [run_intros]: "(\<not> b \<Longrightarrow> tpost P (f () w)) \<Longrightarrow> tpost P (bnd (BUG_ON b w) f)"
  by (simp add: BUG_ON_def)

lemma tpost_bnd_cond [run_intros]:
  "(b \<Longrightarrow> tpost P (bnd (m w) f)) \<Longrightarrow> (\<not> b \<Longrightarrow> tpost P (f () w)) \<Longrightarrow> tpost P (bnd (cond b m w) f)"
  by (simp add: cond_def)

lemma tpost_bnd_andalso [run_intros]:
  "(b \<Longrightarrow> tpost P (bnd (m w) f)) \<Longrightarrow> (\<not> b \<Longrightarrow> tpost P (f False w)) \<Longrightarrow> tpost P (bnd (andalso b m w) f)"
  by (simp add: andalso_def)

lemma tpost_bnd_ret [run_intros]: "tpost P (f a w) \<Longrightarrow> tpost P (bnd (ret a w) f)"
  by simp

lemma tpost_bnd_if [run_intros]:
  "(c \<Longrightarrow> tpost P (bnd x f)) \<Longrightarrow> (\<not> c \<Longrightarrow> tpost P (bnd y f)) \<Longrightarrow> tpost P (bnd (if c then x else y) f)"
  by simp

lemma tpost_ifI [run_intros]:
  "(c \<Longrightarrow> tpost P x) \<Longrightarrow> (\<not> c \<Longrightarrow> tpost P y) \<Longrightarrow> tpost P (if c then x else y)"
  by simp

lemma tpost_bnd_bnd [run_intros]:
  "tpost P (bnd m (\<lambda>a w. bnd (g a w) f)) \<Longrightarrow> tpost P (bnd (bnd m g) f)"
  by (simp add: bnd_assoc)

lemma tpost_Let [run_intros]: "tpost P (f x) \<Longrightarrow> tpost P (Let x f)"
  by simp

lemma tpost_kdoI [run_intros]: "(\<And>r. P () (w\<lparr>log := (c, r) # log w\<rparr>)) \<Longrightarrow> tpost P (kdo c w)"
  by (simp add: kdo_def kcall_def Let_def)

lemma tpost_kcallI [run_intros]: "(\<And>r. P r (w\<lparr>log := (c, r) # log w\<rparr>)) \<Longrightarrow> tpost P (kcall c w)"
  by (simp add: kcall_def Let_def)

lemma tpost_kaskI [run_intros]:
  assumes "\<And>r. r \<noteq> 0 \<Longrightarrow> P True (w\<lparr>log := (c, r) # log w\<rparr>)" and "P False (w\<lparr>log := (c, 0) # log w\<rparr>)"
  shows "tpost P (kask c w)"
  using assms by (cases "ans w (log w) c = 0") (simp_all add: kask_def kcall_def Let_def)

lemma tpost_condI [run_intros]:
  "(b \<Longrightarrow> tpost P (m w)) \<Longrightarrow> (\<not> b \<Longrightarrow> P () w) \<Longrightarrow> tpost P (cond b m w)"
  by (simp add: cond_def)

lemma tpost_andalsoI [run_intros]:
  "(b \<Longrightarrow> tpost P (m w)) \<Longrightarrow> (\<not> b \<Longrightarrow> P False w) \<Longrightarrow> tpost P (andalso b m w)"
  by (simp add: andalso_def)

lemma tpost_retI [run_intros]: "P a w \<Longrightarrow> tpost P (ret a w)"
  by simp

lemma tpost_bnd_each:
  assumes "I xs w"
    and "\<And>y ys w. I (y # ys) w \<Longrightarrow> tpost (\<lambda>_ w. I ys w) (f y w)"
    and "\<And>w. I [] w \<Longrightarrow> tpost P (g () w)"
  shows "tpost P (bnd (each f xs w) g)"
  using assms(1)
proof (induction xs arbitrary: w)
  case Nil
  then show ?case using assms(3) by simp
next
  case (Cons x xs)
  have "tpost P (bnd (f x w) (\<lambda>_ w. bnd (each f xs w) g))"
    by (rule tpost_bndI [OF assms(2) [OF Cons.prems]]) (rule Cons.IH)
  then show ?case by (simp add: bnd_assoc)
qed

text \<open>Symbolic execution through options, sums and pairs, and through a stop; added to the
  collection where a component needs them.\<close>

lemma tpost_cases:
  "(x = None \<Longrightarrow> tpost P y) \<Longrightarrow> (\<And>z. x = Some z \<Longrightarrow> tpost P (f z)) \<Longrightarrow>
    tpost P (case x of None \<Rightarrow> y | Some z \<Rightarrow> f z)"
  "(x = None \<Longrightarrow> tpost P (bnd y h)) \<Longrightarrow> (\<And>z. x = Some z \<Longrightarrow> tpost P (bnd (f z) h)) \<Longrightarrow>
    tpost P (bnd (case x of None \<Rightarrow> y | Some z \<Rightarrow> f z) h)"
  "(\<And>a. c = Inl a \<Longrightarrow> tpost P (f1 a)) \<Longrightarrow> (\<And>a. c = Inr a \<Longrightarrow> tpost P (f2 a)) \<Longrightarrow>
    tpost P (case c of Inl a \<Rightarrow> f1 a | Inr b \<Rightarrow> f2 b)"
  "(\<And>a b. p = (a, b) \<Longrightarrow> tpost P (g a b v)) \<Longrightarrow> tpost P ((case p of (a, b) \<Rightarrow> g a b) v)"
  by (auto split: option.splits sum.splits prod.splits)

lemma tpost_Inl: "e \<noteq> NoFuel \<Longrightarrow> tpost P (Inl (e, w))"
  by simp

lemma tpost_bnd_Inl: "e \<noteq> NoFuel \<Longrightarrow> tpost P (bnd (Inl (e, w)) f)"
  by (simp add: bnd_def)

text \<open>
  The loop rule: an invariant, and a measure that falls each time round and starts under the fuel.
\<close>

lemma tpost_do_while:
  assumes "I s w" "m s w < n"
    and body: "\<And>s w. I s w \<Longrightarrow>
      tpost (\<lambda>(again, s') w'. if again then I s' w' \<and> m s' w' < m s w else Q s' w') (body s w)"
  shows "tpost Q (do_while n body s w)"
  using assms(1,2)
proof (induction n arbitrary: s w)
  case 0
  then show ?case by simp
next
  case (Suc n)
  show ?case
    unfolding do_while.simps
  proof (rule tpost_bndI [OF body [OF Suc.prems(1)]])
    fix a w'
    assume "(case a of (again, s') \<Rightarrow> \<lambda>w'. if again then I s' w' \<and> m s' w' < m s w else Q s' w') w'"
    then show "tpost Q ((case a of (again, s) \<Rightarrow>
        \<lambda>w. if again then do_while n body s w else ret s w) w')"
      using Suc.prems(2) by (cases a) (auto split: if_splits intro!: Suc.IH)
  qed
qed

text \<open>The same without a measure, for the runs that return.\<close>

lemma post_do_while:
  assumes "I s w" and body: "\<And>s w. I s w \<Longrightarrow> post (\<lambda>(again, s') w'. if again then I s' w' else Q s' w') (body s w)"
  shows "post Q (do_while n body s w)"
  using assms(1)
proof (induction n arbitrary: s w)
  case (Suc n)
  show ?case
    unfolding do_while.simps
    by (rule post_bndI [OF body [OF Suc.prems]]) (auto intro: Suc.IH split: if_splits)
qed simp

text \<open>
  \<open>xpost K P m\<close>: if the run returns, \<open>P\<close> holds; and it only leaves an array in a world where \<open>K\<close> holds.
\<close>

definition xpost :: "('w \<Rightarrow> bool) \<Rightarrow> ('a \<Rightarrow> 'w \<Rightarrow> bool) \<Rightarrow> ('w, 'a) act \<Rightarrow> bool" where
  "xpost K P m = (case m of Inl (e, w) \<Rightarrow> e = OutOfBounds \<longrightarrow> K w | Inr (a, w) \<Rightarrow> P a w)"

lemma xpost_simps [simp]:
  "xpost K P (Inr (a, w)) = P a w" "xpost K P (Inl (e, w)) = (e = OutOfBounds \<longrightarrow> K w)" "xpost K P (ret a w) = P a w"
  by (simp_all add: xpost_def ret_def)

lemma xpost_post: "xpost K P m \<Longrightarrow> post P m"
  by (auto simp: xpost_def post_def split: sum.splits prod.splits)

lemma xpost_mono: "xpost K Q m \<Longrightarrow> (\<And>a w. Q a w \<Longrightarrow> P a w) \<Longrightarrow> xpost K P m"
  by (auto simp: xpost_def split: sum.splits prod.splits)

lemma xpost_bndI: "xpost K Q m \<Longrightarrow> (\<And>a w. Q a w \<Longrightarrow> xpost K P (f a w)) \<Longrightarrow> xpost K P (bnd m f)"
  by (fastforce simp: xpost_def bnd_def split: sum.splits prod.splits)

lemma xpost_do_while:
  assumes "I s w" and body: "\<And>s w. I s w \<Longrightarrow> xpost K (\<lambda>(again, s') w'. if again then I s' w' else Q s' w') (body s w)"
  shows "xpost K Q (do_while n body s w)"
  using assms(1)
proof (induction n arbitrary: s w)
  case (Suc n)
  show ?case
    unfolding do_while.simps
    by (rule xpost_bndI [OF body [OF Suc.prems]]) (auto intro: Suc.IH split: if_splits)
qed simp

text \<open>\<open>rets P m\<close>: the run returns, with \<open>P\<close>; it neither sleeps for ever nor stops at a \<open>BUG_ON\<close>.\<close>

definition rets :: "('a \<Rightarrow> 'w \<Rightarrow> bool) \<Rightarrow> ('w, 'a) act \<Rightarrow> bool" where
  "rets P m = (case m of Inl _ \<Rightarrow> False | Inr (a, w) \<Rightarrow> P a w)"

lemma rets_simps [simp]:
  "rets P (Inr (a, w)) = P a w" "rets P (Inl e) = False" "rets P (ret a w) = P a w"
  by (simp_all add: rets_def ret_def)

lemma rets_bnd: "rets P (bnd m f) = rets (\<lambda>a w. rets P (f a w)) m"
  by (simp add: rets_def bnd_def split: sum.splits prod.splits)

lemma rets_mono: "rets Q m \<Longrightarrow> (\<And>a w. Q a w \<Longrightarrow> P a w) \<Longrightarrow> rets P m"
  by (auto simp: rets_def split: sum.splits prod.splits)

lemma rets_bndI: "rets Q m \<Longrightarrow> (\<And>a w. Q a w \<Longrightarrow> rets P (f a w)) \<Longrightarrow> rets P (bnd m f)"
  by (auto simp: rets_bnd intro: rets_mono)

lemma rets_iff: "rets P m \<longleftrightarrow> (\<exists>a w. m = Inr (a, w) \<and> P a w)"
  by (auto simp: rets_def split: sum.splits)

lemma rets_tpost: "rets P m \<Longrightarrow> tpost P m"
  by (auto simp: rets_iff)

lemma rets_conj: "rets P m \<Longrightarrow> rets Q m \<Longrightarrow> rets (\<lambda>a w. P a w \<and> Q a w) m"
  by (auto simp: rets_iff)

lemma rets_kcall [simp]:
  "rets P (kcall c w) = (let r = ans w (log w) c in P r (w\<lparr>log := (c, r) # log w\<rparr>))"
  by (simp add: kcall_def Let_def)

lemma rets_kdo [simp]:
  "rets P (kdo c w) = (let r = ans w (log w) c in P () (w\<lparr>log := (c, r) # log w\<rparr>))"
  by (simp add: kdo_def kcall_def Let_def)

lemma rets_cond [simp]: "rets P (cond b m w) = (if b then rets P (m w) else P () w)"
  by (simp add: cond_def)

lemma rets_BUG_ON [simp]: "rets P (BUG_ON b w) = (\<not> b \<and> P () w)"
  by (simp add: BUG_ON_def)

lemma rets_each:
  assumes "I xs w" and "\<And>y ys w. I (y # ys) w \<Longrightarrow> rets (\<lambda>_ w. I ys w) (f y w)"
  shows "rets (\<lambda>_. I []) (each f xs w)"
  using assms(1)
proof (induction xs arbitrary: w)
  case Nil
  then show ?case by simp
next
  case (Cons x xs)
  show ?case unfolding each.simps
    by (rule rets_bndI [OF assms(2) [OF Cons.prems]]) (rule Cons.IH)
qed

text \<open>
  Running by value, for concrete worlds: the calls as results, and congruence rules that leave the
  continuation alone until its argument is there.
\<close>

lemma kcall_run: "kcall c w = Inr (ans w (log w) c, w\<lparr>log := (c, ans w (log w) c) # log w\<rparr>)"
  by (simp add: kcall_def Let_def)

lemma kdo_run: "kdo c w = Inr ((), w\<lparr>log := (c, ans w (log w) c) # log w\<rparr>)"
  by (simp add: kdo_def kcall_def Let_def)

lemma kask_run: "kask c w = Inr (ans w (log w) c \<noteq> 0, w\<lparr>log := (c, ans w (log w) c) # log w\<rparr>)"
  by (simp add: kask_def kcall_def Let_def)

lemma bnd_by_value: "m = m' \<Longrightarrow> bnd m f = bnd m' f"
  by simp

lemma rets_by_value: "m = m' \<Longrightarrow> rets P m = rets P m'"
  by simp

lemmas by_value = kcall_run kdo_run kask_run cond_def andalso_def BUG_ON_def Let_def

section \<open>Machine addresses\<close>

text \<open>
  \<open>pmd_addr_end\<close>, \<open>pud_addr_end\<close> and \<open>pgd_addr_end\<close> of the kernel headers return the end of the
  entry that maps \<open>addr\<close>, or \<open>end\<close> if that comes first. What the code relies on is that the
  result moves forward and not beyond \<open>end\<close>.
\<close>

definition addr_end_ok :: "(u64 \<Rightarrow> u64 \<Rightarrow> u64) \<Rightarrow> bool" where
  "addr_end_ok nxt = (\<forall>a e. a < e \<longrightarrow> a < nxt a e \<and> nxt a e \<le> e)"

lemma addr_end_okD: "addr_end_ok nxt \<Longrightarrow> a < e \<Longrightarrow> a < nxt a e" "addr_end_ok nxt \<Longrightarrow> a < e \<Longrightarrow> nxt a e \<le> e"
  by (simp_all add: addr_end_ok_def)

lemma range_fuel_less: "a < b \<Longrightarrow> b \<le> (e :: u64) \<Longrightarrow> unat (e - b) < unat (e - a)"
  by (simp add: unat_sub word_le_nat_alt word_less_nat_alt)

text \<open>
  The loop that every level of the page-table walks has: test the entry, work on it, go on to the
  next one until the end. It terminates, and keeps what the test and the work keep.
\<close>

lemma tpost_walk:
  fixes e :: u64
  assumes ok: "addr_end_ok nxt" and se: "s < e" and J: "J w"
    and ask: "\<And>p v r. J v \<Longrightarrow> J (v\<lparr>log := (C p, r) # log v\<rparr>)"
    and step: "\<And>p a v. J v \<Longrightarrow> s \<le> a \<Longrightarrow> a < e \<Longrightarrow> tpost (\<lambda>_. J) (F p a (nxt a e) v)"
  shows "tpost (\<lambda>_. J) (do_while (range_fuel s e) (\<lambda>(p, a) w.
      let next = nxt a e in
      bnd (kask (C p) w) (\<lambda>none w. bnd (cond (\<not> none) (F p a next) w) (\<lambda>_ w. ret (next \<noteq> e, (p + 1, next)) w)))
     (p0 :: int, s) w)"
proof -
  let ?I = "\<lambda>(p, a) v. J v \<and> s \<le> a \<and> a < e" and ?m = "\<lambda>(p, a) v. unat (e - a)"
  have body: "tpost (\<lambda>(again, t) w'. if again then ?I t w' \<and> ?m t w' < unat (e - a) else J w')
      (let next = nxt a e in
        bnd (kask (C p) v) (\<lambda>none w. bnd (cond (\<not> none) (F p a next) w) (\<lambda>_ w. ret (next \<noteq> e, (p + 1, next)) w)))"
    if v: "J v" "s \<le> a" "a < e" for p a v
  proof -
    have nx: "a < nxt a e" "nxt a e \<le> e" using ok v(3) by (auto simp: addr_end_ok_def)
    then have nxt: "nxt a e \<noteq> e \<Longrightarrow> s \<le> nxt a e \<and> nxt a e < e \<and> unat (e - nxt a e) < unat (e - a)"
      using v(2) by (auto simp: range_fuel_less)
    show ?thesis
      by (intro run_intros tpost_bndI [OF step [OF ask [OF v(1)] v(2,3)]]) (use ask [OF v(1)] nxt in auto)
  qed
  show ?thesis
  proof (rule tpost_do_while [where I = ?I and m = ?m])
    show "?I (p0, s) w" using J se by simp
    show "?m (p0, s) w < range_fuel s e" by (simp add: range_fuel_def)
  qed (auto split del: if_split intro!: body)
qed

definition PAGE_SIZE :: u64 where
  "PAGE_SIZE = 4096"

definition PAGE_ALIGNED :: "u64 \<Rightarrow> bool" where
  "PAGE_ALIGNED a = (take_bit 12 a = 0)"

text \<open>
  The general form: a loop over addresses whose body comes back with the next address. \<open>al\<close> is what
  every address of the loop satisfies (its alignment).
\<close>

lemma tpost_range_loop:
  fixes e :: u64 and p0 :: 'p
  assumes J: "J w" and s: "s < e" "al s"
    and nxt: "\<And>a. s \<le> a \<Longrightarrow> a < e \<Longrightarrow> al a \<Longrightarrow> a < nxt a \<and> nxt a \<le> e \<and> al (nxt a)"
    and body: "\<And>p a v. J v \<Longrightarrow> s \<le> a \<Longrightarrow> a < e \<Longrightarrow> al a \<Longrightarrow>
      tpost (\<lambda>(again, q, b) v'. J v' \<and> b = nxt a \<and> again = (b \<noteq> e)) (B (p, a) v)"
  shows "tpost (\<lambda>(q, b) v. J v \<and> b = e) (do_while (range_fuel s e) B (p0, s) w)"
proof (rule tpost_do_while [where I = "\<lambda>(p :: 'p, a) v. J v \<and> s \<le> a \<and> a < e \<and> al a" and m = "\<lambda>(p, a) v. unat (e - a)"])
  fix t :: "'p \<times> u64" and v
  assume t: "(case t of (p, a) \<Rightarrow> \<lambda>v. J v \<and> s \<le> a \<and> a < e \<and> al a) v"
  then obtain p a where pa: "t = (p, a)" "J v" "s \<le> a" "a < e" "al a" by (cases t) auto
  note nx = nxt [OF pa(3-5)]
  show "tpost (\<lambda>(again, t') v'. if again then (case t' of (p, a) \<Rightarrow> \<lambda>v. J v \<and> s \<le> a \<and> a < e \<and> al a) v' \<and>
      (case t' of (p, a) \<Rightarrow> \<lambda>v. unat (e - a)) v' < (case t of (p, a) \<Rightarrow> \<lambda>v. unat (e - a)) v
      else (case t' of (q, b) \<Rightarrow> \<lambda>v. J v \<and> b = e) v') (B t v)"
    unfolding pa(1)
    by (rule tpost_mono [OF body [OF pa(2-5)]]) (use nx pa in \<open>auto simp: range_fuel_less\<close>)
qed (use J s in \<open>auto simp: range_fuel_def\<close>)

text \<open>The step from page to page stays in a page-aligned range.\<close>

lemma PAGE_ALIGNED_iff: "PAGE_ALIGNED a \<longleftrightarrow> unat a mod 4096 = 0"
proof -
  have "unat (take_bit 12 a) = unat a mod 4096"
    by (simp only: unsigned_take_bit_eq) (simp add: take_bit_eq_mod)
  then show ?thesis by (simp add: PAGE_ALIGNED_def unat_eq_0 [symmetric])
qed

lemma page_step:
  assumes "PAGE_ALIGNED a" "PAGE_ALIGNED e" "a < e"
  shows "a < a + PAGE_SIZE" "a + PAGE_SIZE \<le> e" "PAGE_ALIGNED (a + PAGE_SIZE)"
proof -
  obtain m n where mn: "unat a = 4096 * m" "unat e = 4096 * n"
    using assms(1,2) by (auto simp: PAGE_ALIGNED_iff elim!: dvdE dest!: mod_0_imp_dvd)
  then have "m < n" using assms(3) by (simp add: word_less_nat_alt)
  then have "4096 * m + 4096 \<le> unat e" using mn by simp
  moreover have "unat e < 2 ^ 64" using unsigned_less [of e, where 'a = nat] by simp
  ultimately have "unat (a + PAGE_SIZE) = 4096 * m + 4096"
    using mn by (simp add: unat_word_ariths PAGE_SIZE_def)
  with mn \<open>4096 * m + 4096 \<le> unat e\<close> show "a < a + PAGE_SIZE" "a + PAGE_SIZE \<le> e" "PAGE_ALIGNED (a + PAGE_SIZE)"
    by (simp_all add: word_less_nat_alt word_le_nat_alt PAGE_ALIGNED_iff)
qed

text \<open>Table boundaries are page boundaries.\<close>

definition addr_end_aligned :: "(u64 \<Rightarrow> u64 \<Rightarrow> u64) \<Rightarrow> bool" where
  "addr_end_aligned nxt = (addr_end_ok nxt \<and> (\<forall>a e. PAGE_ALIGNED a \<longrightarrow> PAGE_ALIGNED e \<longrightarrow> PAGE_ALIGNED (nxt a e)))"

end
