(* ===== verification/MmWorld.thy ===== *)
theory MmWorld
  imports Kernel SwapExperiment
begin

text \<open>
  What the page-table code of \<open>memory.c\<close> works on: the calls it makes to the rest of the kernel,
  grouped by the subsystem that answers them, the architecture's constants and pure operations
  on page-table entries (parameters: they live in headers that are not part of the repository),
  the structures it keeps itself, and the world that holds them.
\<close>

section \<open>Calls\<close>

text \<open>Pointers to kernel objects are integers, 0 is NULL; an error pointer is a small negative one.\<close>

datatype lock_call =
    Spin_lock int | Spin_unlock int | Pmd_lock int | Pte_offset_map_lock int u64
  | Pte_alloc_map_lock int u64 | Pte_offset_map_nested int u64 | Pte_lockptr int int
  | Pte_unmap_unlock int | Pte_unmap int | Smp_wmb | Smp_rmb | Barrier | Cond_resched
  | Need_resched | Spin_needbreak int | Wait_split_huge_page int
  | I_mmap_lock_read int | I_mmap_unlock_read int | I_mmap_lock_write int | I_mmap_unlock_write int
  | Down_read int | Up_read int | Enter_lazy_mmu | Leave_lazy_mmu

datatype page_call =
    Get_page int | Page_dup_rmap int | PageAnon int | PageKsm int | Page_remove_rmap int
  | Page_mapcount int | Page_mapping int | Set_page_dirty int | Mark_page_accessed int
  | Page_cache_get int | Page_cache_release int | Lock_page int | Unlock_page int
  | Trylock_page int | Lock_page_or_retry int | SetPageUptodate int | PageUptodate int
  | PageHWPoison int | PageSwapCache int | Page_private int | Page_add_file_rmap int
  | Page_add_new_anon_rmap int u64 | Page_add_anon_rmap int u64 bool | Lru_cache_add int
  | Alloc_zeroed_page u64 | Alloc_page_vma u64 | Copy_user_page int int u64
  | Flush_dcache_page int | Flush_icache_page int | Mem_cgroup_try_charge int
  | Mem_cgroup_commit int bool | Mem_cgroup_cancel int

datatype table_call =
    Pgd_offset int u64 | Pud_offset int u64 | Pmd_offset int u64 | Pte_read int | Pmd_read int
  | Pgd_none_or_clear_bad int | Pud_none_or_clear_bad int | Pmd_none_or_clear_bad int
  | Pmd_none_or_trans_huge_or_clear_bad int | Pmd_none int | Pmd_trans_huge int
  | Pmd_trans_splitting int | Pmd_pgtable int | Pmd_clear int | Pud_clear int | Pgd_clear int

datatype free_call =
    Pte_free_tlb int u64 | Pmd_free_tlb int u64 | Pud_free_tlb int u64 | Dec_nr_ptes | Inc_nr_ptes
  | Dec_nr_pmds | Pte_alloc_one u64 | Pte_free int | Pmd_populate int int | Pte_alloc_one_kernel u64
  | Pte_free_kernel int | Pmd_populate_kernel int int | Pgd_none int | Pud_none int | Pte_alloc int u64
  | Pmd_alloc int u64 | Pud_alloc int u64 | Split_huge_page_pmd u64 int | Zap_huge_pmd int u64
  | Copy_huge_pmd int int u64 | Inc_nr_pmds | Pud_alloc_one u64 | Pud_free int | Pgd_present int
  | Pgd_populate int int | Pmd_alloc_one u64 | Pmd_free int | Pud_present int | Pud_populate int int

datatype pte_call =
    Set_pte_at int u64 int u64 | Ptep_set_wrprotect int u64 int | Ptep_get_and_clear_full u64 int
  | Pte_clear_not_present_full u64 int | Remove_tlb_entry int u64 | Update_mmu_cache u64 int
  | Ptep_set_access_flags u64 int u64 bool | Ptep_clear_flush u64 int | Flush_tlb_fix_spurious u64
  | Flush_cache_page u64 u64

datatype tlb_call =
    Get_free_pages | Free_pages int | Free_pages_and_swap_cache "int list" | Tlb_flush
  | Notify_range u64 u64 | Check_pgt_cache | Smp_call_function | Remove_table int | Mm_users int
  | Get_free_page | Free_page int | Tlb_start_vma int | Tlb_end_vma int
  | Notifier_start int u64 u64 | Notifier_end int u64 u64 | Update_hiwater_rss int

datatype mm_member = MM_FILEPAGES | MM_ANONPAGES | MM_SWAPENTS

datatype vma_call =
    Add_mm_counter int mm_member u64 | Unlink_anon_vmas int | Unlink_file_vma int
  | Hugetlb_free_pgd_range u64 u64 u64 u64 | Find_special_page int u64 | Dump_page int | Print_bad_pte_report
  | Report_suppressed u64 | Uprobe_munmap int u64 u64 | Untrack_pfn int u64 u64 | Unmap_hugepage_range u64 u64
  | Lru_add_drain | Pfn_valid u64 | Is_zero_pfn u64 | Pfn_to_page u64 | Jiffies | Track_pfn_copy int
  | Track_pfn_remap int u64 u64 | Track_pfn_insert int u64 | Copy_hugetlb_page_range int | Flush_cache_range u64 u64
  | Apply_fn int int u64

datatype swap_call =
    Swap_duplicate u64 | Free_swap_and_cache u64 | List_empty_mmlist int | List_add_mmlist int int
  | Add_swap_count_continuation u64 | Swap_free u64 | Lookup_swap_cache u64 | Swapin_readahead u64 u64
  | Migration_entry_wait int u64 | Delayacct_set | Delayacct_clear | Ksm_might_need_to_copy int u64
  | Reuse_swap_page int | Try_to_free_swap int | Vm_swap_full | Count_vm_event string
  | Kmap int | Kunmap int

datatype fault_call =
    Vma_fault int u64 u64 | Vma_page_mkwrite int | Vma_pfn_mkwrite u64 | Vma_map_pages u64 int u64 u64
  | Anon_vma_prepare int | Handle_userfault u64 | Userfaultfd_missing int | Mm_forbids_zeropage int
  | Expand_downwards u64 | Expand_upwards u64 | PageLocked int | PageMlocked int | Page_cpupid_xchg_last int
  | Balance_dirty_pages int | File_update_time int | Munlock_vma_page int | Page_move_anon_rmap int u64
  | Copy_from_user_inatomic int u64 | Clear_page int | Kmap_atomic int | Kunmap_atomic int
  | Debug_dma_assert_idle int | Hugetlb_fault u64 | Transparent_hugepage_enabled int
  | Do_huge_pmd_anonymous_page u64 | Vma_pmd_fault u64 | Do_huge_pmd_numa_page u64 | Do_huge_pmd_wp_page u64
  | Huge_pmd_set_accessed u64 | Pmd_trans_unstable int | Pmd_protnone int | Pmd_write int
  | Mem_cgroup_oom_enable | Mem_cgroup_oom_disable | Task_in_memcg_oom
  | Mem_cgroup_oom_synchronize | Set_task_running | Kmalloc_table | Kmalloc_contents | Flush_icache_page_at int

text \<open>
  What is asked only when entries are copied or inserted and on NUMA hinting faults. \<open>Track_prot\<close> reads
  the protection that \<open>track_pfn_remap\<close> or \<open>track_pfn_insert\<close> left behind its pointer argument.
\<close>

datatype tnf = TNF_MIGRATED | TNF_NO_GROUP | TNF_SHARED | TNF_FAULT_LOCAL | TNF_MIGRATE_FAIL

datatype map_call =
    Page_count int | Down_read_trylock int | Pgd_bad int | Pud_bad int | Pmd_bad int | Pmd_huge int | Pud_huge int
  | Pte_alloc_kernel int u64 | Io_remap_pfn_range int u64 u64 u64 u64 | Track_prot int
  | Put_page int | Count_numa_event string | Numa_node_id | Mpol_misplaced int int u64 | Page_cpupid_last int
  | Page_to_nid int | Migrate_misplaced_page int int int | Task_numa_fault int int int "tnf set"

text \<open>
  What the code asks on behalf of another address space. \<open>Gup_page\<close> and \<open>Gup_vma\<close> read what
  \<open>get_user_pages\<close> left behind its last two arguments, \<open>Set_ptl\<close> and \<open>Page_ptl\<close> write and read the
  field \<open>ptl\<close> of a page.
\<close>

datatype access_call =
    Find_vma int u64 | Get_user_pages int int u64 bool | Gup_page | Gup_vma | Vma_access int u64 int int bool
  | Copy_to_user_page int int u64 int int int | Copy_from_user_page int int u64 int int int | Set_page_dirty_lock int
  | Get_task_mm int | Mmput int | Ioremap_prot u64 u64 u64 | Iounmap int | Memcpy_toio int int int
  | Memcpy_fromio int int int | Preempt_count | Current_mm | File_path int int u64 | Kbasename int
  | Print_vma string int u64 u64 | Fs_is_kernel | Pagefault_disabled | Might_sleep_at string int | Might_lock_read int
  | Might_sleep | Clear_user_highpage int u64 | Copy_user_highpage int int u64 int | Mem_map_next int int nat
  | Kmem_cache_create string | Kmem_cache_alloc int | Kmem_cache_free int int | Set_ptl int int | Page_ptl int

datatype kc =
    Mp map_call | Ac access_call | Ft fault_call | Lk lock_call | Pg page_call | Tb table_call | Fr free_call | Pe pte_call | Tl tlb_call | Vm vma_call | Sw swap_call

section \<open>Structures\<close>

datatype vmflag =
    VM_READ | VM_WRITE | VM_EXEC | VM_SHARED | VM_MAYWRITE | VM_HUGETLB | VM_PFNMAP | VM_MIXEDMAP | VM_SEQ_READ
  | VM_GROWSDOWN | VM_GROWSUP | VM_IO | VM_DONTEXPAND | VM_DONTDUMP | VM_NORESERVE | VM_LOCKED

text \<open>
  \<open>struct vm_area_struct\<close>. The list over \<open>vm_next\<close> is a list of these; the tests of the flag word
  against a mask are tests of the set of flags.
\<close>

record vma =
  vma_ptr :: int
  vm_start :: u64
  vm_end :: u64
  vm_mm :: int
  vm_flags :: "vmflag set"
  vm_pgoff :: u64
  vm_page_prot :: u64
  vm_file :: int
  f_mapping :: int
  anon_vma :: int
  vm_ops :: int
  has_fault :: bool
  has_map_pages :: bool
  has_page_mkwrite :: bool
  has_pfn_mkwrite :: bool
  has_pmd_fault :: bool
  find_special_page :: bool
  has_access :: bool

text \<open>The return codes of a fault, and what kind of access faulted.\<close>

datatype vm_fault =
    VM_FAULT_OOM | VM_FAULT_SIGBUS | VM_FAULT_SIGSEGV | VM_FAULT_MAJOR | VM_FAULT_WRITE | VM_FAULT_HWPOISON
  | VM_FAULT_HWPOISON_LARGE | VM_FAULT_NOPAGE | VM_FAULT_LOCKED | VM_FAULT_RETRY | VM_FAULT_FALLBACK

datatype fault_flag = FAULT_FLAG_WRITE | FAULT_FLAG_USER | FAULT_FLAG_ALLOW_RETRY

text \<open>
  The architecture: the range functions and masks of the page-table levels, and the operations
  on page-table entries and swap entries, all pure functions of the entry's value.
\<close>

record geometry =
  pmd_addr_end :: "u64 \<Rightarrow> u64 \<Rightarrow> u64"
  pud_addr_end :: "u64 \<Rightarrow> u64 \<Rightarrow> u64"
  pgd_addr_end :: "u64 \<Rightarrow> u64 \<Rightarrow> u64"
  PMD_SIZE :: u64
  PMD_MASK :: u64
  PUD_MASK :: u64
  PGDIR_MASK :: u64
  HPAGE_PMD_SIZE :: u64
  MAX_GATHER_BATCH_COUNT :: nat
  MAX_GATHER_BATCH :: nat
  GATHER_BUNDLE :: nat
  MAX_TABLE_BATCH :: nat
  tlb_reset_range :: "bool \<Rightarrow> u64 \<times> u64"
  tlb_adjust_range :: "u64 \<times> u64 \<Rightarrow> u64 \<Rightarrow> u64 \<times> u64"

record pte_reads = geometry +
  HAVE_PTE_SPECIAL :: bool
  HZ :: u64
  time_before :: "u64 \<Rightarrow> u64 \<Rightarrow> bool"
  highest_memmap_pfn :: u64
  pte_none :: "u64 \<Rightarrow> bool"
  pte_present :: "u64 \<Rightarrow> bool"
  pte_dirty :: "u64 \<Rightarrow> bool"
  pte_young :: "u64 \<Rightarrow> bool"
  pte_write :: "u64 \<Rightarrow> bool"
  pte_special :: "u64 \<Rightarrow> bool"
  pte_pfn :: "u64 \<Rightarrow> u64"
  pmd_pfn :: "u64 \<Rightarrow> u64"

record pte_writes = pte_reads +
  pte_wrprotect :: "u64 \<Rightarrow> u64"
  pte_mkclean :: "u64 \<Rightarrow> u64"
  pte_mkold :: "u64 \<Rightarrow> u64"
  pte_mkdirty :: "u64 \<Rightarrow> u64"
  pte_mkyoung :: "u64 \<Rightarrow> u64"
  pte_mkwrite :: "u64 \<Rightarrow> u64"
  pte_mkspecial :: "u64 \<Rightarrow> u64"
  mk_pte :: "int \<Rightarrow> u64 \<Rightarrow> u64"
  pfn_pte :: "u64 \<Rightarrow> u64 \<Rightarrow> u64"

record swap_arch = pte_writes +
  pte_to_swp_entry :: "u64 \<Rightarrow> u64"
  swp_entry_to_pte :: "u64 \<Rightarrow> u64"
  pte_swp_soft_dirty :: "u64 \<Rightarrow> bool"
  pte_swp_mksoft_dirty :: "u64 \<Rightarrow> u64"
  non_swap_entry :: "u64 \<Rightarrow> bool"
  is_migration_entry :: "u64 \<Rightarrow> bool"
  is_write_migration_entry :: "u64 \<Rightarrow> bool"
  is_hwpoison_entry :: "u64 \<Rightarrow> bool"
  make_migration_entry_read :: "u64 \<Rightarrow> u64"
  migration_entry_to_page :: "u64 \<Rightarrow> int"
  is_cow_mapping :: "vmflag set \<Rightarrow> bool"

text \<open>
  \<open>fault_bits\<close> and \<open>vmf_page\<close> read the answer of a handler of the area: its return code and, for
  \<open>vm_ops->fault\<close>, the page it leaves in the \<open>vm_fault\<close> structure. \<open>pte_is_large\<close> says whether an
  entry is wider than a word.
\<close>

record arch = swap_arch +
  pte_same :: "u64 \<Rightarrow> u64 \<Rightarrow> bool"
  pte_protnone :: "u64 \<Rightarrow> bool"
  pte_mksoft_dirty :: "u64 \<Rightarrow> u64"
  maybe_mkwrite :: "u64 \<Rightarrow> vmflag set \<Rightarrow> u64"
  my_zero_pfn :: "u64 \<Rightarrow> u64"
  pte_is_large :: bool
  fault_bits :: "int \<Rightarrow> vm_fault set"
  vmf_page :: "int \<Rightarrow> int"
  VM_FAULT_ERROR :: "vm_fault set"
  PTRS_PER_PTE :: u64
  rounddown_pow_of_two :: "u64 \<Rightarrow> u64"
  pte_modify :: "u64 \<Rightarrow> u64 \<Rightarrow> u64"
  pte_pgprot :: "u64 \<Rightarrow> u64"
  MAX_ORDER_NR_PAGES :: nat

section \<open>The world\<close>

text \<open>
  A batch of the page gather: an array of page pointers of which the first \<open>nr\<close> are in use. The
  batches of a gather, linked by \<open>next\<close>, are the list \<open>chain\<close>, whose head is the local batch inside
  the structure (it has no address of its own), and \<open>active\<close> is the position of the active one.
\<close>

record gather_batch =
  b_addr :: int
  nr :: nat
  bmax :: nat
  pages :: "nat \<Rightarrow> int"

record table_batch =
  t_addr :: int
  t_nr :: nat
  tables :: "nat \<Rightarrow> int"

record mmu_gather =
  tlb_mm :: int
  tlb_range :: "u64 \<times> u64"
  fullmm :: bool
  need_flush_all :: bool
  chain :: "gather_batch list"
  active :: nat
  batch_count :: nat
  tbatch :: "table_batch option"

type_synonym rss_vec = "mm_member \<Rightarrow> u32"

record mmw = "kc kworld" +
  tlb :: mmu_gather
  rcu_pending :: "table_batch list"
  cur_mm :: int
  rss_count :: rss_vec
  rss_events :: u32
  resume :: u64
  nr_shown :: u64
  nr_unshown :: u64
  in_store :: pte_arrays
  alloc_row :: "nat \<Rightarrow> u64 list"
  firstTime_IN :: bool
  contents_IN :: "page_content_store list"
  alloc_contents :: "page_content_store list"
  pageFilled_IN :: int
  kmem :: "int \<Rightarrow> u8 list"
  fault_around_bytes :: u64
  page_ptl_cachep :: int

text \<open>
  The trace of swap entries read back in: \<open>contents_IN\<close> is the array behind \<open>pageContentStore_IN\<close>
  (empty as long as the pointer is NULL), \<open>alloc_row\<close> and \<open>alloc_contents\<close> what the allocator
  returns for a row and for that array (empty if it fails), \<open>kmem\<close> the 4096 bytes behind the
  address that \<open>kmap\<close> returns.
\<close>

type_synonym 'a mact = "mmw \<Rightarrow> (mmw, 'a) act"

lemma ghost_mmw [simp]:
  "ghost st s0 (w\<lparr>tlb := t\<rparr>) = ghost st s0 w" "ghost st s0 (w\<lparr>rcu_pending := p\<rparr>) = ghost st s0 w"
  "ghost st s0 (w\<lparr>rss_count := c\<rparr>) = ghost st s0 w" "ghost st s0 (w\<lparr>rss_events := e\<rparr>) = ghost st s0 w"
  "ghost st s0 (w\<lparr>resume := x\<rparr>) = ghost st s0 w" "ghost st s0 (w\<lparr>nr_shown := x\<rparr>) = ghost st s0 w"
  "ghost st s0 (w\<lparr>nr_unshown := x\<rparr>) = ghost st s0 w" "ghost st s0 (w\<lparr>in_store := y\<rparr>) = ghost st s0 w"
  "ghost st s0 (w\<lparr>firstTime_IN := b\<rparr>) = ghost st s0 w" "ghost st s0 (w\<lparr>contents_IN := z\<rparr>) = ghost st s0 w"
  "ghost st s0 (w\<lparr>pageFilled_IN := i\<rparr>) = ghost st s0 w" "ghost st s0 (w\<lparr>fault_around_bytes := x\<rparr>) = ghost st s0 w"
  "ghost st s0 (w\<lparr>page_ptl_cachep := i\<rparr>) = ghost st s0 w"
  by (simp_all add: ghost_def del: ghost_log)

text \<open>Reading a page-table entry through its pointer.\<close>

definition read_pte :: "int \<Rightarrow> u64 mact" where
  "read_pte p w = bnd (kcall (Tb (Pte_read p)) w) (\<lambda>r w. ret (word_of_int r) w)"

lemma tpost_bnd_read_pte [run_intros]:
  "(\<And>v r. v = word_of_int r \<Longrightarrow> tpost P (f v (w\<lparr>log := (Tb (Pte_read p), r) # log w\<rparr>))) \<Longrightarrow> tpost P (bnd (read_pte p w) f)"
  by (simp add: read_pte_def kcall_def Let_def)

section \<open>An example architecture\<close>

text \<open>
  The parameters of a 64-bit machine with 4-level tables, 4 KiB pages and 2 MiB, 1 GiB and 512 GiB
  entries, with the entry bits where x86 has them, and a world in which every call answers 0.
  The theorems hold for every \<open>arch\<close> that satisfies their hypotheses; the witnesses use this one.
\<close>

unbundle bit_operations_syntax

definition std_addr_end :: "nat \<Rightarrow> u64 \<Rightarrow> u64 \<Rightarrow> u64" where
  "std_addr_end k a e = (let b = (a + 2 ^ k) AND NOT (mask k) in if b - 1 < e - 1 then b else e)"

definition arch0 :: arch where
  "arch0 = \<lparr>pmd_addr_end = std_addr_end 21, pud_addr_end = std_addr_end 30, pgd_addr_end = std_addr_end 39,
     PMD_SIZE = 2 ^ 21, PMD_MASK = NOT (mask 21), PUD_MASK = NOT (mask 30), PGDIR_MASK = NOT (mask 39),
     HPAGE_PMD_SIZE = 2 ^ 21, MAX_GATHER_BATCH_COUNT = 20, MAX_GATHER_BATCH = 510, GATHER_BUNDLE = 8,
     MAX_TABLE_BATCH = 509, tlb_reset_range = (\<lambda>full. if full then (- 1, - 1) else (- 1, 0)),
     tlb_adjust_range = (\<lambda>(s, e) a. (min s a, max e (max 1 (a + 4096)))),
     HAVE_PTE_SPECIAL = True, HZ = 250, time_before = (\<lambda>a b. a - b <s 0), highest_memmap_pfn = 0xFFFFF,
     pte_none = (\<lambda>v. v = 0), pte_present = (\<lambda>v. bit v 0), pte_dirty = (\<lambda>v. bit v 6),
     pte_young = (\<lambda>v. bit v 5), pte_write = (\<lambda>v. bit v 1), pte_special = (\<lambda>v. bit v 9), pte_pfn = drop_bit 12, pmd_pfn = drop_bit 12,
     pte_wrprotect = (\<lambda>v. v AND NOT 2), pte_mkclean = (\<lambda>v. v AND NOT 64), pte_mkold = (\<lambda>v. v AND NOT 32),
     pte_mkdirty = (\<lambda>v. v OR 64), pte_mkyoung = (\<lambda>v. v OR 32), pte_mkwrite = (\<lambda>v. v OR 2),
     pte_mkspecial = (\<lambda>v. v OR 512), mk_pte = (\<lambda>p f. push_bit 12 (word_of_int p) OR f OR 1),
     pfn_pte = (\<lambda>p f. push_bit 12 p OR f OR 1), pte_to_swp_entry = drop_bit 1, swp_entry_to_pte = push_bit 1,
     pte_swp_soft_dirty = (\<lambda>v. bit v 7), pte_swp_mksoft_dirty = (\<lambda>v. v OR 128),
     non_swap_entry = (\<lambda>e. bit e 62), is_migration_entry = (\<lambda>e. bit e 62 \<and> bit e 61),
     is_write_migration_entry = (\<lambda>e. bit e 62 \<and> bit e 61 \<and> bit e 60), is_hwpoison_entry = (\<lambda>e. bit e 62 \<and> \<not> bit e 61),
     make_migration_entry_read = (\<lambda>e. e AND NOT (2 ^ 60)), migration_entry_to_page = (\<lambda>e. uint (drop_bit 1 e)),
     is_cow_mapping = (\<lambda>f. VM_MAYWRITE \<in> f \<and> VM_SHARED \<notin> f),
     pte_same = (=), pte_protnone = (\<lambda>v. bit v 8 \<and> \<not> bit v 0), pte_mksoft_dirty = (\<lambda>v. v OR 2048),
     maybe_mkwrite = (\<lambda>v f. if VM_WRITE \<in> f then v OR 2 else v), my_zero_pfn = (\<lambda>a. 1), pte_is_large = False,
     fault_bits = (\<lambda>r. if r < 0 then {VM_FAULT_SIGBUS} else if r = 0 then {VM_FAULT_NOPAGE} else {VM_FAULT_LOCKED}),
     vmf_page = (\<lambda>r. if r \<le> 0 then 0 else r),
     VM_FAULT_ERROR = {VM_FAULT_OOM, VM_FAULT_SIGBUS, VM_FAULT_SIGSEGV, VM_FAULT_HWPOISON, VM_FAULT_HWPOISON_LARGE, VM_FAULT_FALLBACK},
     PTRS_PER_PTE = 512, rounddown_pow_of_two = (\<lambda>x. if x < 8192 then 4096 else if x < 65536 then 8192 else 65536),
     pte_modify = (\<lambda>v f. (v AND NOT 1) OR f OR 1), pte_pgprot = take_bit 12, MAX_ORDER_NR_PAGES = 1024\<rparr>"

definition mmw0 :: mmw where
  "mmw0 = \<lparr>ans = (\<lambda>h c. 0), log = [],
     tlb = \<lparr>tlb_mm = 1, tlb_range = (- 1, 0), fullmm = False, need_flush_all = False, chain = [], active = 0,
            batch_count = 0, tbatch = None\<rparr>,
     rcu_pending = [], cur_mm = 1, rss_count = (\<lambda>_. 0), rss_events = 0, resume = 0, nr_shown = 0, nr_unshown = 0,
     in_store = initial_IN, alloc_row = (\<lambda>_. replicate 20000 0), firstTime_IN = True, contents_IN = [],
     alloc_contents = [], pageFilled_IN = 0, kmem = (\<lambda>_. replicate 4096 0), fault_around_bytes = 65536,
     page_ptl_cachep = 0\<rparr>"

end
