(* ===== verification/MmuGather.thy ===== *)
theory MmuGather
  imports MmWorld
begin

text \<open>
  The per-task counters of resident pages and the gather of unmapped pages of \<open>memory.c\<close>
  (lines 204 to 451): \<open>sync_mm_rss\<close> and its callers, the batches of pages that wait for the TLB
  flush, and the batches of page tables that wait for the RCU grace period.
\<close>

section \<open>Resident-set counters\<close>

definition members :: "mm_member list" where
  "members = [MM_FILEPAGES, MM_ANONPAGES, MM_SWAPENTS]"

definition sync_member :: "int \<Rightarrow> mm_member \<Rightarrow> unit mact" where
  "sync_member mm i w =
     cond (rss_count w i \<noteq> 0) (\<lambda>w.
       bnd (kdo (Vm (Add_mm_counter mm i (scast (rss_count w i)))) w) (\<lambda>_ w.
       ret () (w\<lparr>rss_count := (rss_count w)(i := 0)\<rparr>))) w"

definition sync_mm_rss :: "int \<Rightarrow> unit mact" where
  "sync_mm_rss mm w =
     bnd (each (sync_member mm) members w) (\<lambda>_ w. ret () (w\<lparr>rss_events := 0\<rparr>))"

definition add_mm_counter_fast :: "int \<Rightarrow> mm_member \<Rightarrow> u32 \<Rightarrow> unit mact" where
  "add_mm_counter_fast mm member val w =
     (if cur_mm w = mm
      then ret () (w\<lparr>rss_count := (rss_count w)(member := rss_count w member + val)\<rparr>)
      else kdo (Vm (Add_mm_counter mm member (scast val))) w)"

definition TASK_RSS_EVENTS_THRESH :: u32 where
  "TASK_RSS_EVENTS_THRESH = 64"

text \<open>The argument is whether the task is the current one; the counter is compared before it is incremented.\<close>

definition check_sync_rss_stat :: "bool \<Rightarrow> unit mact" where
  "check_sync_rss_stat is_current w =
     (if \<not> is_current then ret () w
      else
        let old = rss_events w; w = w\<lparr>rss_events := old + 1\<rparr> in
        cond (TASK_RSS_EVENTS_THRESH <s old) (sync_mm_rss (cur_mm w)) w)"

definition init_rss_vec :: rss_vec where
  "init_rss_vec = (\<lambda>_. 0)"

definition add_mm_rss_vec :: "int \<Rightarrow> rss_vec \<Rightarrow> unit mact" where
  "add_mm_rss_vec mm rss w =
     bnd (cond (cur_mm w = mm) (sync_mm_rss mm) w) (\<lambda>_ w.
     each (\<lambda>i w. cond (rss i \<noteq> 0) (kdo (Vm (Add_mm_counter mm i (scast (rss i))))) w) members w)"

section \<open>The gather of pages\<close>

text \<open>A pointer store into the gather of the world, and its active batch.\<close>

definition batch_at :: "mmu_gather \<Rightarrow> nat \<Rightarrow> gather_batch" where
  "batch_at t i = chain t ! i"

definition set_batch :: "nat \<Rightarrow> gather_batch \<Rightarrow> mmu_gather \<Rightarrow> mmu_gather" where
  "set_batch i b t = t\<lparr>chain := (chain t)[i := b]\<rparr>"

definition tlb_next_batch :: "arch \<Rightarrow> bool mact" where
  "tlb_next_batch A w =
     (let t = tlb w in
      if Suc (active t) < length (chain t) then ret True (w\<lparr>tlb := t\<lparr>active := Suc (active t)\<rparr>\<rparr>)
      else if batch_count t = MAX_GATHER_BATCH_COUNT A then ret False w
      else
        bnd (kcall (Tl Get_free_pages) w) (\<lambda>batch w.
        if batch = 0 then ret False w
        else
          let t = tlb w;
              b = \<lparr>b_addr = batch, nr = 0, bmax = MAX_GATHER_BATCH A, pages = (\<lambda>_. 0)\<rparr> in
          ret True (w\<lparr>tlb := t\<lparr>batch_count := batch_count t + 1, chain := chain t @ [b],
                              active := Suc (active t)\<rparr>\<rparr>)))"

definition tlb_gather_mmu :: "arch \<Rightarrow> int \<Rightarrow> u64 \<Rightarrow> u64 \<Rightarrow> unit mact" where
  "tlb_gather_mmu A mm start e w =
     (let full = ((start OR (e + 1)) = 0) in
      ret () (w\<lparr>tlb :=
        \<lparr>tlb_mm = mm, tlb_range = tlb_reset_range A full, fullmm = full, need_flush_all = False,
         chain = [\<lparr>b_addr = 0, nr = 0, bmax = GATHER_BUNDLE A, pages = (\<lambda>_. 0)\<rparr>],
         active = 0, batch_count = 0, tbatch = None\<rparr>\<rparr>))"

definition tlb_table_flush :: "unit mact" where
  "tlb_table_flush w =
     (case tbatch (tlb w) of
        None \<Rightarrow> ret () w
      | Some b \<Rightarrow> ret () (w\<lparr>rcu_pending := rcu_pending w @ [b], tlb := (tlb w)\<lparr>tbatch := None\<rparr>\<rparr>))"

definition tlb_flush_mmu_tlbonly :: "arch \<Rightarrow> unit mact" where
  "tlb_flush_mmu_tlbonly A w =
     (if snd (tlb_range (tlb w)) = 0 then ret () w
      else
        bnd (kdo (Tl Tlb_flush) w) (\<lambda>_ w.
        bnd (kdo (Tl (Notify_range (fst (tlb_range (tlb w))) (snd (tlb_range (tlb w))))) w) (\<lambda>_ w.
        bnd (tlb_table_flush w) (\<lambda>_ w.
        ret () (w\<lparr>tlb := (tlb w)\<lparr>tlb_range := tlb_reset_range A (fullmm (tlb w))\<rparr>\<rparr>)))))"

text \<open>The loop over the batches from the local one, as long as they are in use; \<open>i\<close> is the position.\<close>

fun free_batches :: "nat \<Rightarrow> nat \<Rightarrow> unit mact" where
  "free_batches 0 i w = ret () w"
| "free_batches (Suc n) i w =
     (let b = batch_at (tlb w) i in
      if nr b = 0 then ret () w
      else
        bnd (kdo (Tl (Free_pages_and_swap_cache (map (pages b) [0..<nr b]))) w) (\<lambda>_ w.
        free_batches n (Suc i) (w\<lparr>tlb := set_batch i (b\<lparr>nr := 0\<rparr>) (tlb w)\<rparr>)))"

definition tlb_flush_mmu_free :: "unit mact" where
  "tlb_flush_mmu_free w =
     bnd (free_batches (length (chain (tlb w))) 0 w) (\<lambda>_ w.
     ret () (w\<lparr>tlb := (tlb w)\<lparr>active := 0\<rparr>\<rparr>))"

definition tlb_flush_mmu :: "arch \<Rightarrow> unit mact" where
  "tlb_flush_mmu A w = bnd (tlb_flush_mmu_tlbonly A w) (\<lambda>_ w. tlb_flush_mmu_free w)"

definition tlb_finish_mmu :: "arch \<Rightarrow> unit mact" where
  "tlb_finish_mmu A w =
     bnd (tlb_flush_mmu A w) (\<lambda>_ w.
     bnd (kdo (Tl Check_pgt_cache) w) (\<lambda>_ w.
     bnd (each (\<lambda>b. kdo (Tl (Free_pages (b_addr b)))) (tl (chain (tlb w))) w) (\<lambda>_ w.
     ret () (w\<lparr>tlb := (tlb w)\<lparr>chain := [hd (chain (tlb w))]\<rparr>\<rparr>))))"

text \<open>A store into a full batch runs over the end of its array.\<close>

definition raw_tlb_remove_page :: "arch \<Rightarrow> int \<Rightarrow> nat mact" where
  "raw_tlb_remove_page A page w =
     bnd (BUG_ON (snd (tlb_range (tlb w)) = 0) w) (\<lambda>_ w.
     let t = tlb w; i = active t; b = batch_at t i in
     if bmax b \<le> nr b then Inl (Oops, w)
     else
       let b = b\<lparr>pages := (pages b)(nr b := page), nr := Suc (nr b)\<rparr>;
           w = w\<lparr>tlb := set_batch i b t\<rparr> in
       if nr b = bmax b
       then bnd (tlb_next_batch A w) (\<lambda>more w.
         if \<not> more then ret 0 w
         else
           let b = batch_at (tlb w) (active (tlb w)) in
           bnd (BUG_ON (bmax b < nr b) w) (\<lambda>_ w. ret (bmax b - nr b) w))
       else bnd (BUG_ON (bmax b < nr b) w) (\<lambda>_ w. ret (bmax b - nr b) w))"

section \<open>The gather of page tables\<close>

definition tlb_remove_table_one :: "int \<Rightarrow> unit mact" where
  "tlb_remove_table_one table w =
     bnd (kdo (Tl Smp_call_function) w) (\<lambda>_ w. kdo (Tl (Remove_table table)) w)"

text \<open>The RCU callback, run on a batch after the grace period.\<close>

definition tlb_remove_table_rcu :: "table_batch \<Rightarrow> unit mact" where
  "tlb_remove_table_rcu b w =
     bnd (each (\<lambda>i. kdo (Tl (Remove_table (tables b i)))) [0..<t_nr b] w) (\<lambda>_ w.
     kdo (Tl (Free_page (t_addr b))) w)"

text \<open>The last lines of \<open>tlb_remove_table\<close>; a store into a full batch runs over the end of its page.\<close>

definition table_push :: "arch \<Rightarrow> int \<Rightarrow> unit mact" where
  "table_push A table w =
     (case tbatch (tlb w) of
        None \<Rightarrow> Inl (Oops, w)
      | Some b \<Rightarrow>
          if MAX_TABLE_BATCH A \<le> t_nr b then Inl (Oops, w) else
          let b = b\<lparr>tables := (tables b)(t_nr b := table), t_nr := Suc (t_nr b)\<rparr>;
              w = w\<lparr>tlb := (tlb w)\<lparr>tbatch := Some b\<rparr>\<rparr> in
          cond (t_nr b = MAX_TABLE_BATCH A) tlb_table_flush w)"

definition tlb_remove_table :: "arch \<Rightarrow> int \<Rightarrow> unit mact" where
  "tlb_remove_table A table w =
     bnd (kcall (Tl (Mm_users (tlb_mm (tlb w)))) w) (\<lambda>users w.
     if users < 2 then kdo (Tl (Remove_table table)) w
     else if tbatch (tlb w) = None
     then bnd (kcall (Tl Get_free_page) w) (\<lambda>page w.
       if page = 0 then tlb_remove_table_one table w
       else table_push A table
              (w\<lparr>tlb := (tlb w)\<lparr>tbatch := Some \<lparr>t_addr = page, t_nr = 0, tables = (\<lambda>_. 0)\<rparr>\<rparr>\<rparr>))
     else table_push A table w)"

end
