(* ===== verification/GatherProps.thy ===== *)
theory GatherProps
  imports MmuGather "HOL-Library.Multiset"
begin

text \<open>
  What \<open>MmuGather\<close> guarantees: no counted page is lost between a task and its address space, every
  page and every page table handed to a gather is given back exactly once.
\<close>

section \<open>Counters\<close>

text \<open>What the calls of \<open>add_mm_counter\<close> add up to, for one counter of one address space.\<close>

fun counted :: "int \<Rightarrow> mm_member \<Rightarrow> u64 \<Rightarrow> kc \<Rightarrow> int \<Rightarrow> u64" where
  "counted mm i n (Vm (Add_mm_counter mm' i' v)) r = (if mm' = mm \<and> i' = i then n + v else n)"
| "counted mm i n _ r = n"

text \<open>The whole of a counter: what reached the address space and, if it is the task's own, what the task still holds.\<close>

definition rss_total :: "int \<Rightarrow> mm_member \<Rightarrow> mmw \<Rightarrow> u64" where
  "rss_total mm i w = ghost (counted mm i) 0 w + (if mm = cur_mm w then scast (rss_count w i) else 0)"

lemma rss_total_simps [simp]:
  "rss_total mm i (w\<lparr>log := (Vm (Add_mm_counter m j v), r) # log w\<rparr>) =
     rss_total mm i w + (if m = mm \<and> j = i then v else 0)"
  "rss_total mm i (w\<lparr>rss_events := e\<rparr>) = rss_total mm i w"
  by (simp_all add: rss_total_def)

lemma rss_total_count:
  "rss_total mm i (w\<lparr>rss_count := f\<rparr>) = rss_total mm i w + (if mm = cur_mm w then scast (f i) - scast (rss_count w i) else 0)"
  by (simp add: rss_total_def)

lemma sync_member_rets:
  "rets (\<lambda>_ w'. rss_total mm j w' = rss_total mm j w \<and> rss_count w' = (rss_count w)(i := 0) \<and>
                rss_events w' = rss_events w \<and> cur_mm w' = cur_mm w)
     (sync_member (cur_mm w) i w)"
  by (auto simp: sync_member_def rets_bnd Let_def rss_total_count fun_eq_iff)

lemma sync_mm_rss_rets:
  "rets (\<lambda>_ w'. rss_total mm j w' = rss_total mm j w \<and> rss_count w' = (\<lambda>_. 0) \<and> rss_events w' = 0 \<and>
                cur_mm w' = cur_mm w) (sync_mm_rss (cur_mm w) w)"
proof -
  let ?I = "\<lambda>is v. rss_total mm j v = rss_total mm j w \<and> cur_mm v = cur_mm w \<and> (\<forall>i. i \<notin> set is \<longrightarrow> rss_count v i = 0)"
  have start: "?I members w"
    by (auto simp: members_def) (metis mm_member.exhaust)
  have "rets (\<lambda>_. ?I []) (each (sync_member (cur_mm w)) members w)"
  proof (rule rets_each [where I = ?I, OF start])
    fix i "is" v
    assume v: "?I (i # is) v"
    then show "rets (\<lambda>_. ?I is) (sync_member (cur_mm w) i v)"
      using sync_member_rets [of mm j v i] by (auto elim!: rets_mono)
  qed
  then show ?thesis
    unfolding sync_mm_rss_def by (auto simp: rets_bnd elim!: rets_mono)
qed

lemma scast_add_bounded:
  fixes a v :: u32
  assumes "\<bar>sint a\<bar> \<le> 300" "v = 1 \<or> v = -1"
  shows "(scast (a + v) :: u64) = scast a + scast v" "sint (a + v) = sint a + sint v"
proof -
  have v: "sint v = 1 \<or> sint v = -1" using assms(2) by auto
  then have "- (2 ^ 31) \<le> sint a + sint v" "sint a + sint v < 2 ^ 31" using assms(1) by auto
  then show s: "sint (a + v) = sint a + sint v"
    by (simp add: sint_word_ariths signed_take_bit_int_eq_self)
  have sc: "(scast x :: u64) = word_of_int (sint x)" for x :: u32 by (rule scast_eq)
  show "(scast (a + v) :: u64) = scast a + scast v"
    by (simp only: sc s wi_hom_add)
qed

text \<open>
  The operations on the counters: a page fault (the synchronisation check, then the counter changes of the
  fault, each by one page up or down) in an address space, which need not be the task's own
  (\<open>get_user_pages\<close>); the vector of changes that copying and unmapping a page table hand over; a
  synchronisation (as on exit).
\<close>

definition rss_fault :: "int \<Rightarrow> (mm_member \<times> u32) list \<Rightarrow> unit mact" where
  "rss_fault mm ds w =
     bnd (check_sync_rss_stat True w) (\<lambda>_ w. each (\<lambda>(i, v). add_mm_counter_fast mm i v) ds w)"

datatype rss_op = Rss_fault int "(mm_member \<times> u32) list" | Rss_vec int rss_vec | Rss_sync

fun run_rss :: "rss_op \<Rightarrow> unit mact" where
  "run_rss (Rss_fault mm ds) w = rss_fault mm ds w"
| "run_rss (Rss_vec mm rss) w = add_mm_rss_vec mm rss w"
| "run_rss Rss_sync w = sync_mm_rss (cur_mm w) w"

text \<open>What an operation changes of one counter of one address space.\<close>

definition deltas :: "mm_member \<Rightarrow> (mm_member \<times> u32) list \<Rightarrow> u64" where
  "deltas i ds = (\<Sum>(i', v) \<leftarrow> ds. if i' = i then scast v else 0)"

fun rss_change :: "int \<Rightarrow> mm_member \<Rightarrow> rss_op \<Rightarrow> u64" where
  "rss_change mm i (Rss_fault m ds) = (if m = mm then deltas i ds else 0)"
| "rss_change mm i (Rss_vec m rss) = (if m = mm then scast (rss i) else 0)"
| "rss_change mm i Rss_sync = 0"

definition unit_deltas :: "(mm_member \<times> u32) list \<Rightarrow> bool" where
  "unit_deltas ds = (length ds \<le> 4 \<and> (\<forall>(i, v) \<in> set ds. v = 1 \<or> v = -1))"

fun fault_small :: "rss_op \<Rightarrow> bool" where
  "fault_small (Rss_fault mm ds) = unit_deltas ds"
| "fault_small _ = True"

text \<open>At most 65 faults go by before a synchronisation, so the counts stay small.\<close>

definition rss_small :: "mmw \<Rightarrow> bool" where
  "rss_small w = (rss_events w \<le> 65 \<and> (\<forall>i. \<bar>sint (rss_count w i)\<bar> \<le> 4 + 4 * uint (rss_events w)))"

lemma abs_add_step: "\<bar>x :: int\<bar> \<le> b \<Longrightarrow> \<bar>y\<bar> = 1 \<Longrightarrow> \<bar>x + y\<bar> \<le> b + 1" "\<bar>x\<bar> \<le> b \<Longrightarrow> \<bar>x\<bar> \<le> b + 1"
  by linarith+

lemma deltas_Cons: "deltas j ((i, v) # ds) = (if i = j then scast v else 0) + deltas j ds"
  by (simp add: deltas_def)

lemma add_fast_all:
  assumes "\<forall>(i, v) \<in> set ds. v = 1 \<or> v = -1" "\<forall>i. \<bar>sint (rss_count w i)\<bar> \<le> b" "b + int (length ds) \<le> 300"
  shows "rets (\<lambda>_ w'. rss_total mm j w' = rss_total mm j w + (if m = mm then deltas j ds else 0) \<and> cur_mm w' = cur_mm w \<and>
      rss_events w' = rss_events w \<and> (\<forall>i. \<bar>sint (rss_count w' i)\<bar> \<le> b + int (length ds)))
    (each (\<lambda>(i, v). add_mm_counter_fast m i v) ds w)"
  using assms
proof (induction ds arbitrary: w b)
  case Nil
  then show ?case by (simp add: deltas_def)
next
  case (Cons d ds)
  obtain i v where d: "d = (i, v)" by fastforce
  let ?c = "Vm (Add_mm_counter m i (scast v))"
  let ?w = "if cur_mm w = m then w\<lparr>rss_count := (rss_count w)(i := rss_count w i + v)\<rparr>
    else w\<lparr>log := (?c, ans w (log w) ?c) # log w\<rparr>"
  have v: "v = 1 \<or> v = -1" and a: "\<bar>sint (rss_count w i)\<bar> \<le> b" "\<bar>sint (rss_count w i)\<bar> \<le> 300"
    using Cons.prems d by (auto intro: order_trans [of _ b])
  have sv: "\<bar>sint v\<bar> = 1" using v by auto
  have "rets (\<lambda>_ w'. rss_total mm j w' = rss_total mm j ?w + (if m = mm then deltas j ds else 0) \<and> cur_mm w' = cur_mm ?w \<and>
      rss_events w' = rss_events ?w \<and> (\<forall>i. \<bar>sint (rss_count w' i)\<bar> \<le> (b + 1) + int (length ds)))
    (each (\<lambda>(i, v). add_mm_counter_fast m i v) ds ?w)"
    using Cons.prems sv a scast_add_bounded(2) [OF a(2) v]
    by (intro Cons.IH) (auto simp: abs_add_step)
  moreover have "rss_total mm j ?w = rss_total mm j w + (if m = mm \<and> i = j then scast v else 0)"
    using scast_add_bounded(1) [OF a(2) v] by (auto simp: rss_total_count)
  moreover have "add_mm_counter_fast m i v w = ret () ?w"
    by (simp add: add_mm_counter_fast_def kdo_run ret_def)
  ultimately show ?case
    by (auto simp: d deltas_Cons ac_simps elim!: rets_mono)
qed

lemma check_sync_rets:
  assumes "rss_small w"
  shows "rets (\<lambda>_ w'. rss_total mm j w' = rss_total mm j w \<and> cur_mm w' = cur_mm w \<and> rss_events w' \<le> 65 \<and>
      (\<forall>i. \<bar>sint (rss_count w' i)\<bar> \<le> 4 * uint (rss_events w'))) (check_sync_rss_stat True w)"
proof -
  let ?w = "w\<lparr>rss_events := rss_events w + 1\<rparr>"
  have le: "rss_events w \<le> 65" and c: "\<forall>i. \<bar>sint (rss_count w i)\<bar> \<le> 4 + 4 * uint (rss_events w)"
    using assms by (auto simp: rss_small_def)
  have u: "uint (rss_events w) \<le> 65" using le by (simp add: word_le_def)
  have si: "sint (rss_events w) = uint (rss_events w)"
    using u order_trans [OF _ uint_ge_0, of "- 2147483648" "rss_events w"]
    by (simp only: sint_uint) (rule signed_take_bit_int_eq_self, simp_all)
  have up: "uint (rss_events w + 1) = uint (rss_events w) + 1"
    using u by (simp add: uint_word_ariths)
  show ?thesis
  proof (cases "64 <s rss_events w")
    case True
    then show ?thesis
      using sync_mm_rss_rets [of mm j ?w]
      by (simp add: check_sync_rss_stat_def TASK_RSS_EVENTS_THRESH_def rss_total_def [symmetric])
         (erule rets_mono, simp)
  next
    case False
    then have "uint (rss_events w) \<le> 64" using si by (simp add: word_sless_alt)
    then have "rss_events w + 1 \<le> 65" using up by (simp add: word_le_def)
    then show ?thesis
      using False c up by (simp add: check_sync_rss_stat_def TASK_RSS_EVENTS_THRESH_def algebra_simps)
  qed
qed

lemma rss_fault_rets:
  assumes "rss_small w" "unit_deltas ds"
  shows "rets (\<lambda>_ w'. rss_total mm j w' = rss_total mm j w + (if m = mm then deltas j ds else 0) \<and> cur_mm w' = cur_mm w \<and> rss_small w')
     (rss_fault m ds w)"
  unfolding rss_fault_def
proof (rule rets_bndI [OF check_sync_rets [OF assms(1), of mm j]])
  fix u v
  assume v: "rss_total mm j v = rss_total mm j w \<and> cur_mm v = cur_mm w \<and> rss_events v \<le> 65 \<and>
      (\<forall>i. \<bar>sint (rss_count v i)\<bar> \<le> 4 * uint (rss_events v))"
  then have "uint (rss_events v) \<le> 65" by (simp add: word_le_def)
  then show "rets (\<lambda>_ w'. rss_total mm j w' = rss_total mm j w + (if m = mm then deltas j ds else 0) \<and> cur_mm w' = cur_mm w \<and> rss_small w')
      (each (\<lambda>(i, v). add_mm_counter_fast m i v) ds v)"
    using add_fast_all [of ds v "4 * uint (rss_events v)" mm j m] v assms(2)
    by (auto simp: unit_deltas_def rss_small_def elim!: rets_mono intro: order_trans)
qed

lemma add_vec_rets:
  "rets (\<lambda>_ w'. rss_total mm j w' = rss_total mm j w + (if m = mm then scast (rss j) else 0) \<and> cur_mm w' = cur_mm w \<and>
      rss_count w' = rss_count w \<and> rss_events w' = rss_events w)
    (each (\<lambda>i w. cond (rss i \<noteq> 0) (kdo (Vm (Add_mm_counter m i (scast (rss i))))) w) members w)"
proof -
  have all: "rets (\<lambda>_ w'. rss_total mm j w' = rss_total mm j w + (\<Sum>i \<leftarrow> is. if m = mm \<and> i = j then scast (rss i) else 0) \<and>
      cur_mm w' = cur_mm w \<and> rss_count w' = rss_count w \<and> rss_events w' = rss_events w)
    (each (\<lambda>i w. cond (rss i \<noteq> 0) (kdo (Vm (Add_mm_counter m i (scast (rss i))))) w) is w)" for "is"
  proof (induction "is" arbitrary: w)
    case (Cons i "is")
    have "rets (\<lambda>_ w'. rss_total mm j w' = rss_total mm j w + (if m = mm \<and> i = j then scast (rss i) else 0) \<and>
        cur_mm w' = cur_mm w \<and> rss_count w' = rss_count w \<and> rss_events w' = rss_events w)
      (cond (rss i \<noteq> 0) (kdo (Vm (Add_mm_counter m i (scast (rss i))))) w)"
      by (auto simp: Let_def)
    then show ?case
      unfolding each.simps by (rule rets_bndI) (rule rets_mono [OF Cons.IH], simp add: add.assoc)
  qed simp
  have "(\<Sum>i \<leftarrow> members. if m = mm \<and> i = j then scast (rss i) else 0) = (if m = mm then scast (rss j) else (0 :: u64))"
    by (cases j) (simp_all add: members_def)
  then show ?thesis using all [of members] by simp
qed

lemma rss_vec_rets:
  assumes "rss_small w"
  shows "rets (\<lambda>_ w'. rss_total mm j w' = rss_total mm j w + (if m = mm then scast (rss j) else 0) \<and> cur_mm w' = cur_mm w \<and> rss_small w')
     (add_mm_rss_vec m rss w)"
  unfolding add_mm_rss_vec_def
proof (rule rets_bndI)
  show "rets (\<lambda>_ v. rss_total mm j v = rss_total mm j w \<and> cur_mm v = cur_mm w \<and> rss_small v)
      (cond (cur_mm w = m) (sync_mm_rss m) w)"
    using sync_mm_rss_rets [of mm j w] assms by (auto simp: rss_small_def elim!: rets_mono)
next
  fix u v
  assume v: "rss_total mm j v = rss_total mm j w \<and> cur_mm v = cur_mm w \<and> rss_small v"
  show "rets (\<lambda>_ w'. rss_total mm j w' = rss_total mm j w + (if m = mm then scast (rss j) else 0) \<and> cur_mm w' = cur_mm w \<and> rss_small w')
      (each (\<lambda>i w. cond (rss i \<noteq> 0) (kdo (Vm (Add_mm_counter m i (scast (rss i))))) w) members v)"
    using v by (intro rets_mono [OF add_vec_rets [of mm j v m rss]]) (simp add: rss_small_def)
qed

lemma run_rss_rets:
  assumes "rss_small w" "fault_small x"
  shows "rets (\<lambda>_ w'. rss_total mm j w' = rss_total mm j w + rss_change mm j x \<and> rss_small w') (run_rss x w)"
proof (cases x)
  case (Rss_fault m ds)
  then show ?thesis using rss_fault_rets [OF assms(1), of ds mm j m] assms(2) by (auto elim!: rets_mono)
next
  case (Rss_vec m rss)
  then show ?thesis using rss_vec_rets [OF assms(1), of mm j m rss] by (auto elim!: rets_mono)
next
  case Rss_sync
  then show ?thesis using sync_mm_rss_rets [of mm j w] by (auto simp: rss_small_def elim!: rets_mono)
qed



section \<open>The gather of pages\<close>

text \<open>What was freed so far, and the batch pages that are allocated and not yet released.\<close>

fun freed_step :: "int list \<Rightarrow> kc \<Rightarrow> int \<Rightarrow> int list" where
  "freed_step ps (Tl (Free_pages_and_swap_cache qs)) r = ps @ qs"
| "freed_step ps _ r = ps"

fun batch_step :: "int multiset \<Rightarrow> kc \<Rightarrow> int \<Rightarrow> int multiset" where
  "batch_step bs (Tl Get_free_pages) r = (if r = 0 then bs else add_mset r bs)"
| "batch_step bs (Tl (Free_pages b)) r = bs - {#b#}"
| "batch_step bs _ r = bs"

abbreviation freed :: "mmw \<Rightarrow> int list" where
  "freed w \<equiv> ghost freed_step [] w"

abbreviation held_batches :: "mmw \<Rightarrow> int multiset" where
  "held_batches w \<equiv> ghost batch_step {#} w"

definition in_batch :: "gather_batch \<Rightarrow> int list" where
  "in_batch b = map (pages b) [0..<nr b]"

definition waiting :: "gather_batch list \<Rightarrow> int list" where
  "waiting bs = concat (map in_batch bs)"

text \<open>
  The shape of a gather: batches before the active one are full, those behind it are empty, the
  active one has room; the batches but the local one are the pages the gather holds.
\<close>

definition gather_ok :: "mmu_gather \<Rightarrow> bool" where
  "gather_ok t = (active t < length (chain t) \<and> (\<forall>i < length (chain t). 0 < bmax (chain t ! i)) \<and>
     (\<forall>i < active t. 0 < nr (chain t ! i)) \<and>
     nr (chain t ! active t) < bmax (chain t ! active t) \<and>
     (\<forall>i < length (chain t). active t < i \<longrightarrow> nr (chain t ! i) = 0))"

lemma in_batch_empty [simp]: "nr b = 0 \<Longrightarrow> in_batch b = []"
  by (simp add: in_batch_def)

lemma in_batch_push:
  "in_batch (b\<lparr>pages := (pages b)(nr b := p), nr := Suc (nr b)\<rparr>) = in_batch b @ [p]"
  by (simp add: in_batch_def)

lemma waiting_empty: "(\<And>b. b \<in> set bs \<Longrightarrow> nr b = 0) \<Longrightarrow> waiting bs = []"
  by (simp add: waiting_def in_batch_def)

lemma waiting_push:
  assumes "i < length bs" "\<forall>j < length bs. i < j \<longrightarrow> nr (bs ! j) = 0"
  shows "waiting (bs[i := (bs ! i)\<lparr>pages := (pages (bs ! i))(nr (bs ! i) := p), nr := Suc (nr (bs ! i))\<rparr>]) = waiting bs @ [p]"
proof -
  have e: "waiting (drop (Suc i) bs) = []"
    by (rule waiting_empty) (use assms in \<open>auto simp: in_set_conv_nth\<close>)
  have "waiting bs = waiting (take i bs) @ in_batch (bs ! i)"
    using assms(1) e by (subst id_take_nth_drop [OF assms(1)]) (simp add: waiting_def)
  then show ?thesis
    using assms(1) e by (simp add: upd_conv_take_nth_drop waiting_def in_batch_push)
qed

text \<open>Freeing walks the used batches in order and leaves every batch empty.\<close>

lemma free_batches_rets:
  assumes "length (chain (tlb w)) = i + n" "k \<le> n"
    "\<forall>j. i \<le> j \<and> j < i + k \<longrightarrow> 0 < nr (chain (tlb w) ! j)"
    "\<forall>j. i + k \<le> j \<and> j < i + n \<longrightarrow> nr (chain (tlb w) ! j) = 0"
  shows "rets (\<lambda>_ w'. freed w' = freed w @ waiting (drop i (chain (tlb w))) \<and>
      held_batches w' = held_batches w \<and> rcu_pending w' = rcu_pending w \<and>
      tlb w' = (tlb w)\<lparr>chain := take i (chain (tlb w)) @ map (\<lambda>b. b\<lparr>nr := 0\<rparr>) (drop i (chain (tlb w)))\<rparr>)
    (free_batches n i w)"
  using assms
proof (induction n arbitrary: i k w)
  case 0
  then show ?case by (simp add: waiting_def)
next
  case (Suc n)
  let ?bs = "chain (tlb w)" and ?b = "chain (tlb w) ! i"
  have i: "i < length ?bs" using Suc.prems(1) by simp
  have dr: "drop i ?bs = ?b # drop (Suc i) ?bs" using i by (simp add: Cons_nth_drop_Suc)
  show ?case
  proof (cases "nr ?b = 0")
    case True
    then have "k = 0" using Suc.prems(2,3) by (cases k) auto
    then have all: "\<forall>b \<in> set (drop i ?bs). nr b = 0"
      using Suc.prems(1,4) by (fastforce simp: in_set_conv_nth)
    then have "map (\<lambda>b. b\<lparr>nr := 0\<rparr>) (drop i ?bs) = drop i ?bs"
      by (intro map_idI) simp
    then show ?thesis
      using True all waiting_empty [of "drop i ?bs"]
      by (simp add: batch_at_def)
  next
    case False
    then obtain k' where k: "k = Suc k'" using Suc.prems(1,4) by (cases k) auto
    let ?r = "ans w (log w) (Tl (Free_pages_and_swap_cache (map (pages ?b) [0..<nr ?b])))"
    let ?w = "w\<lparr>log := (Tl (Free_pages_and_swap_cache (map (pages ?b) [0..<nr ?b])), ?r) # log w,
                tlb := set_batch i (?b\<lparr>nr := 0\<rparr>) (tlb w)\<rparr>"
    have "rets (\<lambda>_ w'. freed w' = freed ?w @ waiting (drop (Suc i) (chain (tlb ?w))) \<and>
        held_batches w' = held_batches ?w \<and> rcu_pending w' = rcu_pending ?w \<and>
        tlb w' = (tlb ?w)\<lparr>chain := take (Suc i) (chain (tlb ?w)) @
                      map (\<lambda>b. b\<lparr>nr := 0\<rparr>) (drop (Suc i) (chain (tlb ?w)))\<rparr>)
      (free_batches n (Suc i) ?w)"
      using Suc.prems k by (intro Suc.IH [where k = k']) (auto simp: set_batch_def)
    then show ?thesis
      using False i
      by (auto simp: batch_at_def rets_bnd Let_def set_batch_def dr waiting_def in_batch_def
          take_Suc_conv_app_nth take_update_swap list_update_append elim!: rets_mono)
  qed
qed

definition drained :: "mmu_gather \<Rightarrow> gather_batch list" where
  "drained t = map (\<lambda>b. b\<lparr>nr := 0\<rparr>) (chain t)"

definition used_prefix :: "gather_batch list \<Rightarrow> bool" where
  "used_prefix bs = (\<exists>k \<le> length bs. (\<forall>j < k. 0 < nr (bs ! j)) \<and> (\<forall>j. k \<le> j \<and> j < length bs \<longrightarrow> nr (bs ! j) = 0))"

text \<open>
  The invariant of a gather in use: its shape, the pages removed so far are freed or waiting, the
  batch pages it holds are those in its chain.
\<close>

definition gather_inv :: "int list \<Rightarrow> int multiset \<Rightarrow> mmw \<Rightarrow> bool" where
  "gather_inv done H w = (gather_ok (tlb w) \<and> tbatch (tlb w) = None \<and>
     freed w @ waiting (chain (tlb w)) = done \<and>
     held_batches w = H + mset (map b_addr (tl (chain (tlb w)))))"

lemma gather_ok_used_prefix:
  assumes "gather_ok t"
  shows "used_prefix (chain t)"
  unfolding used_prefix_def
proof (cases "nr (chain t ! active t) = 0")
  case True
  with assms show "\<exists>k \<le> length (chain t). (\<forall>j < k. 0 < nr (chain t ! j)) \<and> (\<forall>j. k \<le> j \<and> j < length (chain t) \<longrightarrow> nr (chain t ! j) = 0)"
    by (intro exI [of _ "active t"]) (auto simp: gather_ok_def le_less)
next
  case False
  with assms show "\<exists>k \<le> length (chain t). (\<forall>j < k. 0 < nr (chain t ! j)) \<and> (\<forall>j. k \<le> j \<and> j < length (chain t) \<longrightarrow> nr (chain t ! j) = 0)"
    by (intro exI [of _ "Suc (active t)"]) (auto simp: gather_ok_def less_Suc_eq)
qed

lemma drained_simps [simp]:
  "waiting (drained t) = []" "map b_addr (tl (drained t)) = map b_addr (tl (chain t))"
  "image_mset b_addr (mset (tl (drained t))) = image_mset b_addr (mset (tl (chain t)))"
proof -
  show b: "map b_addr (tl (drained t)) = map b_addr (tl (chain t))"
    by (simp add: drained_def map_tl [symmetric] o_def)
  show "image_mset b_addr (mset (tl (drained t))) = image_mset b_addr (mset (tl (chain t)))"
    by (metis b mset_map)
  show "waiting (drained t) = []"
    by (simp add: waiting_def drained_def in_batch_def)
qed

lemma drained_ok:
  assumes "chain t' = drained t" "active t' = 0" "chain t \<noteq> []" "\<forall>i < length (chain t). 0 < bmax (chain t ! i)"
  shows "gather_ok t'" "waiting (chain t') = []" "map b_addr (tl (chain t')) = map b_addr (tl (chain t))"
  using assms by (auto simp: gather_ok_def drained_def waiting_def in_batch_def map_tl [symmetric] o_def)

text \<open>
  A client of the gather, as the callers in the file use it: the entry's address widens the range
  to flush, the page is handed over, and when no slot is left everything is flushed.
\<close>

definition gather_page :: "arch \<Rightarrow> u64 \<times> int \<Rightarrow> unit mact" where
  "gather_page A = (\<lambda>(addr, page) w.
     bnd (raw_tlb_remove_page A page (w\<lparr>tlb := (tlb w)\<lparr>tlb_range := tlb_adjust_range A (tlb_range (tlb w)) addr\<rparr>\<rparr>))
       (\<lambda>left w. cond (left = 0) (tlb_flush_mmu A) w))"

definition gather_arch :: "arch \<Rightarrow> bool" where
  "gather_arch A = (0 < MAX_GATHER_BATCH A \<and> 0 < GATHER_BUNDLE A \<and> (\<forall>r a. snd (tlb_adjust_range A r a) \<noteq> 0))"

text \<open>The gather when its last slot is taken: everything before some batch is in use, nothing behind.\<close>

definition gather_full :: "int list \<Rightarrow> int multiset \<Rightarrow> mmw \<Rightarrow> bool" where
  "gather_full done H w = (used_prefix (chain (tlb w)) \<and> chain (tlb w) \<noteq> [] \<and>
     (\<forall>i < length (chain (tlb w)). 0 < bmax (chain (tlb w) ! i)) \<and> tbatch (tlb w) = None \<and>
     freed w @ waiting (chain (tlb w)) = done \<and>
     held_batches w = H + mset (map b_addr (tl (chain (tlb w)))))"

lemma gather_inv_full: "gather_inv dn H w \<Longrightarrow> gather_full dn H w"
  using gather_ok_used_prefix [of "tlb w"] by (auto simp: gather_inv_def gather_full_def gather_ok_def)

lemma tlbonly_full_rets:
  assumes "gather_full dn H w"
  shows "rets (\<lambda>_ w'. gather_full dn H w' \<and> freed w' = freed w) (tlb_flush_mmu_tlbonly A w)"
  using assms
  by (auto simp: tlb_flush_mmu_tlbonly_def tlb_table_flush_def rets_bnd Let_def gather_full_def)

lemma flush_free_rets:
  assumes "gather_full dn H w"
  shows "rets (\<lambda>_ w'. gather_inv dn H w' \<and> freed w' = dn) (tlb_flush_mmu_free w)"
proof -
  obtain k where k: "k \<le> length (chain (tlb w))" "\<forall>j < k. 0 < nr (chain (tlb w) ! j)"
      "\<forall>j. k \<le> j \<and> j < length (chain (tlb w)) \<longrightarrow> nr (chain (tlb w) ! j) = 0"
    using assms by (auto simp: gather_full_def used_prefix_def)
  have "rets (\<lambda>_ w'. freed w' = freed w @ waiting (chain (tlb w)) \<and> held_batches w' = held_batches w \<and>
      rcu_pending w' = rcu_pending w \<and> tlb w' = (tlb w)\<lparr>chain := drained (tlb w)\<rparr>)
      (free_batches (length (chain (tlb w))) 0 w)"
    using free_batches_rets [of w 0 "length (chain (tlb w))" k] k by (simp add: drained_def)
  then show ?thesis
    unfolding tlb_flush_mmu_free_def rets_bnd
    by (rule rets_mono) (use assms in \<open>auto simp: gather_full_def gather_inv_def drained_ok\<close>)
qed

lemma flush_full_rets:
  assumes "gather_full dn H w"
  shows "rets (\<lambda>_ w'. gather_inv dn H w' \<and> freed w' = dn) (tlb_flush_mmu A w)"
  unfolding tlb_flush_mmu_def
  by (rule rets_bndI [OF tlbonly_full_rets [OF assms]]) (blast intro: flush_free_rets)

lemma tl_append1: "xs \<noteq> [] \<Longrightarrow> tl (xs @ [x]) = tl xs @ [x]"
  by (cases xs) auto

lemma next_batch_rets:
  assumes A: "gather_arch A" and full: "gather_full dn H w"
    and act: "active (tlb w) < length (chain (tlb w))" "\<forall>i \<le> active (tlb w). 0 < nr (chain (tlb w) ! i)"
      "\<forall>i < length (chain (tlb w)). active (tlb w) < i \<longrightarrow> nr (chain (tlb w) ! i) = 0"
  shows "rets (\<lambda>more w'. if more then gather_inv dn H w' else gather_full dn H w') (tlb_next_batch A w)"
proof (cases "Suc (active (tlb w)) < length (chain (tlb w))")
  case True
  then show ?thesis
    using full act by (auto simp: tlb_next_batch_def Let_def gather_full_def gather_inv_def gather_ok_def less_Suc_eq_le)
next
  case False
  then have len: "length (chain (tlb w)) = Suc (active (tlb w))" using act(1) by simp
  have ok: "gather_ok ((tlb w)\<lparr>batch_count := n,
      chain := chain (tlb w) @ [\<lparr>b_addr = r, nr = 0, bmax = MAX_GATHER_BATCH A, pages = f\<rparr>],
      active := Suc (active (tlb w))\<rparr>)" for n r f
    using A full act len by (auto simp: gather_ok_def gather_full_def gather_arch_def nth_append less_Suc_eq)
  show ?thesis
    using False full ok
    by (auto simp: tlb_next_batch_def rets_bnd Let_def gather_full_def gather_inv_def tl_append1 waiting_def in_batch_def)
qed

lemma gather_inv_room: "gather_inv dn H w \<Longrightarrow> nr (chain (tlb w) ! active (tlb w)) < bmax (chain (tlb w) ! active (tlb w))"
  by (simp add: gather_inv_def gather_ok_def)

lemma map_tl_update:
  assumes "f x = f (xs ! i)"
  shows "map f (tl (xs[i := x])) = map f (tl xs)"
proof -
  have "map f (xs[i := x]) = map f xs"
    using assms by (cases "i < length xs") (simp_all add: map_update list_update_same_conv list_update_beyond)
  then show ?thesis by (metis map_tl)
qed

lemma remove_page_raw_rets:
  assumes A: "gather_arch A" and I: "gather_inv dn H w" and e: "snd (tlb_range (tlb w)) \<noteq> 0"
  shows "rets (\<lambda>left w'. if left = 0 then gather_full (dn @ [page]) H w' else gather_inv (dn @ [page]) H w')
     (raw_tlb_remove_page A page w)"
proof -
  let ?t = "tlb w" and ?i = "active (tlb w)" and ?bs = "chain (tlb w)"
  let ?b = "(?bs ! ?i)\<lparr>pages := (pages (?bs ! ?i))(nr (?bs ! ?i) := page), nr := Suc (nr (?bs ! ?i))\<rparr>"
  let ?w = "w\<lparr>tlb := ?t\<lparr>chain := ?bs[?i := ?b]\<rparr>\<rparr>"
  have ok: "gather_ok ?t" using I by (simp add: gather_inv_def)
  have i: "?i < length ?bs" "nr (?bs ! ?i) < bmax (?bs ! ?i)" using ok by (auto simp: gather_ok_def)
  have wait: "waiting (?bs[?i := ?b]) = waiting ?bs @ [page]"
    by (rule waiting_push) (use ok in \<open>auto simp: gather_ok_def\<close>)
  have addr: "map b_addr (tl (?bs[?i := ?b])) = map b_addr (tl ?bs)"
    by (rule map_tl_update) simp
  have bs: "\<forall>j < length ?bs. 0 < bmax (?bs[?i := ?b] ! j)"
    "\<forall>j \<le> ?i. 0 < nr (?bs[?i := ?b] ! j)" "\<forall>j < length ?bs. ?i < j \<longrightarrow> nr (?bs[?i := ?b] ! j) = 0"
    using ok i by (auto simp: gather_ok_def nth_list_update)
  have pre: "used_prefix (?bs[?i := ?b])"
    unfolding used_prefix_def using bs i by (intro exI [of _ "Suc ?i"]) auto
  have full: "gather_full (dn @ [page]) H ?w"
    using I bs pre wait addr by (auto simp: gather_full_def gather_inv_def)
  show ?thesis
  proof (cases "Suc (nr (?bs ! ?i)) = bmax (?bs ! ?i)")
    case True
    have nb: "rets (\<lambda>more w'. if more then gather_inv (dn @ [page]) H w' else gather_full (dn @ [page]) H w')
       (tlb_next_batch A ?w)"
      using bs i by (intro next_batch_rets [OF A full]) auto
    show ?thesis
      using True i e
      by (simp add: raw_tlb_remove_page_def rets_bnd Let_def batch_at_def set_batch_def)
         (rule rets_mono [OF nb [unfolded True]], fastforce dest: gather_inv_room split: if_splits)
  next
    case False
    have "gather_inv (dn @ [page]) H ?w"
      using I bs i False wait addr by (auto simp: gather_inv_def gather_ok_def)
    then show ?thesis
      using False i e
      by (simp add: raw_tlb_remove_page_def rets_bnd Let_def batch_at_def set_batch_def) 
  qed
qed

lemma gather_page_rets:
  assumes A: "gather_arch A" and I: "gather_inv dn H w"
  shows "rets (\<lambda>_. gather_inv (dn @ [snd p]) H) (gather_page A p w)"
proof -
  let ?w = "w\<lparr>tlb := (tlb w)\<lparr>tlb_range := tlb_adjust_range A (tlb_range (tlb w)) (fst p)\<rparr>\<rparr>"
  have "gather_inv dn H ?w" using I by (simp add: gather_inv_def gather_ok_def)
  moreover have "snd (tlb_range (tlb ?w)) \<noteq> 0" using A by (cases "tlb_range (tlb w)") (simp add: gather_arch_def)
  ultimately show ?thesis
    unfolding gather_page_def split_beta
    by (intro rets_bndI [OF remove_page_raw_rets [OF A]])
       (auto simp: cond_def split: if_splits intro: rets_mono [OF flush_full_rets])
qed

lemma gather_finish_rets:
  assumes "gather_inv dn H w"
  shows "rets (\<lambda>_ w'. freed w' = dn \<and> held_batches w' = H) (tlb_finish_mmu A w)"
  unfolding tlb_finish_mmu_def
proof (rule rets_bndI [OF flush_full_rets [OF gather_inv_full [OF assms]]])
  fix u v
  assume v: "gather_inv dn H v \<and> freed v = dn"
  let ?bs = "tl (chain (tlb v))"
  let ?I = "\<lambda>(bs :: gather_batch list) x. freed x = dn \<and> held_batches x = H + mset (map b_addr bs)"
  let ?v = "v\<lparr>log := (Tl Check_pgt_cache, ans v (log v) (Tl Check_pgt_cache)) # log v\<rparr>"
  have "rets (\<lambda>_. ?I []) (each (\<lambda>b. kdo (Tl (Free_pages (b_addr b)))) ?bs ?v)"
    by (rule rets_each [where I = ?I]) (use v in \<open>auto simp: gather_inv_def Let_def\<close>)
  then show "rets (\<lambda>_ w'. freed w' = dn \<and> held_batches w' = H)
     (bnd (kdo (Tl Check_pgt_cache) v) (\<lambda>_ w. bnd (each (\<lambda>b. kdo (Tl (Free_pages (b_addr b)))) (tl (chain (tlb w))) w)
        (\<lambda>_ w. ret () (w\<lparr>tlb := (tlb w)\<lparr>chain := [hd (chain (tlb w))]\<rparr>\<rparr>))))"
    by (auto simp: rets_bnd Let_def elim!: rets_mono)
qed

text \<open>
  C23: Every page handed to a gather is freed exactly once and in order, and every batch page
  the gather allocates is released, whatever the allocator answers and wherever the flushes
  fall: between \<open>tlb_gather_mmu\<close> and the return of \<open>tlb_finish_mmu\<close> the pages freed are the
  pages removed. No store runs over the end of a batch.
\<close>
theorem gather_frees_once:
  assumes "gather_arch A"
  shows "rets (\<lambda>_ w'. freed w' = freed w @ map snd ps \<and> held_batches w' = held_batches w)
     (bnd (tlb_gather_mmu A mm start e w) (\<lambda>_ w. bnd (each (gather_page A) ps w) (\<lambda>_ w. tlb_finish_mmu A w)))"
proof -
  let ?I = "\<lambda>qs x. \<exists>ds. ps = ds @ qs \<and> gather_inv (freed w @ map snd ds) (held_batches w) x"
  have start: "rets (\<lambda>_. ?I ps) (tlb_gather_mmu A mm start e w)"
    using assms
    by (auto simp: tlb_gather_mmu_def gather_inv_def gather_ok_def gather_arch_def waiting_def in_batch_def Let_def
        less_Suc_eq intro!: exI [of _ "[]"])
  show ?thesis
  proof (rule rets_bndI [OF start])
    fix u v
    assume "?I ps v"
    then have "rets (\<lambda>_. ?I []) (each (gather_page A) ps v)"
    proof (rule rets_each [where I = ?I])
      fix q qs x
      assume "?I (q # qs) x"
      then obtain ds where ds: "ps = ds @ q # qs" "gather_inv (freed w @ map snd ds) (held_batches w) x" by blast
      show "rets (\<lambda>_. ?I qs) (gather_page A q x)"
        by (rule rets_mono [OF gather_page_rets [OF assms ds(2)]]) (use ds(1) in \<open>auto intro!: exI [of _ "ds @ [q]"]\<close>)
    qed
    then show "rets (\<lambda>_ w'. freed w' = freed w @ map snd ps \<and> held_batches w' = held_batches w)
       (bnd (each (gather_page A) ps v) (\<lambda>_ w. tlb_finish_mmu A w))"
      by (rule rets_bndI) (auto intro: gather_finish_rets)
  qed
qed

lemma gather_arch0: "gather_arch arch0"
  by (auto simp: gather_arch_def arch0_def max_def split: if_splits)

theorem gather_frees_once_witness:
  "rets (\<lambda>_ w'. freed w' = [11, 12, 13] \<and> held_batches w' = {#})
     (bnd (tlb_gather_mmu arch0 1 0 0x3000 mmw0) (\<lambda>_ w.
      bnd (each (gather_page arch0) [(0, 11), (0x1000, 12), (0x2000, 13)] w) (\<lambda>_ w. tlb_finish_mmu arch0 w)))"
  using gather_frees_once [OF gather_arch0, of mmw0 "[(0, 11), (0x1000, 12), (0x2000, 13)]" 1 0 "0x3000"]
  by (simp add: mmw0_def ghost_def del: ghost_log)

section \<open>The gather of page tables\<close>

text \<open>The tables given back so far, and the pages held for batches of tables.\<close>

fun removed_step :: "int multiset \<Rightarrow> kc \<Rightarrow> int \<Rightarrow> int multiset" where
  "removed_step ts (Tl (Remove_table t)) r = add_mset t ts"
| "removed_step ts _ r = ts"

fun tpage_step :: "int multiset \<Rightarrow> kc \<Rightarrow> int \<Rightarrow> int multiset" where
  "tpage_step ps (Tl Get_free_page) r = (if r = 0 then ps else add_mset r ps)"
| "tpage_step ps (Tl (Free_page p)) r = ps - {#p#}"
| "tpage_step ps _ r = ps"

abbreviation removed :: "mmw \<Rightarrow> int multiset" where
  "removed w \<equiv> ghost removed_step {#} w"

abbreviation table_pages :: "mmw \<Rightarrow> int multiset" where
  "table_pages w \<equiv> ghost tpage_step {#} w"

definition batched :: "table_batch \<Rightarrow> int multiset" where
  "batched b = mset (map (tables b) [0..<t_nr b])"

text \<open>
  The invariant: every table handed over is given back, in a batch that waits for the grace
  period, or in the open batch, which has room; the pages held are those of these batches.
\<close>

definition tables_inv :: "arch \<Rightarrow> int multiset \<Rightarrow> int multiset \<Rightarrow> mmw \<Rightarrow> bool" where
  "tables_inv A ts ps w =
     (let open_batch = (case tbatch (tlb w) of None \<Rightarrow> [] | Some b \<Rightarrow> [b]) in
      (\<forall>b \<in> set open_batch. t_nr b < MAX_TABLE_BATCH A) \<and>
      removed w + \<Sum>\<^sub># (image_mset batched (mset (rcu_pending w @ open_batch))) = ts \<and>
      table_pages w = ps + mset (map t_addr (rcu_pending w @ open_batch)))"

lemma batched_simps [simp]:
  "t_nr b = 0 \<Longrightarrow> batched b = {#}"
  "batched (b\<lparr>tables := (tables b)(t_nr b := t), t_nr := Suc (t_nr b)\<rparr>) = add_mset t (batched b)"
  by (simp_all add: batched_def)

lemma table_push_rets:
  assumes "tables_inv A ts ps w" "tbatch (tlb w) = Some b"
  shows "rets (\<lambda>_. tables_inv A (add_mset t ts) ps) (table_push A t w)"
proof (cases "Suc (t_nr b) = MAX_TABLE_BATCH A")
  case True
  then show ?thesis
    using assms batched_simps(2) [of b t]
    by (auto simp: table_push_def tables_inv_def cond_def tlb_table_flush_def Let_def)
next
  case False
  then show ?thesis
    using assms batched_simps(2) [of b t] by (auto simp: table_push_def tables_inv_def cond_def Let_def)
qed

lemma tlb_remove_table_rets:
  assumes "0 < MAX_TABLE_BATCH A" "tables_inv A ts ps w"
  shows "rets (\<lambda>_. tables_inv A (add_mset t ts) ps) (tlb_remove_table A t w)"
proof -
  let ?c = "Tl (Mm_users (tlb_mm (tlb w)))"
  let ?w = "w\<lparr>log := (?c, ans w (log w) ?c) # log w\<rparr>"
  have w: "tables_inv A ts ps ?w" using assms(2) by (simp add: tables_inv_def)
  show ?thesis
  proof (cases "tbatch (tlb w)")
    case None
    have new: "tables_inv A ts ps (?w\<lparr>log := (Tl Get_free_page, r) # log ?w,
        tlb := (tlb w)\<lparr>tbatch := Some \<lparr>t_addr = r, t_nr = 0, tables = (\<lambda>_. 0)\<rparr>\<rparr>\<rparr>)" if "r \<noteq> 0" for r
      using assms None that by (simp add: tables_inv_def Let_def)
    show ?thesis
      using w None table_push_rets [OF new]
      by (auto simp: tlb_remove_table_def tlb_remove_table_one_def rets_bnd Let_def tables_inv_def)
  next
    case (Some b)
    have "rets (\<lambda>_. tables_inv A (add_mset t ts) ps) (table_push A t ?w)"
      by (rule table_push_rets [OF w]) (simp add: Some)
    then show ?thesis
      using w Some by (auto simp: tlb_remove_table_def rets_bnd Let_def tables_inv_def)
  qed
qed

text \<open>The grace period ends: the callbacks of all pending batches run.\<close>

definition rcu_grace :: "unit mact" where
  "rcu_grace w = bnd (each tlb_remove_table_rcu (rcu_pending w) w) (\<lambda>_ w. ret () (w\<lparr>rcu_pending := []\<rparr>))"

lemma tlb_remove_table_rcu_rets:
  "rets (\<lambda>_ w'. removed w' = removed w + batched b \<and> table_pages w' = table_pages w - {#t_addr b#})
     (tlb_remove_table_rcu b w)"
proof -
  let ?I = "\<lambda>is v. removed v + mset (map (tables b) is) = removed w + batched b \<and> table_pages v = table_pages w"
  have "rets (\<lambda>_. ?I []) (each (\<lambda>i. kdo (Tl (Remove_table (tables b i)))) [0..<t_nr b] w)"
    by (rule rets_each [where I = ?I]) (auto simp: batched_def Let_def)
  then show ?thesis
    by (auto simp: tlb_remove_table_rcu_def rets_bnd Let_def elim!: rets_mono)
qed

lemma rcu_grace_rets:
  assumes "tables_inv A ts ps w" "tbatch (tlb w) = None"
  shows "rets (\<lambda>_ w'. removed w' = ts \<and> table_pages w' = ps) (rcu_grace w)"
proof -
  let ?I = "\<lambda>(bs :: table_batch list) v. removed v + \<Sum>\<^sub># (image_mset batched (mset bs)) = ts \<and>
              table_pages v = ps + mset (map t_addr bs)"
  have "rets (\<lambda>_. ?I []) (each tlb_remove_table_rcu (rcu_pending w) w)"
  proof (rule rets_each [where I = ?I])
    show "?I (rcu_pending w) w" using assms by (simp add: tables_inv_def)
    fix b bs v
    assume "?I (b # bs) v"
    then show "rets (\<lambda>_. ?I bs) (tlb_remove_table_rcu b v)"
      by (intro rets_mono [OF tlb_remove_table_rcu_rets]) auto
  qed
  then show ?thesis
    by (auto simp: rcu_grace_def rets_bnd elim!: rets_mono)
qed

text \<open>
  C24: Page tables handed to \<open>tlb_remove_table\<close> are given back exactly once, directly or by the RCU
  callback after the grace period, and the pages that hold the batches are released, whatever
  the number of users of the address space and whatever the allocator answers.
\<close>
theorem tables_removed_once:
  assumes "0 < MAX_TABLE_BATCH A" "tbatch (tlb w) = None" "rcu_pending w = []"
  shows "rets (\<lambda>_ w'. removed w' = removed w + mset ts \<and> table_pages w' = table_pages w)
     (bnd (each (tlb_remove_table A) ts w) (\<lambda>_ w. bnd (tlb_table_flush w) (\<lambda>_ w. rcu_grace w)))"
proof -
  let ?I = "\<lambda>us v. \<exists>ds. ts = ds @ us \<and> tables_inv A (removed w + mset ds) (table_pages w) v"
  have "rets (\<lambda>_. ?I []) (each (tlb_remove_table A) ts w)"
  proof (rule rets_each [where I = ?I])
    show "?I ts w" using assms(2,3) by (auto simp: tables_inv_def intro!: exI [of _ "[]"])
    fix u us v
    assume "?I (u # us) v"
    then obtain ds where ds: "ts = ds @ u # us" "tables_inv A (removed w + mset ds) (table_pages w) v" by blast
    show "rets (\<lambda>_. ?I us) (tlb_remove_table A u v)"
      by (rule rets_mono [OF tlb_remove_table_rets [OF assms(1) ds(2)]])
         (use ds(1) in \<open>auto intro!: exI [of _ "ds @ [u]"]\<close>)
  qed
  then show ?thesis
  proof (rule rets_bndI)
    fix u v
    assume "?I [] v"
    then have v: "tables_inv A (removed w + mset ts) (table_pages w) v" by simp
    have "rets (\<lambda>_ w'. tables_inv A (removed w + mset ts) (table_pages w) w' \<and> tbatch (tlb w') = None) (tlb_table_flush v)"
    proof (cases "tbatch (tlb v)")
      case (Some b)
      then show ?thesis
        using v by (simp add: tlb_table_flush_def tables_inv_def) (metis union_commute)
    qed (use v in \<open>simp add: tlb_table_flush_def\<close>)
    then show "rets (\<lambda>_ w'. removed w' = removed w + mset ts \<and> table_pages w' = table_pages w)
        (bnd (tlb_table_flush v) (\<lambda>_ w. rcu_grace w))"
      by (rule rets_bndI) (auto intro: rcu_grace_rets)
  qed
qed

theorem tables_removed_once_witness:
  "rets (\<lambda>_ w'. removed w' = {#5, 6#} \<and> table_pages w' = {#})
     (bnd (each (tlb_remove_table arch0) [5, 6] mmw0) (\<lambda>_ w. bnd (tlb_table_flush w) (\<lambda>_ w. rcu_grace w)))"
  using tables_removed_once [of arch0 mmw0 "[5, 6]"]
  by (simp add: mmw0_def arch0_def ghost_def add_mset_commute del: ghost_log)

end
