(* ===== verification/PageTables.thy ===== *)
theory PageTables
  imports MmuGather
begin

text \<open>
  Page tables of \<open>memory.c\<close>, lines 458 to 690 and 3612 to 3659: taking down the tables of a range
  of addresses (\<open>free_pgtables\<close> down to \<open>free_pte_range\<close>) and putting new ones in
  (\<open>__pte_alloc\<close> and its relatives). Addresses are 64-bit words: the code's comparisons with
  \<open>end - 1\<close> and \<open>ceiling - 1\<close> rely on wrap-around, 0 standing for the top of the address space.
\<close>

section \<open>Taking tables down\<close>

definition free_pte_range :: "int \<Rightarrow> u64 \<Rightarrow> unit mact" where
  "free_pte_range pmd addr w =
     bnd (kcall (Tb (Pmd_pgtable pmd)) w) (\<lambda>token w.
     bnd (kdo (Tb (Pmd_clear pmd)) w) (\<lambda>_ w.
     bnd (kdo (Fr (Pte_free_tlb token addr)) w) (\<lambda>_ w.
     kdo (Fr Dec_nr_ptes) w)))"

text \<open>
  The test in front of the freeing of a table at each level: the aligned start must not lie under
  \<open>floor\<close>, and \<open>ceiling\<close>, rounded down, must not lie under the end.
\<close>

definition may_free :: "u64 \<Rightarrow> u64 \<Rightarrow> u64 \<Rightarrow> u64 \<Rightarrow> u64 \<Rightarrow> bool" where
  "may_free msk start e floor ceiling =
     (\<not> (start AND msk) < floor \<and>
      (ceiling = 0 \<or> (ceiling AND msk) \<noteq> 0) \<and>
      \<not> (if ceiling = 0 then ceiling else ceiling AND msk) - 1 < e - 1)"

definition free_pmd_range :: "arch \<Rightarrow> int \<Rightarrow> u64 \<Rightarrow> u64 \<Rightarrow> u64 \<Rightarrow> u64 \<Rightarrow> unit mact" where
  "free_pmd_range A pud start e floor ceiling w =
     bnd (kcall (Tb (Pmd_offset pud start)) w) (\<lambda>pmd w.
     bnd (do_while (range_fuel start e) (\<lambda>(pmd, addr) w.
            let next = pmd_addr_end A addr e in
            bnd (kask (Tb (Pmd_none_or_clear_bad pmd)) w) (\<lambda>none w.
            bnd (cond (\<not> none) (free_pte_range pmd addr) w) (\<lambda>_ w.
            ret (next \<noteq> e, (pmd + 1, next)) w)))
          (pmd, start) w) (\<lambda>_ w.
     cond (may_free (PUD_MASK A) start e floor ceiling) (\<lambda>w.
       let start = start AND PUD_MASK A in
       bnd (kcall (Tb (Pmd_offset pud start)) w) (\<lambda>pmd w.
       bnd (kdo (Tb (Pud_clear pud)) w) (\<lambda>_ w.
       bnd (kdo (Fr (Pmd_free_tlb pmd start)) w) (\<lambda>_ w.
       kdo (Fr Dec_nr_pmds) w)))) w))"

definition free_pud_range :: "arch \<Rightarrow> int \<Rightarrow> u64 \<Rightarrow> u64 \<Rightarrow> u64 \<Rightarrow> u64 \<Rightarrow> unit mact" where
  "free_pud_range A pgd start e floor ceiling w =
     bnd (kcall (Tb (Pud_offset pgd start)) w) (\<lambda>pud w.
     bnd (do_while (range_fuel start e) (\<lambda>(pud, addr) w.
            let next = pud_addr_end A addr e in
            bnd (kask (Tb (Pud_none_or_clear_bad pud)) w) (\<lambda>none w.
            bnd (cond (\<not> none) (free_pmd_range A pud addr next floor ceiling) w) (\<lambda>_ w.
            ret (next \<noteq> e, (pud + 1, next)) w)))
          (pud, start) w) (\<lambda>_ w.
     cond (may_free (PGDIR_MASK A) start e floor ceiling) (\<lambda>w.
       let start = start AND PGDIR_MASK A in
       bnd (kcall (Tb (Pud_offset pgd start)) w) (\<lambda>pud w.
       bnd (kdo (Tb (Pgd_clear pgd)) w) (\<lambda>_ w.
       kdo (Fr (Pud_free_tlb pud start)) w))) w))"

text \<open>The clipping at the head of \<open>free_pgd_range\<close>: the range to visit, or nothing to do.\<close>

definition clip_range :: "arch \<Rightarrow> u64 \<Rightarrow> u64 \<Rightarrow> u64 \<Rightarrow> u64 \<Rightarrow> (u64 \<times> u64 \<times> u64) option" where
  "clip_range A addr e floor ceiling =
     (let addr = addr AND PMD_MASK A; low = addr < floor;
          addr = (if low then addr + PMD_SIZE A else addr) in
      if low \<and> addr = 0 then None
      else
        let high = (ceiling \<noteq> 0); ceiling = (if high then ceiling AND PMD_MASK A else ceiling) in
        if high \<and> ceiling = 0 then None
        else
          let e = (if ceiling - 1 < e - 1 then e - PMD_SIZE A else e) in
          if e - 1 < addr then None else Some (addr, e, ceiling))"

definition free_pgd_range :: "arch \<Rightarrow> u64 \<Rightarrow> u64 \<Rightarrow> u64 \<Rightarrow> u64 \<Rightarrow> unit mact" where
  "free_pgd_range A addr e floor ceiling w =
     (case clip_range A addr e floor ceiling of
        None \<Rightarrow> ret () w
      | Some (addr, e, ceiling) \<Rightarrow>
          bnd (kcall (Tb (Pgd_offset (tlb_mm (tlb w)) addr)) w) (\<lambda>pgd w.
          bnd (do_while (range_fuel addr e) (\<lambda>(pgd, addr) w.
                 let next = pgd_addr_end A addr e in
                 bnd (kask (Tb (Pgd_none_or_clear_bad pgd)) w) (\<lambda>none w.
                 bnd (cond (\<not> none) (free_pud_range A pgd addr next floor ceiling) w) (\<lambda>_ w.
                 ret (next \<noteq> e, (pgd + 1, next)) w)))
               (pgd, addr) w) (\<lambda>_ w. ret () w)))"

text \<open>
  \<open>free_pgtables\<close> over the list of areas. The inner loop joins an area with the ones behind it
  while they start within \<open>PMD_SIZE\<close> of its end; it returns the last area joined and the rest.
\<close>

definition unlink_vma :: "vma \<Rightarrow> unit mact" where
  "unlink_vma v w = bnd (kdo (Vm (Unlink_anon_vmas (vma_ptr v))) w) (\<lambda>_ w. kdo (Vm (Unlink_file_vma (vma_ptr v))) w)"

definition is_vm_hugetlb_page :: "vma \<Rightarrow> bool" where
  "is_vm_hugetlb_page v = (VM_HUGETLB \<in> vm_flags v)"

fun join_vmas :: "arch \<Rightarrow> vma \<Rightarrow> vma list \<Rightarrow> (vma \<times> vma list) mact" where
  "join_vmas A v [] w = ret (v, []) w"
| "join_vmas A v (nx # vs) w =
     (if vm_start nx \<le> vm_end v + PMD_SIZE A \<and> \<not> is_vm_hugetlb_page nx
      then bnd (unlink_vma nx w) (\<lambda>_ w. join_vmas A nx vs w)
      else ret (v, nx # vs) w)"

definition next_start :: "vma list \<Rightarrow> u64 \<Rightarrow> u64" where
  "next_start vs ceiling = (case vs of [] \<Rightarrow> ceiling | nx # _ \<Rightarrow> vm_start nx)"

fun free_pgtables_from :: "nat \<Rightarrow> arch \<Rightarrow> vma list \<Rightarrow> u64 \<Rightarrow> u64 \<Rightarrow> unit mact" where
  "free_pgtables_from n A [] floor ceiling w = ret () w"
| "free_pgtables_from 0 A (v # vs) floor ceiling w = Inl (NoFuel, w)"
| "free_pgtables_from (Suc n) A (v # vs) floor ceiling w =
     (let addr = vm_start v in
      bnd (unlink_vma v w) (\<lambda>_ w.
      if is_vm_hugetlb_page v
      then bnd (kdo (Vm (Hugetlb_free_pgd_range addr (vm_end v) floor (next_start vs ceiling))) w) (\<lambda>_ w.
           free_pgtables_from n A vs floor ceiling w)
      else bnd (join_vmas A v vs w) (\<lambda>(lst, vs) w.
           bnd (free_pgd_range A addr (vm_end lst) floor (next_start vs ceiling) w) (\<lambda>_ w.
           free_pgtables_from n A vs floor ceiling w))))"

definition free_pgtables :: "arch \<Rightarrow> vma list \<Rightarrow> u64 \<Rightarrow> u64 \<Rightarrow> unit mact" where
  "free_pgtables A vmas = free_pgtables_from (length vmas) A vmas"

section \<open>Putting tables in\<close>

definition ENOMEM :: int where "ENOMEM = 12"
definition EFAULT :: int where "EFAULT = 14"
definition EBUSY :: int where "EBUSY = 16"
definition EINVAL :: int where "EINVAL = 22"

definition raw_pte_alloc :: "int \<Rightarrow> u64 \<Rightarrow> int mact" where
  "raw_pte_alloc pmd address w =
     bnd (kcall (Fr (Pte_alloc_one address)) w) (\<lambda>new w.
     if new = 0 then ret (- ENOMEM) w
     else
       bnd (kdo (Lk Smp_wmb) w) (\<lambda>_ w.
       bnd (kcall (Lk (Pmd_lock pmd)) w) (\<lambda>ptl w.
       bnd (kask (Tb (Pmd_none pmd)) w) (\<lambda>none w.
       bnd (if none
            then bnd (kdo (Fr Inc_nr_ptes) w) (\<lambda>_ w.
                 bnd (kdo (Fr (Pmd_populate pmd new)) w) (\<lambda>_ w. ret (0, False) w))
            else bnd (kask (Tb (Pmd_trans_splitting pmd)) w) (\<lambda>sp w. ret (new, sp) w)) (\<lambda>(new, wait_split) w.
       bnd (kdo (Lk (Spin_unlock ptl)) w) (\<lambda>_ w.
       bnd (cond (new \<noteq> 0) (kdo (Fr (Pte_free new))) w) (\<lambda>_ w.
       bnd (cond wait_split (kdo (Lk (Wait_split_huge_page pmd))) w) (\<lambda>_ w.
       ret 0 w))))))))"

definition init_mm_lock :: int where "init_mm_lock = 1"

definition raw_pte_alloc_kernel :: "int \<Rightarrow> u64 \<Rightarrow> int mact" where
  "raw_pte_alloc_kernel pmd address w =
     bnd (kcall (Fr (Pte_alloc_one_kernel address)) w) (\<lambda>new w.
     if new = 0 then ret (- ENOMEM) w
     else
       bnd (kdo (Lk Smp_wmb) w) (\<lambda>_ w.
       bnd (kdo (Lk (Spin_lock init_mm_lock)) w) (\<lambda>_ w.
       bnd (kask (Tb (Pmd_none pmd)) w) (\<lambda>none w.
       bnd (if none
            then bnd (kdo (Fr (Pmd_populate_kernel pmd new)) w) (\<lambda>_ w. ret 0 w)
            else bnd (kask (Tb (Pmd_trans_splitting pmd)) w) (\<lambda>sp w.
                 bnd (BUG_ON sp w) (\<lambda>_ w. ret new w))) (\<lambda>new w.
       bnd (kdo (Lk (Spin_unlock init_mm_lock)) w) (\<lambda>_ w.
       bnd (cond (new \<noteq> 0) (kdo (Fr (Pte_free_kernel new))) w) (\<lambda>_ w.
       ret 0 w)))))))"

text \<open>The lock \<open>page_table_lock\<close> of an address space is identified by the address space.\<close>

definition raw_pud_alloc :: "int \<Rightarrow> int \<Rightarrow> u64 \<Rightarrow> int mact" where
  "raw_pud_alloc mm pgd address w =
     bnd (kcall (Fr (Pud_alloc_one address)) w) (\<lambda>new w.
     if new = 0 then ret (- ENOMEM) w
     else
       bnd (kdo (Lk Smp_wmb) w) (\<lambda>_ w.
       bnd (kdo (Lk (Spin_lock mm)) w) (\<lambda>_ w.
       bnd (kask (Fr (Pgd_present pgd)) w) (\<lambda>present w.
       bnd (if present then kdo (Fr (Pud_free new)) w else kdo (Fr (Pgd_populate pgd new)) w) (\<lambda>_ w.
       bnd (kdo (Lk (Spin_unlock mm)) w) (\<lambda>_ w. ret 0 w))))))"

definition raw_pmd_alloc :: "int \<Rightarrow> int \<Rightarrow> u64 \<Rightarrow> int mact" where
  "raw_pmd_alloc mm pud address w =
     bnd (kcall (Fr (Pmd_alloc_one address)) w) (\<lambda>new w.
     if new = 0 then ret (- ENOMEM) w
     else
       bnd (kdo (Lk Smp_wmb) w) (\<lambda>_ w.
       bnd (kdo (Lk (Spin_lock mm)) w) (\<lambda>_ w.
       bnd (kask (Fr (Pud_present pud)) w) (\<lambda>present w.
       bnd (if \<not> present
            then bnd (kdo (Fr Inc_nr_pmds) w) (\<lambda>_ w. kdo (Fr (Pud_populate pud new)) w)
            else kdo (Fr (Pmd_free new)) w) (\<lambda>_ w.
       bnd (kdo (Lk (Spin_unlock mm)) w) (\<lambda>_ w. ret 0 w))))))"

end
