(* ===== verification/TableProps.thy ===== *)
theory TableProps
  imports PageTables
begin

text \<open>
  What \<open>PageTables\<close> guarantees: the arithmetic of the regions that table entries cover, and the
  theorem that taking down page tables never frees a table that is still in use next door.
\<close>

section \<open>Regions\<close>

text \<open>
  The region that a table entry covers: addresses that agree above the lowest \<open>k\<close> bits. A table
  may go only if its region lies between \<open>floor\<close> and \<open>ceiling\<close>, 0 as ceiling being the top.
\<close>

definition inside :: "nat \<Rightarrow> u64 \<Rightarrow> u64 \<Rightarrow> u64 \<Rightarrow> bool" where
  "inside k floor ceiling a = (floor \<le> a AND NOT (mask k) \<and> a OR mask k \<le> ceiling - 1)"

lemma unat_round_down: "unat (a AND NOT (mask k) :: u64) = unat a - unat a mod 2 ^ k"
proof -
  have e: "a = take_bit k a + (a AND NOT (mask k))"
    by (subst disjunctive_add_eq_or) (auto intro!: bit_word_eqI simp: bit_simps)
  have "a AND NOT (mask k) = a - take_bit k a"
    using e by (simp add: algebra_simps)
  moreover have "take_bit k a \<le> a" by (simp add: word_le_nat_alt unsigned_take_bit_eq)
  ultimately show ?thesis
    by (simp only: unat_sub unsigned_take_bit_eq) (simp add: take_bit_eq_mod)
qed

lemma round_down_mono: "a \<le> b \<Longrightarrow> a AND NOT (mask k) \<le> (b AND NOT (mask k) :: u64)"
proof -
  assume "a \<le> b"
  then have "unat a div 2 ^ k * 2 ^ k \<le> unat b div 2 ^ k * 2 ^ k"
    by (simp add: word_le_nat_alt div_le_mono)
  then show ?thesis
    by (simp add: word_le_nat_alt unat_round_down minus_mod_eq_div_mult)
qed

lemma round_down_le: "a AND NOT (mask k) \<le> (a :: u64)"
  by (simp add: word_le_nat_alt unat_round_down)

lemma round_up_eq: "(a OR mask k :: u64) = (a AND NOT (mask k)) OR mask k"
  by (rule bit_word_eqI) (auto simp: bit_simps)

lemma unat_exp: "k < 64 \<Longrightarrow> unat (2 ^ k :: u64) = 2 ^ k"
proof -
  assume "k < 64"
  then have "(2 :: nat) ^ k < 2 ^ 64" by (rule power_strict_increasing) simp
  then have "unat (word_of_nat (2 ^ k) :: u64) = 2 ^ k"
    using \<open>k < 64\<close> by (simp only: unsigned_of_nat) (simp add: take_bit_nat_eq_self_iff)
  then show ?thesis by simp
qed

lemma unat_round_up:
  assumes "k < 64"
  shows "unat (a OR mask k :: u64) = unat a div 2 ^ k * 2 ^ k + (2 ^ k - 1)"
proof -
  have "(a AND NOT (mask k)) AND mask k = 0" by (rule bit_word_eqI) (auto simp: bit_simps)
  then have "a OR mask k = (a AND NOT (mask k)) + mask k"
    by (simp add: round_up_eq [of a] disjunctive_add_eq_or)
  moreover have "unat (mask k :: u64) = 2 ^ k - 1"
    using assms by (simp add: mask_eq_exp_minus_1 unat_minus_one unat_exp)
  moreover have "unat (a AND NOT (mask k)) = unat a div 2 ^ k * 2 ^ k"
    by (simp add: unat_round_down minus_mod_eq_div_mult)
  moreover have "unat a div 2 ^ k * 2 ^ k + (2 ^ k - 1) < 2 ^ 64"
  proof -
    have split: "(2 :: nat) ^ 64 = 2 ^ (64 - k) * 2 ^ k"
      using assms by (simp flip: power_add)
    have "unat a < 2 ^ (64 - k) * 2 ^ k"
      using unsigned_less [of a, where 'a = nat] split by simp
    then have "unat a div 2 ^ k < 2 ^ (64 - k)"
      by (simp add: less_mult_imp_div_less)
    then have "Suc (unat a div 2 ^ k) * 2 ^ k \<le> 2 ^ (64 - k) * 2 ^ k"
      by (intro mult_le_mono1) simp
    then have le: "unat a div 2 ^ k * 2 ^ k + 2 ^ k \<le> 2 ^ 64"
      by (simp only: split mult_Suc add.commute)
    have "(0 :: nat) < 2 ^ k" by simp
    with le show ?thesis by linarith
  qed
  ultimately show ?thesis
    by (simp add: unat_word_ariths)
qed

lemma round_up_mono: "k < 64 \<Longrightarrow> a \<le> b \<Longrightarrow> a OR mask k \<le> (b OR mask k :: u64)"
  by (simp add: word_le_nat_alt unat_round_up div_le_mono diff_le_mono)

lemma le_round_up: "k < 64 \<Longrightarrow> a \<le> (a OR mask k :: u64)"
proof -
  assume "k < 64"
  moreover have "unat a mod 2 ^ k \<le> 2 ^ k - 1" 
    using mod_less_divisor [of "2 ^ k" "unat a"] by (simp add: less_eq_Suc_le)
  moreover have "(0 :: nat) < 2 ^ k" by simp
  ultimately have "unat a \<le> unat a div 2 ^ k * 2 ^ k + (2 ^ k - 1)"
    using div_mult_mod_eq [of "unat a" "2 ^ k"] by linarith
  then show ?thesis using \<open>k < 64\<close> by (simp only: word_le_nat_alt unat_round_up)
qed

text \<open>Below an aligned address other than 0 the region ends.\<close>

lemma round_up_below_aligned:
  assumes "k < 64" "c AND NOT (mask k) \<noteq> (0 :: u64)"
  shows "((c AND NOT (mask k)) - 1) OR mask k = (c AND NOT (mask k)) - 1"
proof -
  let ?c = "c AND NOT (mask k)"
  obtain m where m: "unat ?c = m * 2 ^ k"
    by (simp add: unat_round_down minus_mod_eq_div_mult)
  have nz: "unat ?c \<noteq> 0" using assms(2) by (simp add: unat_eq_0)
  then obtain n where n: "m = Suc n" using m by (cases m) auto
  have c1: "unat (?c - 1) = n * 2 ^ k + (2 ^ k - 1)"
  proof -
    have "unat (?c - 1) = unat ?c - 1"
      using nz by (simp add: unat_minus_one unat_eq_0)
    then show ?thesis using m n by simp
  qed
  have "(n * 2 ^ k + (2 ^ k - 1)) div 2 ^ k = n + (2 ^ k - 1) div 2 ^ k"
    by (rule div_mult_self3) simp
  then have "unat (?c - 1) div 2 ^ k = n"
    unfolding c1 by simp
  then show ?thesis
    using c1 by (simp add: word_unat_eq_iff unat_round_up [OF assms(1)])
qed

lemma ceiling_down_le:
  assumes "c AND NOT (mask k) \<noteq> (0 :: u64)"
  shows "(c AND NOT (mask k)) - 1 \<le> c - 1"
  using assms round_down_le [of c k]
  by (metis (no_types, lifting) word_le_minus_mono_left word_neq_0_conv  dual_order.refl linorder_not_le word_less_1 le_less_trans word_le_sub1 word_not_simps(1))

lemma may_free_inside:
  assumes k: "k < 64" and free: "may_free (NOT (mask k)) start e floor ceiling" and le: "start \<le> e - 1"
  shows "inside k floor ceiling start"
proof (cases "ceiling = 0")
  case True
  then show ?thesis using free by (auto simp: inside_def may_free_def not_less)
next
  case False
  let ?c = "ceiling AND NOT (mask k)"
  have c: "?c \<noteq> 0" "start \<le> ?c - 1" "floor \<le> start AND NOT (mask k)"
    using free False le by (auto simp: may_free_def not_less)
  have "start OR mask k \<le> (?c - 1) OR mask k" by (rule round_up_mono [OF k c(2)])
  also have "\<dots> = ?c - 1" by (rule round_up_below_aligned [OF k c(1)])
  also have "\<dots> \<le> ceiling - 1" by (rule ceiling_down_le [OF c(1)])
  finally show ?thesis using c(3) by (simp add: inside_def)
qed

lemma inside_round_down [simp]: "inside k floor ceiling (a AND NOT (mask k)) = inside k floor ceiling a"
proof -
  have "(a AND NOT (mask k)) OR mask k = a OR mask k" by (rule round_up_eq [symmetric])
  then show ?thesis by (simp add: inside_def ac_simps)
qed

lemma inside_mono:
  assumes "k < 64" "floor \<le> lo" "lo AND NOT (mask k) = lo" "hi OR mask k \<le> ceiling - 1" "lo \<le> a" "a \<le> hi"
  shows "inside k floor ceiling a"
  using assms round_down_mono [of lo a k] round_up_mono [of k a hi]
  by (auto simp: inside_def intro: order_trans)

lemma inside_ceiling_mono: "inside k floor c a \<Longrightarrow> c - 1 \<le> c' - 1 \<Longrightarrow> inside k floor c' a"
  by (auto simp: inside_def intro: order_trans)

section \<open>Only tables of the range go\<close>

text \<open>The geometry of a three-level table: sizes are powers of two, masks round down to them.\<close>

definition geom :: "arch \<Rightarrow> nat \<Rightarrow> nat \<Rightarrow> nat \<Rightarrow> bool" where
  "geom A i j l = (i < j \<and> j < l \<and> l < 64 \<and> PMD_SIZE A = 2 ^ i \<and> PMD_MASK A = NOT (mask i) \<and>
     PUD_MASK A = NOT (mask j) \<and> PGDIR_MASK A = NOT (mask l) \<and>
     addr_end_ok (pmd_addr_end A) \<and> addr_end_ok (pud_addr_end A) \<and> addr_end_ok (pgd_addr_end A))"

text \<open>A call that frees a table frees one whose region is inside the bounds.\<close>

fun free_ok :: "nat \<Rightarrow> nat \<Rightarrow> nat \<Rightarrow> u64 \<Rightarrow> u64 \<Rightarrow> kc \<Rightarrow> bool" where
  "free_ok i j l floor ceiling (Fr (Pte_free_tlb t a)) = inside i floor ceiling a"
| "free_ok i j l floor ceiling (Fr (Pmd_free_tlb t a)) = inside j floor ceiling a"
| "free_ok i j l floor ceiling (Fr (Pud_free_tlb t a)) = inside l floor ceiling a"
| "free_ok i j l floor ceiling c = True"

text \<open>The areas whose reverse mappings were taken down, in order.\<close>

fun unlink_step :: "int list \<Rightarrow> kc \<Rightarrow> int \<Rightarrow> int list" where
  "unlink_step vs (Vm (Unlink_anon_vmas v)) r = vs @ [v]"
| "unlink_step vs c r = vs"

definition frees_inside :: "nat \<Rightarrow> nat \<Rightarrow> nat \<Rightarrow> u64 \<Rightarrow> u64 \<Rightarrow> int list \<Rightarrow> mmw \<Rightarrow> bool" where
  "frees_inside i j l floor ceiling us w =
     (ghost (\<lambda>b c r. b \<and> free_ok i j l floor ceiling c) True w \<and> ghost unlink_step [] w = us)"

lemma free_pte_range_inside:
  assumes "frees_inside i j l f g us w" "inside i f g a"
  shows "tpost (\<lambda>_. frees_inside i j l f g us) (free_pte_range pmd a w)"
  unfolding free_pte_range_def by (intro run_intros) (use assms in \<open>simp add: frees_inside_def\<close>)

text \<open>
  The range that is visited: its page-middle entries all lie inside the bounds, and \<open>g\<close>, the
  ceiling that is handed down, does not exceed the ceiling \<open>c\<close> that counts.
\<close>

definition visited :: "nat \<Rightarrow> u64 \<Rightarrow> u64 \<Rightarrow> u64 \<Rightarrow> u64 \<Rightarrow> u64 \<Rightarrow> bool" where
  "visited i f g c s e = (s < e \<and> g - 1 \<le> c - 1 \<and> (\<forall>a. s \<le> a \<and> a < e \<longrightarrow> inside i f c a))"

lemma visited_sub: "visited i f g c s e \<Longrightarrow> s \<le> a \<Longrightarrow> a < e \<Longrightarrow> addr_end_ok nxt \<Longrightarrow> visited i f g c a (nxt a e)"
  by (auto simp: visited_def addr_end_ok_def intro: order_trans less_le_trans)

lemma less_le_minus1: "s < e \<Longrightarrow> s \<le> e - (1 :: u64)"
  by (simp add: word_less_nat_alt word_le_nat_alt unat_minus_one unat_eq_0 [symmetric])

lemma may_free_visited:
  assumes "visited i f g c s e" "k < 64" "may_free (NOT (mask k)) s e f g"
  shows "inside k f c (s AND NOT (mask k))"
  using assms may_free_inside [OF assms(2,3)] inside_ceiling_mono [of k f g s c]
  by (auto simp: visited_def less_le_minus1)

lemma free_pmd_range_inside:
  assumes "frees_inside i j l f c us w" "visited i f g c s e" "geom A i j l"
  shows "tpost (\<lambda>_. frees_inside i j l f c us) (free_pmd_range A pud s e f g w)"
proof -
  let ?J = "frees_inside i j l f c us"
  have j: "j < 64" "PUD_MASK A = NOT (mask j)" "addr_end_ok (pmd_addr_end A)" using assms(3) by (auto simp: geom_def)
  have walk: "tpost (\<lambda>_. ?J) (do_while (range_fuel s e) (\<lambda>(pmd, addr) w.
            let next = pmd_addr_end A addr e in
            bnd (kask (Tb (Pmd_none_or_clear_bad pmd)) w) (\<lambda>none w.
            bnd (cond (\<not> none) (free_pte_range pmd addr) w) (\<lambda>_ w.
            ret (next \<noteq> e, (pmd + 1, next)) w))) (p0, s) v)" if "?J v" for p0 v
    using assms(2) that
    by (intro tpost_walk [where F = "\<lambda>p a n. free_pte_range p a"] j free_pte_range_inside) (auto simp: visited_def frees_inside_def)
  show ?thesis
    unfolding free_pmd_range_def
    by (intro run_intros tpost_bndI [OF walk])
       (use assms(1) j may_free_visited [OF assms(2) j(1)] in \<open>simp_all add: frees_inside_def\<close>)
qed

lemma free_pud_range_inside:
  assumes "frees_inside i j l f c us w" "visited i f g c s e" "geom A i j l"
  shows "tpost (\<lambda>_. frees_inside i j l f c us) (free_pud_range A pgd s e f g w)"
proof -
  let ?J = "frees_inside i j l f c us"
  have l: "l < 64" "PGDIR_MASK A = NOT (mask l)" "addr_end_ok (pud_addr_end A)" using assms(3) by (auto simp: geom_def)
  have walk: "tpost (\<lambda>_. ?J) (do_while (range_fuel s e) (\<lambda>(pud, addr) w.
            let next = pud_addr_end A addr e in
            bnd (kask (Tb (Pud_none_or_clear_bad pud)) w) (\<lambda>none w.
            bnd (cond (\<not> none) (free_pmd_range A pud addr next f g) w) (\<lambda>_ w.
            ret (next \<noteq> e, (pud + 1, next)) w))) (p0, s) v)" if "?J v" for p0 v
  proof (rule tpost_walk [where F = "\<lambda>p a n. free_pmd_range A p a n f g" and J = ?J])
    show "addr_end_ok (pud_addr_end A)" "?J v" by (rule l(3)) (rule that)
    show "s < e" using assms(2) by (simp add: visited_def)
    show "tpost (\<lambda>_. ?J) (free_pmd_range A p a (pud_addr_end A a e) f g x)" if "?J x" "s \<le> a" "a < e" for p a x
      by (rule free_pmd_range_inside [OF that(1) visited_sub [OF assms(2) that(2,3) l(3)] assms(3)])
  qed (simp add: frees_inside_def)
  show ?thesis
    unfolding free_pud_range_def
    by (intro run_intros tpost_bndI [OF walk])
       (use assms(1) l may_free_visited [OF assms(2) l(1)] in \<open>simp_all add: frees_inside_def\<close>)
qed

text \<open>What the clipping at the head of \<open>free_pgd_range\<close> establishes.\<close>

lemma unat_pow_mult_le: "k < 64 \<Longrightarrow> (c AND NOT (mask k) :: u64) \<noteq> 0 \<Longrightarrow> 2 ^ k \<le> unat (c AND NOT (mask k))"
  by (simp add: unat_eq_0 [symmetric] unat_round_down minus_mod_eq_div_mult)

lemma less_round_down: "unat a < unat (a AND NOT (mask k) :: u64) + 2 ^ k"
  using dividend_less_div_times [of "2 ^ k" "unat a"]
  unfolding unat_round_down minus_mod_eq_div_mult by simp

lemma clip_start:
  assumes "k < 64" "f \<le> a0" "a = a0 AND NOT (mask k)" "a < f" "a + 2 ^ k \<noteq> (0 :: u64)"
  shows "f \<le> a + 2 ^ k" "(a + 2 ^ k) AND NOT (mask k) = a + 2 ^ k"
proof -
  obtain m where m: "unat a = m * 2 ^ k"
    using assms(3) by (simp add: unat_round_down minus_mod_eq_div_mult)
  have lt: "unat a + 2 ^ k \<le> 2 ^ 64"
    using unat_round_up [OF assms(1), of a] unsigned_less [of "a OR mask k", where 'a = nat] m assms(1) by simp
  have ne: "unat a + 2 ^ k \<noteq> 2 ^ 64"
  proof
    assume e: "unat a + 2 ^ k = 2 ^ 64"
    have "unat (a + 2 ^ k) = (unat a + 2 ^ k) mod 2 ^ 64" by (simp add: unat_word_ariths unat_exp [OF assms(1)])
    with e have "unat (a + 2 ^ k) = 0" by simp
    with assms(5) show False by (simp add: unat_eq_0)
  qed
  then have u: "unat (a + 2 ^ k) = unat a + 2 ^ k"
    using lt by (simp add: unat_word_ariths unat_exp [OF assms(1)])
  have "unat a0 < unat a + 2 ^ k"
    unfolding assms(3) by (rule less_round_down)
  then show "f \<le> a + 2 ^ k" using assms(2) u by (simp add: word_le_nat_alt)
  have "(unat a + 2 ^ k) mod 2 ^ k = 0" using m by simp
  then show "(a + 2 ^ k) AND NOT (mask k) = a + 2 ^ k"
    using u by (simp add: word_unat_eq_iff unat_round_down)
qed

lemma clip_end:
  assumes k: "k < 64" and e: "e \<noteq> (0 :: u64)" "e - 1 \<le> c - 1" and c: "c = 0 \<or> c AND NOT (mask k) \<noteq> 0"
    and d: "d = (if c = 0 then c else c AND NOT (mask k))"
    and e': "e' = (if d - 1 < e - 1 then e - 2 ^ k else e)"
  shows "(e' - 1) OR mask k \<le> d - 1" "e' \<noteq> 0" "d - 1 \<le> c - 1"
proof -
  have dc: "d - 1 \<le> c - 1" using c d by (auto intro: ceiling_down_le)
  have all: "(e' - 1) OR mask k \<le> d - 1 \<and> e' \<noteq> 0"
  proof (cases "c = 0")
    case True
    then have "d - 1 = - 1" using d by simp
    then show ?thesis using e e' by simp
  next
    case False
    then have d0: "d \<noteq> 0" and dd: "d = c AND NOT (mask k)" using c d by auto
    have up: "(d - 1) OR mask k = d - 1" using round_up_below_aligned [OF k] d0 dd by simp
    show ?thesis
    proof (cases "d - 1 < e - 1")
      case False
      then show ?thesis using e e' up round_up_mono [OF k, of "e - 1" "d - 1"] by simp
    next
      case True
      have big: "2 ^ k \<le> unat d" using unat_pow_mult_le [OF k] d0 dd by simp
      have "unat d < unat e" using True e d0
        by (simp add: word_less_nat_alt unat_minus_one unat_eq_0)
      moreover have "unat e \<le> unat c"
        using e False by (simp add: word_le_nat_alt unat_minus_one) (metis One_nat_def diff_le_mono2 diff_le_self le_diff_iff unat_gt_0 Suc_leI)
      moreover have "unat c < unat d + 2 ^ k"
        unfolding dd by (rule less_round_down)
      moreover have "unat (e - 2 ^ k) = unat e - 2 ^ k"
        using big \<open>unat d < unat e\<close> by (simp add: unat_sub word_le_nat_alt unat_exp [OF k])
      ultimately have "unat e' < unat d" "unat e' \<noteq> 0" using True e' big by simp_all
      then have "e' - 1 \<le> d - 1" "e' \<noteq> 0"
        using d0 unat_minus_one [of e'] unat_minus_one [of d] by (auto simp: word_le_nat_alt unat_eq_0 [symmetric])
      then show ?thesis using up round_up_mono [OF k, of "e' - 1" "d - 1"] by simp
    qed
  qed
  then show "(e' - 1) OR mask k \<le> d - 1" "e' \<noteq> 0" "d - 1 \<le> c - 1" using dc by auto
qed

lemma clip_visited:
  assumes g: "geom A i j l" and clip: "clip_range A a0 e0 f c = Some (s, e, d)"
    and a0: "f \<le> a0" and e0: "e0 \<noteq> 0" "e0 - 1 \<le> c - 1"
  shows "visited i f d c s e"
proof -
  have i: "i < 64" "PMD_MASK A = NOT (mask i)" "PMD_SIZE A = 2 ^ i" using g by (auto simp: geom_def)
  let ?a = "a0 AND NOT (mask i)"
  have c: "c = 0 \<or> c AND NOT (mask i) \<noteq> 0" and d: "d = (if c = 0 then c else c AND NOT (mask i))"
    and e: "e = (if d - 1 < e0 - 1 then e0 - 2 ^ i else e0)" and se: "\<not> e - 1 < s"
    and s: "s = (if ?a < f then ?a + 2 ^ i else ?a)" "?a < f \<longrightarrow> s \<noteq> 0"
    using clip i by (auto simp: clip_range_def Let_def split: if_splits)
  have top: "(e - 1) OR mask i \<le> d - 1" "e \<noteq> 0" "d - 1 \<le> c - 1" by (rule clip_end [OF i(1) e0 c d e])+
  have s1: "f \<le> s" "s AND NOT (mask i) = s"
    using clip_start [OF i(1) a0 refl] s by (auto split: if_splits simp: ac_simps)
  have lt: "s < e" using se top(2) by (simp add: word_less_nat_alt unat_minus_one unat_eq_0 [symmetric]) 
  have "inside i f c a" if "s \<le> a" "a < e" for a
    using inside_mono [OF i(1) s1 order_trans [OF top(1,3)] that(1) less_le_minus1 [OF that(2)]] .
  then show ?thesis using lt top(3) by (simp add: visited_def)
qed

lemma free_pgd_range_inside:
  assumes "frees_inside i j l f C us w" "geom A i j l" "f \<le> a" "e \<noteq> 0" "e - 1 \<le> c - 1" "c - 1 \<le> C - 1"
  shows "tpost (\<lambda>_. frees_inside i j l f C us) (free_pgd_range A a e f c w)"
proof (cases "clip_range A a e f c")
  case None
  then show ?thesis using assms(1) by (simp add: free_pgd_range_def)
next
  case (Some r)
  obtain s e' d where r: "r = (s, e', d)" by (cases r)
  let ?J = "frees_inside i j l f C us"
  have v: "visited i f d C s e'"
    using clip_visited [OF assms(2) _ assms(3-5)] Some r assms(6) by (auto simp: visited_def intro: inside_ceiling_mono)
  have ok: "addr_end_ok (pgd_addr_end A)" using assms(2) by (simp add: geom_def)
  have walk: "tpost (\<lambda>_. ?J) (do_while (range_fuel s e') (\<lambda>(pgd, addr) w.
                 let next = pgd_addr_end A addr e' in
                 bnd (kask (Tb (Pgd_none_or_clear_bad pgd)) w) (\<lambda>none w.
                 bnd (cond (\<not> none) (free_pud_range A pgd addr next f d) w) (\<lambda>_ w.
                 ret (next \<noteq> e', (pgd + 1, next)) w))) (p0, s) x)" if "?J x" for p0 x
  proof (rule tpost_walk [where F = "\<lambda>p a n. free_pud_range A p a n f d" and J = ?J])
    show "addr_end_ok (pgd_addr_end A)" "?J x" by (rule ok) (rule that)
    show "s < e'" using v by (simp add: visited_def)
    show "tpost (\<lambda>_. ?J) (free_pud_range A p a (pgd_addr_end A a e') f d y)" if "?J y" "s \<le> a" "a < e'" for p a y
      by (rule free_pud_range_inside [OF that(1) visited_sub [OF v that(2,3) ok] assms(2)])
  qed (simp add: frees_inside_def)
  show ?thesis
    unfolding free_pgd_range_def Some r option.case prod.case
    by (intro run_intros tpost_bndI [OF walk]) (use assms(1) in \<open>simp_all add: frees_inside_def\<close>)
qed

text \<open>
  The list of areas as the address space keeps it: sorted, not overlapping, between the bounds.
\<close>

fun vmas_ok :: "u64 \<Rightarrow> u64 \<Rightarrow> vma list \<Rightarrow> bool" where
  "vmas_ok f c [] = True"
| "vmas_ok f c (v # vs) =
     (f \<le> vm_start v \<and> vm_start v < vm_end v \<and> vm_end v - 1 \<le> c - 1 \<and>
      (case vs of [] \<Rightarrow> True | nx # _ \<Rightarrow> vm_end v \<le> vm_start nx) \<and> vmas_ok f c vs)"

lemma vmas_ok_end:
  assumes "vmas_ok f c (v # vs)"
  shows "vm_end v \<noteq> 0" "vm_end v - 1 \<le> next_start vs c - 1" "next_start vs c - 1 \<le> c - 1"
proof -
  have le: "vm_end v - 1 \<le> x - 1" if "vm_end v \<le> x" for x
    using that assms by (intro word_le_minus_mono_left) (auto simp: word_le_nat_alt word_less_nat_alt)
  show "vm_end v \<noteq> 0" using assms by auto
  show "vm_end v - 1 \<le> next_start vs c - 1" using assms le by (auto simp: next_start_def split: list.splits)
  show "next_start vs c - 1 \<le> c - 1"
  proof (cases vs)
    case (Cons nx ws)
    then have "vm_start nx \<noteq> 0" "vm_start nx < vm_end nx" "vm_end nx - 1 \<le> c - 1" using assms by auto
    then have "vm_start nx - 1 \<le> vm_end nx - 1"
      by (intro word_le_minus_mono_left) (auto simp: word_le_nat_alt word_less_nat_alt unat_eq_0 [symmetric])
    with \<open>vm_end nx - 1 \<le> c - 1\<close> show ?thesis using Cons by (simp add: next_start_def)
  qed (simp add: next_start_def)
qed

lemma join_vmas_inside:
  assumes "frees_inside i j l f c us w" "vmas_ok f c (v # vs)"
  shows "tpost (\<lambda>(lst, rest) w'. \<exists>ws. vs = ws @ rest \<and> frees_inside i j l f c (us @ map vma_ptr ws) w' \<and> vmas_ok f c (lst # rest))
     (join_vmas A v vs w)"
  using assms
proof (induction vs arbitrary: v us w)
  case Nil
  then show ?case by simp
next
  case (Cons nx vs)
  have nx: "vmas_ok f c (nx # vs)" using Cons.prems(2) by simp
  have "tpost (\<lambda>_. frees_inside i j l f c (us @ [vma_ptr nx])) (unlink_vma nx w)"
    unfolding unlink_vma_def by (intro run_intros) (use Cons.prems(1) in \<open>simp add: frees_inside_def\<close>)
  then have "tpost (\<lambda>(lst, rest) w'. \<exists>ws. nx # vs = ws @ rest \<and> frees_inside i j l f c (us @ map vma_ptr ws) w' \<and> vmas_ok f c (lst # rest))
      (bnd (unlink_vma nx w) (\<lambda>_ w. join_vmas A nx vs w))"
  proof (rule tpost_bndI)
    fix u x
    assume "frees_inside i j l f c (us @ [vma_ptr nx]) x"
    from Cons.IH [OF this nx]
    show "tpost (\<lambda>(lst, rest) w'. \<exists>ws. nx # vs = ws @ rest \<and> frees_inside i j l f c (us @ map vma_ptr ws) w' \<and> vmas_ok f c (lst # rest))
       (join_vmas A nx vs x)"
      by (rule tpost_mono) (force intro: exI [of _ "nx # _"])
  qed
  then show ?case using Cons.prems by (auto intro!: exI [of _ "[]"])
qed

lemma vmas_ok_last: "vmas_ok f c (lst # rest) \<Longrightarrow> vmas_ok f c rest"
  by simp

lemma free_pgtables_from_inside:
  assumes "frees_inside i j l f c us w" "geom A i j l" "vmas_ok f c vs" "length vs \<le> n"
  shows "tpost (\<lambda>_. frees_inside i j l f c (us @ map vma_ptr vs)) (free_pgtables_from n A vs f c w)"
  using assms(1,3,4)
proof (induction n arbitrary: vs us w)
  case 0
  then show ?case by simp
next
  case (Suc n)
  show ?case
  proof (cases vs)
    case Nil
    then show ?thesis using Suc.prems by simp
  next
    case (Cons v ws)
    have ok: "vmas_ok f c (v # ws)" "f \<le> vm_start v" using Suc.prems(2) Cons by auto
    let ?goal = "\<lambda>_ :: unit. frees_inside i j l f c (us @ map vma_ptr vs)"
    have un: "tpost (\<lambda>_. frees_inside i j l f c (us @ [vma_ptr v])) (unlink_vma v w)"
      unfolding unlink_vma_def by (intro run_intros) (use Suc.prems(1) in \<open>simp add: frees_inside_def\<close>)
    have rest: "tpost ?goal (free_pgtables_from n A rs f c x)"
      if "frees_inside i j l f c (us @ vma_ptr v # map vma_ptr qs) x" "ws = qs @ rs" "vmas_ok f c rs" for rs qs x
      using Suc.IH [OF that(1,3)] that(2) Cons Suc.prems(3) by simp
    have huge: "tpost ?goal (bnd (kdo (Vm (Hugetlb_free_pgd_range (vm_start v) (vm_end v) f (next_start ws c))) x)
        (\<lambda>_. free_pgtables_from n A ws f c))" if "frees_inside i j l f c (us @ [vma_ptr v]) x" for x
      using that ok by (intro run_intros rest [where qs = "[]"]) (simp_all add: frees_inside_def)
    have norm: "tpost ?goal (bnd (join_vmas A v ws x) (\<lambda>(lst, vs) w.
           bnd (free_pgd_range A (vm_start v) (vm_end lst) f (next_start vs c) w) (\<lambda>_ w.
           free_pgtables_from n A vs f c w)))" if "frees_inside i j l f c (us @ [vma_ptr v]) x" for x
    proof (rule tpost_bndI [OF join_vmas_inside [OF that ok(1)]], clarsimp split del: if_split)
      fix lst :: vma and rs y qs
      assume y: "ws = qs @ rs" "frees_inside i j l f c (us @ vma_ptr v # map vma_ptr qs) y"
        "f \<le> vm_start lst" "vm_start lst < vm_end lst" "vm_end lst - 1 \<le> c - 1"
        "case rs of [] \<Rightarrow> True | nx # x \<Rightarrow> vm_end lst \<le> vm_start nx" "vmas_ok f c rs"
      then have lst: "vmas_ok f c (lst # rs)" by simp
      show "tpost (\<lambda>_. frees_inside i j l f c (us @ map vma_ptr vs))
         (bnd (free_pgd_range A (vm_start v) (vm_end lst) f (next_start rs c) y) (\<lambda>_. free_pgtables_from n A rs f c))"
        by (rule tpost_bndI [OF free_pgd_range_inside [OF y(2) assms(2) ok(2) vmas_ok_end [OF lst]]])
           (rule rest [OF _ y(1,7)])
    qed
    show ?thesis
      unfolding Cons free_pgtables_from.simps Let_def
      by (rule tpost_bndI [OF un]) (use huge norm Cons in \<open>simp split del: if_split add: tpost_ifI\<close>)
  qed
qed

text \<open>
  C25: Taking down the page tables of a sorted list of areas ends, and every table it frees, at
  each of the three levels, covers only addresses from \<open>floor\<close> up to \<open>ceiling\<close> (0 as ceiling
  being the top of the address space): no table is freed that the areas before or behind the
  list still use. Every area of the list is unlinked from its reverse mappings once, in order.
\<close>
theorem free_pgtables_inside:
  assumes "geom A i j l" "vmas_ok floor ceiling vs" "log w = []"
  shows "tpost (\<lambda>_ w'. (\<forall>(c, r) \<in> set (log w'). free_ok i j l floor ceiling c) \<and>
      ghost unlink_step [] w' = map vma_ptr vs) (free_pgtables A vs floor ceiling w)"
proof -
  have all: "replay (\<lambda>b c r. b \<and> free_ok i j l floor ceiling c) True h = (\<forall>(c, r) \<in> set h. free_ok i j l floor ceiling c)" for h
    by (induction h) auto
  have "frees_inside i j l floor ceiling [] w"
    using assms(3) by (simp add: frees_inside_def ghost_def del: ghost_log)
  from free_pgtables_from_inside [OF this assms(1,2), of "length vs"]
  show ?thesis
    unfolding free_pgtables_def
    by (rule tpost_mono) (simp_all add: frees_inside_def all [symmetric] ghost_def del: ghost_log)
qed

lemma no_wrap: "x < n \<Longrightarrow> y < n \<Longrightarrow> y \<le> (x + y) mod n \<Longrightarrow> x + y < (n :: nat)"
proof (rule ccontr)
  assume xy: "x < n" "y < n" "y \<le> (x + y) mod n" "\<not> x + y < n"
  then have "(x + y) mod n = x + y - n" by (simp add: le_mod_geq)
  with xy show False by linarith
qed

lemma std_addr_end_ok:
  assumes "k < 64"
  shows "addr_end_ok (std_addr_end k)"
  unfolding addr_end_ok_def
proof (intro allI impI)
  fix a e :: u64
  assume ae: "a < e"
  let ?b = "(a + 2 ^ k) AND NOT (mask k)"
  have "a < ?b \<and> ?b \<le> e" if b: "?b - 1 < e - 1"
  proof -
    have nz: "?b \<noteq> 0" using b by auto
    have "unat (a + 2 ^ k) = (unat a + 2 ^ k) mod 2 ^ 64" by (simp add: unat_word_ariths unat_exp [OF assms])
    moreover have "2 ^ k \<le> unat (a + 2 ^ k)"
      using unat_pow_mult_le [OF assms nz] round_down_le [of "a + 2 ^ k" k] by (simp add: word_le_nat_alt)
    moreover have "unat a < 2 ^ 64" using unsigned_less [of a, where 'a = nat] by simp
    moreover have "(2 :: nat) ^ k < 2 ^ 64" using assms by (intro power_strict_increasing) simp_all
    ultimately have "unat (a + 2 ^ k) = unat a + 2 ^ k"
      using no_wrap [of "unat a" "2 ^ 64" "2 ^ k"] by simp
    then have "a < ?b" using less_round_down [of "a + 2 ^ k" k] by (simp add: word_less_nat_alt)
    moreover have "?b \<le> e"
    proof -
      have "e \<noteq> 0" using ae by auto
      then show ?thesis using b nz unat_minus_one [of ?b] unat_minus_one [of e]
        by (simp add: word_less_nat_alt word_le_nat_alt unat_eq_0 [symmetric])
    qed
    ultimately show ?thesis ..
  qed
  then show "a < std_addr_end k a e \<and> std_addr_end k a e \<le> e"
    using ae by (auto simp: std_addr_end_def Let_def)
qed

lemma PAGE_ALIGNED_add: "PAGE_ALIGNED a \<Longrightarrow> PAGE_ALIGNED b \<Longrightarrow> PAGE_ALIGNED (a + b)"
proof -
  assume "PAGE_ALIGNED a" "PAGE_ALIGNED b"
  then have d: "4096 dvd unat a + unat b" by (auto simp: PAGE_ALIGNED_iff dest!: mod_0_imp_dvd)
  have u: "unat (a + b) = (unat a + unat b) mod 18446744073709551616" by (simp add: unat_word_ariths)
  have "unat (a + b) mod 4096 = (unat a + unat b) mod 4096"
    unfolding u by (rule mod_mod_cancel) simp
  with d show ?thesis by (simp add: PAGE_ALIGNED_iff dvd_imp_mod_0)
qed

lemma std_addr_end_aligned:
  assumes "12 \<le> k" "k < 64"
  shows "addr_end_aligned (std_addr_end k)"
proof -
  have "take_bit 12 (x AND NOT (mask k)) = (0 :: u64)" for x
    by (rule bit_word_eqI) (use assms(1) in \<open>auto simp: bit_simps\<close>)
  then show ?thesis
    using std_addr_end_ok [OF assms(2)]
    by (auto simp: addr_end_aligned_def std_addr_end_def PAGE_ALIGNED_def Let_def)
qed

lemma geom_arch0: "geom arch0 21 30 39"
  by (simp add: geom_def arch0_def std_addr_end_ok)

text \<open>Table boundaries are page boundaries at every level.\<close>

definition tables_aligned :: "arch \<Rightarrow> bool" where
  "tables_aligned A = (addr_end_aligned (pmd_addr_end A) \<and> addr_end_aligned (pud_addr_end A) \<and> addr_end_aligned (pgd_addr_end A))"

lemma tables_aligned_arch0: "tables_aligned arch0"
  by (simp add: tables_aligned_def) (simp add: arch0_def std_addr_end_aligned)

definition vma0 :: vma where
  "vma0 = \<lparr>vma_ptr = 70, vm_start = 0x400000, vm_end = 0x600000, vm_mm = 1, vm_flags = {VM_READ, VM_WRITE, VM_MAYWRITE},
     vm_pgoff = 0, vm_page_prot = 0, vm_file = 0, f_mapping = 0, anon_vma = 0, vm_ops = 0, has_fault = False, has_map_pages = False,
     has_page_mkwrite = False,
     has_pfn_mkwrite = False, has_pmd_fault = False, find_special_page = False, has_access = False\<rparr>"

theorem free_pgtables_inside_witness:
  "tpost (\<lambda>_ w'. (\<forall>(c, r) \<in> set (log w'). free_ok 21 30 39 0 0 c) \<and> ghost unlink_step [] w' = [70])
     (free_pgtables arch0 [vma0] 0 0 mmw0)"
  using free_pgtables_inside [OF geom_arch0, of 0 0 "[vma0]" mmw0]
  by (simp add: vma0_def mmw0_def)

end
