(* ===== verification/Zap.thy ===== *)
theory Zap
  imports PageTables
begin

text \<open>
  Unmapping user pages, \<open>memory.c\<close> lines 715 to 905, 1181 to 1524 and 2466 to 2543: the report of
  bad entries, the page behind an entry, and the walk from a range of areas down to the single
  entry, which hands its page to the gather.
\<close>

section \<open>Bad entries and the page behind an entry\<close>

text \<open>The static variables of \<open>print_bad_pte\<close> are fields of the world. What it prints is one report.\<close>

definition print_bad_pte :: "arch \<Rightarrow> vma \<Rightarrow> u64 \<Rightarrow> u64 \<Rightarrow> int \<Rightarrow> unit mact" where
  "print_bad_pte A v addr pte page w =
     bnd (kcall (Tb (Pgd_offset (vm_mm v) addr)) w) (\<lambda>pgd w.
     bnd (kcall (Tb (Pud_offset pgd addr)) w) (\<lambda>pud w.
     bnd (kcall (Tb (Pmd_offset pud addr)) w) (\<lambda>pmd w.
     bnd (if nr_shown w = 60
          then bnd (kcall (Vm Jiffies) w) (\<lambda>now w.
               if time_before A (word_of_int now) (resume w)
               then ret True (w\<lparr>nr_unshown := nr_unshown w + 1\<rparr>)
               else bnd (cond (nr_unshown w \<noteq> 0) (\<lambda>w.
                      bnd (kdo (Vm (Report_suppressed (nr_unshown w))) w) (\<lambda>_ w.
                      ret () (w\<lparr>nr_unshown := 0\<rparr>))) w) (\<lambda>_ w.
                    ret False (w\<lparr>nr_shown := 0\<rparr>)))
          else ret False w) (\<lambda>quiet w.
     if quiet then ret () w
     else
       let first = (nr_shown w = 0); w = w\<lparr>nr_shown := nr_shown w + 1\<rparr> in
       bnd (cond first (\<lambda>w. bnd (kcall (Vm Jiffies) w) (\<lambda>now w.
              ret () (w\<lparr>resume := word_of_int now + 60 * HZ A\<rparr>))) w) (\<lambda>_ w.
       bnd (kdo (Vm Print_bad_pte_report) w) (\<lambda>_ w.
       cond (page \<noteq> 0) (kdo (Vm (Dump_page page))) w))))))"

text \<open>The tail of \<open>vm_normal_page\<close> from \<open>check_pfn\<close>.\<close>

definition check_pfn :: "arch \<Rightarrow> vma \<Rightarrow> u64 \<Rightarrow> u64 \<Rightarrow> int mact" where
  "check_pfn A v addr pte w =
     (let pfn = pte_pfn A pte in
      if highest_memmap_pfn A < pfn
      then bnd (print_bad_pte A v addr pte 0 w) (\<lambda>_ w. ret 0 w)
      else kcall (Vm (Pfn_to_page pfn)) w)"

definition vm_normal_page :: "arch \<Rightarrow> vma \<Rightarrow> u64 \<Rightarrow> u64 \<Rightarrow> int mact" where
  "vm_normal_page A v addr pte w =
     (let pfn = pte_pfn A pte in
      if HAVE_PTE_SPECIAL A then
        if \<not> pte_special A pte then check_pfn A v addr pte w
        else if vm_ops v \<noteq> 0 \<and> find_special_page v then kcall (Vm (Find_special_page (vma_ptr v) addr)) w
        else if vm_flags v \<inter> {VM_PFNMAP, VM_MIXEDMAP} \<noteq> {} then ret 0 w
        else
          bnd (kask (Vm (Is_zero_pfn pfn)) w) (\<lambda>zero w.
          bnd (cond (\<not> zero) (print_bad_pte A v addr pte 0) w) (\<lambda>_ w. ret 0 w))
      else
        let rest = (\<lambda>w. bnd (kask (Vm (Is_zero_pfn pfn)) w) (\<lambda>zero w.
                        if zero then ret 0 w else check_pfn A v addr pte w)) in
        if vm_flags v \<inter> {VM_PFNMAP, VM_MIXEDMAP} \<noteq> {} then
          if VM_MIXEDMAP \<in> vm_flags v
          then bnd (kask (Vm (Pfn_valid pfn)) w) (\<lambda>valid w.
               if \<not> valid then ret 0 w else kcall (Vm (Pfn_to_page pfn)) w)
          else
            let off = drop_bit 12 (addr - vm_start v) in
            if pfn = vm_pgoff v + off then ret 0 w
            else if \<not> is_cow_mapping A (vm_flags v) then ret 0 w
            else rest w
        else rest w)"

definition vm_normal_page_pmd :: "arch \<Rightarrow> vma \<Rightarrow> u64 \<Rightarrow> u64 \<Rightarrow> int mact" where
  "vm_normal_page_pmd A v addr pmd w =
     (let pfn = pmd_pfn A pmd;
          rest = (\<lambda>w. bnd (kask (Vm (Is_zero_pfn pfn)) w) (\<lambda>zero w.
                      if zero then ret 0 w
                      else if highest_memmap_pfn A < pfn then ret 0 w
                      else kcall (Vm (Pfn_to_page pfn)) w)) in
      if vm_flags v \<inter> {VM_PFNMAP, VM_MIXEDMAP} \<noteq> {} then
        if VM_MIXEDMAP \<in> vm_flags v
        then bnd (kask (Vm (Pfn_valid pfn)) w) (\<lambda>valid w.
             if \<not> valid then ret 0 w else kcall (Vm (Pfn_to_page pfn)) w)
        else
          let off = drop_bit 12 (addr - vm_start v) in
          if pfn = vm_pgoff v + off then ret 0 w
          else if \<not> is_cow_mapping A (vm_flags v) then ret 0 w
          else rest w
      else rest w)"

section \<open>One entry\<close>

text \<open>
  \<open>details\<close> is \<open>None\<close> for a NULL pointer, otherwise the field \<open>check_mapping\<close>. An entry leaves behind
  whether the loop is broken off, the flag \<open>force_flush\<close> and the counts.
\<close>

definition tlb_remove_tlb_entry :: "arch \<Rightarrow> int \<Rightarrow> u64 \<Rightarrow> unit mact" where
  "tlb_remove_tlb_entry A pte addr w =
     bnd (kdo (Pe (Remove_tlb_entry pte addr)) w) (\<lambda>_ w.
     ret () (w\<lparr>tlb := (tlb w)\<lparr>tlb_range := tlb_adjust_range A (tlb_range (tlb w)) addr\<rparr>\<rparr>))"

type_synonym zap_state = "bool \<times> rss_vec"

definition dec :: "rss_vec \<Rightarrow> mm_member \<Rightarrow> rss_vec" where
  "dec rss i = rss(i := rss i - 1)"

definition zap_file_page :: "arch \<Rightarrow> vma \<Rightarrow> int \<Rightarrow> u64 \<Rightarrow> zap_state \<Rightarrow> zap_state mact" where
  "zap_file_page A v page ptent = (\<lambda>(force, rss) w.
     bnd (if pte_dirty A ptent
          then bnd (kdo (Pg (Set_page_dirty page)) w) (\<lambda>_ w. ret True w)
          else ret force w) (\<lambda>force w.
     bnd (cond (pte_young A ptent \<and> VM_SEQ_READ \<notin> vm_flags v) (kdo (Pg (Mark_page_accessed page))) w) (\<lambda>_ w.
     ret (force, dec rss MM_FILEPAGES) w)))"

text \<open>
  A mapped entry, in three steps: which page it maps and whether \<open>details\<close> spares it, clearing the
  entry and counting the page, and taking the page out of its reverse mapping into the gather.
\<close>

definition zap_rmap :: "arch \<Rightarrow> vma \<Rightarrow> u64 \<Rightarrow> int \<Rightarrow> u64 \<Rightarrow> zap_state \<Rightarrow> (bool \<times> zap_state) mact" where
  "zap_rmap A v addr page ptent = (\<lambda>(force, rss) w.
     bnd (kdo (Pg (Page_remove_rmap page)) w) (\<lambda>_ w.
     bnd (kcall (Pg (Page_mapcount page)) w) (\<lambda>mapcount w.
     bnd (cond (mapcount < 0) (print_bad_pte A v addr ptent page) w) (\<lambda>_ w.
     bnd (raw_tlb_remove_page A page w) (\<lambda>left w.
     ret (if left = 0 then (True, (True, rss)) else (False, (force, rss))) w)))))"

definition zap_clear :: "arch \<Rightarrow> vma \<Rightarrow> u64 \<Rightarrow> int \<Rightarrow> int \<Rightarrow> zap_state \<Rightarrow> (bool \<times> zap_state) mact" where
  "zap_clear A v addr pte page st w =
     bnd (kcall (Pe (Ptep_get_and_clear_full addr pte)) w) (\<lambda>p w.
     let ptent = word_of_int p in
     bnd (tlb_remove_tlb_entry A pte addr w) (\<lambda>_ w.
     if page = 0 then ret (False, st) w
     else
       bnd (kask (Pg (PageAnon page)) w) (\<lambda>anon w.
       bnd (if anon then ret (fst st, dec (snd st) MM_ANONPAGES) w
            else zap_file_page A v page ptent st w) (\<lambda>st w.
       zap_rmap A v addr page ptent st w))))"

definition zap_present :: "arch \<Rightarrow> vma \<Rightarrow> int option \<Rightarrow> u64 \<Rightarrow> int \<Rightarrow> u64 \<Rightarrow> zap_state \<Rightarrow> (bool \<times> zap_state) mact" where
  "zap_present A v details addr pte ptent st w =
     bnd (vm_normal_page A v addr ptent w) (\<lambda>page w.
     bnd (if details \<noteq> None \<and> page \<noteq> 0 \<and> the details \<noteq> 0
          then bnd (kcall (Pg (Page_mapping page)) w) (\<lambda>m w. ret (the details \<noteq> m) w)
          else ret False w) (\<lambda>skip w.
     if skip then ret (False, st) w else zap_clear A v addr pte page st w))"

definition zap_swap :: "arch \<Rightarrow> vma \<Rightarrow> u64 \<Rightarrow> int \<Rightarrow> u64 \<Rightarrow> zap_state \<Rightarrow> zap_state mact" where
  "zap_swap A v addr pte ptent = (\<lambda>(force, rss) w.
     let entry = pte_to_swp_entry A ptent in
     bnd (if \<not> non_swap_entry A entry then ret (dec rss MM_SWAPENTS) w
          else if is_migration_entry A entry
          then bnd (kask (Pg (PageAnon (migration_entry_to_page A entry))) w) (\<lambda>anon w.
               ret (dec rss (if anon then MM_ANONPAGES else MM_FILEPAGES)) w)
          else ret rss w) (\<lambda>rss w.
     bnd (kask (Sw (Free_swap_and_cache entry)) w) (\<lambda>freed w.
     bnd (cond (\<not> freed) (print_bad_pte A v addr ptent 0) w) (\<lambda>_ w.
     bnd (kdo (Pe (Pte_clear_not_present_full addr pte)) w) (\<lambda>_ w.
     ret (force, rss) w)))))"

definition zap_one :: "arch \<Rightarrow> vma \<Rightarrow> int option \<Rightarrow> u64 \<Rightarrow> int \<Rightarrow> zap_state \<Rightarrow> (bool \<times> zap_state) mact" where
  "zap_one A v details addr pte st w =
     bnd (read_pte pte w) (\<lambda>ptent w.
     if pte_none A ptent then ret (False, st) w
     else if pte_present A ptent then zap_present A v details addr pte ptent st w
     else if details \<noteq> None then ret (False, st) w
     else bnd (zap_swap A v addr pte ptent st w) (\<lambda>st w. ret (False, st) w))"

section \<open>The walk\<close>

text \<open>
  One pass of \<open>zap_pte_range\<close> under the page-table lock: from \<open>again\<close> to the end of the loop, and
  from there to the release of the lock and the freeing behind it. It returns whether to start
  again, and the address it has come to.
\<close>

definition zap_pte_finish :: "arch \<Rightarrow> int \<Rightarrow> u64 \<Rightarrow> u64 \<Rightarrow> zap_state \<Rightarrow> (bool \<times> u64) mact" where
  "zap_pte_finish A start_pte e addr = (\<lambda>(force, rss) w.
     bnd (add_mm_rss_vec (tlb_mm (tlb w)) rss w) (\<lambda>_ w.
     bnd (kdo (Lk Leave_lazy_mmu) w) (\<lambda>_ w.
     bnd (cond force (tlb_flush_mmu_tlbonly A) w) (\<lambda>_ w.
     bnd (kdo (Lk (Pte_unmap_unlock start_pte)) w) (\<lambda>_ w.
     bnd (cond force tlb_flush_mmu_free w) (\<lambda>_ w.
     ret (force \<and> addr \<noteq> e, addr) w))))))"

definition zap_pte_pass :: "arch \<Rightarrow> vma \<Rightarrow> int option \<Rightarrow> int \<Rightarrow> u64 \<Rightarrow> u64 \<Rightarrow> (bool \<times> u64) mact" where
  "zap_pte_pass A v details pmd e addr w =
     bnd (kcall (Lk (Pte_offset_map_lock pmd addr)) w) (\<lambda>start_pte w.
     bnd (kdo (Lk Enter_lazy_mmu) w) (\<lambda>_ w.
     bnd (do_while (range_fuel addr e) (\<lambda>(pte, addr, st) w.
            bnd (zap_one A v details addr pte st w) (\<lambda>(brk, st) w.
            let addr = addr + PAGE_SIZE in
            ret (\<not> brk \<and> addr \<noteq> e, (pte + 1, addr, st)) w))
          (start_pte, addr, (False, init_rss_vec)) w) (\<lambda>(pte, addr, st) w.
     zap_pte_finish A start_pte e addr st w)))"

definition zap_pte_range :: "arch \<Rightarrow> vma \<Rightarrow> int option \<Rightarrow> int \<Rightarrow> u64 \<Rightarrow> u64 \<Rightarrow> u64 mact" where
  "zap_pte_range A v details pmd addr e w =
     do_while (range_fuel addr e) (zap_pte_pass A v details pmd e) addr w"

definition zap_pmd_entry :: "arch \<Rightarrow> vma \<Rightarrow> int option \<Rightarrow> int \<Rightarrow> u64 \<Rightarrow> u64 \<Rightarrow> u64 mact" where
  "zap_pmd_entry A v details pmd addr next w =
     bnd (kask (Tb (Pmd_trans_huge pmd)) w) (\<lambda>huge w.
     bnd (if \<not> huge then ret False w
          else if next - addr \<noteq> HPAGE_PMD_SIZE A
          then bnd (kdo (Fr (Split_huge_page_pmd addr pmd)) w) (\<lambda>_ w. ret False w)
          else kask (Fr (Zap_huge_pmd pmd addr)) w) (\<lambda>zapped w.
     if zapped then ret next w
     else
       bnd (kask (Tb (Pmd_none_or_trans_huge_or_clear_bad pmd)) w) (\<lambda>none w.
       if none then ret next w
       else zap_pte_range A v details pmd addr next w)))"

definition zap_pmd_range :: "arch \<Rightarrow> vma \<Rightarrow> int option \<Rightarrow> int \<Rightarrow> u64 \<Rightarrow> u64 \<Rightarrow> u64 mact" where
  "zap_pmd_range A v details pud addr e w =
     bnd (kcall (Tb (Pmd_offset pud addr)) w) (\<lambda>pmd w.
     bnd (do_while (range_fuel addr e) (\<lambda>(pmd, addr) w.
            bnd (zap_pmd_entry A v details pmd addr (pmd_addr_end A addr e) w) (\<lambda>next w.
            bnd (kdo (Lk Cond_resched) w) (\<lambda>_ w.
            ret (next \<noteq> e, (pmd + 1, next)) w)))
          (pmd, addr) w) (\<lambda>(pmd, addr) w. ret addr w))"

definition zap_pud_range :: "arch \<Rightarrow> vma \<Rightarrow> int option \<Rightarrow> int \<Rightarrow> u64 \<Rightarrow> u64 \<Rightarrow> u64 mact" where
  "zap_pud_range A v details pgd addr e w =
     bnd (kcall (Tb (Pud_offset pgd addr)) w) (\<lambda>pud w.
     bnd (do_while (range_fuel addr e) (\<lambda>(pud, addr) w.
            let next = pud_addr_end A addr e in
            bnd (kask (Tb (Pud_none_or_clear_bad pud)) w) (\<lambda>none w.
            bnd (if none then ret next w else zap_pmd_range A v details pud addr next w) (\<lambda>next w.
            ret (next \<noteq> e, (pud + 1, next)) w)))
          (pud, addr) w) (\<lambda>(pud, addr) w. ret addr w))"

definition unmap_page_range :: "arch \<Rightarrow> vma \<Rightarrow> u64 \<Rightarrow> u64 \<Rightarrow> int option \<Rightarrow> unit mact" where
  "unmap_page_range A v addr e details w =
     (let details = (if details = Some 0 then None else details) in
      bnd (BUG_ON (e \<le> addr) w) (\<lambda>_ w.
      bnd (kdo (Tl (Tlb_start_vma (vma_ptr v))) w) (\<lambda>_ w.
      bnd (kcall (Tb (Pgd_offset (vm_mm v) addr)) w) (\<lambda>pgd w.
      bnd (do_while (range_fuel addr e) (\<lambda>(pgd, addr) w.
             let next = pgd_addr_end A addr e in
             bnd (kask (Tb (Pgd_none_or_clear_bad pgd)) w) (\<lambda>none w.
             bnd (if none then ret next w else zap_pud_range A v details pgd addr next w) (\<lambda>next w.
             ret (next \<noteq> e, (pgd + 1, next)) w)))
           (pgd, addr) w) (\<lambda>_ w.
      kdo (Tl (Tlb_end_vma (vma_ptr v))) w)))))"

definition unmap_single_vma :: "arch \<Rightarrow> vma \<Rightarrow> u64 \<Rightarrow> u64 \<Rightarrow> int option \<Rightarrow> unit mact" where
  "unmap_single_vma A v start_addr end_addr details w =
     (let start = max (vm_start v) start_addr in
      if vm_end v \<le> start then ret () w
      else
        let e = min (vm_end v) end_addr in
        if e \<le> vm_start v then ret () w
        else
          bnd (cond (vm_file v \<noteq> 0) (kdo (Vm (Uprobe_munmap (vma_ptr v) start e))) w) (\<lambda>_ w.
          bnd (cond (VM_PFNMAP \<in> vm_flags v) (kdo (Vm (Untrack_pfn (vma_ptr v) 0 0))) w) (\<lambda>_ w.
          if start = e then ret () w
          else if is_vm_hugetlb_page v
          then cond (vm_file v \<noteq> 0) (\<lambda>w.
                 bnd (kdo (Lk (I_mmap_lock_write (f_mapping v))) w) (\<lambda>_ w.
                 bnd (kdo (Vm (Unmap_hugepage_range start e)) w) (\<lambda>_ w.
                 kdo (Lk (I_mmap_unlock_write (f_mapping v))) w))) w
          else unmap_page_range A v start e details w)))"

text \<open>The loop \<open>for ( ; vma && vma->vm_start < end; vma = vma->vm_next)\<close>.\<close>

fun unmap_list :: "arch \<Rightarrow> vma list \<Rightarrow> u64 \<Rightarrow> u64 \<Rightarrow> int option \<Rightarrow> unit mact" where
  "unmap_list A [] s e details w = ret () w"
| "unmap_list A (v # vs) s e details w =
     (if vm_start v < e
      then bnd (unmap_single_vma A v s e details w) (\<lambda>_ w. unmap_list A vs s e details w)
      else ret () w)"

definition unmap_vmas :: "arch \<Rightarrow> vma list \<Rightarrow> u64 \<Rightarrow> u64 \<Rightarrow> unit mact" where
  "unmap_vmas A vs s e w =
     (let mm = vm_mm (hd vs) in
      bnd (kdo (Tl (Notifier_start mm s e)) w) (\<lambda>_ w.
      bnd (unmap_list A vs s e None w) (\<lambda>_ w.
      kdo (Tl (Notifier_end mm s e)) w)))"

definition zap_page_range :: "arch \<Rightarrow> vma list \<Rightarrow> u64 \<Rightarrow> u64 \<Rightarrow> int option \<Rightarrow> unit mact" where
  "zap_page_range A vs start sz details w =
     (let mm = vm_mm (hd vs); e = start + sz in
      bnd (kdo (Vm Lru_add_drain) w) (\<lambda>_ w.
      bnd (tlb_gather_mmu A mm start e w) (\<lambda>_ w.
      bnd (kdo (Tl (Update_hiwater_rss mm)) w) (\<lambda>_ w.
      bnd (kdo (Tl (Notifier_start mm start e)) w) (\<lambda>_ w.
      bnd (unmap_list A vs start e details w) (\<lambda>_ w.
      bnd (kdo (Tl (Notifier_end mm start e)) w) (\<lambda>_ w.
      tlb_finish_mmu A w)))))))"

definition zap_page_range_single :: "arch \<Rightarrow> vma \<Rightarrow> u64 \<Rightarrow> u64 \<Rightarrow> int option \<Rightarrow> unit mact" where
  "zap_page_range_single A v address sz details w =
     (let mm = vm_mm v; e = address + sz in
      bnd (kdo (Vm Lru_add_drain) w) (\<lambda>_ w.
      bnd (tlb_gather_mmu A mm address e w) (\<lambda>_ w.
      bnd (kdo (Tl (Update_hiwater_rss mm)) w) (\<lambda>_ w.
      bnd (kdo (Tl (Notifier_start mm address e)) w) (\<lambda>_ w.
      bnd (unmap_single_vma A v address e details w) (\<lambda>_ w.
      bnd (kdo (Tl (Notifier_end mm address e)) w) (\<lambda>_ w.
      tlb_finish_mmu A w)))))))"

definition zap_vma_ptes :: "arch \<Rightarrow> vma \<Rightarrow> u64 \<Rightarrow> u64 \<Rightarrow> int mact" where
  "zap_vma_ptes A v address sz w =
     (if address < vm_start v \<or> vm_end v < address + sz \<or> VM_PFNMAP \<notin> vm_flags v then ret (- 1) w
      else bnd (zap_page_range_single A v address sz None w) (\<lambda>_ w. ret 0 w))"

section \<open>Unmapping a range of a file\<close>

text \<open>
  \<open>zap_details\<close> with the page range. The areas that map the file in the range, which the interval
  tree of the mapping yields, are a list.
\<close>

record zap_details =
  check_mapping :: int
  first_index :: u64
  last_index :: u64

definition unmap_mapping_range_vma :: "arch \<Rightarrow> vma \<Rightarrow> u64 \<Rightarrow> u64 \<Rightarrow> zap_details \<Rightarrow> unit mact" where
  "unmap_mapping_range_vma A v start_addr end_addr d =
     zap_page_range_single A v start_addr (end_addr - start_addr) (Some (check_mapping d))"

text \<open>The range of addresses of one area; \<open>vma_pages\<close> is the size of the area in pages.\<close>

definition mapping_range :: "vma \<Rightarrow> zap_details \<Rightarrow> u64 \<times> u64" where
  "mapping_range v d =
     (let vba = vm_pgoff v;
          vea = vba + drop_bit 12 (vm_end v - vm_start v) - 1;
          zba = (if first_index d < vba then vba else first_index d);
          zea = (if vea < last_index d then vea else last_index d) in
      (push_bit 12 (zba - vba) + vm_start v, push_bit 12 (zea - vba + 1) + vm_start v))"

definition unmap_mapping_range_tree :: "arch \<Rightarrow> vma list \<Rightarrow> zap_details \<Rightarrow> unit mact" where
  "unmap_mapping_range_tree A vs d =
     each (\<lambda>v. unmap_mapping_range_vma A v (fst (mapping_range v d)) (snd (mapping_range v d)) d) vs"

text \<open>
  Offsets are signed 64-bit numbers, shifted arithmetically; the sum with \<open>PAGE_SIZE\<close> is unsigned, and so is
  its shift. On a 64-bit machine \<open>holelen\<close> and
  \<open>hlen\<close> have the same size, so the overflow check under \<open>sizeof\<close> is not there.
\<close>

definition hole_details :: "int \<Rightarrow> u64 \<Rightarrow> u64 \<Rightarrow> bool \<Rightarrow> zap_details" where
  "hole_details mapping holebegin holelen even_cows =
     (let hba = signed_drop_bit 12 holebegin; hlen = drop_bit 12 (holelen + PAGE_SIZE - 1);
          lst = hba + hlen - 1 in
      \<lparr>check_mapping = (if even_cows then 0 else mapping), first_index = hba,
       last_index = (if lst < hba then - 1 else lst)\<rparr>)"

definition unmap_mapping_range :: "arch \<Rightarrow> int \<Rightarrow> (zap_details \<Rightarrow> vma list) \<Rightarrow> u64 \<Rightarrow> u64 \<Rightarrow> bool \<Rightarrow> unit mact" where
  "unmap_mapping_range A mapping i_mmap holebegin holelen even_cows w =
     (let d = hole_details mapping holebegin holelen even_cows in
      bnd (kdo (Lk (I_mmap_lock_write mapping)) w) (\<lambda>_ w.
      bnd (cond (i_mmap d \<noteq> []) (unmap_mapping_range_tree A (i_mmap d) d) w) (\<lambda>_ w.
      kdo (Lk (I_mmap_unlock_write mapping)) w)))"

end
