(* ===== verification/ZapProps.thy ===== *)
theory ZapProps
  imports GatherProps TableProps Zap
begin

text \<open>
  What \<open>Zap\<close> guarantees. The protocol of unmapping is an automaton over the calls: which page-table
  lock is held, whether a dirty entry was removed and not flushed, which pages lost their entry and
  may still be cached by some TLB.
\<close>

section \<open>The protocol of unmapping\<close>

record zap_proto =
  zp_ok :: bool
  zp_held :: "int option"
  zp_dirty :: bool
  zp_stale :: "int list"

text \<open>
  The rules: one page-table lock at a time, released by the pointer it was taken with; no lock is
  held when the scheduler is called or pages are freed; a lock is not released before a removed
  dirty entry is flushed; pages are freed only after a flush that followed their removal.
\<close>

fun zap_step :: "zap_proto \<Rightarrow> kc \<Rightarrow> int \<Rightarrow> zap_proto" where
  "zap_step z (Lk (Pte_offset_map_lock pmd a)) r = z\<lparr>zp_ok := zp_ok z \<and> zp_held z = None, zp_held := Some r\<rparr>"
| "zap_step z (Lk (Pte_unmap_unlock p)) r = z\<lparr>zp_ok := zp_ok z \<and> zp_held z = Some p \<and> \<not> zp_dirty z, zp_held := None\<rparr>"
| "zap_step z (Lk Cond_resched) r = z\<lparr>zp_ok := zp_ok z \<and> zp_held z = None\<rparr>"
| "zap_step z (Pg (Set_page_dirty p)) r = z\<lparr>zp_dirty := True\<rparr>"
| "zap_step z (Pg (Page_remove_rmap p)) r = z\<lparr>zp_stale := p # zp_stale z\<rparr>"
| "zap_step z (Tl Tlb_flush) r = z\<lparr>zp_dirty := False, zp_stale := []\<rparr>"
| "zap_step z (Tl (Free_pages_and_swap_cache qs)) r = z\<lparr>zp_ok := zp_ok z \<and> zp_held z = None \<and> zp_stale z = []\<rparr>"
| "zap_step z c r = z"

definition proto0 :: zap_proto where
  "proto0 = \<lparr>zp_ok = True, zp_held = None, zp_dirty = False, zp_stale = []\<rparr>"

abbreviation proto :: "mmw \<Rightarrow> zap_proto" where
  "proto w \<equiv> ghost zap_step proto0 w"

fun unmap_step :: "int list \<Rightarrow> kc \<Rightarrow> int \<Rightarrow> int list" where
  "unmap_step ps (Pg (Page_remove_rmap p)) r = ps @ [p]"
| "unmap_step ps c r = ps"

abbreviation unmapped :: "mmw \<Rightarrow> int list" where
  "unmapped w \<equiv> ghost unmap_step [] w"

text \<open>Worlds that look the same to the protocol and to the gather.\<close>

definition same :: "mmw \<Rightarrow> mmw \<Rightarrow> bool" where
  "same w w' = (tlb w' = tlb w \<and> freed w' = freed w \<and> held_batches w' = held_batches w \<and>
     proto w' = proto w \<and> unmapped w' = unmapped w)"

lemma same_refl [simp]: "same w w"
  by (simp add: same_def)

lemma same_unmapped: "same w w' \<Longrightarrow> unmapped w' = unmapped w"
  by (simp add: same_def)

lemma same_trans: "same u v \<Longrightarrow> same v w \<Longrightarrow> same u w"
  by (simp add: same_def)

text \<open>Calls that neither the gather nor the protocol sees.\<close>

definition silent :: "kc \<Rightarrow> bool" where
  "silent c = (\<forall>r ps hs z us. freed_step ps c r = ps \<and> batch_step hs c r = hs \<and> zap_step z c r = z \<and> unmap_step us c r = us)"

lemma same_silent: "silent c \<Longrightarrow> same w (v\<lparr>log := h\<rparr>) \<Longrightarrow> same w (v\<lparr>log := (c, r) # h\<rparr>)"
  by (simp add: same_def silent_def)

lemma silent_simps [simp]:
  "silent (Tb t)" "silent (Pe e)" "silent (Vm v)" "silent (Sw s)" "silent (Pg (PageAnon p))" "silent (Fr f)"
  "silent (Pg (Page_mapcount p))" "silent (Pg (Page_mapping p))" "silent (Pg (Mark_page_accessed p))"
  "silent (Lk Enter_lazy_mmu)" "silent (Lk Leave_lazy_mmu)" "silent (Lk (I_mmap_lock_write m))"
  "silent (Lk (I_mmap_unlock_write m))" "silent (Tl (Tlb_start_vma a))" "silent (Tl (Tlb_end_vma a))"
  "silent (Tl (Notifier_start a b c))" "silent (Tl (Notifier_end a b c))" "silent (Tl (Update_hiwater_rss a))"
  by (simp_all add: silent_def)

lemma same_mmw [simp]:
  "same w (v\<lparr>nr_shown := x\<rparr>) = same w v" "same w (v\<lparr>nr_unshown := x\<rparr>) = same w v"
  "same w (v\<lparr>resume := x\<rparr>) = same w v" "same w (v\<lparr>rss_count := c\<rparr>) = same w v"
  "same w (v\<lparr>rss_events := e\<rparr>) = same w v" "same w (v\<lparr>log := log v\<rparr>) = same w v"
  by (simp_all add: same_def)

lemma print_bad_pte_same: "same w0 w \<Longrightarrow> tpost (\<lambda>_. same w0) (print_bad_pte A v addr pte page w)"
  unfolding print_bad_pte_def by (intro run_intros) (simp_all add: same_silent)

lemma check_pfn_same: "same w0 w \<Longrightarrow> tpost (\<lambda>_. same w0) (check_pfn A v addr pte w)"
  unfolding check_pfn_def
  by (intro run_intros tpost_bndI [OF print_bad_pte_same [of w0]]) (simp_all add: same_silent)

lemma vm_normal_page_same: "same w0 w \<Longrightarrow> tpost (\<lambda>_. same w0) (vm_normal_page A v addr pte w)"
  unfolding vm_normal_page_def
  by (intro run_intros check_pfn_same tpost_bndI [OF print_bad_pte_same [of w0]]) (simp_all add: same_silent)

lemma tpost_each:
  assumes "J w" "\<And>x w. J w \<Longrightarrow> tpost (\<lambda>_. J) (f x w)"
  shows "tpost (\<lambda>_. J) (each f xs w)"
  using assms(1)
proof (induction xs arbitrary: w)
  case (Cons x xs)
  then show ?case unfolding each.simps by (intro tpost_bndI [OF assms(2)]) auto
qed simp

lemma add_mm_rss_vec_same:
  assumes "same w0 w"
  shows "tpost (\<lambda>_. same w0) (add_mm_rss_vec mm rss w)"
proof -
  have member: "tpost (\<lambda>_. same w0) (sync_member mm i v)" if "same w0 v" for i v
    unfolding sync_member_def by (intro run_intros) (simp_all add: same_silent that)
  have sync: "tpost (\<lambda>_. same w0) (sync_mm_rss mm w)"
    unfolding sync_mm_rss_def
    by (rule tpost_bndI [OF tpost_each [where J = "same w0"]]) (simp_all add: member assms)
  have rest: "tpost (\<lambda>_. same w0) (each (\<lambda>i w. cond (rss i \<noteq> 0) (kdo (Vm (Add_mm_counter mm i (scast (rss i))))) w) members v)"
    if "same w0 v" for v
    using that by (intro tpost_each) (auto intro!: run_intros simp: same_silent)
  show ?thesis
    unfolding add_mm_rss_vec_def
    by (intro run_intros tpost_bndI [OF sync]) (simp_all add: rest assms)
qed

lemma zap_swap_same:
  assumes "same w0 w"
  shows "tpost (\<lambda>st'. same w0) (zap_swap A v addr pte ptent st w)"
proof (cases st)
  case (Pair force rss)
  show ?thesis
    unfolding zap_swap_def Pair prod.case
    by (intro run_intros tpost_bndI [OF print_bad_pte_same [of w0]]) (simp_all add: same_silent assms)
qed

text \<open>A part of the invariant: the protocol was kept, and what is not flushed can be flushed.\<close>

definition zbase :: "int option \<Rightarrow> bool \<Rightarrow> mmw \<Rightarrow> bool" where
  "zbase held force w = (zp_ok (proto w) \<and> zp_held (proto w) = held \<and> (zp_dirty (proto w) \<longrightarrow> force) \<and>
     (zp_dirty (proto w) \<or> zp_stale (proto w) \<noteq> [] \<longrightarrow> snd (tlb_range (tlb w)) \<noteq> 0))"

definition zlocked :: "int \<Rightarrow> int multiset \<Rightarrow> bool \<Rightarrow> bool \<Rightarrow> mmw \<Rightarrow> bool" where
  "zlocked p H brk force w = (zbase (Some p) force w \<and>
     (if brk then force \<and> gather_full (unmapped w) H w else gather_inv (unmapped w) H w))"

lemma zlocked_same: "same w w' \<Longrightarrow> zlocked p H brk force w \<Longrightarrow> zlocked p H brk force w'"
  by (auto simp: zlocked_def zbase_def same_def gather_full_def gather_inv_def split: if_splits)

lemma zbase_force: "zbase h f w \<Longrightarrow> (f \<longrightarrow> g) \<Longrightarrow> zbase h g w"
  by (auto simp: zbase_def)

text \<open>What \<open>raw_tlb_remove_page\<close> leaves alone: it only asks for a page.\<close>

lemma remove_page_frame:
  assumes "\<And>s r. st s (Tl Get_free_pages) r = s"
  shows "post (\<lambda>_ w'. ghost st s0 w' = ghost st s0 w \<and> tlb_range (tlb w') = tlb_range (tlb w)) (raw_tlb_remove_page A page w)"
  using assms
  by (auto simp: raw_tlb_remove_page_def tlb_next_batch_def post_bnd BUG_ON_def Let_def set_batch_def)

lemma remove_page_zap:
  assumes "gather_arch A" "gather_inv dn H w" "snd (tlb_range (tlb w)) \<noteq> 0" "unmapped w = dn @ [page]"
    "zbase (Some p) force w"
  shows "tpost (\<lambda>left. zlocked p H (left = 0) (left = 0 \<or> force)) (raw_tlb_remove_page A page w)"
proof -
  have fr: "post (\<lambda>_ w'. unmapped w' = unmapped w \<and> proto w' = proto w \<and> tlb_range (tlb w') = tlb_range (tlb w))
      (raw_tlb_remove_page A page w)"
    using remove_page_frame [of unmap_step "[]" w A page] remove_page_frame [of zap_step proto0 w A page]
    by (auto simp: post_def split: sum.splits)
  have "rets (\<lambda>left w'. if left = 0 then gather_full (dn @ [page]) H w' else gather_inv (dn @ [page]) H w')
      (raw_tlb_remove_page A page w)"
    by (rule remove_page_raw_rets [OF assms(1-3)])
  with fr assms show ?thesis
    by (auto simp: rets_iff zlocked_def zbase_def split: if_splits)
qed

text \<open>Between the clearing of an entry and the gather: the range to flush is not empty.\<close>

definition zcleared :: "int \<Rightarrow> int multiset \<Rightarrow> int list \<Rightarrow> bool \<Rightarrow> mmw \<Rightarrow> bool" where
  "zcleared p H us force w = (zbase (Some p) force w \<and> gather_inv us H w \<and> snd (tlb_range (tlb w)) \<noteq> 0)"

lemma zcleared_same: "same w w' \<Longrightarrow> zcleared p H us force w \<Longrightarrow> zcleared p H us force w'"
  by (simp add: zcleared_def zbase_def same_def gather_inv_def)

lemma zap_rmap_zap:
  assumes A: "gather_arch A" and z: "zcleared p H (unmapped w) (fst st) w"
  shows "tpost (\<lambda>(brk, st'). zlocked p H brk (fst st')) (zap_rmap A v addr page ptent st w)"
proof -
  obtain force rss where st: "st = (force, rss)" by fastforce
  let ?K = "\<lambda>y. zcleared p H (unmapped w) force y \<and> unmapped y = unmapped w @ [page]"
  have bad: "tpost (\<lambda>_. ?K) (print_bad_pte A v addr ptent page y)" if "?K y" for y
    by (rule tpost_mono [OF print_bad_pte_same [OF same_refl]])
       (use that in \<open>auto intro: zcleared_same simp: same_unmapped\<close>)
  have rem: "tpost (\<lambda>(brk, st'). zlocked p H brk (fst st'))
      (bnd (raw_tlb_remove_page A page y) (\<lambda>left w. ret (if left = 0 then (True, (True, rss)) else (False, (force, rss))) w))"
    if "?K y" for y
    by (rule tpost_bndI [OF remove_page_zap [OF A, of "unmapped w" H y]])
       (use that in \<open>auto simp: zcleared_def\<close>)
  show ?thesis
    unfolding zap_rmap_def st prod.case
    by (intro run_intros tpost_bndI [OF bad] rem)
       (use z in \<open>auto simp: zcleared_def zbase_def gather_inv_def st\<close>)
qed

lemma zap_file_page_zap:
  assumes "zcleared p H (unmapped w) (fst st) w"
  shows "tpost (\<lambda>st' w'. zcleared p H (unmapped w') (fst st') w') (zap_file_page A v page ptent st w)"
proof -
  obtain force rss where st: "st = (force, rss)" by fastforce
  show ?thesis
    unfolding zap_file_page_def st prod.case
    by (intro run_intros) (use assms in \<open>auto simp: zcleared_def zbase_def gather_inv_def st\<close>)
qed

lemma zap_clear_zap:
  assumes A: "gather_arch A" and z: "zlocked p H False (fst st) w"
  shows "tpost (\<lambda>(brk, st'). zlocked p H brk (fst st')) (zap_clear A v addr pte page st w)"
proof -
  have rng: "snd (tlb_adjust_range A x addr) \<noteq> 0" for x
    using A by (cases x) (simp add: gather_arch_def)
  have go: "tpost (\<lambda>(brk, st'). zlocked p H brk (fst st')) (zap_rmap A v addr page q (fst st, r) y)"
    if "zcleared p H (unmapped y) (fst st) y" for y q r
    by (rule zap_rmap_zap [OF A]) (simp add: that)
  show ?thesis
    unfolding zap_clear_def tlb_remove_tlb_entry_def
    by (intro run_intros go tpost_bndI [OF zap_file_page_zap] zap_rmap_zap [OF A])
       (use z rng in \<open>auto simp: zlocked_def zcleared_def zbase_def gather_inv_def gather_ok_def\<close>)
qed

lemma zap_present_zap:
  assumes A: "gather_arch A" and z: "zlocked p H False (fst st) w"
  shows "tpost (\<lambda>(brk, st'). zlocked p H brk (fst st')) (zap_present A v details addr pte ptent st w)"
proof -
  have J: "zlocked p H False (fst st) (x\<lparr>log := (c, r) # log x\<rparr>)" if "zlocked p H False (fst st) x" "silent c" for x c r
    by (rule zlocked_same [OF _ that(1)]) (simp add: same_silent that(2))
  have page: "tpost (\<lambda>_. zlocked p H False (fst st)) (vm_normal_page A v addr ptent w)"
    by (rule tpost_mono [OF vm_normal_page_same [OF same_refl]]) (use z in \<open>auto intro: zlocked_same\<close>)
  show ?thesis
    unfolding zap_present_def
    by (intro run_intros tpost_bndI [OF page] zap_clear_zap [OF A]) (simp_all add: J)
qed

lemma zap_one_zap:
  assumes A: "gather_arch A" and z: "zlocked p H False (fst st) w"
  shows "tpost (\<lambda>(brk, st'). zlocked p H brk (fst st')) (zap_one A v details addr pte st w)"
proof -
  have J: "zlocked p H False (fst st) (x\<lparr>log := (c, r) # log x\<rparr>)" if "zlocked p H False (fst st) x" "silent c" for x c r
    by (rule zlocked_same [OF _ that(1)]) (simp add: same_silent that(2))
  have swap: "tpost (\<lambda>st'. zlocked p H False (fst st')) (zap_swap A v addr pte q st x)"
    if "zlocked p H False (fst st) x" for x q
  proof -
    obtain force rss where st: "st = (force, rss)" by fastforce
    have f: "tpost (\<lambda>st' _. fst st' = fst st) (zap_swap A v addr pte q st x)"
      unfolding zap_swap_def st prod.case by (intro run_intros tpost_bndI [OF print_bad_pte_same [OF same_refl]]) simp_all
    have s: "tpost (\<lambda>_. same x) (zap_swap A v addr pte q st x)" by (rule zap_swap_same) simp
    show ?thesis
      by (rule tpost_mono [OF tpost_conj [OF f s]]) (use that in \<open>auto intro: zlocked_same\<close>)
  qed
  show ?thesis
    unfolding zap_one_def
    by (intro run_intros zap_present_zap [OF A] tpost_bndI [OF swap]) (simp_all add: J z)
qed

section \<open>A pass under the lock\<close>

text \<open>Outside the lock: everything removed is freed or waits in a gather with room.\<close>

definition zfree :: "int multiset \<Rightarrow> mmw \<Rightarrow> bool" where
  "zfree H w = (zbase None False w \<and> gather_inv (unmapped w) H w)"

lemma zfree_same: "same w w' \<Longrightarrow> zfree H w \<Longrightarrow> zfree H w'"
  by (simp add: zfree_def zbase_def same_def gather_inv_def)

lemma zfree_silent [simp]:
  "silent c \<Longrightarrow> zfree H (w\<lparr>log := (c, r) # h\<rparr>) = zfree H (w\<lparr>log := h\<rparr>)"
  "zfree H (w\<lparr>log := log w\<rparr>) = zfree H w"
  by (simp_all add: zfree_def zbase_def gather_inv_def silent_def)

lemma flush_locked:
  assumes "zlocked p H brk force w"
  shows "tpost (\<lambda>_ w'. zlocked p H brk force w' \<and> \<not> zp_dirty (proto w') \<and> (force \<longrightarrow> zp_stale (proto w') = []))
    (cond force (tlb_flush_mmu_tlbonly A) w)"
proof (cases force)
  case True
  have g: "gather_full (unmapped w) H w" using assms by (auto simp: zlocked_def gather_inv_full split: if_splits)
  have "tpost (\<lambda>_ w'. (brk \<longrightarrow> gather_full (unmapped w) H w') \<and> (\<not> brk \<longrightarrow> gather_inv (unmapped w) H w') \<and>
      unmapped w' = unmapped w \<and> zbase (Some p) force w' \<and> \<not> zp_dirty (proto w') \<and> zp_stale (proto w') = [])
      (tlb_flush_mmu_tlbonly A w)"
    using assms g
    by (auto simp: tlb_flush_mmu_tlbonly_def tlb_table_flush_def tpost_bnd kdo_def Let_def zlocked_def zbase_def
        gather_full_def gather_inv_def gather_ok_def split: if_splits)
  then show ?thesis
    using True by (simp add: cond_def) (erule tpost_mono, auto simp: zlocked_def)
next
  case False
  then show ?thesis using assms by (auto simp: cond_def zlocked_def zbase_def)
qed

lemma free_batches_quiet:
  assumes "zp_held (proto w) = None" "zp_stale (proto w) = []"
  shows "post (\<lambda>_ w'. proto w' = proto w \<and> unmapped w' = unmapped w \<and> tlb_range (tlb w') = tlb_range (tlb w)) (free_batches n i w)"
  using assms
proof (induction n arbitrary: i w)
  case (Suc n)
  let ?b = "batch_at (tlb w) i"
  let ?c = "Tl (Free_pages_and_swap_cache (map (pages ?b) [0..<nr ?b]))"
  let ?w = "w\<lparr>log := (?c, ans w (log w) ?c) # log w, tlb := set_batch i (?b\<lparr>nr := 0\<rparr>) (tlb w)\<rparr>"
  have eq: "proto ?w = proto w" using Suc.prems by simp
  have "post (\<lambda>_ w'. proto w' = proto ?w \<and> unmapped w' = unmapped ?w \<and> tlb_range (tlb w') = tlb_range (tlb ?w))
      (free_batches n (Suc i) ?w)"
    by (rule Suc.IH) (use Suc.prems eq in simp_all)
  then show ?case
    using eq by (simp add: Let_def post_bnd kdo_def set_batch_def)
qed simp

lemma flush_unlocked:
  assumes "gather_full (unmapped w) H w" "zbase None False w" "zp_stale (proto w) = []"
  shows "tpost (\<lambda>_ w'. zfree H w' \<and> freed w' = unmapped w') (tlb_flush_mmu_free w)"
proof -
  have q: "post (\<lambda>_ w'. proto w' = proto w \<and> unmapped w' = unmapped w \<and> tlb_range (tlb w') = tlb_range (tlb w)) (tlb_flush_mmu_free w)"
    using assms free_batches_quiet [of w "length (chain (tlb w))" 0]
    by (auto simp: tlb_flush_mmu_free_def post_bnd zbase_def elim!: post_mono)
  show ?thesis
    using flush_free_rets [OF assms(1)] q assms
    by (auto simp: rets_iff zfree_def zbase_def)
qed

lemma zap_pte_finish_zap:
  assumes x: "zlocked p H brk (fst st) w" "a < b" "b \<le> e" "PAGE_ALIGNED b" "\<not> brk \<longrightarrow> b = e"
  shows "tpost (\<lambda>(again, b) w'. zfree H w' \<and> a < b \<and> b \<le> e \<and> PAGE_ALIGNED b \<and> again = (b \<noteq> e))
     (zap_pte_finish A p e b st w)"
proof -
  obtain force rss where st: "st = (force, rss)" by fastforce
  note x1 = x(1) [unfolded st fst_conv]
  have rss: "tpost (\<lambda>_. zlocked p H brk force) (add_mm_rss_vec mm rss w)" for mm
    by (rule tpost_mono [OF add_mm_rss_vec_same [OF same_refl]]) (use x1 in \<open>auto intro: zlocked_same\<close>)
  show ?thesis
    unfolding zap_pte_finish_def st prod.case
  proof (rule tpost_bndI [OF rss], rule run_intros)
    fix u y r
    assume "zlocked p H brk force y"
    then have y: "zlocked p H brk force (y\<lparr>log := (Lk Leave_lazy_mmu, r) # log y\<rparr>)"
      by (rule zlocked_same [rotated]) (simp add: same_silent)
    show "tpost (\<lambda>(again, b) w'. zfree H w' \<and> a < b \<and> b \<le> e \<and> PAGE_ALIGNED b \<and> again = (b \<noteq> e))
      (bnd (cond force (tlb_flush_mmu_tlbonly A) (y\<lparr>log := (Lk Leave_lazy_mmu, r) # log y\<rparr>)) (\<lambda>_ w.
     bnd (kdo (Lk (Pte_unmap_unlock p)) w) (\<lambda>_ w.
     bnd (cond force tlb_flush_mmu_free w) (\<lambda>_ w.
     ret (force \<and> b \<noteq> e, b) w))))"
    proof (rule tpost_bndI [OF flush_locked [OF y]], rule run_intros)
      fix z r'
      assume z: "zlocked p H brk force z \<and> \<not> zp_dirty (proto z) \<and> (force \<longrightarrow> zp_stale (proto z) = [])"
      let ?z = "z\<lparr>log := (Lk (Pte_unmap_unlock p), r') # log z\<rparr>"
      have base: "zbase None False ?z" using z by (auto simp: zlocked_def zbase_def)
      have full: "gather_full (unmapped ?z) H ?z"
        using z by (auto simp: zlocked_def gather_full_def split: if_splits dest!: gather_inv_full)
      have keep: "\<not> force \<Longrightarrow> zfree H ?z"
        using z base by (auto simp: zlocked_def zfree_def gather_inv_def split: if_splits)
      have nb: "\<not> force \<Longrightarrow> b = e" using z x(5) by (auto simp: zlocked_def split: if_splits)
      show "tpost (\<lambda>(again, b) w'. zfree H w' \<and> a < b \<and> b \<le> e \<and> PAGE_ALIGNED b \<and> again = (b \<noteq> e))
        (bnd (cond force tlb_flush_mmu_free ?z) (\<lambda>_ w. ret (force \<and> b \<noteq> e, b) w))"
      proof (cases force)
        case True
        then have "zp_stale (proto ?z) = []" using z by simp
        from flush_unlocked [OF full base this] True x(2-4) show ?thesis
          by (simp add: cond_def) (erule tpost_bndI, simp)
      next
        case False
        then show ?thesis using keep nb x(2-4) by (simp add: cond_def)
      qed
    qed
  qed
qed

lemma zfree_locked:
  "zfree H w \<Longrightarrow> zlocked p H False False (w\<lparr>log := (Lk Enter_lazy_mmu, r) # (Lk (Pte_offset_map_lock pmd a), p) # log w\<rparr>)"
  by (simp add: zfree_def zlocked_def zbase_def gather_inv_def)

lemma zap_pte_pass_zap:
  assumes A: "gather_arch A" and z: "zfree H w" and a: "a < e" "PAGE_ALIGNED a" "PAGE_ALIGNED e"
  shows "tpost (\<lambda>(again, b) w'. zfree H w' \<and> a < b \<and> b \<le> e \<and> PAGE_ALIGNED b \<and> again = (b \<noteq> e))
     (zap_pte_pass A v details pmd e a w)"
proof -
  let ?Q = "\<lambda>p (q :: int, b, st) x. \<exists>brk. zlocked p H brk (fst st) x \<and> a < b \<and> b \<le> e \<and> PAGE_ALIGNED b \<and> (\<not> brk \<longrightarrow> b = e)"
  have loop: "tpost (?Q p) (do_while (range_fuel a e) (\<lambda>(pte, addr, st) w.
            bnd (zap_one A v details addr pte st w) (\<lambda>(brk, st) w.
            let addr = addr + PAGE_SIZE in
            ret (\<not> brk \<and> addr \<noteq> e, (pte + 1, addr, st)) w))
          (p, a, (False, init_rss_vec)) x)" if "zlocked p H False False x" for p x
  proof (rule tpost_do_while [where I = "\<lambda>(q, b, st) x. zlocked p H False (fst st) x \<and> a \<le> b \<and> b < e \<and> PAGE_ALIGNED b"
        and m = "\<lambda>(q, b, st) x. unat (e - b)"])
    fix t :: "int \<times> u64 \<times> zap_state" and y
    assume "(case t of (q, b, st) \<Rightarrow> \<lambda>x. zlocked p H False (fst st) x \<and> a \<le> b \<and> b < e \<and> PAGE_ALIGNED b) y"
    then obtain q b st where t: "t = (q, b, st)" and y: "zlocked p H False (fst st) y" and b: "a \<le> b" "b < e" "PAGE_ALIGNED b"
      by (cases t) auto
    note step = page_step [OF b(3) a(3) b(2)]
    have ab: "a < b + PAGE_SIZE" using b(1) step(1) by (rule le_less_trans)
    show "tpost (\<lambda>(again, s') w'. if again
        then (case s' of (q, b, st) \<Rightarrow> \<lambda>x. zlocked p H False (fst st) x \<and> a \<le> b \<and> b < e \<and> PAGE_ALIGNED b) w' \<and>
             (case s' of (q, b, st) \<Rightarrow> \<lambda>x. unat (e - b)) w' < (case t of (q, b, st) \<Rightarrow> \<lambda>x. unat (e - b)) y
        else ?Q p s' w')
      ((case t of (pte, addr, st) \<Rightarrow> \<lambda>w.
            bnd (zap_one A v details addr pte st w) (\<lambda>(brk, st) w.
            let addr = addr + PAGE_SIZE in
            ret (\<not> brk \<and> addr \<noteq> e, (pte + 1, addr, st)) w)) y)"
      unfolding t prod.case
      by (rule tpost_bndI [OF zap_one_zap [OF A y]]) (use b step ab in \<open>auto simp: Let_def range_fuel_less split: prod.splits\<close>)
  qed (use that a in \<open>auto simp: range_fuel_def\<close>)
  show ?thesis
    unfolding zap_pte_pass_def
    by (intro run_intros tpost_bndI [OF loop])
       (use zfree_locked [OF z] in \<open>auto intro: zap_pte_finish_zap\<close>)
qed

section \<open>The walk\<close>

definition walk_arch :: "arch \<Rightarrow> bool" where
  "walk_arch A = (gather_arch A \<and> addr_end_aligned (pmd_addr_end A) \<and> addr_end_aligned (pud_addr_end A) \<and>
     addr_end_aligned (pgd_addr_end A))"

lemma addr_end_alignedD:
  "addr_end_aligned nxt \<Longrightarrow> a < e \<Longrightarrow> PAGE_ALIGNED a \<Longrightarrow> PAGE_ALIGNED e \<Longrightarrow>
     a < nxt a e \<and> nxt a e \<le> e \<and> PAGE_ALIGNED (nxt a e)"
  by (auto simp: addr_end_aligned_def addr_end_ok_def)

lemma zap_pte_range_zap:
  assumes A: "gather_arch A" and z: "zfree H w" and a: "a < e" "PAGE_ALIGNED a" "PAGE_ALIGNED e"
  shows "tpost (\<lambda>b w'. zfree H w' \<and> b = e) (zap_pte_range A v details pmd a e w)"
  unfolding zap_pte_range_def
proof (rule tpost_do_while [where I = "\<lambda>b x. zfree H x \<and> b < e \<and> PAGE_ALIGNED b" and m = "\<lambda>b x. unat (e - b)"])
  fix b x
  assume b: "zfree H x \<and> b < e \<and> PAGE_ALIGNED b"
  show "tpost (\<lambda>(again, c) w'. if again then (zfree H w' \<and> c < e \<and> PAGE_ALIGNED c) \<and> unat (e - c) < unat (e - b)
      else zfree H w' \<and> c = e) (zap_pte_pass A v details pmd e b x)"
    by (rule tpost_mono [OF zap_pte_pass_zap [OF A]]) (use b a(3) in \<open>auto simp: range_fuel_less\<close>)
qed (use z a in \<open>auto simp: range_fuel_def\<close>)

lemma zap_pmd_entry_zap:
  assumes A: "gather_arch A" and z: "zfree H w" and a: "a < n" "PAGE_ALIGNED a" "PAGE_ALIGNED n"
  shows "tpost (\<lambda>b w'. zfree H w' \<and> b = n) (zap_pmd_entry A v details pmd a n w)"
  unfolding zap_pmd_entry_def
  by (intro run_intros zap_pte_range_zap [OF A _ a]) (simp_all add: z)

lemma zap_pmd_range_zap:
  assumes A: "walk_arch A" and z: "zfree H w" and a: "a < e" "PAGE_ALIGNED a" "PAGE_ALIGNED e"
  shows "tpost (\<lambda>b w'. zfree H w' \<and> b = e) (zap_pmd_range A v details pud a e w)"
proof -
  have G: "gather_arch A" and N: "addr_end_aligned (pmd_addr_end A)" using A by (auto simp: walk_arch_def)
  have resched: "zfree H (x\<lparr>log := (Lk Cond_resched, r) # log x\<rparr>)" if "zfree H x" for x r
    using that by (simp add: zfree_def zbase_def gather_inv_def)
  have loop: "tpost (\<lambda>(q, b) x. zfree H x \<and> b = e) (do_while (range_fuel a e) (\<lambda>(pmd, addr) w.
            bnd (zap_pmd_entry A v details pmd addr (pmd_addr_end A addr e) w) (\<lambda>next w.
            bnd (kdo (Lk Cond_resched) w) (\<lambda>_ w.
            ret (next \<noteq> e, (pmd + 1, next)) w))) (p, a) x)" if "zfree H x" for p :: int and x
  proof (rule tpost_range_loop [where al = PAGE_ALIGNED and nxt = "\<lambda>b. pmd_addr_end A b e" and J = "zfree H", OF that a(1,2)])
    show "b < pmd_addr_end A b e \<and> pmd_addr_end A b e \<le> e \<and> PAGE_ALIGNED (pmd_addr_end A b e)"
      if "b < e" "PAGE_ALIGNED b" for b
      by (rule addr_end_alignedD [OF N that a(3)])
    fix q :: int and b y
    assume y: "zfree H y" "b < e" "PAGE_ALIGNED b"
    then have n: "b < pmd_addr_end A b e" "PAGE_ALIGNED (pmd_addr_end A b e)" using addr_end_alignedD [OF N] a(3) by auto
    show "tpost (\<lambda>(again, q', c) v'. zfree H v' \<and> c = pmd_addr_end A b e \<and> again = (c \<noteq> e))
       ((case (q, b) of (pmd, addr) \<Rightarrow> \<lambda>w.
            bnd (zap_pmd_entry A v details pmd addr (pmd_addr_end A addr e) w) (\<lambda>next w.
            bnd (kdo (Lk Cond_resched) w) (\<lambda>_ w.
            ret (next \<noteq> e, (pmd + 1, next)) w))) y)"
      unfolding prod.case
      by (rule tpost_bndI [OF zap_pmd_entry_zap [OF G y(1) n(1) y(3) n(2)]], intro run_intros) (auto simp: resched)
  qed
  show ?thesis
    unfolding zap_pmd_range_def
    by (intro run_intros tpost_bndI [OF loop]) (auto simp: z)
qed

text \<open>The two upper levels share their loop.\<close>

lemma zap_level:
  assumes F: "\<And>p b n x. zfree H x \<Longrightarrow> b < n \<Longrightarrow> PAGE_ALIGNED b \<Longrightarrow> PAGE_ALIGNED n \<Longrightarrow>
      tpost (\<lambda>c x'. zfree H x' \<and> c = n) (F p b n x)"
    and N: "addr_end_aligned nxt" and C: "\<And>p. silent (C p)"
    and z: "zfree H w" and a: "a < e" "PAGE_ALIGNED a" "PAGE_ALIGNED e"
  shows "tpost (\<lambda>(q, b) x. zfree H x \<and> b = e) (do_while (range_fuel a e) (\<lambda>(p, addr) w.
            let next = nxt addr e in
            bnd (kask (C p) w) (\<lambda>none w.
            bnd (if none then ret next w else F p addr next w) (\<lambda>next w.
            ret (next \<noteq> e, (p + 1, next)) w))) (p0 :: int, a) w)"
proof (rule tpost_range_loop [where al = PAGE_ALIGNED and nxt = "\<lambda>b. nxt b e" and J = "zfree H", OF z a(1,2)])
  show "b < nxt b e \<and> nxt b e \<le> e \<and> PAGE_ALIGNED (nxt b e)" if "b < e" "PAGE_ALIGNED b" for b
    by (rule addr_end_alignedD [OF N that a(3)])
  fix q :: int and b y
  assume y: "zfree H y" "b < e" "PAGE_ALIGNED b"
  then have n: "b < nxt b e" "PAGE_ALIGNED (nxt b e)" using addr_end_alignedD [OF N] a(3) by auto
  have f: "tpost (\<lambda>c x'. zfree H x' \<and> c = nxt b e) (F q b (nxt b e) x)" if "zfree H x" for x
    by (rule F [OF that n(1) y(3) n(2)])
  show "tpost (\<lambda>(again, q', c) v'. zfree H v' \<and> c = nxt b e \<and> again = (c \<noteq> e))
       ((case (q, b) of (p, addr) \<Rightarrow> \<lambda>w.
            let next = nxt addr e in
            bnd (kask (C p) w) (\<lambda>none w.
            bnd (if none then ret next w else F p addr next w) (\<lambda>next w.
            ret (next \<noteq> e, (p + 1, next)) w))) y)"
    unfolding prod.case
    by (intro run_intros tpost_bndI [OF f]) (auto simp: C y)
qed

lemma zap_pud_range_zap:
  assumes A: "walk_arch A" and z: "zfree H w" and a: "a < e" "PAGE_ALIGNED a" "PAGE_ALIGNED e"
  shows "tpost (\<lambda>b w'. zfree H w' \<and> b = e) (zap_pud_range A v details pgd a e w)"
proof -
  have N: "addr_end_aligned (pud_addr_end A)" using A by (simp add: walk_arch_def)
  show ?thesis
    unfolding zap_pud_range_def
    by (intro run_intros tpost_bndI [OF zap_level [where H = H, OF zap_pmd_range_zap [OF A] N _ _ a]]) (auto simp: z)
qed

lemma unmap_page_range_zap:
  assumes A: "walk_arch A" and z: "zfree H w" and a: "PAGE_ALIGNED a" "PAGE_ALIGNED e"
  shows "tpost (\<lambda>_. zfree H) (unmap_page_range A v a e details w)"
proof -
  have N: "addr_end_aligned (pgd_addr_end A)" using A by (simp add: walk_arch_def)
  show ?thesis
    unfolding unmap_page_range_def
    by (intro run_intros tpost_bndI [OF zap_level [where H = H, OF zap_pud_range_zap [OF A] N _ _ _ a]]) (auto simp: z not_le)
qed

definition vma_aligned :: "vma \<Rightarrow> bool" where
  "vma_aligned v = (PAGE_ALIGNED (vm_start v) \<and> PAGE_ALIGNED (vm_end v))"

lemma unmap_single_vma_zap:
  assumes A: "walk_arch A" and z: "zfree H w" and a: "PAGE_ALIGNED a" "PAGE_ALIGNED e" "vma_aligned v"
  shows "tpost (\<lambda>_. zfree H) (unmap_single_vma A v a e details w)"
proof -
  have al: "PAGE_ALIGNED (max (vm_start v) a)" "PAGE_ALIGNED (min (vm_end v) e)"
    using a by (auto simp: vma_aligned_def max_def min_def)
  show ?thesis
    unfolding unmap_single_vma_def
    by (intro run_intros unmap_page_range_zap [OF A _ al]) (simp_all add: z)
qed

lemma unmap_list_zap:
  assumes A: "walk_arch A" and z: "zfree H w" and a: "PAGE_ALIGNED a" "PAGE_ALIGNED e" "\<forall>v \<in> set vs. vma_aligned v"
  shows "tpost (\<lambda>_. zfree H) (unmap_list A vs a e details w)"
  using z a(3)
proof (induction vs arbitrary: w)
  case (Cons v vs)
  then show ?case
    using a by (auto intro!: tpost_bndI [OF unmap_single_vma_zap [OF A]])
qed simp

lemma flush_all_zap:
  assumes "zfree H w"
  shows "tpost (\<lambda>_ w'. zfree H w' \<and> freed w' = unmapped w') (tlb_flush_mmu A w)"
proof -
  have "tpost (\<lambda>_ w'. gather_full (unmapped w') H w' \<and> zbase None False w' \<and> zp_stale (proto w') = [])
      (tlb_flush_mmu_tlbonly A w)"
    using assms gather_inv_full [of "unmapped w" H w]
    by (auto simp: tlb_flush_mmu_tlbonly_def tlb_table_flush_def tpost_bnd kdo_def Let_def zfree_def zbase_def
        gather_full_def gather_inv_def)
  then show ?thesis
    unfolding tlb_flush_mmu_def by (rule tpost_bndI) (auto intro: flush_unlocked)
qed

lemma tlb_finish_zap:
  assumes "zfree H w"
  shows "tpost (\<lambda>_ w'. zp_ok (proto w') \<and> zp_held (proto w') = None \<and> freed w' = unmapped w' \<and> held_batches w' = H)
     (tlb_finish_mmu A w)"
  unfolding tlb_finish_mmu_def
proof (rule tpost_bndI [OF flush_all_zap [OF assms]], rule run_intros)
  fix u v r
  assume v: "zfree H v \<and> freed v = unmapped v"
  let ?J = "\<lambda>x. freed x = unmapped x \<and> zp_ok (proto x) \<and> zp_held (proto x) = None"
  let ?I = "\<lambda>(bs :: gather_batch list) x. ?J x \<and> held_batches x = H + mset (map b_addr bs)"
  let ?v = "v\<lparr>log := (Tl Check_pgt_cache, r) # log v\<rparr>"
  have "rets (\<lambda>_. ?I []) (each (\<lambda>b. kdo (Tl (Free_pages (b_addr b)))) (tl (chain (tlb v))) ?v)"
    by (rule rets_each [where I = ?I]) (use v in \<open>auto simp: zfree_def zbase_def gather_inv_def Let_def\<close>)
  then have "tpost (\<lambda>_. ?I []) (each (\<lambda>b. kdo (Tl (Free_pages (b_addr b)))) (tl (chain (tlb ?v))) ?v)"
    by (simp add: rets_tpost)
  then show "tpost (\<lambda>_ w'. zp_ok (proto w') \<and> zp_held (proto w') = None \<and> freed w' = unmapped w' \<and> held_batches w' = H)
     (bnd (each (\<lambda>b. kdo (Tl (Free_pages (b_addr b)))) (tl (chain (tlb ?v))) ?v)
        (\<lambda>_ w. ret () (w\<lparr>tlb := (tlb w)\<lparr>chain := [hd (chain (tlb w))]\<rparr>\<rparr>)))"
    by (rule tpost_bndI) simp
qed

text \<open>
  C22: Zapping a range of user pages ends, and keeps the protocol of unmapping: the page-table lock is
  taken and released in pairs and never held across the scheduler or the freeing of pages, no
  lock is released before a removed dirty entry is flushed, no page is freed before a flush of
  the TLB that followed its removal. The pages freed are exactly those whose mapping was removed,
  in order, and every page the gather allocated for itself is given back.
\<close>
theorem zap_page_range_safe:
  assumes "walk_arch A" "log w = []" "PAGE_ALIGNED start" "PAGE_ALIGNED sz" "\<forall>v \<in> set vs. vma_aligned v"
  shows "tpost (\<lambda>_ w'. zp_ok (proto w') \<and> zp_held (proto w') = None \<and> freed w' = unmapped w' \<and> held_batches w' = {#})
     (zap_page_range A vs start sz details w)"
proof -
  have al: "PAGE_ALIGNED (start + sz)"
    by (rule PAGE_ALIGNED_add) (use assms in simp_all)
  have zero: "ghost st s0 w = s0" for st :: "'s \<Rightarrow> kc \<Rightarrow> int \<Rightarrow> 's" and s0
    using assms(2) by (simp add: ghost_def del: ghost_log)
  have start: "tpost (\<lambda>_. zfree {#}) (tlb_gather_mmu A mm start e x)" if "x = w\<lparr>log := (Vm Lru_add_drain, r) # log w\<rparr>" for mm e x r
    using assms(1) that
    by (auto simp: tlb_gather_mmu_def Let_def zfree_def zbase_def gather_inv_def gather_ok_def walk_arch_def gather_arch_def
        waiting_def in_batch_def zero proto0_def)
  show ?thesis
    unfolding zap_page_range_def
    by (intro run_intros tpost_bndI [OF start [OF refl]] tpost_bndI [OF unmap_list_zap [OF assms(1) _ assms(3) al assms(5)]]
        tlb_finish_zap) simp_all
qed

lemma walk_arch0: "walk_arch arch0"
  using gather_arch0 by (simp add: walk_arch_def) (simp add: arch0_def std_addr_end_aligned)

theorem zap_page_range_safe_witness:
  "tpost (\<lambda>_ w'. zp_ok (proto w') \<and> zp_held (proto w') = None \<and> freed w' = unmapped w' \<and> held_batches w' = {#})
     (zap_page_range arch0 [vma0] 0x400000 0x3000 None mmw0)"
  by (rule zap_page_range_safe [OF walk_arch0]) (simp_all add: mmw0_def PAGE_ALIGNED_def vma_aligned_def vma0_def)

end
