(* ===== verification/WpFault.thy ===== *)
theory WpFault
  imports Zap
begin

unbundle bit_operations_syntax

text \<open>
  Write faults on present pages, \<open>memory.c\<close> lines 2016 to 2464: \<open>do_wp_page\<close> and the cases it
  distinguishes. Return codes are sets of \<open>vm_fault\<close> bits, 0 is the empty set. The lock \<open>ptl\<close> of
  the C code is the one taken with the page-table pointer that the functions pass along.
\<close>

section \<open>Small helpers\<close>

definition PAGE_MASK :: u64 where
  "PAGE_MASK = NOT (mask 12)"

definition error_or_nopage :: "arch \<Rightarrow> vm_fault set" where
  "error_or_nopage A = insert VM_FAULT_NOPAGE (VM_FAULT_ERROR A)"

definition pte_unmap_same :: "arch \<Rightarrow> int \<Rightarrow> int \<Rightarrow> int \<Rightarrow> u64 \<Rightarrow> bool mact" where
  "pte_unmap_same A mm pmd page_table orig_pte w =
     bnd (if pte_is_large A
          then bnd (kcall (Lk (Pte_lockptr mm pmd)) w) (\<lambda>ptl w.
               bnd (kdo (Lk (Spin_lock ptl)) w) (\<lambda>_ w.
               bnd (read_pte page_table w) (\<lambda>p w.
               bnd (kdo (Lk (Spin_unlock ptl)) w) (\<lambda>_ w. ret (pte_same A p orig_pte) w))))
          else ret True w) (\<lambda>same w.
     bnd (kdo (Lk (Pte_unmap page_table)) w) (\<lambda>_ w. ret same w))"

definition cow_user_page :: "int \<Rightarrow> int \<Rightarrow> u64 \<Rightarrow> unit mact" where
  "cow_user_page dst src va w =
     bnd (kdo (Ft (Debug_dma_assert_idle src)) w) (\<lambda>_ w.
     if src = 0
     then bnd (kcall (Ft (Kmap_atomic dst)) w) (\<lambda>kaddr w.
          bnd (kask (Ft (Copy_from_user_inatomic kaddr (va AND PAGE_MASK))) w) (\<lambda>failed w.
          bnd (cond failed (kdo (Ft (Clear_page kaddr))) w) (\<lambda>_ w.
          bnd (kdo (Ft (Kunmap_atomic kaddr)) w) (\<lambda>_ w.
          kdo (Pg (Flush_dcache_page dst)) w))))
     else kdo (Pg (Copy_user_page dst src va)) w)"

definition do_page_mkwrite :: "arch \<Rightarrow> vma \<Rightarrow> int \<Rightarrow> u64 \<Rightarrow> vm_fault set mact" where
  "do_page_mkwrite A v page address w =
     bnd (kcall (Ft (Vma_page_mkwrite page)) w) (\<lambda>r w.
     let code = fault_bits A r in
     if code \<inter> error_or_nopage A \<noteq> {} then ret code w
     else if VM_FAULT_LOCKED \<notin> code
     then bnd (kdo (Pg (Lock_page page)) w) (\<lambda>_ w.
          bnd (kcall (Pg (Page_mapping page)) w) (\<lambda>mapping w.
          if mapping = 0
          then bnd (kdo (Pg (Unlock_page page)) w) (\<lambda>_ w. ret {} w)
          else ret (insert VM_FAULT_LOCKED code) w))
     else bnd (kask (Ft (PageLocked page)) w) (\<lambda>locked w.
          bnd (BUG_ON (\<not> locked) w) (\<lambda>_ w. ret code w)))"

section \<open>Reuse\<close>

text \<open>The bookkeeping of \<open>wp_page_reuse\<close> for a shared page, after the lock is dropped.\<close>

definition reuse_dirty :: "vma \<Rightarrow> int \<Rightarrow> bool \<Rightarrow> unit mact" where
  "reuse_dirty v page page_mkwrite w =
     bnd (cond (\<not> page_mkwrite) (kdo (Pg (Lock_page page))) w) (\<lambda>_ w.
     bnd (kask (Pg (Set_page_dirty page)) w) (\<lambda>dirtied w.
     bnd (kask (Pg (PageAnon page)) w) (\<lambda>anon w.
     bnd (BUG_ON anon w) (\<lambda>_ w.
     bnd (kcall (Pg (Page_mapping page)) w) (\<lambda>mapping w.
     bnd (kdo (Pg (Unlock_page page)) w) (\<lambda>_ w.
     bnd (kdo (Pg (Page_cache_release page)) w) (\<lambda>_ w.
     bnd (cond ((dirtied \<or> page_mkwrite) \<and> mapping \<noteq> 0) (kdo (Ft (Balance_dirty_pages mapping))) w) (\<lambda>_ w.
     cond (\<not> page_mkwrite) (kdo (Ft (File_update_time (vm_file v)))) w))))))))"

definition wp_page_reuse ::
  "arch \<Rightarrow> vma \<Rightarrow> u64 \<Rightarrow> int \<Rightarrow> u64 \<Rightarrow> int \<Rightarrow> bool \<Rightarrow> bool \<Rightarrow> vm_fault set mact" where
  "wp_page_reuse A v address page_table orig_pte page page_mkwrite dirty_shared w =
     bnd (cond (page \<noteq> 0) (kdo (Ft (Page_cpupid_xchg_last page))) w) (\<lambda>_ w.
     bnd (kdo (Pe (Flush_cache_page address (pte_pfn A orig_pte))) w) (\<lambda>_ w.
     let entry = maybe_mkwrite A (pte_mkdirty A (pte_mkyoung A orig_pte)) (vm_flags v) in
     bnd (kask (Pe (Ptep_set_access_flags address page_table entry True)) w) (\<lambda>changed w.
     bnd (cond changed (kdo (Pe (Update_mmu_cache address page_table))) w) (\<lambda>_ w.
     bnd (kdo (Lk (Pte_unmap_unlock page_table)) w) (\<lambda>_ w.
     bnd (cond dirty_shared (reuse_dirty v page page_mkwrite) w) (\<lambda>_ w.
     ret {VM_FAULT_WRITE} w))))))"

section \<open>Copy\<close>

text \<open>
  \<open>wp_page_copy\<close> in three steps: the new page with its charge (\<open>None\<close> for the labels \<open>oom\<close> and
  \<open>oom_free_new\<close>, which have given it back), the exchange under the lock, and the whole.
\<close>

definition wp_new_page :: "arch \<Rightarrow> vma \<Rightarrow> u64 \<Rightarrow> u64 \<Rightarrow> int \<Rightarrow> int option mact" where
  "wp_new_page A v address orig_pte old_page w =
     bnd (kask (Ft (Anon_vma_prepare (vma_ptr v))) w) (\<lambda>failed w.
     if failed then ret None w
     else
       bnd (kask (Vm (Is_zero_pfn (pte_pfn A orig_pte))) w) (\<lambda>zero w.
       bnd (if zero then kcall (Pg (Alloc_zeroed_page address)) w
            else kcall (Pg (Alloc_page_vma address)) w) (\<lambda>new_page w.
       if new_page = 0 then ret None w
       else
         bnd (cond (\<not> zero) (cow_user_page new_page old_page address) w) (\<lambda>_ w.
         bnd (kask (Pg (Mem_cgroup_try_charge new_page)) w) (\<lambda>failed w.
         if failed
         then bnd (kdo (Pg (Page_cache_release new_page)) w) (\<lambda>_ w. ret None w)
         else ret (Some new_page) w)))))"

definition wp_exchange :: "arch \<Rightarrow> vma \<Rightarrow> u64 \<Rightarrow> int \<Rightarrow> u64 \<Rightarrow> int \<Rightarrow> int \<Rightarrow> unit mact" where
  "wp_exchange A v address page_table orig_pte old_page new_page w =
     bnd (if old_page \<noteq> 0
          then bnd (kask (Pg (PageAnon old_page)) w) (\<lambda>anon w.
               cond (\<not> anon) (\<lambda>w.
                 bnd (add_mm_counter_fast (vm_mm v) MM_FILEPAGES (- 1) w) (\<lambda>_ w.
                 add_mm_counter_fast (vm_mm v) MM_ANONPAGES 1 w)) w)
          else add_mm_counter_fast (vm_mm v) MM_ANONPAGES 1 w) (\<lambda>_ w.
     bnd (kdo (Pe (Flush_cache_page address (pte_pfn A orig_pte))) w) (\<lambda>_ w.
     let entry = maybe_mkwrite A (pte_mkdirty A (mk_pte A new_page (vm_page_prot v))) (vm_flags v) in
     bnd (kdo (Pe (Ptep_clear_flush address page_table)) w) (\<lambda>_ w.
     bnd (kdo (Pg (Page_add_new_anon_rmap new_page address)) w) (\<lambda>_ w.
     bnd (kdo (Pg (Mem_cgroup_commit new_page False)) w) (\<lambda>_ w.
     bnd (kdo (Pg (Lru_cache_add new_page)) w) (\<lambda>_ w.
     bnd (kdo (Pe (Set_pte_at (vm_mm v) address page_table entry)) w) (\<lambda>_ w.
     bnd (kdo (Pe (Update_mmu_cache address page_table)) w) (\<lambda>_ w.
     cond (old_page \<noteq> 0) (kdo (Pg (Page_remove_rmap old_page))) w))))))))"

definition wp_page_copy :: "arch \<Rightarrow> vma \<Rightarrow> u64 \<Rightarrow> int \<Rightarrow> u64 \<Rightarrow> int \<Rightarrow> vm_fault set mact" where
  "wp_page_copy A v address pmd orig_pte old_page w =
     (let mm = vm_mm v; mmun_start = address AND PAGE_MASK; mmun_end = mmun_start + PAGE_SIZE in
      bnd (wp_new_page A v address orig_pte old_page w) (\<lambda>new w.
      case new of
        None \<Rightarrow>
          bnd (cond (old_page \<noteq> 0) (kdo (Pg (Page_cache_release old_page))) w) (\<lambda>_ w. ret {VM_FAULT_OOM} w)
      | Some new_page \<Rightarrow>
          bnd (kdo (Pg (SetPageUptodate new_page)) w) (\<lambda>_ w.
          bnd (kdo (Tl (Notifier_start mm mmun_start mmun_end)) w) (\<lambda>_ w.
          bnd (kcall (Lk (Pte_offset_map_lock pmd address)) w) (\<lambda>page_table w.
          bnd (read_pte page_table w) (\<lambda>p w.
          bnd (if pte_same A p orig_pte
               then bnd (wp_exchange A v address page_table orig_pte old_page new_page w) (\<lambda>_ w.
                    ret (True, old_page) w)
               else bnd (kdo (Pg (Mem_cgroup_cancel new_page)) w) (\<lambda>_ w. ret (False, new_page) w))
            (\<lambda>(page_copied, to_free) w.
          bnd (cond (to_free \<noteq> 0) (kdo (Pg (Page_cache_release to_free))) w) (\<lambda>_ w.
          bnd (kdo (Lk (Pte_unmap_unlock page_table)) w) (\<lambda>_ w.
          bnd (kdo (Tl (Notifier_end mm mmun_start mmun_end)) w) (\<lambda>_ w.
          bnd (cond (old_page \<noteq> 0) (\<lambda>w.
                 bnd (cond (page_copied \<and> VM_LOCKED \<in> vm_flags v) (\<lambda>w.
                        bnd (kdo (Pg (Lock_page old_page)) w) (\<lambda>_ w.
                        bnd (kdo (Ft (Munlock_vma_page old_page)) w) (\<lambda>_ w.
                        kdo (Pg (Unlock_page old_page)) w))) w) (\<lambda>_ w.
                 kdo (Pg (Page_cache_release old_page)) w)) w) (\<lambda>_ w.
          ret (if page_copied then {VM_FAULT_WRITE} else {}) w)))))))))))"

section \<open>The cases\<close>

definition wp_pfn_shared :: "arch \<Rightarrow> vma \<Rightarrow> u64 \<Rightarrow> int \<Rightarrow> u64 \<Rightarrow> int \<Rightarrow> vm_fault set mact" where
  "wp_pfn_shared A v address page_table orig_pte pmd w =
     (if vm_ops v \<noteq> 0 \<and> has_pfn_mkwrite v
      then
        bnd (kdo (Lk (Pte_unmap_unlock page_table)) w) (\<lambda>_ w.
        bnd (kcall (Ft (Vma_pfn_mkwrite address)) w) (\<lambda>r w.
        let code = fault_bits A r in
        if code \<inter> VM_FAULT_ERROR A \<noteq> {} then ret code w
        else
          bnd (kcall (Lk (Pte_offset_map_lock pmd address)) w) (\<lambda>page_table w.
          bnd (read_pte page_table w) (\<lambda>p w.
          if \<not> pte_same A p orig_pte
          then bnd (kdo (Lk (Pte_unmap_unlock page_table)) w) (\<lambda>_ w. ret {} w)
          else wp_page_reuse A v address page_table orig_pte 0 False False w))))
      else wp_page_reuse A v address page_table orig_pte 0 False False w)"

definition wp_page_shared :: "arch \<Rightarrow> vma \<Rightarrow> u64 \<Rightarrow> int \<Rightarrow> int \<Rightarrow> u64 \<Rightarrow> int \<Rightarrow> vm_fault set mact" where
  "wp_page_shared A v address page_table pmd orig_pte old_page w =
     bnd (kdo (Pg (Page_cache_get old_page)) w) (\<lambda>_ w.
     if vm_ops v \<noteq> 0 \<and> has_page_mkwrite v
     then
       bnd (kdo (Lk (Pte_unmap_unlock page_table)) w) (\<lambda>_ w.
       bnd (do_page_mkwrite A v old_page address w) (\<lambda>tmp w.
       if tmp = {} \<or> tmp \<inter> error_or_nopage A \<noteq> {}
       then bnd (kdo (Pg (Page_cache_release old_page)) w) (\<lambda>_ w. ret tmp w)
       else
         bnd (kcall (Lk (Pte_offset_map_lock pmd address)) w) (\<lambda>page_table w.
         bnd (read_pte page_table w) (\<lambda>p w.
         if \<not> pte_same A p orig_pte
         then
           bnd (kdo (Pg (Unlock_page old_page)) w) (\<lambda>_ w.
           bnd (kdo (Lk (Pte_unmap_unlock page_table)) w) (\<lambda>_ w.
           bnd (kdo (Pg (Page_cache_release old_page)) w) (\<lambda>_ w. ret {} w)))
         else wp_page_reuse A v address page_table orig_pte old_page True True w))))
     else wp_page_reuse A v address page_table orig_pte old_page False True w)"

text \<open>
  The anonymous case of \<open>do_wp_page\<close>: lock the page, dropping the page-table lock if that has to wait
  (\<open>None\<close> when the entry has changed meanwhile); then reuse it or not. The result is \<open>Inl\<close> a return
  code, or \<open>Inr\<close> the page-table pointer (whose lock is held) for the copy that follows.
\<close>

definition wp_trylock :: "arch \<Rightarrow> u64 \<Rightarrow> int \<Rightarrow> int \<Rightarrow> u64 \<Rightarrow> int \<Rightarrow> int option mact" where
  "wp_trylock A address page_table pmd orig_pte old_page w =
     bnd (kask (Pg (Trylock_page old_page)) w) (\<lambda>got w.
     if got then ret (Some page_table) w
     else
       bnd (kdo (Pg (Page_cache_get old_page)) w) (\<lambda>_ w.
       bnd (kdo (Lk (Pte_unmap_unlock page_table)) w) (\<lambda>_ w.
       bnd (kdo (Pg (Lock_page old_page)) w) (\<lambda>_ w.
       bnd (kcall (Lk (Pte_offset_map_lock pmd address)) w) (\<lambda>page_table w.
       bnd (read_pte page_table w) (\<lambda>p w.
       if \<not> pte_same A p orig_pte
       then
         bnd (kdo (Pg (Unlock_page old_page)) w) (\<lambda>_ w.
         bnd (kdo (Lk (Pte_unmap_unlock page_table)) w) (\<lambda>_ w.
         bnd (kdo (Pg (Page_cache_release old_page)) w) (\<lambda>_ w. ret None w)))
       else
         bnd (kdo (Pg (Page_cache_release old_page)) w) (\<lambda>_ w. ret (Some page_table) w)))))))"

definition wp_anon :: "arch \<Rightarrow> vma \<Rightarrow> u64 \<Rightarrow> int \<Rightarrow> int \<Rightarrow> u64 \<Rightarrow> int \<Rightarrow> (vm_fault set + int) mact" where
  "wp_anon A v address page_table pmd orig_pte old_page w =
     bnd (wp_trylock A address page_table pmd orig_pte old_page w) (\<lambda>still w.
     case still of
       None \<Rightarrow> ret (Inl {}) w
     | Some page_table \<Rightarrow>
         bnd (kask (Sw (Reuse_swap_page old_page)) w) (\<lambda>reuse w.
         if reuse
         then
           bnd (kdo (Ft (Page_move_anon_rmap old_page address)) w) (\<lambda>_ w.
           bnd (kdo (Pg (Unlock_page old_page)) w) (\<lambda>_ w.
           bnd (wp_page_reuse A v address page_table orig_pte old_page False False w) (\<lambda>r w. ret (Inl r) w)))
         else bnd (kdo (Pg (Unlock_page old_page)) w) (\<lambda>_ w. ret (Inr page_table) w)))"

definition do_wp_page :: "arch \<Rightarrow> vma \<Rightarrow> u64 \<Rightarrow> int \<Rightarrow> int \<Rightarrow> u64 \<Rightarrow> vm_fault set mact" where
  "do_wp_page A v address page_table pmd orig_pte w =
     bnd (vm_normal_page A v address orig_pte w) (\<lambda>old_page w.
     if old_page = 0 then
       if {VM_WRITE, VM_SHARED} \<subseteq> vm_flags v
       then wp_pfn_shared A v address page_table orig_pte pmd w
       else bnd (kdo (Lk (Pte_unmap_unlock page_table)) w) (\<lambda>_ w.
            wp_page_copy A v address pmd orig_pte old_page w)
     else
       let copy = (\<lambda>page_table w.
             bnd (kdo (Pg (Page_cache_get old_page)) w) (\<lambda>_ w.
             bnd (kdo (Lk (Pte_unmap_unlock page_table)) w) (\<lambda>_ w.
             wp_page_copy A v address pmd orig_pte old_page w))) in
       bnd (kask (Pg (PageAnon old_page)) w) (\<lambda>anon w.
       bnd (andalso anon (\<lambda>w. bnd (kask (Pg (PageKsm old_page)) w) (\<lambda>ksm w. ret (\<not> ksm) w)) w) (\<lambda>plain w.
       if plain
       then bnd (wp_anon A v address page_table pmd orig_pte old_page w) (\<lambda>r w.
            case r of Inl code \<Rightarrow> ret code w | Inr page_table \<Rightarrow> copy page_table w)
       else if {VM_WRITE, VM_SHARED} \<subseteq> vm_flags v
       then wp_page_shared A v address page_table pmd orig_pte old_page w
       else copy page_table w)))"

end
