(* ===== verification/Fault.thy ===== *)
theory Fault
  imports WpFault
begin

text \<open>
  Page faults, \<open>memory.c\<close> lines 2555 to 3269 and 3372 to 3604: reading a page back from swap, with
  the trace that the experiment records there, anonymous pages, pages of files, and the dispatch
  from \<open>handle_mm_fault\<close> down. NUMA hinting faults are in \<open>NumaFault\<close>.
\<close>

unbundle bit_operations_syntax

section \<open>Recording what is read back in\<close>

text \<open>
  The lines marked in \<open>do_swap_page\<close>. An access outside the arrays of the trace is \<open>OutOfBounds\<close>;
  \<open>kmalloc\<close> of the page contents that fails leaves an array of no elements.
\<close>

definition record_entry :: "u64 \<Rightarrow> unit mact" where
  "record_entry entry w =
     bnd (if firstTime_IN w
          then bnd (kask (Ft Kmalloc_table) (w\<lparr>firstTime_IN := False\<rparr>)) (\<lambda>table w.
               case allocateArray_IN table (alloc_row w) (in_store w) of
                 None \<Rightarrow> Inl (Oops, w)
               | Some s \<Rightarrow>
                   bnd (kask (Ft Kmalloc_contents) (w\<lparr>in_store := s\<rparr>)) (\<lambda>ok w.
                   ret () (w\<lparr>contents_IN := (if ok then alloc_contents w else [])\<rparr>)))
          else ret () w) (\<lambda>_ w.
     case addInArray_IN (in_store w) entry of
       None \<Rightarrow> Inl (OutOfBounds, w)
     | Some s \<Rightarrow> ret () (w\<lparr>in_store := s\<rparr>))"

definition record_page :: "u64 \<Rightarrow> int \<Rightarrow> unit mact" where
  "record_page entry page w =
     cond (entry mod 100 = 0 \<and> pageFilled_IN w < 1000) (\<lambda>w.
       case fetch (contents_IN w) (pageFilled_IN w) of
         None \<Rightarrow> Inl (OutOfBounds, w)
       | Some slot \<Rightarrow>
           let i = nat (pageFilled_IN w);
               w = w\<lparr>contents_IN := (contents_IN w)[i := slot\<lparr>page_value := entry\<rparr>]\<rparr> in
           bnd (kcall (Sw (Kmap page)) w) (\<lambda>kaddr w.
           cond (kaddr \<noteq> 0) (\<lambda>w.
             bnd (kdo (Sw (Kunmap page))
                   (w\<lparr>contents_IN := (contents_IN w)[i := (contents_IN w ! i)\<lparr>page_content := kmem w kaddr\<rparr>],
                      pageFilled_IN := pageFilled_IN w + 1\<rparr>)) (\<lambda>_ w. ret () w)) w)) w"

section \<open>Swap-in\<close>

text \<open>
  \<open>do_swap_page\<close> in the order of the code. The label \<open>out_release\<close>, with the page and the page that
  was found in the swap cache; \<open>out_page\<close> before it; \<open>out_nomap\<close> before that.
\<close>

definition out_release :: "int \<Rightarrow> int \<Rightarrow> vm_fault set \<Rightarrow> vm_fault set mact" where
  "out_release page swapcache code w =
     bnd (kdo (Pg (Page_cache_release page)) w) (\<lambda>_ w.
     bnd (cond (page \<noteq> swapcache) (\<lambda>w.
            bnd (kdo (Pg (Unlock_page swapcache)) w) (\<lambda>_ w.
            kdo (Pg (Page_cache_release swapcache)) w)) w) (\<lambda>_ w.
     ret code w))"

definition out_page :: "int \<Rightarrow> int \<Rightarrow> vm_fault set \<Rightarrow> vm_fault set mact" where
  "out_page page swapcache code w =
     bnd (kdo (Pg (Unlock_page page)) w) (\<lambda>_ w. out_release page swapcache code w)"

definition out_nomap :: "int \<Rightarrow> int \<Rightarrow> int \<Rightarrow> vm_fault set \<Rightarrow> vm_fault set mact" where
  "out_nomap page_table page swapcache code w =
     bnd (kdo (Pg (Mem_cgroup_cancel page)) w) (\<lambda>_ w.
     bnd (kdo (Lk (Pte_unmap_unlock page_table)) w) (\<lambda>_ w. out_page page swapcache code w))"

text \<open>Mapping the page, from the counters to the charge; then giving back the swap entry and the locks.\<close>

definition swap_set_pte ::
  "arch \<Rightarrow> vma \<Rightarrow> u64 \<Rightarrow> int \<Rightarrow> bool \<Rightarrow> u64 \<Rightarrow> int \<Rightarrow> int \<Rightarrow> vm_fault set \<Rightarrow>
     (bool \<times> u64 \<times> vm_fault set) mact" where
  "swap_set_pte A v address page_table write orig_pte page swapcache code w =
     bnd (add_mm_counter_fast (vm_mm v) MM_ANONPAGES 1 w) (\<lambda>_ w.
     bnd (add_mm_counter_fast (vm_mm v) MM_SWAPENTS (- 1) w) (\<lambda>_ w.
     let pte = mk_pte A page (vm_page_prot v) in
     bnd (andalso write (kask (Sw (Reuse_swap_page page))) w) (\<lambda>reuse w.
     let exclusive = reuse;
         pte = (if reuse then maybe_mkwrite A (pte_mkdirty A pte) (vm_flags v) else pte);
         write = (write \<and> \<not> reuse);
         code = (if reuse then insert VM_FAULT_WRITE code else code) in
     bnd (kdo (Pg (Flush_icache_page page)) w) (\<lambda>_ w.
     let pte = (if pte_swp_soft_dirty A orig_pte then pte_mksoft_dirty A pte else pte) in
     bnd (kdo (Pe (Set_pte_at (vm_mm v) address page_table pte)) w) (\<lambda>_ w.
     bnd (if page = swapcache
          then bnd (kdo (Pg (Page_add_anon_rmap page address exclusive)) w) (\<lambda>_ w.
               kdo (Pg (Mem_cgroup_commit page True)) w)
          else bnd (kdo (Pg (Page_add_new_anon_rmap page address)) w) (\<lambda>_ w.
               bnd (kdo (Pg (Mem_cgroup_commit page False)) w) (\<lambda>_ w.
               kdo (Pg (Lru_cache_add page)) w))) (\<lambda>_ w.
     ret (write, pte, code) w))))))"

definition swap_put :: "vma \<Rightarrow> u64 \<Rightarrow> int \<Rightarrow> int \<Rightarrow> unit mact" where
  "swap_put v entry page swapcache w =
     bnd (kdo (Sw (Swap_free entry)) w) (\<lambda>_ w.
     bnd (kask (Sw Vm_swap_full) w) (\<lambda>full w.
     bnd (if full \<or> VM_LOCKED \<in> vm_flags v then ret True w else kask (Ft (PageMlocked page)) w) (\<lambda>try_free w.
     bnd (cond try_free (kdo (Sw (Try_to_free_swap page))) w) (\<lambda>_ w.
     bnd (kdo (Pg (Unlock_page page)) w) (\<lambda>_ w.
     cond (page \<noteq> swapcache) (\<lambda>w.
       bnd (kdo (Pg (Unlock_page swapcache)) w) (\<lambda>_ w.
       kdo (Pg (Page_cache_release swapcache)) w)) w)))))"

text \<open>From the mapping to the label \<open>out\<close>: the page is recorded, a write fault that is left is handled.\<close>

definition swap_finish ::
  "arch \<Rightarrow> vma \<Rightarrow> u64 \<Rightarrow> int \<Rightarrow> int \<Rightarrow> bool \<Rightarrow> u64 \<Rightarrow> u64 \<Rightarrow> int \<Rightarrow> int \<Rightarrow> vm_fault set \<Rightarrow> vm_fault set mact" where
  "swap_finish A v address pmd page_table write orig_pte entry page swapcache code w =
     bnd (swap_set_pte A v address page_table write orig_pte page swapcache code w) (\<lambda>(write, pte, code) w.
     bnd (swap_put v entry page swapcache w) (\<lambda>_ w.
     bnd (cond (page \<noteq> 0) (record_page entry page) w) (\<lambda>_ w.
     if write
     then bnd (do_wp_page A v address page_table pmd pte w) (\<lambda>r w.
          let code = code \<union> r in
          ret (if code \<inter> VM_FAULT_ERROR A \<noteq> {} then code \<inter> VM_FAULT_ERROR A else code) w)
     else
       bnd (kdo (Pe (Update_mmu_cache address page_table)) w) (\<lambda>_ w.
       bnd (kdo (Lk (Pte_unmap_unlock page_table)) w) (\<lambda>_ w. ret code w)))))"

text \<open>With the page locked: is it still the page of the entry, and may it be mapped?\<close>

definition swap_locked ::
  "arch \<Rightarrow> vma \<Rightarrow> u64 \<Rightarrow> int \<Rightarrow> bool \<Rightarrow> u64 \<Rightarrow> u64 \<Rightarrow> int \<Rightarrow> vm_fault set \<Rightarrow> vm_fault set mact" where
  "swap_locked A v address pmd write orig_pte entry swapcache code w =
     bnd (kask (Pg (PageSwapCache swapcache)) w) (\<lambda>incache w.
     bnd (andalso incache (\<lambda>w. bnd (kcall (Pg (Page_private swapcache)) w) (\<lambda>p w.
            ret (word_of_int p = entry) w)) w) (\<lambda>same w.
     if \<not> same then out_page swapcache swapcache code w
     else
       bnd (kcall (Sw (Ksm_might_need_to_copy swapcache address)) w) (\<lambda>page w.
       if page = 0 then out_page swapcache swapcache {VM_FAULT_OOM} w
       else
         bnd (kask (Pg (Mem_cgroup_try_charge page)) w) (\<lambda>failed w.
         if failed then out_page page swapcache {VM_FAULT_OOM} w
         else
           bnd (kcall (Lk (Pte_offset_map_lock pmd address)) w) (\<lambda>page_table w.
           bnd (read_pte page_table w) (\<lambda>p w.
           if \<not> pte_same A p orig_pte then out_nomap page_table page swapcache code w
           else
             bnd (kask (Pg (PageUptodate page)) w) (\<lambda>uptodate w.
             if \<not> uptodate then out_nomap page_table page swapcache {VM_FAULT_SIGBUS} w
             else swap_finish A v address pmd page_table write orig_pte entry page swapcache code w)))))))"

text \<open>With a page found or read: lock it, or retry.\<close>

definition swap_lock_page ::
  "arch \<Rightarrow> vma \<Rightarrow> u64 \<Rightarrow> int \<Rightarrow> bool \<Rightarrow> u64 \<Rightarrow> u64 \<Rightarrow> int \<Rightarrow> vm_fault set \<Rightarrow> vm_fault set mact" where
  "swap_lock_page A v address pmd write orig_pte entry page code w =
     bnd (kask (Pg (Lock_page_or_retry page)) w) (\<lambda>locked w.
     bnd (kdo (Sw Delayacct_clear) w) (\<lambda>_ w.
     if \<not> locked then out_release page page (insert VM_FAULT_RETRY code) w
     else swap_locked A v address pmd write orig_pte entry page code w))"

definition do_swap_page :: "arch \<Rightarrow> vma \<Rightarrow> u64 \<Rightarrow> int \<Rightarrow> int \<Rightarrow> bool \<Rightarrow> u64 \<Rightarrow> vm_fault set mact" where
  "do_swap_page A v address page_table pmd write orig_pte w =
     bnd (pte_unmap_same A (vm_mm v) pmd page_table orig_pte w) (\<lambda>same w.
     if \<not> same then ret {} w
     else
       let entry = pte_to_swp_entry A orig_pte in
       bnd (record_entry entry w) (\<lambda>_ w.
       if non_swap_entry A entry then
         if is_migration_entry A entry
         then bnd (kdo (Sw (Migration_entry_wait pmd address)) w) (\<lambda>_ w. ret {} w)
         else if is_hwpoison_entry A entry then ret {VM_FAULT_HWPOISON} w
         else bnd (print_bad_pte A v address orig_pte 0 w) (\<lambda>_ w. ret {VM_FAULT_SIGBUS} w)
       else
         bnd (kdo (Sw Delayacct_set) w) (\<lambda>_ w.
         bnd (kcall (Sw (Lookup_swap_cache entry)) w) (\<lambda>page w.
         if page = 0 then
           bnd (kcall (Sw (Swapin_readahead entry address)) w) (\<lambda>page w.
           if page = 0 then
             bnd (kcall (Lk (Pte_offset_map_lock pmd address)) w) (\<lambda>page_table w.
             bnd (read_pte page_table w) (\<lambda>p w.
             bnd (kdo (Sw Delayacct_clear) w) (\<lambda>_ w.
             bnd (kdo (Lk (Pte_unmap_unlock page_table)) w) (\<lambda>_ w.
             ret (if pte_same A p orig_pte then {VM_FAULT_OOM} else {}) w))))
           else
             bnd (kdo (Sw (Count_vm_event ''PGMAJFAULT'')) w) (\<lambda>_ w.
             bnd (kdo (Sw (Count_vm_event ''memcg PGMAJFAULT'')) w) (\<lambda>_ w.
             swap_lock_page A v address pmd write orig_pte entry page {VM_FAULT_MAJOR} w)))
         else
           bnd (kask (Pg (PageHWPoison page)) w) (\<lambda>poisoned w.
           if poisoned
           then bnd (kdo (Sw Delayacct_clear) w) (\<lambda>_ w. out_release page page {VM_FAULT_HWPOISON} w)
           else swap_lock_page A v address pmd write orig_pte entry page {} w)))))"

section \<open>Anonymous pages\<close>

text \<open>The neighbours of an area in the list of areas are \<open>prev\<close> and \<open>nxt\<close>.\<close>

definition check_stack_guard_page :: "vma option \<Rightarrow> vma option \<Rightarrow> vma \<Rightarrow> u64 \<Rightarrow> int mact" where
  "check_stack_guard_page prev nxt v address w =
     (let address = address AND PAGE_MASK in
      if VM_GROWSDOWN \<in> vm_flags v \<and> address = vm_start v
      then (case prev of
              Some p \<Rightarrow>
                if vm_end p = address
                then ret (if VM_GROWSDOWN \<in> vm_flags p then 0 else - ENOMEM) w
                else kcall (Ft (Expand_downwards (address - PAGE_SIZE))) w
            | None \<Rightarrow> kcall (Ft (Expand_downwards (address - PAGE_SIZE))) w)
      else if VM_GROWSUP \<in> vm_flags v \<and> address + PAGE_SIZE = vm_end v
      then (case nxt of
              Some n \<Rightarrow>
                if vm_start n = address + PAGE_SIZE
                then ret (if VM_GROWSUP \<in> vm_flags n then 0 else - ENOMEM) w
                else kcall (Ft (Expand_upwards (address + PAGE_SIZE))) w
            | None \<Rightarrow> kcall (Ft (Expand_upwards (address + PAGE_SIZE))) w)
      else ret 0 w)"

text \<open>The labels \<open>setpte\<close> and \<open>unlock\<close>.\<close>

definition anon_setpte :: "vma \<Rightarrow> u64 \<Rightarrow> int \<Rightarrow> u64 \<Rightarrow> vm_fault set mact" where
  "anon_setpte v address page_table entry w =
     bnd (kdo (Pe (Set_pte_at (vm_mm v) address page_table entry)) w) (\<lambda>_ w.
     bnd (kdo (Pe (Update_mmu_cache address page_table)) w) (\<lambda>_ w.
     bnd (kdo (Lk (Pte_unmap_unlock page_table)) w) (\<lambda>_ w. ret {} w)))"

definition anon_zeropage :: "arch \<Rightarrow> vma \<Rightarrow> u64 \<Rightarrow> int \<Rightarrow> vm_fault set mact" where
  "anon_zeropage A v address pmd w =
     (let entry = pte_mkspecial A (pfn_pte A (my_zero_pfn A address) (vm_page_prot v)) in
      bnd (kcall (Lk (Pte_offset_map_lock pmd address)) w) (\<lambda>page_table w.
      bnd (read_pte page_table w) (\<lambda>p w.
      if \<not> pte_none A p
      then bnd (kdo (Lk (Pte_unmap_unlock page_table)) w) (\<lambda>_ w. ret {} w)
      else
        bnd (kask (Ft (Userfaultfd_missing (vma_ptr v))) w) (\<lambda>missing w.
        if missing
        then bnd (kdo (Lk (Pte_unmap_unlock page_table)) w) (\<lambda>_ w.
             bnd (kcall (Ft (Handle_userfault address)) w) (\<lambda>r w. ret (fault_bits A r) w))
        else anon_setpte v address page_table entry w))))"

definition anon_private :: "arch \<Rightarrow> vma \<Rightarrow> u64 \<Rightarrow> int \<Rightarrow> int \<Rightarrow> vm_fault set mact" where
  "anon_private A v address pmd page w =
     bnd (kdo (Pg (SetPageUptodate page)) w) (\<lambda>_ w.
     let entry = mk_pte A page (vm_page_prot v);
         entry = (if VM_WRITE \<in> vm_flags v then pte_mkwrite A (pte_mkdirty A entry) else entry) in
     bnd (kcall (Lk (Pte_offset_map_lock pmd address)) w) (\<lambda>page_table w.
     bnd (read_pte page_table w) (\<lambda>p w.
     if \<not> pte_none A p
     then
       bnd (kdo (Pg (Mem_cgroup_cancel page)) w) (\<lambda>_ w.
       bnd (kdo (Pg (Page_cache_release page)) w) (\<lambda>_ w.
       bnd (kdo (Lk (Pte_unmap_unlock page_table)) w) (\<lambda>_ w. ret {} w)))
     else
       bnd (kask (Ft (Userfaultfd_missing (vma_ptr v))) w) (\<lambda>missing w.
       if missing
       then
         bnd (kdo (Lk (Pte_unmap_unlock page_table)) w) (\<lambda>_ w.
         bnd (kdo (Pg (Mem_cgroup_cancel page)) w) (\<lambda>_ w.
         bnd (kdo (Pg (Page_cache_release page)) w) (\<lambda>_ w.
         bnd (kcall (Ft (Handle_userfault address)) w) (\<lambda>r w. ret (fault_bits A r) w))))
       else
         bnd (add_mm_counter_fast (vm_mm v) MM_ANONPAGES 1 w) (\<lambda>_ w.
         bnd (kdo (Pg (Page_add_new_anon_rmap page address)) w) (\<lambda>_ w.
         bnd (kdo (Pg (Mem_cgroup_commit page False)) w) (\<lambda>_ w.
         bnd (kdo (Pg (Lru_cache_add page)) w) (\<lambda>_ w.
         anon_setpte v address page_table entry w))))))))"

definition do_anonymous_page ::
  "arch \<Rightarrow> vma option \<Rightarrow> vma option \<Rightarrow> vma \<Rightarrow> u64 \<Rightarrow> int \<Rightarrow> int \<Rightarrow> bool \<Rightarrow> vm_fault set mact" where
  "do_anonymous_page A prev nxt v address page_table pmd write w =
     bnd (kdo (Lk (Pte_unmap page_table)) w) (\<lambda>_ w.
     if VM_SHARED \<in> vm_flags v then ret {VM_FAULT_SIGBUS} w
     else
       bnd (check_stack_guard_page prev nxt v address w) (\<lambda>guard w.
       if guard < 0 then ret {VM_FAULT_SIGSEGV} w
       else
         bnd (andalso (\<not> write) (\<lambda>w. bnd (kask (Ft (Mm_forbids_zeropage (vm_mm v))) w) (\<lambda>f w. ret (\<not> f) w)) w) (\<lambda>zero w.
         if zero then anon_zeropage A v address pmd w
         else
           bnd (kask (Ft (Anon_vma_prepare (vma_ptr v))) w) (\<lambda>failed w.
           if failed then ret {VM_FAULT_OOM} w
           else
             bnd (kcall (Pg (Alloc_zeroed_page address)) w) (\<lambda>page w.
             if page = 0 then ret {VM_FAULT_OOM} w
             else
               bnd (kask (Pg (Mem_cgroup_try_charge page)) w) (\<lambda>failed w.
               if failed
               then bnd (kdo (Pg (Page_cache_release page)) w) (\<lambda>_ w. ret {VM_FAULT_OOM} w)
               else anon_private A v address pmd page w))))))"

end
