(* ===== verification/NumaFault.thy ===== *)
theory NumaFault
  imports WpFault
begin

text \<open>
  NUMA hinting faults, \<open>memory.c\<close> lines 3271 to 3369: the entry is made accessible again and the page
  is moved to the node of the task that touched it, if the memory policy wants it there.
\<close>

definition NUMA_NO_NODE :: int where "NUMA_NO_NODE = - 1"

text \<open>Returns the node the page should be on, or -1, and the flags.\<close>

definition numa_migrate_prep :: "int \<Rightarrow> vma \<Rightarrow> u64 \<Rightarrow> int \<Rightarrow> tnf set \<Rightarrow> (int \<times> tnf set) mact" where
  "numa_migrate_prep page v addr page_nid flags w =
     bnd (kdo (Pg (Get_page page)) w) (\<lambda>_ w.
     bnd (kdo (Mp (Count_numa_event ''NUMA_HINT_FAULTS'')) w) (\<lambda>_ w.
     bnd (kcall (Mp Numa_node_id) w) (\<lambda>node w.
     let here = (page_nid = node) in
     bnd (cond here (kdo (Mp (Count_numa_event ''NUMA_HINT_FAULTS_LOCAL''))) w) (\<lambda>_ w.
     bnd (kcall (Mp (Mpol_misplaced page (vma_ptr v) addr)) w) (\<lambda>target w.
     ret (target, if here then insert TNF_FAULT_LOCAL flags else flags) w)))))"

text \<open>The label \<open>out\<close>: the fault is counted for the task if the page's node is known.\<close>

definition numa_out :: "int \<Rightarrow> int \<Rightarrow> tnf set \<Rightarrow> vm_fault set mact" where
  "numa_out last_cpupid page_nid flags w =
     bnd (cond (page_nid \<noteq> NUMA_NO_NODE) (kdo (Mp (Task_numa_fault last_cpupid page_nid 1 flags))) w) (\<lambda>_ w. ret {} w)"

text \<open>The entry as it is made present again.\<close>

definition numa_entry :: "arch \<Rightarrow> vma \<Rightarrow> u64 \<Rightarrow> u64" where
  "numa_entry A v pte =
     (let e = pte_mkyoung A (pte_modify A pte (vm_page_prot v)) in if pte_write A pte then pte_mkwrite A e else e)"

text \<open>From the test of the area's flags to the end, for a page found behind the entry.\<close>

definition numa_place :: "vma \<Rightarrow> u64 \<Rightarrow> int \<Rightarrow> int \<Rightarrow> vm_fault set mact" where
  "numa_place v addr ptep page w =
     (let flags = (if VM_WRITE \<notin> vm_flags v then {TNF_NO_GROUP} else {}) in
      bnd (kcall (Pg (Page_mapcount page)) w) (\<lambda>mapcount w.
      let flags = (if 1 < mapcount \<and> VM_SHARED \<in> vm_flags v then insert TNF_SHARED flags else flags) in
      bnd (kcall (Mp (Page_cpupid_last page)) w) (\<lambda>last_cpupid w.
      bnd (kcall (Mp (Page_to_nid page)) w) (\<lambda>page_nid w.
      bnd (numa_migrate_prep page v addr page_nid flags w) (\<lambda>(target_nid, flags) w.
      bnd (kdo (Lk (Pte_unmap_unlock ptep)) w) (\<lambda>_ w.
      if target_nid = -1
      then bnd (kdo (Mp (Put_page page)) w) (\<lambda>_ w. numa_out last_cpupid page_nid flags w)
      else
        bnd (kask (Mp (Migrate_misplaced_page page (vma_ptr v) target_nid)) w) (\<lambda>migrated w.
        if migrated then numa_out last_cpupid target_nid (insert TNF_MIGRATED flags) w
        else numa_out last_cpupid page_nid (insert TNF_MIGRATE_FAIL flags) w)))))))"

definition do_numa_page :: "arch \<Rightarrow> vma \<Rightarrow> u64 \<Rightarrow> u64 \<Rightarrow> int \<Rightarrow> int \<Rightarrow> vm_fault set mact" where
  "do_numa_page A v addr pte ptep pmd w =
     bnd (BUG_ON (vm_flags v \<inter> {VM_READ, VM_EXEC, VM_WRITE} = {}) w) (\<lambda>_ w.
     bnd (kcall (Lk (Pte_lockptr (vm_mm v) pmd)) w) (\<lambda>ptl w.
     bnd (kdo (Lk (Spin_lock ptl)) w) (\<lambda>_ w.
     bnd (read_pte ptep w) (\<lambda>now w.
     if \<not> pte_same A now pte
     then bnd (kdo (Lk (Pte_unmap_unlock ptep)) w) (\<lambda>_ w. numa_out 0 NUMA_NO_NODE {} w)
     else
       let pte = numa_entry A v pte in
       bnd (kdo (Pe (Set_pte_at (vm_mm v) addr ptep pte)) w) (\<lambda>_ w.
       bnd (kdo (Pe (Update_mmu_cache addr ptep)) w) (\<lambda>_ w.
       bnd (vm_normal_page A v addr pte w) (\<lambda>page w.
       if page = 0
       then bnd (kdo (Lk (Pte_unmap_unlock ptep)) w) (\<lambda>_ w. ret {} w)
       else numa_place v addr ptep page w)))))))"

end
