(* ===== verification/FileFault.thy ===== *)
theory FileFault
  imports Fault NumaFault
begin

text \<open>
  Faults on pages of files and the dispatch of faults, \<open>memory.c\<close> lines 2896 to 3269 and 3372 to
  3604. A handler of the area answers with a code (\<open>fault_bits\<close>) and a page (\<open>vmf_page\<close>).
\<close>

unbundle bit_operations_syntax

section \<open>The handler of the area\<close>

definition no_page :: "arch \<Rightarrow> vm_fault set" where
  "no_page A = VM_FAULT_ERROR A \<union> {VM_FAULT_NOPAGE, VM_FAULT_RETRY}"

definition raw_do_fault :: "arch \<Rightarrow> u64 \<Rightarrow> u64 \<Rightarrow> int \<Rightarrow> (vm_fault set \<times> int) mact" where
  "raw_do_fault A address pgoff cow_page w =
     bnd (kcall (Ft (Vma_fault cow_page (address AND PAGE_MASK) pgoff)) w) (\<lambda>r w.
     let code = fault_bits A r; page = vmf_page A r in
     if code \<inter> no_page A \<noteq> {} then ret (code, 0) w
     else if page = 0 then ret (code, 0) w
     else
       bnd (kask (Pg (PageHWPoison page)) w) (\<lambda>poisoned w.
       if poisoned
       then
         bnd (cond (VM_FAULT_LOCKED \<in> code) (kdo (Pg (Unlock_page page))) w) (\<lambda>_ w.
         bnd (kdo (Pg (Page_cache_release page)) w) (\<lambda>_ w.
         ret ({VM_FAULT_HWPOISON}, 0) w))
       else if VM_FAULT_LOCKED \<notin> code
       then bnd (kdo (Pg (Lock_page page)) w) (\<lambda>_ w. ret (code, page) w)
       else bnd (kask (Ft (PageLocked page)) w) (\<lambda>locked w.
            bnd (BUG_ON (\<not> locked) w) (\<lambda>_ w. ret (code, page) w))))"

definition do_set_pte :: "arch \<Rightarrow> vma \<Rightarrow> u64 \<Rightarrow> int \<Rightarrow> int \<Rightarrow> bool \<Rightarrow> bool \<Rightarrow> unit mact" where
  "do_set_pte A v address page pte write anon w =
     bnd (kdo (Pg (Flush_icache_page page)) w) (\<lambda>_ w.
     let entry = mk_pte A page (vm_page_prot v);
         entry = (if write then maybe_mkwrite A (pte_mkdirty A entry) (vm_flags v) else entry) in
     bnd (if anon
          then bnd (add_mm_counter_fast (vm_mm v) MM_ANONPAGES 1 w) (\<lambda>_ w.
               kdo (Pg (Page_add_new_anon_rmap page address)) w)
          else bnd (add_mm_counter_fast (vm_mm v) MM_FILEPAGES 1 w) (\<lambda>_ w.
               kdo (Pg (Page_add_file_rmap page)) w)) (\<lambda>_ w.
     bnd (kdo (Pe (Set_pte_at (vm_mm v) address pte entry)) w) (\<lambda>_ w.
     kdo (Pe (Update_mmu_cache address pte)) w)))"

section \<open>Mapping around a fault\<close>

definition fault_around_bytes_get :: "u64 mact" where
  "fault_around_bytes_get w = ret (fault_around_bytes w) w"

definition fault_around_bytes_set :: "arch \<Rightarrow> u64 \<Rightarrow> int mact" where
  "fault_around_bytes_set A val w =
     (if PTRS_PER_PTE A < val div PAGE_SIZE then ret (- EINVAL) w
      else ret 0 (w\<lparr>fault_around_bytes := (if PAGE_SIZE < val then rounddown_pow_of_two A val else PAGE_SIZE)\<rparr>))"

text \<open>
  Where the range to map around starts (address, offset in the file) and the last offset to map;
  \<open>vma_pages\<close> is the number of pages of the area.
\<close>

definition vma_pages :: "vma \<Rightarrow> u64" where
  "vma_pages v = drop_bit 12 (vm_end v - vm_start v)"

definition around_range :: "arch \<Rightarrow> u64 \<Rightarrow> vma \<Rightarrow> u64 \<Rightarrow> u64 \<Rightarrow> u64 \<times> u64 \<times> u64 \<times> u64" where
  "around_range A bytes v address pgoff =
     (let nr_pages = drop_bit 12 bytes;
          msk = NOT (nr_pages * PAGE_SIZE - 1) AND PAGE_MASK;
          start_addr = max (address AND msk) (vm_start v);
          off = drop_bit 12 (address - start_addr) AND (PTRS_PER_PTE A - 1);
          pgoff = pgoff - off;
          max_pgoff = pgoff - (drop_bit 12 start_addr AND (PTRS_PER_PTE A - 1)) + PTRS_PER_PTE A - 1;
          max_pgoff = min max_pgoff (min (vma_pages v + vm_pgoff v - 1) (pgoff + nr_pages - 1)) in
      (start_addr, off, pgoff, max_pgoff))"

text \<open>The search for an empty entry: \<open>None\<close> when the function returns from inside the loop.\<close>

definition skip_mapped :: "arch \<Rightarrow> vma \<Rightarrow> u64 \<Rightarrow> int \<Rightarrow> u64 \<Rightarrow> u64 \<Rightarrow> (int \<times> u64 \<times> u64) option mact" where
  "skip_mapped A v max_pgoff pte start_addr pgoff w =
     bnd (do_while (range_fuel start_addr (vm_end v)) (\<lambda>(pte, start_addr, pgoff, out) w.
            bnd (read_pte pte w) (\<lambda>p w.
            if pte_none A p then ret (False, (pte, start_addr, pgoff, False)) w
            else if max_pgoff < pgoff + 1 then ret (False, (pte, start_addr, pgoff + 1, True)) w
            else if vm_end v \<le> start_addr + PAGE_SIZE
            then ret (False, (pte, start_addr + PAGE_SIZE, pgoff + 1, True)) w
            else ret (True, (pte + 1, start_addr + PAGE_SIZE, pgoff + 1, False)) w))
          (pte, start_addr, pgoff, False) w) (\<lambda>(pte, start_addr, pgoff, out) w.
     ret (if out then None else Some (pte, start_addr, pgoff)) w)"

definition do_fault_around :: "arch \<Rightarrow> vma \<Rightarrow> u64 \<Rightarrow> int \<Rightarrow> u64 \<Rightarrow> unit mact" where
  "do_fault_around A v address pte pgoff w =
     (let (start_addr, off, pgoff, max_pgoff) = around_range A (fault_around_bytes w) v address pgoff in
      bnd (skip_mapped A v max_pgoff (pte - uint off) start_addr pgoff w) (\<lambda>r w.
      case r of
        None \<Rightarrow> ret () w
      | Some (pte, start_addr, pgoff) \<Rightarrow> kdo (Ft (Vma_map_pages start_addr pte pgoff max_pgoff)) w))"

section \<open>Read, copy-on-write and shared faults\<close>

definition do_read_fault :: "arch \<Rightarrow> vma \<Rightarrow> u64 \<Rightarrow> int \<Rightarrow> u64 \<Rightarrow> u64 \<Rightarrow> vm_fault set mact" where
  "do_read_fault A v address pmd pgoff orig_pte w =
     bnd (if has_map_pages v \<and> 1 < drop_bit 12 (fault_around_bytes w)
          then
            bnd (kcall (Lk (Pte_offset_map_lock pmd address)) w) (\<lambda>pte w.
            bnd (do_fault_around A v address pte pgoff w) (\<lambda>_ w.
            bnd (read_pte pte w) (\<lambda>p w.
            bnd (kdo (Lk (Pte_unmap_unlock pte)) w) (\<lambda>_ w.
            ret (\<not> pte_same A p orig_pte) w))))
          else ret False w) (\<lambda>mapped w.
     if mapped then ret {} w
     else
       bnd (raw_do_fault A address pgoff 0 w) (\<lambda>(code, fault_page) w.
       if code \<inter> no_page A \<noteq> {} then ret code w
       else
         bnd (kcall (Lk (Pte_offset_map_lock pmd address)) w) (\<lambda>pte w.
         bnd (read_pte pte w) (\<lambda>p w.
         if \<not> pte_same A p orig_pte
         then
           bnd (kdo (Lk (Pte_unmap_unlock pte)) w) (\<lambda>_ w.
           bnd (kdo (Pg (Unlock_page fault_page)) w) (\<lambda>_ w.
           bnd (kdo (Pg (Page_cache_release fault_page)) w) (\<lambda>_ w. ret code w)))
         else
           bnd (do_set_pte A v address fault_page pte False False w) (\<lambda>_ w.
           bnd (kdo (Pg (Unlock_page fault_page)) w) (\<lambda>_ w.
           bnd (kdo (Lk (Pte_unmap_unlock pte)) w) (\<lambda>_ w. ret code w)))))))"

text \<open>Giving back what the handler of the area holds: the page, or its lock against truncation.\<close>

definition cow_put_fault_page :: "vma \<Rightarrow> int \<Rightarrow> unit mact" where
  "cow_put_fault_page v fault_page w =
     (if fault_page \<noteq> 0
      then bnd (kdo (Pg (Unlock_page fault_page)) w) (\<lambda>_ w. kdo (Pg (Page_cache_release fault_page)) w)
      else kdo (Lk (I_mmap_unlock_read (f_mapping v))) w)"

definition uncharge_out :: "int \<Rightarrow> vm_fault set \<Rightarrow> vm_fault set mact" where
  "uncharge_out new_page code w =
     bnd (kdo (Pg (Mem_cgroup_cancel new_page)) w) (\<lambda>_ w.
     bnd (kdo (Pg (Page_cache_release new_page)) w) (\<lambda>_ w. ret code w))"

definition cow_map_page :: "arch \<Rightarrow> vma \<Rightarrow> u64 \<Rightarrow> int \<Rightarrow> u64 \<Rightarrow> int \<Rightarrow> int \<Rightarrow> vm_fault set \<Rightarrow> vm_fault set mact" where
  "cow_map_page A v address pmd orig_pte new_page fault_page code w =
     bnd (cond (fault_page \<noteq> 0) (kdo (Pg (Copy_user_page new_page fault_page address))) w) (\<lambda>_ w.
     bnd (kdo (Pg (SetPageUptodate new_page)) w) (\<lambda>_ w.
     bnd (kcall (Lk (Pte_offset_map_lock pmd address)) w) (\<lambda>pte w.
     bnd (read_pte pte w) (\<lambda>p w.
     if \<not> pte_same A p orig_pte
     then
       bnd (kdo (Lk (Pte_unmap_unlock pte)) w) (\<lambda>_ w.
       bnd (cow_put_fault_page v fault_page w) (\<lambda>_ w. uncharge_out new_page code w))
     else
       bnd (do_set_pte A v address new_page pte True True w) (\<lambda>_ w.
       bnd (kdo (Pg (Mem_cgroup_commit new_page False)) w) (\<lambda>_ w.
       bnd (kdo (Pg (Lru_cache_add new_page)) w) (\<lambda>_ w.
       bnd (kdo (Lk (Pte_unmap_unlock pte)) w) (\<lambda>_ w.
       bnd (cow_put_fault_page v fault_page w) (\<lambda>_ w. ret code w)))))))))"

definition do_cow_fault :: "arch \<Rightarrow> vma \<Rightarrow> u64 \<Rightarrow> int \<Rightarrow> u64 \<Rightarrow> u64 \<Rightarrow> vm_fault set mact" where
  "do_cow_fault A v address pmd pgoff orig_pte w =
     bnd (kask (Ft (Anon_vma_prepare (vma_ptr v))) w) (\<lambda>failed w.
     if failed then ret {VM_FAULT_OOM} w
     else
       bnd (kcall (Pg (Alloc_page_vma address)) w) (\<lambda>new_page w.
       if new_page = 0 then ret {VM_FAULT_OOM} w
       else
         bnd (kask (Pg (Mem_cgroup_try_charge new_page)) w) (\<lambda>failed w.
         if failed
         then bnd (kdo (Pg (Page_cache_release new_page)) w) (\<lambda>_ w. ret {VM_FAULT_OOM} w)
         else
           bnd (raw_do_fault A address pgoff new_page w) (\<lambda>(code, fault_page) w.
           if code \<inter> no_page A \<noteq> {} then uncharge_out new_page code w
           else cow_map_page A v address pmd orig_pte new_page fault_page code w))))"

definition shared_dirty :: "vma \<Rightarrow> int \<Rightarrow> unit mact" where
  "shared_dirty v fault_page w =
     bnd (kask (Pg (Set_page_dirty fault_page)) w) (\<lambda>dirtied w.
     bnd (kcall (Pg (Page_mapping fault_page)) w) (\<lambda>mapping w.
     bnd (kdo (Pg (Unlock_page fault_page)) w) (\<lambda>_ w.
     bnd (cond ((dirtied \<or> has_page_mkwrite v) \<and> mapping \<noteq> 0) (kdo (Ft (Balance_dirty_pages mapping))) w) (\<lambda>_ w.
     cond (\<not> has_page_mkwrite v) (kdo (Ft (File_update_time (vm_file v)))) w))))"

definition do_shared_fault :: "arch \<Rightarrow> vma \<Rightarrow> u64 \<Rightarrow> int \<Rightarrow> u64 \<Rightarrow> u64 \<Rightarrow> vm_fault set mact" where
  "do_shared_fault A v address pmd pgoff orig_pte w =
     bnd (raw_do_fault A address pgoff 0 w) (\<lambda>(code, fault_page) w.
     if code \<inter> no_page A \<noteq> {} then ret code w
     else
       bnd (if has_page_mkwrite v
            then bnd (kdo (Pg (Unlock_page fault_page)) w) (\<lambda>_ w.
                 bnd (do_page_mkwrite A v fault_page address w) (\<lambda>tmp w.
                 if tmp = {} \<or> tmp \<inter> error_or_nopage A \<noteq> {}
                 then bnd (kdo (Pg (Page_cache_release fault_page)) w) (\<lambda>_ w. ret (Some tmp) w)
                 else ret None w))
            else ret None w) (\<lambda>early w.
       case early of
         Some tmp \<Rightarrow> ret tmp w
       | None \<Rightarrow>
           bnd (kcall (Lk (Pte_offset_map_lock pmd address)) w) (\<lambda>pte w.
           bnd (read_pte pte w) (\<lambda>p w.
           if \<not> pte_same A p orig_pte
           then
             bnd (kdo (Lk (Pte_unmap_unlock pte)) w) (\<lambda>_ w.
             bnd (kdo (Pg (Unlock_page fault_page)) w) (\<lambda>_ w.
             bnd (kdo (Pg (Page_cache_release fault_page)) w) (\<lambda>_ w. ret code w)))
           else
             bnd (do_set_pte A v address fault_page pte True False w) (\<lambda>_ w.
             bnd (kdo (Lk (Pte_unmap_unlock pte)) w) (\<lambda>_ w.
             bnd (shared_dirty v fault_page w) (\<lambda>_ w. ret code w)))))))"

definition do_fault :: "arch \<Rightarrow> vma \<Rightarrow> u64 \<Rightarrow> int \<Rightarrow> int \<Rightarrow> bool \<Rightarrow> u64 \<Rightarrow> vm_fault set mact" where
  "do_fault A v address page_table pmd write orig_pte w =
     (let pgoff = drop_bit 12 ((address AND PAGE_MASK) - vm_start v) + vm_pgoff v in
      bnd (kdo (Lk (Pte_unmap page_table)) w) (\<lambda>_ w.
      if \<not> has_fault v then ret {VM_FAULT_SIGBUS} w
      else if \<not> write then do_read_fault A v address pmd pgoff orig_pte w
      else if VM_SHARED \<notin> vm_flags v then do_cow_fault A v address pmd pgoff orig_pte w
      else do_shared_fault A v address pmd pgoff orig_pte w))"

section \<open>The dispatch\<close>

definition create_huge_pmd :: "arch \<Rightarrow> vma \<Rightarrow> u64 \<Rightarrow> vm_fault set mact" where
  "create_huge_pmd A v address w =
     (if vm_ops v = 0 then bnd (kcall (Ft (Do_huge_pmd_anonymous_page address)) w) (\<lambda>r w. ret (fault_bits A r) w)
      else if has_pmd_fault v then bnd (kcall (Ft (Vma_pmd_fault address)) w) (\<lambda>r w. ret (fault_bits A r) w)
      else ret {VM_FAULT_FALLBACK} w)"

definition wp_huge_pmd :: "arch \<Rightarrow> vma \<Rightarrow> u64 \<Rightarrow> vm_fault set mact" where
  "wp_huge_pmd A v address w =
     (if vm_ops v = 0 then bnd (kcall (Ft (Do_huge_pmd_wp_page address)) w) (\<lambda>r w. ret (fault_bits A r) w)
      else if has_pmd_fault v then bnd (kcall (Ft (Vma_pmd_fault address)) w) (\<lambda>r w. ret (fault_bits A r) w)
      else ret {VM_FAULT_FALLBACK} w)"

text \<open>A present entry under the lock: the tail of \<open>handle_pte_fault\<close>. An area is anonymous when it has no \<open>vm_ops\<close>.\<close>

definition pte_access :: "arch \<Rightarrow> vma \<Rightarrow> u64 \<Rightarrow> int \<Rightarrow> int \<Rightarrow> bool \<Rightarrow> u64 \<Rightarrow> vm_fault set mact" where
  "pte_access A v address pte pmd write entry w =
     bnd (kcall (Lk (Pte_lockptr (vm_mm v) pmd)) w) (\<lambda>ptl w.
     bnd (kdo (Lk (Spin_lock ptl)) w) (\<lambda>_ w.
     bnd (read_pte pte w) (\<lambda>p w.
     if \<not> pte_same A p entry
     then bnd (kdo (Lk (Pte_unmap_unlock pte)) w) (\<lambda>_ w. ret {} w)
     else if write \<and> \<not> pte_write A entry then do_wp_page A v address pte pmd entry w
     else
       let entry = pte_mkyoung A (if write then pte_mkdirty A entry else entry) in
       bnd (kask (Pe (Ptep_set_access_flags address pte entry write)) w) (\<lambda>changed w.
       bnd (if changed then kdo (Pe (Update_mmu_cache address pte)) w
            else cond write (kdo (Pe (Flush_tlb_fix_spurious address))) w) (\<lambda>_ w.
       bnd (kdo (Lk (Pte_unmap_unlock pte)) w) (\<lambda>_ w. ret {} w))))))"

definition handle_pte_fault ::
  "arch \<Rightarrow> vma option \<Rightarrow> vma option \<Rightarrow> vma \<Rightarrow> u64 \<Rightarrow> int \<Rightarrow> int \<Rightarrow> bool \<Rightarrow> vm_fault set mact" where
  "handle_pte_fault A prev nxt v address pte pmd write w =
     bnd (read_pte pte w) (\<lambda>entry w.
     bnd (kdo (Lk Barrier) w) (\<lambda>_ w.
     if \<not> pte_present A entry then
       if pte_none A entry then
         if vm_ops v = 0 then do_anonymous_page A prev nxt v address pte pmd write w
         else do_fault A v address pte pmd write entry w
       else do_swap_page A v address pte pmd write entry w
     else if pte_protnone A entry
     then do_numa_page A v address entry pte pmd w
     else pte_access A v address pte pmd write entry w))"

text \<open>A huge entry in the middle level: \<open>Some\<close> the code with which the function returns.\<close>

definition unless_fallback :: "vm_fault set \<Rightarrow> vm_fault set option" where
  "unless_fallback code = (if VM_FAULT_FALLBACK \<notin> code then Some code else None)"

definition trans_huge_fault :: "arch \<Rightarrow> vma \<Rightarrow> u64 \<Rightarrow> int \<Rightarrow> bool \<Rightarrow> vm_fault set option mact" where
  "trans_huge_fault A v address pmd write w =
     bnd (kask (Tb (Pmd_trans_splitting pmd)) w) (\<lambda>splitting w.
     if splitting then ret (Some {}) w
     else
       bnd (kask (Ft (Pmd_protnone pmd)) w) (\<lambda>protnone w.
       if protnone
       then bnd (kcall (Ft (Do_huge_pmd_numa_page address)) w) (\<lambda>r w. ret (Some (fault_bits A r)) w)
       else
         bnd (andalso write (\<lambda>w. bnd (kask (Ft (Pmd_write pmd)) w) (\<lambda>pw w. ret (\<not> pw) w)) w) (\<lambda>wp w.
         if wp
         then bnd (wp_huge_pmd A v address w) (\<lambda>code w. ret (unless_fallback code) w)
         else bnd (kdo (Ft (Huge_pmd_set_accessed address)) w) (\<lambda>_ w. ret (Some {}) w))))"

definition huge_pmd_fault :: "arch \<Rightarrow> vma \<Rightarrow> u64 \<Rightarrow> int \<Rightarrow> bool \<Rightarrow> vm_fault set option mact" where
  "huge_pmd_fault A v address pmd write w =
     bnd (kask (Tb (Pmd_none pmd)) w) (\<lambda>none w.
     bnd (andalso none (kask (Ft (Transparent_hugepage_enabled (vma_ptr v)))) w) (\<lambda>create w.
     if create
     then bnd (create_huge_pmd A v address w) (\<lambda>code w. ret (unless_fallback code) w)
     else
       bnd (kdo (Lk Barrier) w) (\<lambda>_ w.
       bnd (kask (Tb (Pmd_trans_huge pmd)) w) (\<lambda>huge w.
       if huge then trans_huge_fault A v address pmd write w else ret None w))))"

definition raw_handle_mm_fault ::
  "arch \<Rightarrow> vma option \<Rightarrow> vma option \<Rightarrow> vma \<Rightarrow> u64 \<Rightarrow> bool \<Rightarrow> vm_fault set mact" where
  "raw_handle_mm_fault A prev nxt v address write w =
     (if is_vm_hugetlb_page v
      then bnd (kcall (Ft (Hugetlb_fault address)) w) (\<lambda>r w. ret (fault_bits A r) w)
      else
        bnd (kcall (Tb (Pgd_offset (vm_mm v) address)) w) (\<lambda>pgd w.
        bnd (kcall (Fr (Pud_alloc pgd address)) w) (\<lambda>pud w.
        if pud = 0 then ret {VM_FAULT_OOM} w
        else
          bnd (kcall (Fr (Pmd_alloc pud address)) w) (\<lambda>pmd w.
          if pmd = 0 then ret {VM_FAULT_OOM} w
          else
            bnd (huge_pmd_fault A v address pmd write w) (\<lambda>huge w.
            case huge of
              Some code \<Rightarrow> ret code w
            | None \<Rightarrow>
                bnd (kask (Tb (Pmd_none pmd)) w) (\<lambda>none w.
                bnd (if none then raw_pte_alloc pmd address w else ret 0 w) (\<lambda>err w.
                if err \<noteq> 0 then ret {VM_FAULT_OOM} w
                else
                  bnd (kask (Ft (Pmd_trans_unstable pmd)) w) (\<lambda>unstable w.
                  if unstable then ret {} w
                  else
                    bnd (kcall (Lk (Pte_offset_map_nested pmd address)) w) (\<lambda>pte w.
                    handle_pte_fault A prev nxt v address pte pmd write w)))))))))"

definition handle_mm_fault ::
  "arch \<Rightarrow> vma option \<Rightarrow> vma option \<Rightarrow> vma \<Rightarrow> u64 \<Rightarrow> fault_flag set \<Rightarrow> vm_fault set mact" where
  "handle_mm_fault A prev nxt v address flags w =
     bnd (kdo (Ft Set_task_running) w) (\<lambda>_ w.
     bnd (kdo (Sw (Count_vm_event ''PGFAULT'')) w) (\<lambda>_ w.
     bnd (kdo (Sw (Count_vm_event ''memcg PGFAULT'')) w) (\<lambda>_ w.
     bnd (check_sync_rss_stat True w) (\<lambda>_ w.
     let user = (FAULT_FLAG_USER \<in> flags) in
     bnd (cond user (kdo (Ft Mem_cgroup_oom_enable)) w) (\<lambda>_ w.
     bnd (raw_handle_mm_fault A prev nxt v address (FAULT_FLAG_WRITE \<in> flags) w) (\<lambda>code w.
     bnd (cond user (\<lambda>w.
            bnd (kdo (Ft Mem_cgroup_oom_disable) w) (\<lambda>_ w.
            bnd (kask (Ft Task_in_memcg_oom) w) (\<lambda>oom w.
            cond (oom \<and> VM_FAULT_OOM \<notin> code) (kdo (Ft Mem_cgroup_oom_synchronize)) w))) w) (\<lambda>_ w.
     ret code w)))))))"

end
