(* ===== verification/FaultProps.thy ===== *)
theory FaultProps
  imports FileFault TableProps "HOL-Library.Multiset"
begin

text \<open>
  What the fault code guarantees: a fault leaves nothing behind. Everything it takes on the way,
  references to pages, page locks, memory-control charges, the page-table lock, is given back or
  handed to the page table, on every path and for every behaviour of the rest of the kernel.
\<close>

section \<open>What a fault holds\<close>

text \<open>
  References, page locks and charges are multisets of pages, \<open>r_ptl\<close> says whether a page-table lock
  is held, \<open>r_imap\<close> counts the locks that fault handlers took against truncation. \<open>r_ok\<close> is lost when
  something is given back that is not held, when an entry is changed without the lock, or when a
  second lock is taken. \<open>r_rely\<close> is lost when a fault handler breaks its contract: it may come back
  without error and without a page only if it was given a page to copy into.
\<close>

record res =
  r_ok :: bool
  r_rely :: bool
  r_refs :: "int multiset"
  r_locked :: "int multiset"
  r_charged :: "int multiset"
  r_ptl :: bool
  r_imap :: nat

definition take_ref :: "int \<Rightarrow> res \<Rightarrow> res" where
  "take_ref p s = s\<lparr>r_refs := add_mset p (r_refs s)\<rparr>"

definition drop_ref :: "int \<Rightarrow> res \<Rightarrow> res" where
  "drop_ref p s = s\<lparr>r_ok := r_ok s \<and> p \<in># r_refs s, r_refs := r_refs s - {#p#}\<rparr>"

definition take_lock :: "int \<Rightarrow> res \<Rightarrow> res" where
  "take_lock p s = s\<lparr>r_locked := add_mset p (r_locked s)\<rparr>"

definition drop_lock :: "int \<Rightarrow> res \<Rightarrow> res" where
  "drop_lock p s = s\<lparr>r_ok := r_ok s \<and> p \<in># r_locked s, r_locked := r_locked s - {#p#}\<rparr>"

definition drop_charge :: "int \<Rightarrow> res \<Rightarrow> res" where
  "drop_charge p s = s\<lparr>r_ok := r_ok s \<and> p \<in># r_charged s, r_charged := r_charged s - {#p#}\<rparr>"

definition take_ptl :: "res \<Rightarrow> res" where
  "take_ptl s = s\<lparr>r_ok := r_ok s \<and> \<not> r_ptl s, r_ptl := True\<rparr>"

definition drop_ptl :: "res \<Rightarrow> res" where
  "drop_ptl s = s\<lparr>r_ok := r_ok s \<and> r_ptl s, r_ptl := False\<rparr>"

definition need_ptl :: "res \<Rightarrow> res" where
  "need_ptl s = s\<lparr>r_ok := r_ok s \<and> r_ptl s\<rparr>"

fun lock_step :: "res \<Rightarrow> lock_call \<Rightarrow> res" where
  "lock_step s (Spin_lock l) = take_ptl s"
| "lock_step s (Pmd_lock l) = take_ptl s"
| "lock_step s (Pte_offset_map_lock m a) = take_ptl s"
| "lock_step s (Spin_unlock l) = drop_ptl s"
| "lock_step s (Pte_unmap_unlock p) = drop_ptl s"
| "lock_step s (I_mmap_unlock_read m) = s\<lparr>r_ok := r_ok s \<and> 0 < r_imap s, r_imap := r_imap s - 1\<rparr>"
| "lock_step s c = s"

fun page_step :: "res \<Rightarrow> page_call \<Rightarrow> int \<Rightarrow> res" where
  "page_step s (Page_cache_get p) r = take_ref p s"
| "page_step s (Get_page p) r = take_ref p s"
| "page_step s (Page_cache_release p) r = drop_ref p s"
| "page_step s (Page_remove_rmap p) r = take_ref p (need_ptl s)"
| "page_step s (Page_add_anon_rmap p a x) r = drop_ref p (need_ptl s)"
| "page_step s (Page_add_new_anon_rmap p a) r = drop_ref p (need_ptl s)"
| "page_step s (Page_add_file_rmap p) r = drop_ref p (need_ptl s)"
| "page_step s (Lock_page p) r = take_lock p s"
| "page_step s (Trylock_page p) r = (if r = 0 then s else take_lock p s)"
| "page_step s (Lock_page_or_retry p) r = (if r = 0 then s else take_lock p s)"
| "page_step s (Unlock_page p) r = drop_lock p s"
| "page_step s (Alloc_zeroed_page a) r = (if r = 0 then s else take_ref r s)"
| "page_step s (Alloc_page_vma a) r = (if r = 0 then s else take_ref r s)"
| "page_step s (Mem_cgroup_try_charge p) r = (if r = 0 then s\<lparr>r_charged := add_mset p (r_charged s)\<rparr> else s)"
| "page_step s (Mem_cgroup_commit p l) r = drop_charge p s"
| "page_step s (Mem_cgroup_cancel p) r = drop_charge p s"
| "page_step s c r = s"

fun swap_step :: "res \<Rightarrow> swap_call \<Rightarrow> int \<Rightarrow> res" where
  "swap_step s (Lookup_swap_cache e) r = (if r = 0 then s else take_ref r s)"
| "swap_step s (Swapin_readahead e a) r = (if r = 0 then s else take_ref r s)"
| "swap_step s (Ksm_might_need_to_copy p a) r = (if r = 0 \<or> r = p then s else take_lock r (take_ref r s))"
| "swap_step s c r = s"

fun pte_step :: "res \<Rightarrow> pte_call \<Rightarrow> res" where
  "pte_step s (Set_pte_at m a p e) = need_ptl s"
| "pte_step s (Ptep_clear_flush a p) = need_ptl s"
| "pte_step s (Ptep_set_access_flags a p e d) = need_ptl s"
| "pte_step s c = s"

definition fault_answer :: "arch \<Rightarrow> int \<Rightarrow> res \<Rightarrow> int \<Rightarrow> res" where
  "fault_answer A cow s r =
     (if fault_bits A r \<inter> no_page A \<noteq> {} then s
      else if vmf_page A r = 0 then s\<lparr>r_rely := r_rely s \<and> cow \<noteq> 0, r_imap := r_imap s + 1\<rparr>
      else let s = take_ref (vmf_page A r) s in
        if VM_FAULT_LOCKED \<in> fault_bits A r then take_lock (vmf_page A r) s else s)"

fun fault_step :: "arch \<Rightarrow> res \<Rightarrow> fault_call \<Rightarrow> int \<Rightarrow> res" where
  "fault_step A s (Vma_page_mkwrite p) r =
     (if fault_bits A r \<inter> error_or_nopage A = {} \<and> VM_FAULT_LOCKED \<in> fault_bits A r then take_lock p s else s)"
| "fault_step A s (Vma_fault cow a pgoff) r = fault_answer A cow s r"
| "fault_step A s c r = s"

text \<open>\<open>migrate_misplaced_page\<close> drops the caller's reference, whether it migrates the page or not.\<close>

fun map_step :: "res \<Rightarrow> map_call \<Rightarrow> res" where
  "map_step s (Put_page p) = drop_ref p s"
| "map_step s (Migrate_misplaced_page p m n) = drop_ref p s"
| "map_step s c = s"

fun res_step :: "arch \<Rightarrow> res \<Rightarrow> kc \<Rightarrow> int \<Rightarrow> res" where
  "res_step A s (Lk c) r = lock_step s c"
| "res_step A s (Pg c) r = page_step s c r"
| "res_step A s (Sw c) r = swap_step s c r"
| "res_step A s (Pe c) r = pte_step s c"
| "res_step A s (Ft c) r = fault_step A s c r"
| "res_step A s (Mp c) r = map_step s c"
| "res_step A s c r = s"

definition res0 :: res where
  "res0 = \<lparr>r_ok = True, r_rely = True, r_refs = {#}, r_locked = {#}, r_charged = {#}, r_ptl = False, r_imap = 0\<rparr>"

abbreviation held :: "arch \<Rightarrow> mmw \<Rightarrow> res" where
  "held A w \<equiv> ghost (res_step A) res0 w"

text \<open>As long as the fault handlers keep their contract, the fault holds exactly this.\<close>

definition has :: "arch \<Rightarrow> int multiset \<Rightarrow> int multiset \<Rightarrow> int multiset \<Rightarrow> bool \<Rightarrow> nat \<Rightarrow> mmw \<Rightarrow> bool" where
  "has A R L C t i w = (r_rely (held A w) \<longrightarrow>
     r_ok (held A w) \<and> r_refs (held A w) = R \<and> r_locked (held A w) = L \<and> r_charged (held A w) = C \<and>
     r_ptl (held A w) = t \<and> r_imap (held A w) = i)"

lemmas res_defs = has_def take_ref_def drop_ref_def take_lock_def drop_lock_def drop_charge_def take_ptl_def
  drop_ptl_def need_ptl_def

lemma has_mmw [simp]:
  "has A R L C t i (w\<lparr>nr_shown := x\<rparr>) = has A R L C t i w" "has A R L C t i (w\<lparr>nr_unshown := x\<rparr>) = has A R L C t i w"
  "has A R L C t i (w\<lparr>resume := x\<rparr>) = has A R L C t i w" "has A R L C t i (w\<lparr>rss_count := y\<rparr>) = has A R L C t i w"
  "has A R L C t i (w\<lparr>rss_events := z\<rparr>) = has A R L C t i w" "has A R L C t i (w\<lparr>in_store := a\<rparr>) = has A R L C t i w"
  "has A R L C t i (w\<lparr>firstTime_IN := b\<rparr>) = has A R L C t i w" "has A R L C t i (w\<lparr>contents_IN := c\<rparr>) = has A R L C t i w"
  "has A R L C t i (w\<lparr>pageFilled_IN := d\<rparr>) = has A R L C t i w"
  by (simp_all add: has_def)

declare tpost_cases [run_intros]

text \<open>Functions that take and give nothing.\<close>

lemma held_frame_bndI:
  "tpost (\<lambda>_ w'. held A w' = held A w) m \<Longrightarrow> (\<And>a w'. held A w' = held A w \<Longrightarrow> tpost P (f a w')) \<Longrightarrow> tpost P (bnd m f)"
  by (rule tpost_bndI)

lemma add_mm_counter_fast_held: "tpost (\<lambda>_ w'. held A w' = held A w) (add_mm_counter_fast mm m v w)"
  unfolding add_mm_counter_fast_def by (intro run_intros) simp_all

lemma print_bad_pte_held: "tpost (\<lambda>_ w'. held A w' = held A w) (print_bad_pte B v addr pte page w)"
  unfolding print_bad_pte_def by (intro run_intros) simp_all

lemma check_pfn_held: "tpost (\<lambda>_ w'. held A w' = held A w) (check_pfn B v addr pte w)"
  unfolding check_pfn_def
  by (intro run_intros held_frame_bndI [OF print_bad_pte_held [of A]]) simp_all

lemma vm_normal_page_held: "tpost (\<lambda>_ w'. held A w' = held A w) (vm_normal_page B v addr pte w)"
  unfolding vm_normal_page_def
  by (intro run_intros tpost_mono [OF check_pfn_held [of A]] held_frame_bndI [OF print_bad_pte_held [of A]]) simp_all

lemma cow_user_page_held: "tpost (\<lambda>_ w'. held A w' = held A w) (cow_user_page d s a w)"
  unfolding cow_user_page_def by (intro run_intros) simp_all

lemma sync_mm_rss_held: "tpost (\<lambda>_ w'. held A w' = held A w) (sync_mm_rss mm w)"
  unfolding sync_mm_rss_def sync_member_def members_def each.simps
  by (intro run_intros) simp_all

lemma check_sync_rss_stat_held: "tpost (\<lambda>_ w'. held A w' = held A w) (check_sync_rss_stat c w)"
  unfolding check_sync_rss_stat_def
  by (intro run_intros tpost_mono [OF sync_mm_rss_held [of A]]) simp_all

lemma held_runs:
  "(\<And>a w'. held A w' = held A w \<Longrightarrow> tpost P (f a w')) \<Longrightarrow> tpost P (bnd (add_mm_counter_fast mm m x w) f)"
  "(\<And>a w'. held A w' = held A w \<Longrightarrow> tpost P (f a w')) \<Longrightarrow> tpost P (bnd (print_bad_pte B v addr pte page w) f)"
  "(\<And>a w'. held A w' = held A w \<Longrightarrow> tpost P (g a w')) \<Longrightarrow> tpost P (bnd (vm_normal_page B v addr pte w) g)"
  "(\<And>a w'. held A w' = held A w \<Longrightarrow> tpost P (f a w')) \<Longrightarrow> tpost P (bnd (cow_user_page d s addr w) f)"
  "(\<And>a w'. held A w' = held A w \<Longrightarrow> tpost P (f a w')) \<Longrightarrow> tpost P (bnd (check_sync_rss_stat c w) f)"
  by (rule held_frame_bndI, (rule add_mm_counter_fast_held print_bad_pte_held vm_normal_page_held cow_user_page_held check_sync_rss_stat_held), assumption)+

section \<open>Write faults\<close>

lemma pte_unmap_same_has:
  assumes "has A R L C False i w"
  shows "tpost (\<lambda>_. has A R L C False i) (pte_unmap_same A mm pmd pt orig w)"
  unfolding pte_unmap_same_def
  by (intro run_intros) (use assms in \<open>auto simp: res_defs\<close>)

text \<open>The values of the return codes: a locked page is no error, poisoned memory is one.\<close>

definition codes_ok :: "arch \<Rightarrow> bool" where
  "codes_ok A = (VM_FAULT_LOCKED \<notin> VM_FAULT_ERROR A \<and> VM_FAULT_HWPOISON \<in> VM_FAULT_ERROR A)"

lemma do_page_mkwrite_has:
  assumes "has A R L C t i w" "codes_ok A"
  shows "tpost (\<lambda>code w'. if code = {} \<or> code \<inter> error_or_nopage A \<noteq> {} then has A R L C t i w' else has A R (add_mset p L) C t i w')
     (do_page_mkwrite A v p a w)"
  unfolding do_page_mkwrite_def
  by (intro run_intros) (use assms in \<open>auto simp: res_defs codes_ok_def error_or_nopage_def\<close>)

lemma reuse_dirty_has:
  assumes "has A (add_mset p R) (if m then add_mset p L else L) C t i w"
  shows "tpost (\<lambda>_. has A R L C t i) (reuse_dirty v p m w)"
  unfolding reuse_dirty_def
  by (intro run_intros) (use assms in \<open>auto simp: res_defs split: if_splits\<close>)

lemma wp_page_reuse_has:
  assumes "has A (if d then add_mset p R else R) (if d \<and> m then add_mset p L else L) C True i w"
  shows "tpost (\<lambda>_. has A R L C False i) (wp_page_reuse A v a pt orig p m d w)"
  unfolding wp_page_reuse_def
  by (intro run_intros tpost_bndI [OF reuse_dirty_has [where R = R and L = L and C = C and t = False and i = i]])
     (use assms in \<open>auto simp: res_defs split: if_splits\<close>)

lemma wp_new_page_has:
  assumes "has A R L C False i w"
  shows "tpost (\<lambda>n w'. case n of None \<Rightarrow> has A R L C False i w'
      | Some p \<Rightarrow> p \<noteq> 0 \<and> has A (add_mset p R) L (add_mset p C) False i w') (wp_new_page A v a orig old w)"
  unfolding wp_new_page_def
  by (intro run_intros held_runs [of A]) (use assms in \<open>auto simp: res_defs split: if_splits\<close>)

lemma wp_exchange_has:
  assumes "has A (add_mset new R) L (add_mset new C) True i w"
  shows "tpost (\<lambda>_. has A (if old = 0 then R else add_mset old R) L C True i) (wp_exchange A v a pt orig old new w)"
  unfolding wp_exchange_def
  by (intro run_intros held_runs [of A]) (use assms in \<open>auto simp: res_defs split: if_splits\<close>)

lemma wp_page_copy_has:
  assumes "has A (if old = 0 then R else add_mset old R) L C False i w"
  shows "tpost (\<lambda>_. has A R L C False i) (wp_page_copy A v a pmd orig old w)"
  unfolding wp_page_copy_def Let_def
  by (intro run_intros tpost_bndI [OF wp_new_page_has [OF assms]]
      tpost_bndI [OF wp_exchange_has [where R = "if old = 0 then R else add_mset old R" and L = L and C = C and i = i]])
     (auto simp: res_defs split: if_splits)

lemma wp_pfn_shared_has:
  assumes "has A R L C True i w"
  shows "tpost (\<lambda>_. has A R L C False i) (wp_pfn_shared A v a pt orig pmd w)"
  unfolding wp_pfn_shared_def
  by (intro run_intros wp_page_reuse_has) (use assms in \<open>auto simp: res_defs\<close>)

lemma wp_page_shared_has:
  assumes "has A R L C True i w" "codes_ok A"
  shows "tpost (\<lambda>_. has A R L C False i) (wp_page_shared A v a pt pmd orig old w)"
  unfolding wp_page_shared_def
  by (intro run_intros wp_page_reuse_has
      tpost_bndI [OF do_page_mkwrite_has [OF _ assms(2), where R = "add_mset old R" and L = L and C = C and t = False and i = i]])
     (use assms in \<open>auto simp: res_defs\<close>)

lemma wp_trylock_has:
  assumes "has A R L C True i w"
  shows "tpost (\<lambda>r w'. if r = None then has A R L C False i w' else has A R (add_mset old L) C True i w')
    (wp_trylock A a pt pmd orig old w)"
  unfolding wp_trylock_def by (intro run_intros) (use assms in \<open>auto simp: res_defs\<close>)

lemma wp_anon_has:
  assumes "has A R L C True i w"
  shows "tpost (\<lambda>r. has A R L C (\<not> isl r) i) (wp_anon A v a pt pmd orig old w)"
  unfolding wp_anon_def
  by (intro run_intros tpost_bndI [OF wp_trylock_has [OF assms]]
      tpost_bndI [OF wp_page_reuse_has [where R = R and L = L and C = C and i = i]])
     (auto simp: res_defs)

lemma do_wp_page_has:
  assumes "has A R L C True i w" "codes_ok A"
  shows "tpost (\<lambda>_. has A R L C False i) (do_wp_page A v a pt pmd orig w)"
  unfolding do_wp_page_def Let_def
  by (intro run_intros held_runs [of A] wp_pfn_shared_has wp_page_copy_has wp_page_shared_has
      tpost_bndI [OF wp_anon_has [where R = R and L = L and C = C and i = i]])
     (use assms in \<open>auto simp: res_defs\<close>)

section \<open>Swap-in\<close>

declare tpost_Inl [run_intros] tpost_bnd_Inl [run_intros]

lemma record_entry_held: "tpost (\<lambda>_ w'. held A w' = held A w) (record_entry e w)"
  unfolding record_entry_def by (intro run_intros) auto

lemma record_page_held: "tpost (\<lambda>_ w'. held A w' = held A w) (record_page e p w)"
  unfolding record_page_def Let_def by (intro run_intros) auto

lemma record_runs:
  "(\<And>a w'. held A w' = held A w \<Longrightarrow> tpost P (f a w')) \<Longrightarrow> tpost P (bnd (record_entry e w) f)"
  "(\<And>a w'. held A w' = held A w \<Longrightarrow> tpost P (f a w')) \<Longrightarrow> tpost P (bnd (record_page e p w) f)"
  by (rule held_frame_bndI, (rule record_entry_held record_page_held), assumption)+

text \<open>A second reference and lock, on the page of the swap cache, if the page is a copy of it.\<close>

abbreviation with_copy :: "int \<Rightarrow> int \<Rightarrow> int multiset \<Rightarrow> int multiset" where
  "with_copy page swapcache R \<equiv> add_mset page (if page = swapcache then R else add_mset swapcache R)"

lemma out_release_has:
  assumes "has A (with_copy p sc R) (if p = sc then L else add_mset sc L) C t i w"
  shows "tpost (\<lambda>_. has A R L C t i) (out_release p sc code w)"
  unfolding out_release_def
  by (intro run_intros) (use assms in \<open>auto simp: res_defs split: if_splits\<close>)

lemma out_page_has:
  assumes "has A (with_copy p sc R) (with_copy p sc L) C t i w"
  shows "tpost (\<lambda>_. has A R L C t i) (out_page p sc code w)"
  unfolding out_page_def
  by (intro run_intros out_release_has) (use assms in \<open>auto simp: res_defs split: if_splits\<close>)

lemma out_nomap_has:
  assumes "has A (with_copy p sc R) (with_copy p sc L) (add_mset p C) True i w"
  shows "tpost (\<lambda>_. has A R L C False i) (out_nomap pt p sc code w)"
  unfolding out_nomap_def
  by (intro run_intros out_page_has) (use assms in \<open>auto simp: res_defs split: if_splits\<close>)

lemma swap_set_pte_has:
  assumes "has A (with_copy p sc R) L (add_mset p C) True i w"
  shows "tpost (\<lambda>_. has A (if p = sc then R else add_mset sc R) L C True i) (swap_set_pte A v a pt wr orig p sc code w)"
  unfolding swap_set_pte_def Let_def
  by (intro run_intros held_runs [of A]) (use assms in \<open>simp_all add: res_defs split: if_splits\<close>)

lemma swap_put_has:
  assumes "has A (if p = sc then R else add_mset sc R) (with_copy p sc L) C t i w"
  shows "tpost (\<lambda>_. has A R L C t i) (swap_put v e p sc w)"
  unfolding swap_put_def Let_def
  by (intro run_intros) (use assms in \<open>simp_all add: res_defs split: if_splits\<close>)

lemma swap_finish_has:
  assumes "has A (with_copy p sc R) (with_copy p sc L) (add_mset p C) True i w" "codes_ok A"
  shows "tpost (\<lambda>_. has A R L C False i) (swap_finish A v a pmd pt wr orig e p sc code w)"
  unfolding swap_finish_def Let_def
  by (intro run_intros record_runs [of A] tpost_bndI [OF swap_set_pte_has [OF assms(1)]]
      tpost_bndI [OF swap_put_has [where R = R and L = L and C = C and t = True and i = i]]
      tpost_bndI [OF do_wp_page_has [where R = R and L = L and C = C and i = i]])
     (use assms(2) in \<open>auto simp: res_defs\<close>)

lemma swap_locked_has:
  assumes "has A (add_mset sc R) (add_mset sc L) C False i w" "codes_ok A"
  shows "tpost (\<lambda>_. has A R L C False i) (swap_locked A v a pmd wr orig e sc code w)"
  unfolding swap_locked_def
  by (intro run_intros out_page_has out_nomap_has swap_finish_has)
     (use assms in \<open>auto simp: res_defs split: if_splits\<close>)

lemma swap_lock_page_has:
  assumes "has A (add_mset p R) L C False i w" "codes_ok A"
  shows "tpost (\<lambda>_. has A R L C False i) (swap_lock_page A v a pmd wr orig e p code w)"
  unfolding swap_lock_page_def
  by (intro run_intros out_release_has swap_locked_has)
     (use assms in \<open>auto simp: res_defs split: if_splits\<close>)

lemma do_swap_page_has:
  assumes "has A R L C False i w" "codes_ok A"
  shows "tpost (\<lambda>_. has A R L C False i) (do_swap_page A v a pt pmd wr orig w)"
  unfolding do_swap_page_def Let_def
  by (intro run_intros held_runs [of A] record_runs [of A] out_release_has swap_lock_page_has
      tpost_bndI [OF pte_unmap_same_has [OF assms(1)]])
     (use assms(2) in \<open>auto simp: res_defs split: if_splits\<close>)

section \<open>Anonymous pages\<close>

lemma check_stack_guard_page_held: "tpost (\<lambda>_ w'. held A w' = held A w) (check_stack_guard_page p n v a w)"
  unfolding check_stack_guard_page_def Let_def by (intro run_intros) auto

lemma anon_setpte_has:
  assumes "has A R L C True i w"
  shows "tpost (\<lambda>_. has A R L C False i) (anon_setpte v a pt e w)"
  unfolding anon_setpte_def by (intro run_intros) (use assms in \<open>auto simp: res_defs\<close>)

lemma anon_zeropage_has:
  assumes "has A R L C False i w"
  shows "tpost (\<lambda>_. has A R L C False i) (anon_zeropage A v a pmd w)"
  unfolding anon_zeropage_def Let_def
  by (intro run_intros anon_setpte_has) (use assms in \<open>auto simp: res_defs\<close>)

lemma anon_private_has:
  assumes "has A (add_mset p R) L (add_mset p C) False i w"
  shows "tpost (\<lambda>_. has A R L C False i) (anon_private A v a pmd p w)"
  unfolding anon_private_def Let_def
  by (intro run_intros held_runs [of A] anon_setpte_has) (use assms in \<open>auto simp: res_defs\<close>)

lemma do_anonymous_page_has:
  assumes "has A R L C False i w"
  shows "tpost (\<lambda>_. has A R L C False i) (do_anonymous_page A pr nx v a pt pmd wr w)"
  unfolding do_anonymous_page_def
  by (intro run_intros held_frame_bndI [OF check_stack_guard_page_held [of A]] anon_zeropage_has anon_private_has)
     (use assms in \<open>auto simp: res_defs\<close>)

section \<open>Pages of files\<close>

text \<open>
  What \<open>__do_fault\<close> comes back with: nothing, if the code says so; else the page, referenced and
  locked, or (only with a page to copy into) the lock against truncation.
\<close>

lemma raw_do_fault_has:
  assumes "has A R L C False i w" "codes_ok A"
  shows "tpost (\<lambda>(code, p) w'. if code \<inter> no_page A \<noteq> {} then has A R L C False i w'
      else if p = 0 then has A R L C False (Suc i) w' \<and> (r_rely (held A w') \<longrightarrow> cow \<noteq> 0)
      else has A (add_mset p R) (add_mset p L) C False i w') (raw_do_fault A a pgoff cow w)"
  unfolding raw_do_fault_def Let_def
  by (intro run_intros) (use assms in \<open>auto simp: res_defs fault_answer_def Let_def codes_ok_def no_page_def\<close>)

lemma do_set_pte_has:
  assumes "has A (add_mset p R) L C True i w"
  shows "tpost (\<lambda>_. has A R L C True i) (do_set_pte A v a p pt wr anon w)"
  unfolding do_set_pte_def Let_def
  by (intro run_intros held_runs [of A]) (use assms in \<open>auto simp: res_defs\<close>)

text \<open>The areas of user space end below the last page of the address space.\<close>

definition area_ok :: "vma \<Rightarrow> bool" where
  "area_ok v = (vm_end v < - PAGE_SIZE)"

lemma area_step:
  fixes s e :: u64
  assumes "e < - PAGE_SIZE" "s + PAGE_SIZE < e"
  shows "unat (e - (s + PAGE_SIZE)) < unat (e - s)"
proof -
  have P: "unat (- PAGE_SIZE) = 2 ^ 64 - 4096" by (simp add: PAGE_SIZE_def)
  have s: "unat s < 2 ^ 64" using unsigned_less [of s, where 'a = nat] by simp
  have e: "unat e < 2 ^ 64 - 4096" using assms(1) P by (simp add: word_less_nat_alt)
  have sp: "unat (s + PAGE_SIZE) = (unat s + 4096) mod 2 ^ 64" by (simp add: unat_word_ariths PAGE_SIZE_def)
  have l: "unat (s + PAGE_SIZE) < unat e" using assms(2) by (simp add: word_less_nat_alt)
  have d: "unat (e - (s + PAGE_SIZE)) = unat e - unat (s + PAGE_SIZE)" using assms(2) by (simp add: unat_sub less_imp_le)
  show ?thesis
  proof (cases "unat s + 4096 < 2 ^ 64")
    case True
    then have "s \<le> e" using l sp by (simp add: word_le_nat_alt)
    then show ?thesis using d l sp True by (simp add: unat_sub)
  next
    case False
    then have sp': "unat (s + PAGE_SIZE) = unat s + 4096 - 2 ^ 64" using sp s by (simp add: mod_if)
    have "unat (e - s) = unat e + 2 ^ 64 - unat s"
      using e s False by (simp add: unat_sub_if')
    then show ?thesis using d l sp' e s False by linarith
  qed
qed
lemma skip_mapped_held:
  assumes "area_ok v"
  shows "tpost (\<lambda>_ w'. held A w' = held A w) (skip_mapped B v mx pt sa po w)"
  unfolding skip_mapped_def
proof (rule held_frame_bndI [of A])
  let ?d = "\<lambda>(pt :: int, sa, po :: u64, out :: bool). unat (vm_end v - sa)"
  show "tpost (\<lambda>_ w'. held A w' = held A w) (do_while (range_fuel sa (vm_end v)) (\<lambda>(pt, sa, po, out) w.
            bnd (read_pte pt w) (\<lambda>p w.
            if pte_none B p then ret (False, (pt, sa, po, False)) w
            else if mx < po + 1 then ret (False, (pt, sa, po + 1, True)) w
            else if vm_end v \<le> sa + PAGE_SIZE
            then ret (False, (pt, sa + PAGE_SIZE, po + 1, True)) w
            else ret (True, (pt + 1, sa + PAGE_SIZE, po + 1, False)) w))
          (pt, sa, po, False) w)"
  proof (rule tpost_do_while [where I = "\<lambda>_ w'. held A w' = held A w" and m = "\<lambda>s _. ?d s"], goal_cases)
    case (3 s w')
    obtain pt sa po out where s: "s = (pt, sa, po, out)" by (cases s)
    show ?case unfolding s split_conv
      by (intro run_intros) (use 3 assms area_step in \<open>auto simp: area_ok_def\<close>)
  qed (simp_all add: range_fuel_def)
qed (auto intro: run_intros)

lemma do_fault_around_held:
  assumes "area_ok v"
  shows "tpost (\<lambda>_ w'. held A w' = held A w) (do_fault_around B v a pt pgoff w)"
  unfolding do_fault_around_def Let_def split_def
  by (intro run_intros held_frame_bndI [OF skip_mapped_held [OF assms, of A]]) auto

lemma do_read_fault_has:
  assumes "has A R L C False i w" "codes_ok A" "area_ok v"
  shows "tpost (\<lambda>_. has A R L C False i) (do_read_fault A v a pmd pgoff orig w)"
  unfolding do_read_fault_def
  by (intro run_intros held_frame_bndI [OF do_fault_around_held [OF assms(3), of A]]
      tpost_bndI [OF raw_do_fault_has [OF _ assms(2), where R = R and L = L and C = C and i = i]]
      tpost_bndI [OF do_set_pte_has [where R = R and C = C and i = i]])
     (use assms in \<open>auto simp: res_defs split: if_splits\<close>)

lemma cow_put_fault_page_has:
  assumes "has A (if p = 0 then R else add_mset p R) (if p = 0 then L else add_mset p L) C t (if p = 0 then Suc i else i) w"
  shows "tpost (\<lambda>_. has A R L C t i) (cow_put_fault_page v p w)"
  unfolding cow_put_fault_page_def by (intro run_intros) (use assms in \<open>auto simp: res_defs split: if_splits\<close>)

lemma uncharge_out_has:
  assumes "has A (add_mset p R) L (add_mset p C) t i w"
  shows "tpost (\<lambda>_. has A R L C t i) (uncharge_out p code w)"
  unfolding uncharge_out_def by (intro run_intros) (use assms in \<open>auto simp: res_defs\<close>)

lemma cow_map_page_has:
  assumes "has A (add_mset n (if p = 0 then R else add_mset p R)) (if p = 0 then L else add_mset p L) (add_mset n C)
      False (if p = 0 then Suc i else i) w"
  shows "tpost (\<lambda>_. has A R L C False i) (cow_map_page A v a pmd orig n p code w)"
  unfolding cow_map_page_def
  by (intro run_intros uncharge_out_has
      tpost_bndI [OF cow_put_fault_page_has [where R = "add_mset n R" and L = L and C = "add_mset n C" and t = False and i = i]]
      tpost_bndI [OF cow_put_fault_page_has [where R = R and L = L and C = C and t = False and i = i]]
      tpost_bndI [OF do_set_pte_has [where R = "if p = 0 then R else add_mset p R" and C = "add_mset n C"
        and L = "if p = 0 then L else add_mset p L" and i = "if p = 0 then Suc i else i"]])
     (use assms in \<open>simp_all add: res_defs split: if_splits\<close>)

lemma do_cow_fault_has:
  assumes "has A R L C False i w" "codes_ok A"
  shows "tpost (\<lambda>_. has A R L C False i) (do_cow_fault A v a pmd pgoff orig w)"
  unfolding do_cow_fault_def
  by (intro run_intros uncharge_out_has cow_map_page_has
      tpost_bndI [OF raw_do_fault_has [OF _ assms(2), where L = L and i = i]])
     (use assms(1) in \<open>auto simp: res_defs split: if_splits\<close>)

lemma shared_dirty_has:
  assumes "has A R (add_mset p L) C t i w"
  shows "tpost (\<lambda>_. has A R L C t i) (shared_dirty v p w)"
  unfolding shared_dirty_def by (intro run_intros) (use assms in \<open>auto simp: res_defs\<close>)

lemma do_shared_fault_has:
  assumes "has A R L C False i w" "codes_ok A"
  shows "tpost (\<lambda>_. has A R L C False i) (do_shared_fault A v a pmd pgoff orig w)"
  unfolding do_shared_fault_def
  by (intro run_intros
      tpost_bndI [OF raw_do_fault_has [OF assms]]
      tpost_bndI [OF do_page_mkwrite_has [OF _ assms(2), where L = L and C = C and t = False and i = i]]
      tpost_bndI [OF shared_dirty_has [where R = R and L = L and C = C and t = False and i = i]]
      tpost_bndI [OF do_set_pte_has [where R = R and C = C and i = i]])
     (use assms in \<open>auto simp: res_defs split: if_splits\<close>)

lemma do_fault_has:
  assumes "has A R L C False i w" "codes_ok A" "area_ok v"
  shows "tpost (\<lambda>_. has A R L C False i) (do_fault A v a pt pmd wr orig w)"
  unfolding do_fault_def Let_def
  by (intro run_intros do_read_fault_has do_cow_fault_has do_shared_fault_has)
     (use assms in \<open>auto simp: res_defs\<close>)

section \<open>The dispatch\<close>

lemma huge_faults_held:
  "tpost (\<lambda>_ w'. held A w' = held A w) (create_huge_pmd B v a w)"
  "tpost (\<lambda>_ w'. held A w' = held A w) (wp_huge_pmd B v a w)"
  unfolding create_huge_pmd_def wp_huge_pmd_def by (intro run_intros; simp)+

lemma trans_huge_fault_held: "tpost (\<lambda>_ w'. held A w' = held A w) (trans_huge_fault B v a pmd wr w)"
  unfolding trans_huge_fault_def
  by (intro run_intros held_frame_bndI [OF huge_faults_held(2) [of A]]) simp_all

lemma huge_pmd_fault_held: "tpost (\<lambda>_ w'. held A w' = held A w) (huge_pmd_fault B v a pmd wr w)"
  unfolding huge_pmd_fault_def
  by (intro run_intros held_frame_bndI [OF huge_faults_held(1) [of A]] tpost_mono [OF trans_huge_fault_held [of A]]) simp_all

lemma raw_pte_alloc_has:
  assumes "has A R L C False i w"
  shows "tpost (\<lambda>_. has A R L C False i) (raw_pte_alloc pmd a w)"
  unfolding raw_pte_alloc_def by (intro run_intros) (use assms in \<open>auto simp: res_defs\<close>)

lemma pte_access_has:
  assumes "has A R L C False i w" "codes_ok A"
  shows "tpost (\<lambda>_. has A R L C False i) (pte_access A v a pt pmd wr e w)"
  unfolding pte_access_def Let_def
  by (intro run_intros do_wp_page_has) (use assms in \<open>auto simp: res_defs\<close>)

lemma numa_out_held: "tpost (\<lambda>_ w'. held A w' = held A w) (numa_out c n fl w)"
  unfolding numa_out_def by (intro run_intros) simp_all

lemma numa_migrate_prep_has:
  assumes "has A R L C t i w"
  shows "tpost (\<lambda>_. has A (add_mset p R) L C t i) (numa_migrate_prep p v a n fl w)"
  unfolding numa_migrate_prep_def Let_def by (intro run_intros) (use assms in \<open>auto simp: res_defs\<close>)

lemma numa_place_has:
  assumes "has A R L C True i w"
  shows "tpost (\<lambda>_. has A R L C False i) (numa_place v a pt p w)"
  unfolding numa_place_def Let_def
  by (intro run_intros tpost_mono [OF numa_out_held [of A]]
      tpost_bndI [OF numa_migrate_prep_has [where R = R and L = L and C = C and t = True and i = i]])
     (use assms in \<open>auto simp: res_defs\<close>)

lemma do_numa_page_has:
  assumes "has A R L C False i w"
  shows "tpost (\<lambda>_. has A R L C False i) (do_numa_page A v a e pt pmd w)"
  unfolding do_numa_page_def Let_def
  by (intro run_intros held_runs [of A] tpost_mono [OF numa_out_held [of A]] numa_place_has)
     (use assms in \<open>auto simp: res_defs\<close>)

lemma handle_pte_fault_has:
  assumes "has A R L C False i w" "codes_ok A" "area_ok v"
  shows "tpost (\<lambda>_. has A R L C False i) (handle_pte_fault A pr nx v a pt pmd wr w)"
  unfolding handle_pte_fault_def
  by (intro run_intros do_anonymous_page_has do_fault_has do_swap_page_has do_numa_page_has pte_access_has)
     (use assms in \<open>auto simp: res_defs\<close>)

lemma raw_handle_mm_fault_has:
  assumes "has A R L C False i w" "codes_ok A" "area_ok v"
  shows "tpost (\<lambda>_. has A R L C False i) (raw_handle_mm_fault A pr nx v a wr w)"
  unfolding raw_handle_mm_fault_def
  by (intro run_intros handle_pte_fault_has held_frame_bndI [OF huge_pmd_fault_held [of A]]
      tpost_bndI [OF raw_pte_alloc_has [where R = R and L = L and C = C and i = i]])
     (use assms in \<open>auto simp: res_defs\<close>)

lemma handle_mm_fault_has:
  assumes "has A R L C False i w" "codes_ok A" "area_ok v"
  shows "tpost (\<lambda>_. has A R L C False i) (handle_mm_fault A pr nx v a fl w)"
  unfolding handle_mm_fault_def Let_def
  by (intro run_intros held_runs(5) [of A]
      tpost_bndI [OF raw_handle_mm_fault_has [where R = R and L = L and C = C and i = i]])
     (use assms in \<open>auto simp: res_defs\<close>)

text \<open>
  C21: A page fault leaves nothing behind. Starting from nothing held, \<open>handle_mm_fault\<close> comes back on
  every path (it is never lost in a loop), for every answer of the rest of the kernel, and then holds
  no reference to a page, no page lock, no charge, no page-table lock and no lock against truncation;
  on the way it never gave back what it did not hold, never took a second page-table lock, and changed
  page-table entries and reverse mappings only under the lock. The only reliance is that a fault
  handler that answers without an error and without a page was asked for a copy.
\<close>

theorem fault_leaves_nothing:
  assumes "codes_ok A" "area_ok v" "log w = []"
  shows "tpost (\<lambda>_ w'. r_rely (held A w') \<longrightarrow> held A w' = res0) (handle_mm_fault A prev nxt v address flags w)"
proof (rule tpost_mono [OF handle_mm_fault_has [where R = "{#}" and L = "{#}" and C = "{#}" and i = 0]])
  show "has A {#} {#} {#} False 0 w" using assms(3) by (simp add: has_def ghost_def res0_def)
qed (use assms in \<open>auto simp: has_def res0_def\<close>)

text \<open>A write fault in an anonymous area, in a kernel in which every allocation succeeds.\<close>

definition fault_world :: mmw where
  "fault_world = mmw0\<lparr>ans := (\<lambda>h c. case c of
       Fr (Pud_alloc p a) \<Rightarrow> 11 | Fr (Pmd_alloc p a) \<Rightarrow> 12 | Fr (Pte_alloc_one a) \<Rightarrow> 13 | Pg (Alloc_zeroed_page a) \<Rightarrow> 99
     | Lk (Pte_offset_map_lock m a) \<Rightarrow> 14 | Lk (Pte_offset_map_nested m a) \<Rightarrow> 14 | _ \<Rightarrow> 0)\<rparr>"

lemma arch0_codes: "codes_ok arch0"
  by (simp add: codes_ok_def arch0_def)

lemma vma0_area: "area_ok vma0"
  by (simp add: area_ok_def vma0_def PAGE_SIZE_def)

text \<open>The fields of the examples that the fault reads.\<close>

lemma fault_world_simps:
  "ans fault_world h c = (case c of
       Fr (Pud_alloc p a) \<Rightarrow> 11 | Fr (Pmd_alloc p a) \<Rightarrow> 12 | Fr (Pte_alloc_one a) \<Rightarrow> 13 | Pg (Alloc_zeroed_page a) \<Rightarrow> 99
     | Lk (Pte_offset_map_lock m a) \<Rightarrow> 14 | Lk (Pte_offset_map_nested m a) \<Rightarrow> 14 | _ \<Rightarrow> 0)"
  "log fault_world = []" "rss_events fault_world = 0" "cur_mm fault_world = 1"
  by (simp_all add: fault_world_def mmw0_def)

lemma vma0_simps:
  "vm_flags vma0 = {VM_READ, VM_WRITE, VM_MAYWRITE}" "vm_ops vma0 = 0" "vm_mm vma0 = 1" "vm_page_prot vma0 = 0"
  by (simp_all add: vma0_def)

lemma arch0_simps: "pte_none arch0 0" "\<not> pte_present arch0 0"
  "pte_mkwrite arch0 (pte_mkdirty arch0 (mk_pte arch0 99 0)) = 0x63043"
  by (simp_all add: arch0_def)

lemma fault_world_run:
  "rets (\<lambda>code w'. code = {} \<and> r_rely (held arch0 w') \<and> Pe (Set_pte_at 1 0x401000 14 0x63043) \<in> fst ` set (log w'))
     (handle_mm_fault arch0 None None vma0 0x401000 {FAULT_FLAG_WRITE} fault_world)"
  by (simp add: handle_mm_fault_def check_sync_rss_stat_def raw_handle_mm_fault_def handle_pte_fault_def do_anonymous_page_def
     is_vm_hugetlb_page_def huge_pmd_fault_def raw_pte_alloc_def TASK_RSS_EVENTS_THRESH_def by_value read_pte_def word_sless_alt
     check_stack_guard_page_def anon_private_def add_mm_counter_fast_def anon_setpte_def fault_world_simps vma0_simps arch0_simps
     res_defs res0_def
     cong: bnd_by_value rets_by_value)
theorem fault_leaves_nothing_witness:
  "rets (\<lambda>code w'. code = {} \<and> Pe (Set_pte_at 1 0x401000 14 0x63043) \<in> fst ` set (log w') \<and> held arch0 w' = res0)
     (handle_mm_fault arch0 None None vma0 0x401000 {FAULT_FLAG_WRITE} fault_world)"
proof -
  have "log fault_world = []" by (simp add: fault_world_simps)
  note fault_leaves_nothing [OF arch0_codes vma0_area this, of None None "0x401000" "{FAULT_FLAG_WRITE}"]
  with fault_world_run show ?thesis by (auto simp: rets_iff)
qed

end
