(* ===== verification/ScanWorld.thy ===== *)
theory ScanWorld
  imports Kernel SwapExperiment
begin

text \<open>
  The world of page reclaim (\<open>vmscan.c\<close>): the calls its functions make into the rest of the kernel,
  in groups, the control structure of a scan, and the state that \<open>vmscan.c\<close> keeps itself. As in
  \<open>memory.c\<close> the answer of a call is any function of the history.
\<close>

section \<open>Calls\<close>

text \<open>The tests and flags of a page.\<close>

datatype pflag =
    PageLocked | PageActive | PageAnon | PageSwapCache | PageDirty | PageWriteback | PageReclaim | PageLRU
  | PageUnevictable | PageSwapBacked | PageReferenced | PageCompound | Page_is_file_cache | Page_has_private
  | Page_mapped | PageMlocked | Isolated_balloon

datatype page_op =
    Test pflag int | SetF pflag int | ClearF pflag int | TestClear pflag int | Trylock_page int | Lock_page int
  | Unlock_page int | Clear_page_locked int | Page_private int | Page_count int | Page_mapping int | Page_zone int
  | Page_lru int | Page_lru_base_type int | Get_page int | Put_page int | Put_page_testzero int | Get_page_unless_zero int
  | Page_freeze_refs int int | Page_unfreeze_refs int int | Hpage_nr_pages int | Page_referenced int int
  | Kmap int | Kunmap int

datatype gfp_flag = GFP_IO | GFP_FS | GFP_HIGHMEM | GFP_WAIT | GFP_REPEAT | GFP_HARDWALL | GFP_MOVABLE

datatype ttu_flag = TTU_UNMAP | TTU_IGNORE_ACCESS | TTU_BATCH_FLUSH

text \<open>The address space of a page and its operations, swap, and the reverse mapping.\<close>

datatype map_op =
    Has_writepage int | Writepage int | Inode_write_congested int | Is_current_bdi int | Mapping_set_error int int
  | Try_to_free_buffers int | Clear_page_dirty_for_io int | Tree_lock int | Tree_unlock int | Begin_page_stat int
  | End_page_stat int | Mem_cgroup_swapout int u64 | Delete_from_swap_cache int | Swapcache_free u64
  | Has_freepage int | Freepage int | Mapping_exiting int | Workingset_eviction int int
  | Delete_from_page_cache int int int | Has_is_dirty_writeback int | Is_dirty_writeback int | Add_to_swap int
  | Try_to_unmap int "ttu_flag set" | Try_to_unmap_flush_dirty | Try_to_unmap_flush | Try_to_release_page int "gfp_flag set"
  | Try_to_free_swap int | Vm_swap_full | Has_migratepage int | Mapping_unevictable int

text \<open>Lists of the zones, counters, and memory groups.\<close>

datatype lru_list = LRU_INACTIVE_ANON | LRU_ACTIVE_ANON | LRU_INACTIVE_FILE | LRU_ACTIVE_FILE | LRU_UNEVICTABLE

datatype zone_item =
    NR_INACTIVE_ANON | NR_ACTIVE_ANON | NR_INACTIVE_FILE | NR_ACTIVE_FILE | NR_ISOLATED_ANON | NR_ISOLATED_FILE
  | NR_PAGES_SCANNED | NR_VMSCAN_WRITE | NR_VMSCAN_IMMEDIATE | NR_FREE_PAGES | NR_LRU_UNEVICTABLE
  | NR_FILE_MAPPED | NR_FILE_PAGES | NR_FILE_DIRTY | NR_SLAB_RECLAIMABLE

datatype zone_flag = ZONE_WRITEBACK | ZONE_DIRTY | ZONE_CONGESTED | ZONE_RECLAIM_LOCKED

datatype vm_event =
    PGACTIVATE | UNEVICTABLE_PGRESCUED | UNEVICTABLE_PGCULLED | SLABS_SCANNED | PGDEACTIVATE | PGREFILL int
  | PGSCAN_KSWAPD int | PGSCAN_DIRECT int | PGSTEAL_KSWAPD int | PGSTEAL_DIRECT int
  | ALLOCSTALL | PAGEOUTRUN | PGSCAN_DIRECT_THROTTLE | KSWAPD_LOW_WMARK_HIT_QUICKLY | KSWAPD_HIGH_WMARK_HIT_QUICKLY
  | PGSCAN_ZONE_RECLAIM_FAILED | UNEVICTABLE_PGSCANNED

datatype zone_op =
    Zone_page_state int zone_item | Mod_zone_page_state int zone_item u64 | Inc_page_state int zone_item
  | Zone_test int zone_flag | Zone_set int zone_flag | Zone_clear int zone_flag
  | Zone_test_and_set int zone_flag | Get_nr_swap_pages | Count_vm_events vm_event u64 | Lru_cache_add int
  | Add_page_to_unevictable_list int | Add_page_to_lru_list int int lru_list | Del_page_from_lru_list int int lru_list
  | Lru_lock int | Lru_unlock int | Mem_cgroup_page_lruvec int int | Mem_cgroup_update_lru_size int lru_list u64
  | Free_hot_cold_page_list "int list" | Mem_cgroup_uncharge_list "int list" | Mem_cgroup_uncharge int
  | Compound_dtor int | Lruvec_zone int | Mem_cgroup_get_lru_size int lru_list | Mem_cgroup_disabled | Lru_add_drain
  | Low_wmark_pages int | High_wmark_pages int | Mem_cgroup_swappiness int | Mem_cgroup_lruvec_online int
  | Mem_cgroup_inactive_anon_is_low int | Inactive_ratio int | Managed_pages int

datatype sys_op =
    Cond_resched | Current_is_kswapd | Current_pf_swapwrite | Smp_mb | Congestion_wait | Throttle_vm_writeout
  | Wait_on_page_writeback int | Fatal_signal_pending | Wait_iff_congested int | Current_less_throttle
  | Current_backing_dev | Current_bdi_congested | Kmalloc_table | Kmalloc_contents | Blk_plug | Blk_unplug

datatype shrinker_op =
    Count_objects int int int | Scan_objects int int int u64 | Xchg_nr_deferred int int | Add_nr_deferred int int u64
  | Read_nr_deferred int int | Memcg_kmem_is_active int | Down_read_trylock_shrinkers | Up_read_shrinkers
  | Down_write_shrinkers | Up_write_shrinkers | Mem_cgroup_iter int int | Kzalloc_deferred int nat | Kfree_deferred int

text \<open>The balance of zones and nodes: watermarks, compaction, memory groups, the fields of a node that its
  \<open>kswapd\<close> and the allocator share, and the state of the current task.\<close>

datatype node_op =
    Populated_zone int | Zone_watermark_ok_safe int int u64 int | Zone_watermark_ok int int u64 int
  | Compaction_suitable int int int | Compaction_deferred int int | Compact_pgdat int int | Cpuset_zone_allowed int
  | Is_highmem int | Soft_limit_reclaim int int "gfp_flag set" | Min_wmark_pages int | Min_unmapped_pages int
  | Min_slab_pages int | Mem_cgroup_iter_break int int | Mem_cgroup_low int int | Mem_cgroup_events_low int
  | Mem_cgroup_zone_lruvec int int | Select_victim_node int | Vmpressure "gfp_flag set" int u64 u64
  | Vmpressure_prio "gfp_flag set" int int | Kswapd_waiting int | Wake_kswapd int | Throttled_waiting int
  | Wake_throttled int | Wake_all_throttled int | Sleep_throttled int bool | Get_max_order int | Set_max_order int int
  | Get_classzone_idx int | Set_classzone_idx int int | Get_kswapd int | Set_kswapd int int | Kthread_run int
  | Kthread_stop int | System_booting | Reset_isolation_suitable int | Set_percpu_threshold int bool
  | Numa_node_id | Node_has_cpu int | Any_cpu_online int | Bind_kswapd int
  | Cpumask_empty int | Bind_self int | Swap_setup | Hotcpu_notifier

datatype task_op =
    Has_reclaim_state | Reclaimed_slab | Clear_reclaimed_slab | Set_reclaim_state | Drop_reclaim_state | Is_kthread
  | Memalloc_noio | Is_memalloc | Set_memalloc | Clear_memalloc | Set_kswapd_flags | Clear_kswapd_flags
  | Delayacct_start | Delayacct_end | Wakeup_flusher u64 | Try_to_freeze | Freezing | Kthread_should_stop
  | Prepare_to_wait int | Finish_wait int | Schedule_timeout | Schedule

datatype rk = Pg page_op | Mp map_op | Zn zone_op | Sy sys_op | Sh shrinker_op | Nd node_op | Tk task_op

section \<open>Structures\<close>

datatype ref_flag = VM_LOCKED | VM_EXEC

record scan_control =
  nr_to_reclaim :: u64
  gfp_mask :: "gfp_flag set"
  order :: int
  target_mem_cgroup :: int
  priority :: int
  may_writepage :: bool
  may_unmap :: bool
  may_swap :: bool
  may_thrash :: bool
  hibernation_mode :: bool
  compaction_ready :: bool
  nr_scanned :: u64
  nr_reclaimed :: u64
  nodemask :: int

text \<open>The outcome of \<open>try_to_unmap\<close>.\<close>

datatype ttu_result = SWAP_SUCCESS | SWAP_AGAIN | SWAP_FAIL | SWAP_MLOCK

text \<open>The outcome of \<open>compaction_suitable\<close> that the code distinguishes.\<close>

datatype compact_result = COMPACT_SKIPPED | COMPACT_CONTINUE | COMPACT_PARTIAL | COMPACT_OTHER

datatype reclaim_mode_flag = RECLAIM_ZONE | RECLAIM_WRITE | RECLAIM_UNMAP

text \<open>
  How the answers of some calls are read: \<open>page_referenced\<close> returns a count and sets the flags of the
  areas, \<open>is_dirty_writeback\<close> sets two booleans, \<open>try_to_unmap\<close> returns one of four codes, and
  \<open>writepage\<close> may return the code \<open>AOP_WRITEPAGE_ACTIVATE\<close>. \<open>do_div\<close> is the kernel's division of a
  64-bit number, \<open>nr_node_ids\<close> the number of possible nodes,
  \<open>lru_answer\<close> the list that \<open>page_lru\<close> names. \<open>mem_cgroup_soft_limit_reclaim\<close> returns a count and sets
  another (\<open>soft_answer\<close>). The layout of memory: \<open>zone_at n i\<close> is zone \<open>i\<close> of node \<open>n\<close>, with \<open>nr_zones n\<close>
  of them, \<open>zone_node\<close> and \<open>zone_idx\<close> go the other way; \<open>zonelist_zones\<close> are the zones of a list up to
  an index, in a node mask, with their index in it, and \<open>gfp_zone\<close> is the highest index that a mask allows.
\<close>

record renv =
  pr_ptes :: "int \<Rightarrow> int"
  pr_flags :: "int \<Rightarrow> ref_flag set"
  dw_answer :: "int \<Rightarrow> bool \<times> bool"
  ttu_answer :: "int \<Rightarrow> ttu_result"
  AOP_WRITEPAGE_ACTIVATE :: int
  cgroup_writeback :: bool
  do_div :: "u64 \<Rightarrow> u64 \<Rightarrow> u64"
  nr_node_ids :: nat
  lru_answer :: "int \<Rightarrow> lru_list"
  total_swap_pages :: u64
  buffer_heads_over_limit :: bool
  soft_answer :: "int \<Rightarrow> u64 \<times> u64"
  compact_answer :: "int \<Rightarrow> compact_result"
  zone_at :: "int \<Rightarrow> int \<Rightarrow> int"
  nr_zones :: "int \<Rightarrow> int"
  zone_node :: "int \<Rightarrow> int"
  zone_idx :: "int \<Rightarrow> int"
  gfp_zone :: "gfp_flag set \<Rightarrow> int"
  zonelist_zones :: "int \<Rightarrow> int \<Rightarrow> int \<Rightarrow> (int \<times> int) list"
  node_zonelist :: "int \<Rightarrow> gfp_flag set \<Rightarrow> int"
  allow_blocking :: "gfp_flag set \<Rightarrow> bool"
  ZONE_NORMAL :: int
  GFP_RECLAIM_MASK :: "gfp_flag set"
  config_compaction :: bool
  laptop_mode :: bool
  zone_reclaim_mode :: "reclaim_mode_flag set"
  memory_nodes :: "int list"

section \<open>The world\<close>

text \<open>
  The trace of swapped-out entries and pages (\<open>out_rows\<close>, \<open>out_pages\<close> are what the allocator returns
  for a row and what the elements of the array of contents are before they are written, \<open>out_kmem\<close> the bytes behind a mapped page), the scan's
  control structure, and the list of registered shrinkers. \<open>add_to_swap\<close> splits a huge page and puts
  its tails at the end of the list it is given, and may fail after that: \<open>huge_tails p ok\<close> are the tails
  that a page leaves there when the call succeeds or fails.
  \<open>lru_contents\<close> says, from the history, what is on a list at the moment its lock is taken.
\<close>

record shrinker =
  sh_id :: int
  sh_batch :: u64
  sh_seeks :: u32
  sh_numa_aware :: bool
  sh_memcg_aware :: bool

record scw = "rk kworld" +
  out_store :: pte_arrays
  out_rows :: "nat \<Rightarrow> u64 list"
  firstTime_OUT :: bool
  contents_OUT :: "page_content_store list"
  out_pages :: "nat \<Rightarrow> page_content_store"
  pageFilled_OUT :: int
  out_kmem :: "int \<Rightarrow> u8 list"
  sc :: scan_control
  huge_tails :: "int \<Rightarrow> bool \<Rightarrow> int list"
  lru_contents :: "(rk \<times> int) list \<Rightarrow> int \<Rightarrow> lru_list \<Rightarrow> int list"
  shrinker_list :: "shrinker list"
  recent_rotated :: "int \<Rightarrow> bool \<Rightarrow> u64"
  recent_scanned :: "int \<Rightarrow> bool \<Rightarrow> u64"

type_synonym 'a sact = "scw \<Rightarrow> (scw, 'a) act"

text \<open>The state of \<open>vmscan.c\<close> is not part of the history.\<close>

lemma ghost_scw [simp]:
  "ghost st s0 (w\<lparr>out_store := a\<rparr>) = ghost st s0 w" "ghost st s0 (w\<lparr>firstTime_OUT := b\<rparr>) = ghost st s0 w"
  "ghost st s0 (w\<lparr>contents_OUT := c\<rparr>) = ghost st s0 w" "ghost st s0 (w\<lparr>pageFilled_OUT := d\<rparr>) = ghost st s0 w"
  "ghost st s0 (w\<lparr>sc := e\<rparr>) = ghost st s0 w" "ghost st s0 (w\<lparr>shrinker_list := f\<rparr>) = ghost st s0 w"
  "ghost st s0 (w\<lparr>recent_rotated := g\<rparr>) = ghost st s0 w" "ghost st s0 (w\<lparr>recent_scanned := h\<rparr>) = ghost st s0 w"
  by (simp_all add: ghost_def del: ghost_log)

text \<open>The abbreviations of the code: a test of a page, and a count of a scan.\<close>

abbreviation test :: "pflag \<Rightarrow> int \<Rightarrow> bool sact" where
  "test f page \<equiv> kask (Pg (Test f page))"

abbreviation page_do :: "(int \<Rightarrow> page_op) \<Rightarrow> int \<Rightarrow> unit sact" where
  "page_do c page \<equiv> kdo (Pg (c page))"

definition scanned_one :: "unit sact" where
  "scanned_one w = ret () (w\<lparr>sc := (sc w)\<lparr>nr_scanned := nr_scanned (sc w) + 1\<rparr>\<rparr>)"

text \<open>The condition \<open>b || m\<close> of C.\<close>

definition orelse :: "bool \<Rightarrow> bool sact \<Rightarrow> bool sact" where
  "orelse b m w = (if b then ret True w else m w)"

lemma tpost_orelse [run_intros]:
  "(b \<Longrightarrow> tpost P (f True w)) \<Longrightarrow> (\<not> b \<Longrightarrow> tpost P (bnd (m w) f)) \<Longrightarrow> tpost P (bnd (orelse b m w) f)"
  "(b \<Longrightarrow> Q True w) \<Longrightarrow> (\<not> b \<Longrightarrow> tpost Q (m w)) \<Longrightarrow> tpost Q (orelse b m w)"
  by (simp_all add: orelse_def)

end
