(* ===== verification/PageOut.thy ===== *)
theory PageOut
  imports ScanWorld
begin

text \<open>
  One page under reclaim, \<open>vmscan.c\<close> lines 241 to 252 and 554 to 953: whether it may be written, writing it out,
  taking it out of its address space, putting it back, and what its references say.
\<close>

section \<open>The kind of a scan\<close>

definition global_reclaim :: "scan_control \<Rightarrow> bool" where
  "global_reclaim c = (target_mem_cgroup c = 0)"

definition sane_reclaim :: "renv \<Rightarrow> scan_control \<Rightarrow> bool" where
  "sane_reclaim E c =
     (if target_mem_cgroup c = 0 then True else if cgroup_writeback E then True else False)"

section \<open>Evictable pages\<close>

definition page_evictable :: "int \<Rightarrow> bool sact" where
  "page_evictable page w =
     bnd (kcall (Pg (Page_mapping page)) w) (\<lambda>mapping w.
     bnd (kask (Mp (Mapping_unevictable mapping)) w) (\<lambda>u w.
     if u then ret False w
     else bnd (test PageMlocked page w) (\<lambda>m w. ret (\<not> m) w)))"

section \<open>Writing a page out\<close>

definition is_page_cache_freeable :: "int \<Rightarrow> bool sact" where
  "is_page_cache_freeable page w =
     bnd (kcall (Pg (Page_count page)) w) (\<lambda>count w.
     bnd (test Page_has_private page w) (\<lambda>private w.
     ret (count - (if private then 1 else 0) = 2) w))"

definition may_write_to_inode :: "int \<Rightarrow> bool sact" where
  "may_write_to_inode mapping w =
     bnd (kask (Sy Current_pf_swapwrite) w) (\<lambda>swapwrite w.
     if swapwrite then ret True w
     else
       bnd (kask (Mp (Inode_write_congested mapping)) w) (\<lambda>congested w.
       if \<not> congested then ret True w
       else kask (Mp (Is_current_bdi mapping)) w))"

definition handle_write_error :: "int \<Rightarrow> int \<Rightarrow> int \<Rightarrow> unit sact" where
  "handle_write_error mapping page error w =
     bnd (page_do Lock_page page w) (\<lambda>_ w.
     bnd (kcall (Pg (Page_mapping page)) w) (\<lambda>m w.
     bnd (cond (m = mapping) (kdo (Mp (Mapping_set_error mapping error))) w) (\<lambda>_ w.
     page_do Unlock_page page w)))"

datatype pageout_t = PAGE_KEEP | PAGE_ACTIVATE | PAGE_SUCCESS | PAGE_CLEAN

text \<open>The write itself, after the page was found dirty and its dirty flag cleared.\<close>

definition pageout_write :: "renv \<Rightarrow> int \<Rightarrow> int \<Rightarrow> pageout_t sact" where
  "pageout_write E page mapping w =
     bnd (kdo (Pg (SetF PageReclaim page)) w) (\<lambda>_ w.
     bnd (kcall (Mp (Writepage page)) w) (\<lambda>res w.
     bnd (cond (res < 0) (handle_write_error mapping page res) w) (\<lambda>_ w.
     if res = AOP_WRITEPAGE_ACTIVATE E
     then bnd (kdo (Pg (ClearF PageReclaim page)) w) (\<lambda>_ w. ret PAGE_ACTIVATE w)
     else
       bnd (test PageWriteback page w) (\<lambda>writeback w.
       bnd (cond (\<not> writeback) (kdo (Pg (ClearF PageReclaim page))) w) (\<lambda>_ w.
       bnd (kdo (Zn (Inc_page_state page NR_VMSCAN_WRITE)) w) (\<lambda>_ w.
       ret PAGE_SUCCESS w))))))"

definition pageout :: "renv \<Rightarrow> int \<Rightarrow> int \<Rightarrow> pageout_t sact" where
  "pageout E page mapping w =
     bnd (is_page_cache_freeable page w) (\<lambda>freeable w.
     if \<not> freeable then ret PAGE_KEEP w
     else if mapping = 0 then
       bnd (test Page_has_private page w) (\<lambda>private w.
       bnd (andalso private (kask (Mp (Try_to_free_buffers page))) w) (\<lambda>freed w.
       if freed
       then bnd (kdo (Pg (ClearF PageDirty page)) w) (\<lambda>_ w. ret PAGE_CLEAN w)
       else ret PAGE_KEEP w))
     else
       bnd (kask (Mp (Has_writepage mapping)) w) (\<lambda>writable w.
       if \<not> writable then ret PAGE_ACTIVATE w
       else
         bnd (may_write_to_inode mapping w) (\<lambda>may w.
         if \<not> may then ret PAGE_KEEP w
         else
           bnd (kask (Mp (Clear_page_dirty_for_io page)) w) (\<lambda>dirty w.
           if dirty then pageout_write E page mapping w else ret PAGE_CLEAN w))))"

section \<open>Taking a page out of its address space\<close>

text \<open>The two ways a frozen page leaves: from the swap cache, from the page cache.\<close>

definition leave_swap_cache :: "int \<Rightarrow> int \<Rightarrow> int \<Rightarrow> unit sact" where
  "leave_swap_cache mapping page memcg w =
     bnd (kcall (Pg (Page_private page)) w) (\<lambda>p w.
     let swap = word_of_int p in
     bnd (kdo (Mp (Mem_cgroup_swapout page swap)) w) (\<lambda>_ w.
     bnd (kdo (Mp (Delete_from_swap_cache page)) w) (\<lambda>_ w.
     bnd (kdo (Mp (Tree_unlock mapping)) w) (\<lambda>_ w.
     bnd (kdo (Mp (End_page_stat memcg)) w) (\<lambda>_ w.
     kdo (Mp (Swapcache_free swap)) w)))))"

definition leave_page_cache :: "int \<Rightarrow> int \<Rightarrow> bool \<Rightarrow> int \<Rightarrow> unit sact" where
  "leave_page_cache mapping page reclaimed memcg w =
     bnd (kask (Mp (Has_freepage mapping)) w) (\<lambda>freepage w.
     bnd (andalso reclaimed (test Page_is_file_cache page) w) (\<lambda>file w.
     bnd (andalso file (\<lambda>w. bnd (kask (Mp (Mapping_exiting mapping)) w) (\<lambda>x w. ret (\<not> x) w)) w) (\<lambda>remember w.
     bnd (if remember then kcall (Mp (Workingset_eviction mapping page)) w else ret 0 w) (\<lambda>shadow w.
     bnd (kdo (Mp (Delete_from_page_cache page shadow memcg)) w) (\<lambda>_ w.
     bnd (kdo (Mp (Tree_unlock mapping)) w) (\<lambda>_ w.
     bnd (kdo (Mp (End_page_stat memcg)) w) (\<lambda>_ w.
     cond freepage (kdo (Mp (Freepage page))) w)))))))"

definition cannot_free :: "int \<Rightarrow> int \<Rightarrow> bool sact" where
  "cannot_free mapping memcg w =
     bnd (kdo (Mp (Tree_unlock mapping)) w) (\<lambda>_ w.
     bnd (kdo (Mp (End_page_stat memcg)) w) (\<lambda>_ w. ret False w))"

definition raw_remove_mapping :: "int \<Rightarrow> int \<Rightarrow> bool \<Rightarrow> bool sact" where
  "raw_remove_mapping mapping page reclaimed w =
     bnd (test PageLocked page w) (\<lambda>locked w.
     bnd (BUG_ON (\<not> locked) w) (\<lambda>_ w.
     bnd (kcall (Pg (Page_mapping page)) w) (\<lambda>m w.
     bnd (BUG_ON (mapping \<noteq> m) w) (\<lambda>_ w.
     bnd (kcall (Mp (Begin_page_stat page)) w) (\<lambda>memcg w.
     bnd (kdo (Mp (Tree_lock mapping)) w) (\<lambda>_ w.
     bnd (kask (Pg (Page_freeze_refs page 2)) w) (\<lambda>frozen w.
     if \<not> frozen then cannot_free mapping memcg w
     else
       bnd (test PageDirty page w) (\<lambda>dirty w.
       if dirty
       then bnd (kdo (Pg (Page_unfreeze_refs page 2)) w) (\<lambda>_ w. cannot_free mapping memcg w)
       else
         bnd (test PageSwapCache page w) (\<lambda>swapcache w.
         bnd (if swapcache then leave_swap_cache mapping page memcg w
              else leave_page_cache mapping page reclaimed memcg w) (\<lambda>_ w.
         ret True w))))))))))"

definition remove_mapping :: "int \<Rightarrow> int \<Rightarrow> bool sact" where
  "remove_mapping mapping page w =
     bnd (raw_remove_mapping mapping page False w) (\<lambda>removed w.
     if removed
     then bnd (kdo (Pg (Page_unfreeze_refs page 1)) w) (\<lambda>_ w. ret True w)
     else ret False w)"

section \<open>References and dirtiness\<close>

datatype page_references = PAGEREF_RECLAIM | PAGEREF_RECLAIM_CLEAN | PAGEREF_KEEP | PAGEREF_ACTIVATE

definition page_check_references :: "renv \<Rightarrow> int \<Rightarrow> page_references sact" where
  "page_check_references E page w =
     bnd (kcall (Pg (Page_referenced page (target_mem_cgroup (sc w)))) w) (\<lambda>r w.
     let referenced_ptes = pr_ptes E r; flags = pr_flags E r in
     bnd (kask (Pg (TestClear PageReferenced page)) w) (\<lambda>referenced_page w.
     if VM_LOCKED \<in> flags then ret PAGEREF_RECLAIM w
     else if referenced_ptes \<noteq> 0 then
       bnd (test PageSwapBacked page w) (\<lambda>swapbacked w.
       if swapbacked then ret PAGEREF_ACTIVATE w
       else
         bnd (kdo (Pg (SetF PageReferenced page)) w) (\<lambda>_ w.
         if referenced_page \<or> 1 < referenced_ptes then ret PAGEREF_ACTIVATE w
         else if VM_EXEC \<in> flags then ret PAGEREF_ACTIVATE w
         else ret PAGEREF_KEEP w))
     else
       bnd (andalso referenced_page (\<lambda>w. bnd (test PageSwapBacked page w) (\<lambda>s w. ret (\<not> s) w)) w) (\<lambda>clean w.
       ret (if clean then PAGEREF_RECLAIM_CLEAN else PAGEREF_RECLAIM) w)))"

definition page_check_dirty_writeback :: "renv \<Rightarrow> int \<Rightarrow> (bool \<times> bool) sact" where
  "page_check_dirty_writeback E page w =
     bnd (test Page_is_file_cache page w) (\<lambda>file w.
     if \<not> file then ret (False, False) w
     else
       bnd (test PageDirty page w) (\<lambda>dirty w.
       bnd (test PageWriteback page w) (\<lambda>writeback w.
       bnd (test Page_has_private page w) (\<lambda>private w.
       if \<not> private then ret (dirty, writeback) w
       else
         bnd (kcall (Pg (Page_mapping page)) w) (\<lambda>mapping w.
         bnd (andalso (mapping \<noteq> 0) (kask (Mp (Has_is_dirty_writeback mapping))) w) (\<lambda>has w.
         if has
         then bnd (kcall (Mp (Is_dirty_writeback page)) w) (\<lambda>r w. ret (dw_answer E r) w)
         else ret (dirty, writeback) w))))))"

end
