(* ===== verification/ShrinkPages.thy ===== *)
theory ShrinkPages
  imports PageOut
begin

text \<open>
  \<open>shrink_page_list\<close> of \<open>vmscan.c\<close> (lines 958 to 1367), with the recording of swapped-out pages that
  the experiment adds. A \<open>list_head\<close> is a list whose first element is the one after the head: a page
  is taken from the end, \<open>list_add\<close> puts in front, \<open>list_add_tail\<close> and the tails of a split huge page
  go to the end.
\<close>

section \<open>The state of the loop\<close>

record spl =
  page_list :: "int list"
  ret_pages :: "int list"
  free_pages :: "int list"
  pgactivate :: u32
  nr_unqueued_dirty :: u64
  nr_dirty :: u64
  nr_congested :: u64
  spl_reclaimed :: u64
  nr_writeback :: u64
  nr_immediate :: u64

definition spl_init :: "int list \<Rightarrow> spl" where
  "spl_init ps = \<lparr>page_list = ps, ret_pages = [], free_pages = [], pgactivate = 0, nr_unqueued_dirty = 0,
     nr_dirty = 0, nr_congested = 0, spl_reclaimed = 0, nr_writeback = 0, nr_immediate = 0\<rparr>"

text \<open>Where the code for one page ends: its labels, leaving it to others, or trying the page again.\<close>

datatype verdict = Keep | Keep_locked | Activate_locked | Cull_mlocked | Free_it | Gone | Same_again

section \<open>The steps for one page\<close>

text \<open>Lines 996 to 1015: lock it, and may it be looked at? The result is \<open>may_enter_fs\<close>.\<close>

definition spl_admit :: "int \<Rightarrow> int \<Rightarrow> (verdict + bool) sact" where
  "spl_admit zone page w =
     bnd (kask (Pg (Trylock_page page)) w) (\<lambda>locked w.
     if \<not> locked then ret (Inl Keep) w
     else
       bnd (test PageActive page w) (\<lambda>active w.
       bnd (BUG_ON active w) (\<lambda>_ w.
       bnd (kcall (Pg (Page_zone page)) w) (\<lambda>z w.
       bnd (BUG_ON (z \<noteq> zone) w) (\<lambda>_ w.
       bnd (scanned_one w) (\<lambda>_ w.
       bnd (page_evictable page w) (\<lambda>evictable w.
       if \<not> evictable then ret (Inl Cull_mlocked) w
       else
         bnd (andalso (\<not> may_unmap (sc w)) (test Page_mapped page) w) (\<lambda>spare w.
         if spare then ret (Inl Keep_locked) w
         else
           bnd (test Page_mapped page w) (\<lambda>mapped w.
           bnd (orelse mapped (test PageSwapCache page) w) (\<lambda>double w.
           bnd (cond double scanned_one w) (\<lambda>_ w.
           bnd (orelse (GFP_FS \<in> gfp_mask (sc w)) (\<lambda>w.
                  bnd (test PageSwapCache page w) (\<lambda>swapcache w.
                  ret (swapcache \<and> GFP_IO \<in> gfp_mask (sc w)) w)) w) (\<lambda>may_enter_fs w.
           ret (Inr may_enter_fs) w))))))))))))"

text \<open>Lines 1023 to 1040: the counters, and the address space of the page.\<close>

definition spl_stats :: "renv \<Rightarrow> int \<Rightarrow> spl \<Rightarrow> (int \<times> spl) sact" where
  "spl_stats E page st w =
     bnd (page_check_dirty_writeback E page w) (\<lambda>(dirty, writeback) w.
     let st = (if dirty \<or> writeback then st\<lparr>nr_dirty := nr_dirty st + 1\<rparr> else st);
         st = (if dirty \<and> \<not> writeback then st\<lparr>nr_unqueued_dirty := nr_unqueued_dirty st + 1\<rparr> else st) in
     bnd (kcall (Pg (Page_mapping page)) w) (\<lambda>mapping w.
     bnd (andalso ((dirty \<or> writeback) \<and> mapping \<noteq> 0) (kask (Mp (Inode_write_congested mapping))) w) (\<lambda>c w.
     bnd (orelse c (andalso writeback (test PageReclaim page)) w) (\<lambda>congested w.
     ret (mapping, if congested then st\<lparr>nr_congested := nr_congested st + 1\<rparr> else st) w))))"

text \<open>Lines 1075 to 1109: a page under writeback, in the three cases of the comment there.\<close>

definition spl_writeback :: "renv \<Rightarrow> int \<Rightarrow> int \<Rightarrow> bool \<Rightarrow> spl \<Rightarrow> (verdict option \<times> spl) sact" where
  "spl_writeback E zone page may_enter_fs st w =
     bnd (test PageWriteback page w) (\<lambda>writeback w.
     if \<not> writeback then ret (None, st) w
     else
       bnd (kask (Sy Current_is_kswapd) w) (\<lambda>kswapd w.
       bnd (andalso kswapd (test PageReclaim page) w) (\<lambda>c w.
       bnd (andalso c (kask (Zn (Zone_test zone ZONE_WRITEBACK))) w) (\<lambda>immediate w.
       if immediate then ret (Some Keep_locked, st\<lparr>nr_immediate := nr_immediate st + 1\<rparr>) w
       else
         bnd (orelse (sane_reclaim E (sc w)) (\<lambda>w.
                bnd (test PageReclaim page w) (\<lambda>r w. ret (\<not> r \<or> \<not> may_enter_fs) w)) w) (\<lambda>mark w.
         if mark
         then bnd (kdo (Pg (SetF PageReclaim page)) w) (\<lambda>_ w.
              ret (Some Keep_locked, st\<lparr>nr_writeback := nr_writeback st + 1\<rparr>) w)
         else
           bnd (page_do Unlock_page page w) (\<lambda>_ w.
           bnd (kdo (Sy (Wait_on_page_writeback page)) w) (\<lambda>_ w.
           ret (Some Same_again, st\<lparr>page_list := page_list st @ [page]\<rparr>) w)))))))"

text \<open>Lines 1128 to 1137: an anonymous page gets a place in the swap cache.\<close>

definition spl_swap :: "int \<Rightarrow> bool \<Rightarrow> int \<Rightarrow> spl \<Rightarrow> ((verdict + (bool \<times> int)) \<times> spl) sact" where
  "spl_swap page may_enter_fs mapping st w =
     bnd (test PageAnon page w) (\<lambda>anon w.
     bnd (andalso anon (\<lambda>w. bnd (test PageSwapCache page w) (\<lambda>s w. ret (\<not> s) w)) w) (\<lambda>new w.
     if \<not> new then ret (Inr (may_enter_fs, mapping), st) w
     else if GFP_IO \<notin> gfp_mask (sc w) then ret (Inl Keep_locked, st) w
     else
       bnd (kask (Mp (Add_to_swap page)) w) (\<lambda>added w.
       let st = st\<lparr>page_list := page_list st @ huge_tails w page added\<rparr> in
       if \<not> added then ret (Inl Activate_locked, st) w
       else
         bnd (kcall (Pg (Page_mapping page)) w) (\<lambda>mapping w. ret (Inr (True, mapping), st) w))))"

text \<open>Lines 1143 to 1155: take it out of the page tables.\<close>

definition spl_unmap :: "renv \<Rightarrow> ttu_flag set \<Rightarrow> int \<Rightarrow> int \<Rightarrow> verdict option sact" where
  "spl_unmap E ttu_flags page mapping w =
     bnd (test Page_mapped page w) (\<lambda>mapped w.
     if mapped \<and> mapping \<noteq> 0 then
       bnd (kcall (Mp (Try_to_unmap page (insert TTU_BATCH_FLUSH ttu_flags))) w) (\<lambda>r w.
       ret (case ttu_answer E r of
              SWAP_FAIL \<Rightarrow> Some Activate_locked
            | SWAP_AGAIN \<Rightarrow> Some Keep_locked
            | SWAP_MLOCK \<Rightarrow> Some Cull_mlocked
            | SWAP_SUCCESS \<Rightarrow> None) w)
     else ret None w)"

section \<open>Recording what is written out\<close>

text \<open>
  The lines marked in \<open>shrink_page_list\<close>. The arrays are made on the first dirty page: \<open>kmalloc\<close> of
  100 page records, or of none if there is no memory. An access outside an array is \<open>OutOfBounds\<close>.
\<close>

definition record_first :: "unit sact" where
  "record_first w =
     (if firstTime_OUT w
      then bnd (kask (Sy Kmalloc_table) (w\<lparr>firstTime_OUT := False\<rparr>)) (\<lambda>table w.
           case allocateArray_OUT table (out_rows w) (out_store w) of
             None \<Rightarrow> Inl (Oops, w)
           | Some s \<Rightarrow>
               bnd (kask (Sy Kmalloc_contents) (w\<lparr>out_store := s\<rparr>)) (\<lambda>ok w.
               ret () (w\<lparr>contents_OUT := (if ok then map (out_pages w) [0..<100] else [])\<rparr>)))
      else ret () w)"

definition record_content :: "int \<Rightarrow> unit sact" where
  "record_content page w =
     bnd (kcall (Pg (Page_private page)) w) (\<lambda>p w.
     case fetch (contents_OUT w) (pageFilled_OUT w) of
       None \<Rightarrow> Inl (OutOfBounds, w)
     | Some slot \<Rightarrow>
         let i = nat (pageFilled_OUT w);
             w = w\<lparr>contents_OUT := (contents_OUT w)[i := slot\<lparr>page_value := word_of_int p\<rparr>]\<rparr> in
         bnd (kcall (Pg (Kmap page)) w) (\<lambda>kaddr w.
         let w = (if kaddr \<noteq> 0
                  then w\<lparr>contents_OUT := (contents_OUT w)[i := (contents_OUT w ! i)\<lparr>page_content := out_kmem w kaddr\<rparr>],
                         pageFilled_OUT := pageFilled_OUT w + 1\<rparr>
                  else w) in
         kdo (Pg (Kunmap page)) w))"

definition record_out :: "int \<Rightarrow> unit sact" where
  "record_out page w =
     bnd (record_first w) (\<lambda>_ w.
     bnd (kcall (Pg (Page_private page)) w) (\<lambda>p w.
     cond ((word_of_int p :: u64) \<noteq> 0) (\<lambda>w.
       bnd (kcall (Pg (Page_private page)) w) (\<lambda>p w.
       case addInArray_OUT (out_store w) (word_of_int p) of
         None \<Rightarrow> Inl (OutOfBounds, w)
       | Some s \<Rightarrow>
           bnd (kcall (Pg (Page_private page)) (w\<lparr>out_store := s\<rparr>)) (\<lambda>p w.
           cond ((word_of_int p :: u64) mod 100 = 0 \<and> pageFilled_OUT w < 100 \<and> contents_OUT w \<noteq> [])
             (record_content page) w))) w))"

section \<open>Writing out and freeing\<close>

text \<open>
  Lines 1217 to 1239: the page is written out. The result is a verdict, or the address space to go
  on with when the page is clean and locked.
\<close>

definition spl_pageout :: "renv \<Rightarrow> int \<Rightarrow> int \<Rightarrow> (verdict + int) sact" where
  "spl_pageout E page mapping w =
     bnd (pageout E page mapping w) (\<lambda>r w.
     case r of
       PAGE_KEEP \<Rightarrow> ret (Inl Keep_locked) w
     | PAGE_ACTIVATE \<Rightarrow> ret (Inl Activate_locked) w
     | PAGE_CLEAN \<Rightarrow> ret (Inr mapping) w
     | PAGE_SUCCESS \<Rightarrow>
         bnd (test PageWriteback page w) (\<lambda>writeback w.
         if writeback then ret (Inl Keep) w
         else
           bnd (test PageDirty page w) (\<lambda>dirty w.
           if dirty then ret (Inl Keep) w
           else
             bnd (kask (Pg (Trylock_page page)) w) (\<lambda>locked w.
             if \<not> locked then ret (Inl Keep) w
             else
               bnd (test PageDirty page w) (\<lambda>dirty w.
               bnd (orelse dirty (test PageWriteback page) w) (\<lambda>busy w.
               if busy then ret (Inl Keep_locked) w
               else bnd (kcall (Pg (Page_mapping page)) w) (\<lambda>mapping w. ret (Inr mapping) w)))))))"

definition spl_dirty ::
  "renv \<Rightarrow> int \<Rightarrow> int \<Rightarrow> page_references \<Rightarrow> bool \<Rightarrow> int \<Rightarrow> (verdict + int) sact" where
  "spl_dirty E zone page references may_enter_fs mapping w =
     bnd (test PageDirty page w) (\<lambda>dirty w.
     if \<not> dirty then ret (Inr mapping) w
     else
       bnd (test Page_is_file_cache page w) (\<lambda>file w.
       bnd (andalso file (\<lambda>w.
              bnd (kask (Sy Current_is_kswapd) w) (\<lambda>kswapd w.
              orelse (\<not> kswapd) (\<lambda>w. bnd (kask (Zn (Zone_test zone ZONE_DIRTY)) w) (\<lambda>z w. ret (\<not> z) w)) w)) w) (\<lambda>later w.
       if later
       then bnd (kdo (Zn (Inc_page_state page NR_VMSCAN_IMMEDIATE)) w) (\<lambda>_ w.
            bnd (kdo (Pg (SetF PageReclaim page)) w) (\<lambda>_ w. ret (Inl Keep_locked) w))
       else if references = PAGEREF_RECLAIM_CLEAN then ret (Inl Keep_locked) w
       else if \<not> may_enter_fs then ret (Inl Keep_locked) w
       else if \<not> may_writepage (sc w) then ret (Inl Keep_locked) w
       else
         bnd (record_out page w) (\<lambda>_ w.
         bnd (kdo (Mp Try_to_unmap_flush_dirty) w) (\<lambda>_ w.
         spl_pageout E page mapping w)))))"

text \<open>Lines 1284 to 1294.\<close>

definition spl_remove :: "int \<Rightarrow> int \<Rightarrow> verdict sact" where
  "spl_remove page mapping w =
     bnd (andalso (mapping \<noteq> 0) (raw_remove_mapping mapping page True) w) (\<lambda>removed w.
     if \<not> removed then ret Keep_locked w
     else bnd (page_do Clear_page_locked page w) (\<lambda>_ w. ret Free_it w))"

text \<open>Lines 1263 to 1294: its buffers, then its place in the address space.\<close>

definition spl_release :: "int \<Rightarrow> int \<Rightarrow> verdict sact" where
  "spl_release page mapping w =
     bnd (test Page_has_private page w) (\<lambda>private w.
     if \<not> private then spl_remove page mapping w
     else
       bnd (kask (Mp (Try_to_release_page page (gfp_mask (sc w)))) w) (\<lambda>released w.
       if \<not> released then ret Activate_locked w
       else
         bnd (andalso (mapping = 0) (\<lambda>w. bnd (kcall (Pg (Page_count page)) w) (\<lambda>c w. ret (c = 1) w)) w) (\<lambda>orphan w.
         if orphan
         then
           bnd (page_do Unlock_page page w) (\<lambda>_ w.
           bnd (kask (Pg (Put_page_testzero page)) w) (\<lambda>zero w.
           ret (if zero then Free_it else Gone) w))
         else spl_remove page mapping w)))"

section \<open>One page, and the list\<close>

text \<open>Lines 1124 to 1302: a locked page that is not under writeback and not in use.\<close>

definition spl_reclaim ::
  "renv \<Rightarrow> int \<Rightarrow> ttu_flag set \<Rightarrow> page_references \<Rightarrow> bool \<Rightarrow> int \<Rightarrow> int \<Rightarrow> spl \<Rightarrow> (verdict \<times> spl) sact" where
  "spl_reclaim E zone ttu_flags references may_enter_fs page mapping st w =
     bnd (spl_swap page may_enter_fs mapping st w) (\<lambda>(a, st) w.
     case a of Inl v \<Rightarrow> ret (v, st) w | Inr (may_enter_fs, mapping) \<Rightarrow>
     bnd (spl_unmap E ttu_flags page mapping w) (\<lambda>v w.
     case v of Some v \<Rightarrow> ret (v, st) w | None \<Rightarrow>
     bnd (spl_dirty E zone page references may_enter_fs mapping w) (\<lambda>a w.
     case a of Inl v \<Rightarrow> ret (v, st) w | Inr mapping \<Rightarrow>
     bnd (spl_release page mapping w) (\<lambda>v w. ret (v, st) w))))"

definition spl_page ::
  "renv \<Rightarrow> int \<Rightarrow> ttu_flag set \<Rightarrow> bool \<Rightarrow> int \<Rightarrow> spl \<Rightarrow> (verdict \<times> spl) sact" where
  "spl_page E zone ttu_flags force_reclaim page st w =
     bnd (spl_admit zone page w) (\<lambda>a w.
     case a of Inl v \<Rightarrow> ret (v, st) w | Inr may_enter_fs \<Rightarrow>
     bnd (spl_stats E page st w) (\<lambda>(mapping, st) w.
     bnd (spl_writeback E zone page may_enter_fs st w) (\<lambda>(v, st) w.
     case v of Some v \<Rightarrow> ret (v, st) w | None \<Rightarrow>
     bnd (if force_reclaim then ret PAGEREF_RECLAIM_CLEAN w else page_check_references E page w) (\<lambda>references w.
     if references = PAGEREF_ACTIVATE then ret (Activate_locked, st) w
     else if references = PAGEREF_KEEP then ret (Keep_locked, st) w
     else spl_reclaim E zone ttu_flags references may_enter_fs page mapping st w))))"

text \<open>The labels: from \<open>keep_locked\<close> on, then all of them.\<close>

definition keep_page :: "int \<Rightarrow> spl \<Rightarrow> spl sact" where
  "keep_page page st w =
     bnd (test PageLRU page w) (\<lambda>lru w.
     bnd (orelse lru (test PageUnevictable page) w) (\<lambda>bad w.
     bnd (BUG_ON bad w) (\<lambda>_ w.
     ret (st\<lparr>ret_pages := page # ret_pages st\<rparr>) w)))"

definition activate_page :: "int \<Rightarrow> unit sact" where
  "activate_page page w =
     bnd (test PageSwapCache page w) (\<lambda>swapcache w.
     bnd (andalso swapcache (kask (Mp Vm_swap_full)) w) (\<lambda>full w.
     bnd (cond full (kdo (Mp (Try_to_free_swap page))) w) (\<lambda>_ w.
     bnd (test PageActive page w) (\<lambda>active w.
     bnd (BUG_ON active w) (\<lambda>_ w.
     kdo (Pg (SetF PageActive page)) w)))))"

fun spl_settle :: "verdict \<Rightarrow> int \<Rightarrow> spl \<Rightarrow> spl sact" where
  "spl_settle Keep page st w = keep_page page st w"
| "spl_settle Keep_locked page st w = bnd (page_do Unlock_page page w) (\<lambda>_ w. keep_page page st w)"
| "spl_settle Activate_locked page st w =
     bnd (activate_page page w) (\<lambda>_ w.
     bnd (page_do Unlock_page page w) (\<lambda>_ w. keep_page page (st\<lparr>pgactivate := pgactivate st + 1\<rparr>) w))"
| "spl_settle Cull_mlocked page st w =
     bnd (test PageSwapCache page w) (\<lambda>swapcache w.
     bnd (cond swapcache (kdo (Mp (Try_to_free_swap page))) w) (\<lambda>_ w.
     bnd (page_do Unlock_page page w) (\<lambda>_ w.
     ret (st\<lparr>ret_pages := page # ret_pages st\<rparr>) w)))"
| "spl_settle Free_it page st w =
     ret (st\<lparr>spl_reclaimed := spl_reclaimed st + 1, free_pages := page # free_pages st\<rparr>) w"
| "spl_settle Gone page st w = ret (st\<lparr>spl_reclaimed := spl_reclaimed st + 1\<rparr>) w"
| "spl_settle Same_again page st w = ret st w"

definition spl_body ::
  "renv \<Rightarrow> int \<Rightarrow> ttu_flag set \<Rightarrow> bool \<Rightarrow> spl \<Rightarrow> (bool \<times> spl) sact" where
  "spl_body E zone ttu_flags force_reclaim st w =
     (if page_list st = [] then ret (False, st) w
      else
        bnd (kdo (Sy Cond_resched) w) (\<lambda>_ w.
        let page = last (page_list st) in
        bnd (spl_page E zone ttu_flags force_reclaim page (st\<lparr>page_list := butlast (page_list st)\<rparr>) w) (\<lambda>(v, st) w.
        bnd (spl_settle v page st w) (\<lambda>st w. ret (True, st) w))))"

text \<open>
  The result is the number of reclaimed pages, the pages left on the list and the loop's counters.
  A page under writeback may be tried again without end (line 1106), so the fuel is an argument.
\<close>

definition shrink_page_list ::
  "nat \<Rightarrow> renv \<Rightarrow> int list \<Rightarrow> int \<Rightarrow> ttu_flag set \<Rightarrow> bool \<Rightarrow> (u64 \<times> int list \<times> spl) sact" where
  "shrink_page_list fuel E ps zone ttu_flags force_reclaim w =
     bnd (kdo (Sy Cond_resched) w) (\<lambda>_ w.
     bnd (do_while fuel (spl_body E zone ttu_flags force_reclaim) (spl_init ps) w) (\<lambda>st w.
     bnd (kdo (Zn (Mem_cgroup_uncharge_list (free_pages st))) w) (\<lambda>_ w.
     bnd (kdo (Mp Try_to_unmap_flush) w) (\<lambda>_ w.
     bnd (kdo (Zn (Free_hot_cold_page_list (free_pages st))) w) (\<lambda>_ w.
     bnd (kdo (Zn (Count_vm_events PGACTIVATE (ucast (pgactivate st)))) w) (\<lambda>_ w.
     ret (spl_reclaimed st, ret_pages st @ page_list st, st) w))))))"

section \<open>Clean pages only\<close>

text \<open>
  \<open>reclaim_clean_pages_from_list\<close>: the clean pages of files are moved in front of each other to a list
  of their own, what is not reclaimed comes back in front.
\<close>

fun pick_clean :: "int list \<Rightarrow> int list \<Rightarrow> int list \<Rightarrow> (int list \<times> int list) sact" where
  "pick_clean [] clean rest w = ret (clean, rest) w"
| "pick_clean (p # ps) clean rest w =
     bnd (test Page_is_file_cache p w) (\<lambda>file w.
     bnd (andalso file (\<lambda>w. bnd (test PageDirty p w) (\<lambda>d w. ret (\<not> d) w)) w) (\<lambda>c w.
     bnd (andalso c (\<lambda>w. bnd (test Isolated_balloon p w) (\<lambda>b w. ret (\<not> b) w)) w) (\<lambda>take w.
     if take
     then bnd (kdo (Pg (ClearF PageActive p)) w) (\<lambda>_ w. pick_clean ps (p # clean) rest w)
     else pick_clean ps clean (rest @ [p]) w)))"

definition clean_control :: scan_control where
  "clean_control = \<lparr>nr_to_reclaim = 0, gfp_mask = {GFP_IO, GFP_FS, GFP_WAIT}, order = 0, target_mem_cgroup = 0,
     priority = 12, may_writepage = False, may_unmap = True, may_swap = False, may_thrash = False,
     hibernation_mode = False, compaction_ready = False, nr_scanned = 0, nr_reclaimed = 0, nodemask = 0\<rparr>"

definition reclaim_clean_pages_from_list :: "nat \<Rightarrow> renv \<Rightarrow> int \<Rightarrow> int list \<Rightarrow> (u64 \<times> int list) sact" where
  "reclaim_clean_pages_from_list fuel E zone ps w =
     (let outer = sc w in
      bnd (pick_clean ps [] [] w) (\<lambda>(clean, rest) w.
      bnd (shrink_page_list fuel E clean zone {TTU_UNMAP, TTU_IGNORE_ACCESS} True (w\<lparr>sc := clean_control\<rparr>)) (\<lambda>(n, left, _) w.
      bnd (kdo (Zn (Mod_zone_page_state zone NR_ISOLATED_FILE (- n))) (w\<lparr>sc := outer\<rparr>)) (\<lambda>_ w.
      ret (n, left @ rest) w))))"

end
