(* ===== verification/ReclaimProps.thy ===== *)
theory ReclaimProps
  imports ShrinkPages "HOL-Library.Multiset"
begin

text \<open>
  What \<open>shrink_page_list\<close> guarantees: every page it is given is either freed, left to whoever still
  refers to it, or given back on the list, exactly once; it ends with no page locked, no count
  frozen and no tree lock held; pages leave their address space only frozen and under its lock.
\<close>

section \<open>What reclaim holds\<close>

text \<open>
  \<open>rl_frozen\<close> are the pages that nobody else can refer to any more, \<open>rl_gone\<close> those whose last
  reference somebody else holds, \<open>rl_tails\<close> the tails of split huge pages that joined the list.
\<close>

record rl =
  rl_ok :: bool
  rl_locked :: "int multiset"
  rl_frozen :: "int multiset"
  rl_freed :: "int multiset"
  rl_gone :: "int multiset"
  rl_tails :: "int multiset"
  rl_tree :: bool

definition lock_p :: "int \<Rightarrow> rl \<Rightarrow> rl" where
  "lock_p p s = s\<lparr>rl_locked := add_mset p (rl_locked s)\<rparr>"

definition unlock_p :: "int \<Rightarrow> rl \<Rightarrow> rl" where
  "unlock_p p s = s\<lparr>rl_ok := rl_ok s \<and> p \<in># rl_locked s, rl_locked := rl_locked s - {#p#}\<rparr>"

definition freeze_p :: "int \<Rightarrow> rl \<Rightarrow> rl" where
  "freeze_p p s = s\<lparr>rl_frozen := add_mset p (rl_frozen s)\<rparr>"

definition thaw_p :: "int \<Rightarrow> rl \<Rightarrow> rl" where
  "thaw_p p s = s\<lparr>rl_ok := rl_ok s \<and> p \<in># rl_frozen s, rl_frozen := rl_frozen s - {#p#}\<rparr>"

fun page_rl :: "rl \<Rightarrow> page_op \<Rightarrow> int \<Rightarrow> rl" where
  "page_rl s (Trylock_page p) r = (if r = 0 then s else lock_p p s)"
| "page_rl s (Lock_page p) r = lock_p p s"
| "page_rl s (Unlock_page p) r = unlock_p p s"
| "page_rl s (Clear_page_locked p) r = (unlock_p p s)\<lparr>rl_ok := rl_ok s \<and> p \<in># rl_locked s \<and> p \<in># rl_frozen s\<rparr>"
| "page_rl s (Page_freeze_refs p n) r = (if r = 0 then s else freeze_p p s)"
| "page_rl s (Page_unfreeze_refs p n) r = thaw_p p s"
| "page_rl s (Put_page_testzero p) r = (if r = 0 then s\<lparr>rl_gone := add_mset p (rl_gone s)\<rparr> else freeze_p p s)"
| "page_rl s c r = s"

fun map_rl :: "renv \<Rightarrow> (int \<Rightarrow> bool \<Rightarrow> int list) \<Rightarrow> rl \<Rightarrow> map_op \<Rightarrow> int \<Rightarrow> rl" where
  "map_rl E T s (Writepage p) r = (if r = AOP_WRITEPAGE_ACTIVATE E then s else unlock_p p s)"
| "map_rl E T s (Tree_lock m) r = s\<lparr>rl_ok := rl_ok s \<and> \<not> rl_tree s, rl_tree := True\<rparr>"
| "map_rl E T s (Tree_unlock m) r = s\<lparr>rl_ok := rl_ok s \<and> rl_tree s, rl_tree := False\<rparr>"
| "map_rl E T s (Delete_from_swap_cache p) r = s\<lparr>rl_ok := rl_ok s \<and> rl_tree s \<and> p \<in># rl_frozen s\<rparr>"
| "map_rl E T s (Delete_from_page_cache p sh m) r = s\<lparr>rl_ok := rl_ok s \<and> rl_tree s \<and> p \<in># rl_frozen s\<rparr>"
| "map_rl E T s (Add_to_swap p) r =
     s\<lparr>rl_ok := rl_ok s \<and> p \<in># rl_locked s, rl_tails := rl_tails s + mset (T p (r \<noteq> 0))\<rparr>"
| "map_rl E T s c r = s"

fun zone_rl :: "rl \<Rightarrow> zone_op \<Rightarrow> rl" where
  "zone_rl s (Free_hot_cold_page_list ps) =
     s\<lparr>rl_ok := rl_ok s \<and> mset ps \<subseteq># rl_frozen s, rl_frozen := rl_frozen s - mset ps, rl_freed := rl_freed s + mset ps\<rparr>"
| "zone_rl s c = s"

fun rl_step :: "renv \<Rightarrow> (int \<Rightarrow> bool \<Rightarrow> int list) \<Rightarrow> rl \<Rightarrow> rk \<Rightarrow> int \<Rightarrow> rl" where
  "rl_step E T s (Pg c) r = page_rl s c r"
| "rl_step E T s (Mp c) r = map_rl E T s c r"
| "rl_step E T s (Zn c) r = zone_rl s c"
| "rl_step E T s c r = s"

definition rl0 :: rl where
  "rl0 = \<lparr>rl_ok = True, rl_locked = {#}, rl_frozen = {#}, rl_freed = {#}, rl_gone = {#}, rl_tails = {#}, rl_tree = False\<rparr>"

text \<open>
  How a piece of code changes what is held. The tails of pages and the kind of the scan stay.
\<close>

definition moved :: "renv \<Rightarrow> (rl \<Rightarrow> rl) \<Rightarrow> scw \<Rightarrow> scw \<Rightarrow> bool" where
  "moved E f w w' = (huge_tails w' = huge_tails w \<and> target_mem_cgroup (sc w') = target_mem_cgroup (sc w) \<and>
     ghost (rl_step E (huge_tails w)) rl0 w' = f (ghost (rl_step E (huge_tails w)) rl0 w))"

abbreviation quiet :: "renv \<Rightarrow> scw \<Rightarrow> scw \<Rightarrow> bool" where
  "quiet E \<equiv> moved E (\<lambda>s. s)"

declare tpost_cases [run_intros] tpost_Inl [run_intros] tpost_bnd_Inl [run_intros]

lemma moved_bndI:
  "tpost (\<lambda>_. moved E f w) m \<Longrightarrow> (\<And>a w'. moved E f w w' \<Longrightarrow> tpost P (k a w')) \<Longrightarrow> tpost P (bnd m k)"
  by (rule tpost_bndI)

text \<open>Calls that change nothing of it; what they answer is left open.\<close>

lemma quiet_calls:
  "(\<And>b w'. quiet E w w' \<Longrightarrow> tpost P (f b w')) \<Longrightarrow> tpost P (bnd (test F p w) f)"
  "(\<And>b w'. quiet E w w' \<Longrightarrow> tpost P (f b w')) \<Longrightarrow> tpost P (bnd (kask (Sy d) w) f)"
  "(\<And>b w'. quiet E w w' \<Longrightarrow> tpost P (f b w')) \<Longrightarrow> tpost P (bnd (kask (Zn (Zone_test z t)) w) f)"
  by (rule moved_bndI [of E "\<lambda>s. s"], simp add: moved_def kask_def kcall_def Let_def, assumption)+

lemma page_evictable_quiet: "tpost (\<lambda>_. quiet E w) (page_evictable p w)"
  unfolding page_evictable_def by (intro quiet_calls [of E] run_intros) (simp_all add: moved_def)

lemma scanned_one_quiet: "tpost (\<lambda>_. quiet E w) (scanned_one w)"
  by (simp add: scanned_one_def moved_def)

lemma page_check_references_quiet: "tpost (\<lambda>_. quiet E w) (page_check_references E' p w)"
  unfolding page_check_references_def by (intro quiet_calls [of E] run_intros) (simp_all add: moved_def)

lemma page_check_dirty_writeback_quiet: "tpost (\<lambda>_. quiet E w) (page_check_dirty_writeback E' p w)"
  unfolding page_check_dirty_writeback_def by (intro quiet_calls [of E] run_intros) (simp_all add: moved_def)

lemma is_page_cache_freeable_quiet: "tpost (\<lambda>_. quiet E w) (is_page_cache_freeable p w)"
  unfolding is_page_cache_freeable_def by (intro quiet_calls [of E] run_intros) (simp_all add: moved_def)

lemma may_write_to_inode_quiet: "tpost (\<lambda>_. quiet E w) (may_write_to_inode m w)"
  unfolding may_write_to_inode_def by (intro quiet_calls [of E] run_intros) (simp_all add: moved_def)

lemma activate_page_quiet: "tpost (\<lambda>_. quiet E w) (activate_page p w)"
  unfolding activate_page_def by (intro quiet_calls [of E] run_intros) (simp_all add: moved_def)

lemma record_first_quiet: "tpost (\<lambda>_. quiet E w) (record_first w)"
  unfolding record_first_def by (intro quiet_calls [of E] run_intros) (simp_all add: moved_def)

lemma record_content_quiet: "tpost (\<lambda>_. quiet E w) (record_content p w)"
  unfolding record_content_def Let_def by (intro quiet_calls [of E] run_intros) (simp_all add: moved_def)

lemma record_out_quiet: "tpost (\<lambda>_. quiet E w) (record_out p w)"
  unfolding record_out_def
  by (intro quiet_calls [of E] run_intros moved_bndI [OF record_first_quiet [of E]] tpost_mono [OF record_content_quiet [of E]])
     (simp_all add: moved_def)

lemma quiet_runs:
  "(\<And>a w'. quiet E w w' \<Longrightarrow> tpost P (f a w')) \<Longrightarrow> tpost P (bnd (scanned_one w) f)"
  "(\<And>a w'. quiet E w w' \<Longrightarrow> tpost P (g a w')) \<Longrightarrow> tpost P (bnd (page_check_references E' p w) g)"
  "(\<And>a w'. quiet E w w' \<Longrightarrow> tpost P (h a w')) \<Longrightarrow> tpost P (bnd (page_check_dirty_writeback E' p w) h)"
  "(\<And>a w'. quiet E w w' \<Longrightarrow> tpost P (k a w')) \<Longrightarrow> tpost P (bnd (is_page_cache_freeable p w) k)"
  "(\<And>a w'. quiet E w w' \<Longrightarrow> tpost P (k a w')) \<Longrightarrow> tpost P (bnd (may_write_to_inode p w) k)"
  "(\<And>a w'. quiet E w w' \<Longrightarrow> tpost P (f a w')) \<Longrightarrow> tpost P (bnd (activate_page p w) f)"
  "(\<And>a w'. quiet E w w' \<Longrightarrow> tpost P (f a w')) \<Longrightarrow> tpost P (bnd (record_out p w) f)"
  "(\<And>a w'. quiet E w w' \<Longrightarrow> tpost P (k a w')) \<Longrightarrow> tpost P (bnd (page_evictable p w) k)"
  by (rule moved_bndI, (rule scanned_one_quiet page_check_references_quiet page_check_dirty_writeback_quiet
      is_page_cache_freeable_quiet may_write_to_inode_quiet activate_page_quiet record_out_quiet page_evictable_quiet), assumption)+

section \<open>Writing out and removing\<close>

text \<open>\<open>pageout\<close> leaves the page locked exactly if it does not report success.\<close>

lemma handle_write_error_quiet: "tpost (\<lambda>_. moved E (\<lambda>s. unlock_p p (lock_p p s)) w) (handle_write_error m p e w)"
  unfolding handle_write_error_def by (intro quiet_calls [of E] run_intros) (simp_all add: moved_def)

lemma lock_unlock [simp]: "unlock_p p (lock_p p s) = s"
  by (simp add: lock_p_def unlock_p_def)

lemma pageout_write_moved:
  "tpost (\<lambda>r. moved E (if r = PAGE_SUCCESS then unlock_p p else (\<lambda>s. s)) w) (pageout_write E p m w)"
  unfolding pageout_write_def
  by (intro quiet_calls [of E] run_intros moved_bndI [OF handle_write_error_quiet [of E]]) (auto simp: moved_def)

lemma pageout_moved:
  "tpost (\<lambda>r. moved E (if r = PAGE_SUCCESS then unlock_p p else (\<lambda>s. s)) w) (pageout E p m w)"
  unfolding pageout_def
  by (intro quiet_calls [of E] quiet_runs [of E] run_intros tpost_mono [OF pageout_write_moved]) (auto simp: moved_def)

abbreviation rls :: "renv \<Rightarrow> scw \<Rightarrow> rl" where
  "rls E w \<equiv> ghost (rl_step E (huge_tails w)) rl0 w"

lemmas rl_defs = lock_p_def unlock_p_def freeze_p_def thaw_p_def

lemma cannot_free_moved: "tpost (\<lambda>r w'. \<not> r \<and> moved E (\<lambda>s. s\<lparr>rl_ok := rl_ok s \<and> rl_tree s, rl_tree := False\<rparr>) w w') (cannot_free m g w)"
  unfolding cannot_free_def by (intro quiet_calls [of E] run_intros) (simp_all add: moved_def)

lemma leave_swap_cache_moved:
  "tpost (\<lambda>_. moved E (\<lambda>s. s\<lparr>rl_ok := rl_ok s \<and> rl_tree s \<and> p \<in># rl_frozen s, rl_tree := False\<rparr>) w) (leave_swap_cache m p g w)"
  unfolding leave_swap_cache_def Let_def by (intro quiet_calls [of E] run_intros) (simp_all add: moved_def cong: conj_cong)

lemma leave_page_cache_moved:
  "tpost (\<lambda>_. moved E (\<lambda>s. s\<lparr>rl_ok := rl_ok s \<and> rl_tree s \<and> p \<in># rl_frozen s, rl_tree := False\<rparr>) w) (leave_page_cache m p b g w)"
  unfolding leave_page_cache_def Let_def by (intro quiet_calls [of E] run_intros) (simp_all add: moved_def cong: conj_cong)

lemma raw_remove_mapping_moved:
  assumes "\<not> rl_tree (rls E w)"
  shows "tpost (\<lambda>r. moved E (if r then freeze_p p else (\<lambda>s. s)) w) (raw_remove_mapping m p b w)"
  unfolding raw_remove_mapping_def
  by (intro quiet_calls [of E] run_intros tpost_mono [OF cannot_free_moved [of E]] moved_bndI [OF leave_swap_cache_moved [of E]]
      moved_bndI [OF leave_page_cache_moved [of E]])
     (use assms in \<open>auto simp: moved_def rl_defs\<close>)

section \<open>The steps for one page\<close>

lemma spl_admit_moved:
  "tpost (\<lambda>a w'. moved E (if a = Inl Keep then (\<lambda>s. s) else lock_p p) w w' \<and>
      (a \<in> {Inl Keep, Inl Keep_locked, Inl Cull_mlocked} \<or> \<not> isl a)) (spl_admit z p w)"
  unfolding spl_admit_def
  by (intro quiet_calls [of E] quiet_runs [of E] run_intros) (simp_all add: moved_def)

definition same_lists :: "spl \<Rightarrow> spl \<Rightarrow> bool" where
  "same_lists st st' = (page_list st' = page_list st \<and> ret_pages st' = ret_pages st \<and> free_pages st' = free_pages st \<and>
     spl_reclaimed st' = spl_reclaimed st)"

lemma spl_stats_moved: "tpost (\<lambda>(m, st') w'. quiet E w w' \<and> same_lists st st') (spl_stats E' p st w)"
  unfolding spl_stats_def Let_def
  by (intro quiet_calls [of E] quiet_runs [of E] run_intros) (auto simp: moved_def same_lists_def)

lemma spl_writeback_moved:
  "tpost (\<lambda>(v, st') w'. if v = Some Same_again
      then moved E (unlock_p p) w w' \<and> same_lists (st\<lparr>page_list := page_list st @ [p]\<rparr>) st' \<and> \<not> sane_reclaim E' (sc w)
      else quiet E w w' \<and> same_lists st st' \<and> v \<in> {None, Some Keep_locked}) (spl_writeback E' z p may st w)"
  unfolding spl_writeback_def Let_def
  by (intro quiet_calls [of E] run_intros) (auto simp: moved_def same_lists_def sane_reclaim_def)

definition tails_of :: "scw \<Rightarrow> int \<Rightarrow> int list set" where
  "tails_of w p = {[], huge_tails w p True, huge_tails w p False}"

lemma tails_of_quiet: "moved E f w w' \<Longrightarrow> tails_of w' p = tails_of w p"
  by (simp add: moved_def tails_of_def)

lemma spl_swap_moved:
  assumes "p \<in># rl_locked (rls E w)"
  shows "tpost (\<lambda>(a, st') w'. \<exists>ts \<in> tails_of w p. moved E (\<lambda>s. s\<lparr>rl_tails := rl_tails s + mset ts\<rparr>) w w' \<and>
        same_lists (st\<lparr>page_list := page_list st @ ts\<rparr>) st' \<and> (a \<in> {Inl Keep_locked, Inl Activate_locked} \<or> \<not> isl a))
     (spl_swap p may m st w)"
  unfolding spl_swap_def Let_def
  by (intro quiet_calls [of E] run_intros) (use assms in \<open>auto simp: moved_def same_lists_def tails_of_def\<close>)

lemma spl_unmap_moved:
  "tpost (\<lambda>v w'. quiet E w w' \<and> v \<in> {None, Some Keep_locked, Some Activate_locked, Some Cull_mlocked}) (spl_unmap E' fl p m w)"
  unfolding spl_unmap_def
  by (intro quiet_calls [of E] run_intros) (auto simp: moved_def split: ttu_result.split)

lemma spl_pageout_moved:
  assumes "p \<in># rl_locked (rls E w)"
  shows "tpost (\<lambda>a w'. if a = Inl Keep then moved E (unlock_p p) w w'
      else quiet E w w' \<and> (a \<in> {Inl Keep_locked, Inl Activate_locked} \<or> \<not> isl a)) (spl_pageout E p m w)"
  unfolding spl_pageout_def
proof (rule tpost_bndI [OF pageout_moved], goal_cases)
  case (1 r w')
  then show ?case
    by (cases r) (auto intro!: quiet_calls [of E] run_intros simp: moved_def rl_defs assms)
qed

lemma spl_dirty_moved:
  assumes "p \<in># rl_locked (rls E w)"
  shows "tpost (\<lambda>a w'. if a = Inl Keep then moved E (unlock_p p) w w'
      else quiet E w w' \<and> (a \<in> {Inl Keep_locked, Inl Activate_locked} \<or> \<not> isl a)) (spl_dirty E z p rf may m w)"
  unfolding spl_dirty_def
  by (intro quiet_calls [of E] quiet_runs [of E] run_intros tpost_mono [OF spl_pageout_moved [of p E]])
     (use assms in \<open>auto simp: moved_def split: if_splits\<close>)

lemma spl_remove_moved:
  assumes "\<not> rl_tree (rls E w)"
  shows "tpost (\<lambda>v w'. if v = Free_it then moved E (\<lambda>s. unlock_p p (freeze_p p s)) w w'
      else quiet E w w' \<and> v = Keep_locked) (spl_remove p m w)"
  unfolding spl_remove_def
  by (intro quiet_calls [of E] run_intros tpost_bndI [OF raw_remove_mapping_moved [OF assms]])
     (use assms in \<open>auto simp: moved_def rl_defs\<close>)

definition gone_p :: "int \<Rightarrow> rl \<Rightarrow> rl" where
  "gone_p p s = s\<lparr>rl_gone := add_mset p (rl_gone s)\<rparr>"

lemma spl_release_moved:
  assumes "\<not> rl_tree (rls E w)"
  shows "tpost (\<lambda>v w'. if v = Free_it then moved E (\<lambda>s. unlock_p p (freeze_p p s)) w w'
      else if v = Gone then moved E (\<lambda>s. unlock_p p (gone_p p s)) w w'
      else quiet E w w' \<and> v \<in> {Keep_locked, Activate_locked}) (spl_release p m w)"
  unfolding spl_release_def
  by (intro quiet_calls [of E] run_intros tpost_mono [OF spl_remove_moved [of E]])
     (use assms in \<open>auto simp: moved_def rl_defs gone_p_def split: if_splits\<close>)

text \<open>What is held when the code for one page has come to its end.\<close>

fun after :: "verdict \<Rightarrow> int \<Rightarrow> rl \<Rightarrow> rl" where
  "after Free_it p s = freeze_p p s"
| "after Gone p s = gone_p p s"
| "after Keep p s = s"
| "after Same_again p s = s"
| "after v p s = lock_p p s"

definition page_done :: "renv \<Rightarrow> scw \<Rightarrow> int \<Rightarrow> spl \<Rightarrow> verdict \<Rightarrow> spl \<Rightarrow> scw \<Rightarrow> bool" where
  "page_done E w p st v st' w' =
     (\<exists>ts \<in> tails_of w p. moved E (\<lambda>s. (after v p s)\<lparr>rl_tails := rl_tails s + mset ts\<rparr>) w w' \<and>
        same_lists (st\<lparr>page_list := page_list st @ (if v = Same_again then [p] else ts)\<rparr>) st' \<and>
        (v = Same_again \<longrightarrow> ts = [] \<and> \<not> sane_reclaim E (sc w)))"

lemma sane_moved: "moved E f w w' \<Longrightarrow> sane_reclaim E (sc w') = sane_reclaim E (sc w)"
  by (simp add: sane_reclaim_def moved_def)

lemma moved_trans: "moved E f w w' \<Longrightarrow> moved E g w' w'' \<Longrightarrow> moved E (\<lambda>s. g (f s)) w w''"
  by (simp add: moved_def)

lemma page_done_stop:
  assumes "moved E (\<lambda>s. (after v p s)\<lparr>rl_tails := rl_tails s + mset ts\<rparr>) w w'" "ts \<in> tails_of w p" "v \<noteq> Same_again"
    and "same_lists (st\<lparr>page_list := page_list st @ ts\<rparr>) st'"
  shows "page_done E w p st v st' w'"
  using assms by (auto simp: page_done_def)

lemma same_tails [simp]: "(lock_p p s)\<lparr>rl_tails := rl_tails s\<rparr> = lock_p p s" "s\<lparr>rl_tails := rl_tails s\<rparr> = s"
  by (simp_all add: lock_p_def)

text \<open>The page \<open>p\<close> is locked and nothing is decided yet; \<open>ts\<close> are the tails it left on the list.\<close>

definition at_page :: "renv \<Rightarrow> scw \<Rightarrow> int list \<Rightarrow> int \<Rightarrow> spl \<Rightarrow> spl \<Rightarrow> scw \<Rightarrow> bool" where
  "at_page E w0 ts p st0 st w = (moved E (\<lambda>s. (lock_p p s)\<lparr>rl_tails := rl_tails s + mset ts\<rparr>) w0 w \<and>
     ts \<in> tails_of w0 p \<and> same_lists (st0\<lparr>page_list := page_list st0 @ ts\<rparr>) st)"

lemma at_page_quiet: "at_page E w0 ts p st0 st w \<Longrightarrow> quiet E w w' \<Longrightarrow> same_lists st st' \<Longrightarrow> at_page E w0 ts p st0 st' w'"
  by (auto simp: at_page_def moved_def same_lists_def)

lemma at_page_done:
  "at_page E w0 ts p st0 st w \<Longrightarrow> v \<in> {Keep_locked, Activate_locked, Cull_mlocked} \<Longrightarrow> page_done E w0 p st0 v st w"
  by (auto simp: at_page_def page_done_def)

lemma at_page_still: "at_page E w0 ts p st0 st w \<Longrightarrow> quiet E w w' \<Longrightarrow> at_page E w0 ts p st0 st w'"
  by (rule at_page_quiet) (simp_all add: same_lists_def)

lemma at_page_held: "at_page E w0 ts p st0 st w \<Longrightarrow> p \<in># rl_locked (rls E w)"
  "at_page E w0 ts p st0 st w \<Longrightarrow> rl_tree (rls E w) = rl_tree (rls E w0)"
  by (auto simp: at_page_def moved_def lock_p_def)

lemma spl_swap_at:
  assumes "at_page E w0 [] p st0 st w"
  shows "tpost (\<lambda>(a, st') w'. \<exists>ts. at_page E w0 ts p st0 st' w' \<and> (a \<in> {Inl Keep_locked, Inl Activate_locked} \<or> \<not> isl a))
     (spl_swap p may m st w)"
  by (rule tpost_mono [OF spl_swap_moved [OF at_page_held(1) [OF assms]]])
    (use assms in \<open>auto simp: at_page_def moved_def same_lists_def lock_p_def tails_of_def\<close>)

lemma spl_unmap_at:
  assumes "at_page E w0 ts p st0 st w"
  shows "tpost (\<lambda>v w'. at_page E w0 ts p st0 st w' \<and> v \<in> {None, Some Keep_locked, Some Activate_locked, Some Cull_mlocked})
     (spl_unmap E' fl p m w)"
  by (rule tpost_mono [OF spl_unmap_moved]) (use at_page_quiet [OF assms] in \<open>auto simp: same_lists_def\<close>)

lemma spl_dirty_at:
  assumes "at_page E w0 ts p st0 st w"
  shows "tpost (\<lambda>a w'. if a = Inl Keep then page_done E w0 p st0 Keep st w'
      else at_page E w0 ts p st0 st w' \<and> (a \<in> {Inl Keep_locked, Inl Activate_locked} \<or> \<not> isl a)) (spl_dirty E z p rf may m w)"
  by (rule tpost_mono [OF spl_dirty_moved [OF at_page_held(1) [OF assms]]])
    (use assms in \<open>auto simp: at_page_def page_done_def moved_def same_lists_def rl_defs split: if_splits intro!: bexI [of _ ts]\<close>)

lemma spl_release_at:
  assumes "at_page E w0 ts p st0 st w" "\<not> rl_tree (rls E w0)"
  shows "tpost (\<lambda>v w'. page_done E w0 p st0 v st w' \<and> v \<noteq> Same_again) (spl_release p m w)"
proof (rule tpost_mono [OF spl_release_moved])
  show "\<not> rl_tree (rls E w)" using assms at_page_held(2) by blast
qed (use assms in \<open>auto simp: at_page_def page_done_def moved_def same_lists_def rl_defs gone_p_def split: if_splits
   intro!: bexI [of _ ts]\<close>)

lemma spl_reclaim_done:
  assumes "at_page E w0 [] p st0 st w" "\<not> rl_tree (rls E w0)"
  shows "tpost (\<lambda>(v, st') w'. page_done E w0 p st0 v st' w') (spl_reclaim E z fl rf may p m st w)"
  unfolding spl_reclaim_def
proof (rule tpost_bndI [OF spl_swap_at [OF assms(1)]], clarsimp split: sum.splits, intro conjI allI impI, goal_cases)
  case 2
  from 2(2) show ?case
  proof (rule tpost_bndI [OF spl_unmap_at], clarsimp split: option.splits, intro conjI allI impI, goal_cases)
    case 1
    from 1(2) show ?case
    proof (rule tpost_bndI [OF spl_dirty_at], clarsimp split: sum.splits if_splits, intro conjI allI impI, goal_cases)
      case 2
      then show ?case by (intro tpost_bndI [OF spl_release_at [OF _ assms(2)]]) auto
    qed (auto intro: at_page_done)
  qed (auto intro: at_page_done)
qed (auto intro: at_page_done)

lemma quiet_references:
  "(\<And>r w'. quiet E w w' \<Longrightarrow> tpost P (f r w')) \<Longrightarrow>
    tpost P (bnd (if force then ret PAGEREF_RECLAIM_CLEAN w else page_check_references E' p w) f)"
  by (rule moved_bndI [of E "\<lambda>s. s"]) (use page_check_references_quiet [of E w E' p] in \<open>auto simp: moved_def\<close>)

lemma spl_stats_at:
  "at_page E w0 ts p st0 st w \<Longrightarrow> tpost (\<lambda>(m, st') w'. at_page E w0 ts p st0 st' w') (spl_stats E' p st w)"
  by (rule tpost_mono [OF spl_stats_moved [of E]]) (auto intro: at_page_quiet)

lemma spl_writeback_at:
  assumes "at_page E w0 [] p st0 st w"
  shows "tpost (\<lambda>(v, st') w'. if v = Some Same_again then page_done E w0 p st0 Same_again st' w'
      else at_page E w0 [] p st0 st' w' \<and> v \<in> {None, Some Keep_locked}) (spl_writeback E z p may st w)"
  by (rule tpost_mono [OF spl_writeback_moved [of E]])
    (use assms in \<open>auto simp: at_page_def page_done_def moved_def same_lists_def rl_defs sane_reclaim_def tails_of_def split: if_splits\<close>)

lemma spl_page_done:
  assumes "\<not> rl_tree (rls E w)"
  shows "tpost (\<lambda>(v, st') w'. page_done E w p st v st' w') (spl_page E z fl force p st w)"
  unfolding spl_page_def
proof (rule tpost_bndI [OF spl_admit_moved [of E]], clarsimp split: sum.splits, intro conjI allI impI, goal_cases)
  case 1
  then show ?case by (auto simp: page_done_def same_lists_def tails_of_def)
next
  case (2 a w1 may)
  then have at: "at_page E w [] p st st w1" by (auto simp: at_page_def same_lists_def tails_of_def)
  show ?case
  proof (rule tpost_bndI [OF spl_stats_at [OF at]], clarsimp, rule tpost_bndI [OF spl_writeback_at], assumption,
      clarsimp split: option.splits if_split_asm split del: if_split, intro conjI allI impI, goal_cases)
    case 1
    show ?case
      by (rule quiet_references [of E], intro run_intros spl_reclaim_done [OF _ assms])
        (use 1 in \<open>auto intro: at_page_still at_page_done\<close>)
  qed (auto intro: at_page_done)
qed

section \<open>The loop over the list\<close>

text \<open>What the verdict on a page comes to once it has been carried out.\<close>

fun outcome :: "verdict \<Rightarrow> int \<Rightarrow> rl \<Rightarrow> rl" where
  "outcome Free_it p s = freeze_p p s"
| "outcome Gone p s = gone_p p s"
| "outcome v p s = s"

fun placed :: "verdict \<Rightarrow> int \<Rightarrow> spl \<Rightarrow> spl \<Rightarrow> bool" where
  "placed Free_it p st st' = same_lists (st\<lparr>free_pages := p # free_pages st, spl_reclaimed := spl_reclaimed st + 1\<rparr>) st'"
| "placed Gone p st st' = same_lists (st\<lparr>spl_reclaimed := spl_reclaimed st + 1\<rparr>) st'"
| "placed Same_again p st st' = same_lists st st'"
| "placed v p st st' = same_lists (st\<lparr>ret_pages := p # ret_pages st\<rparr>) st'"

lemma keep_page_placed: "tpost (\<lambda>st' w'. quiet E w w' \<and> same_lists (st\<lparr>ret_pages := p # ret_pages st\<rparr>) st') (keep_page p st w)"
  unfolding keep_page_def by (intro quiet_calls [of E] run_intros) (auto simp: moved_def same_lists_def)

lemma keep_page_runs:
  "(\<And>st' w'. quiet E w w' \<Longrightarrow> same_lists (st\<lparr>ret_pages := p # ret_pages st\<rparr>) st' \<Longrightarrow> P st' w') \<Longrightarrow> tpost P (keep_page p st w)"
  by (rule tpost_mono [OF keep_page_placed [of E]]) blast

lemma spl_settle_placed:
  "tpost (\<lambda>st' w'. placed v p st st' \<and>
      moved E (if v \<in> {Keep_locked, Activate_locked, Cull_mlocked} then unlock_p p else (\<lambda>s. s)) w w') (spl_settle v p st w)"
  by (cases v; simp; (intro quiet_calls [of E] quiet_runs [of E] run_intros keep_page_runs [of E])?)
    (auto simp: moved_def same_lists_def)

text \<open>
  The invariant of the loop, over the world \<open>w0\<close> in which it was entered and the list \<open>ps\<close> it was given.
\<close>

definition unheld :: "rl \<Rightarrow> bool" where
  "unheld s = (rl_ok s \<and> rl_locked s = {#} \<and> rl_frozen s = {#} \<and> \<not> rl_tree s)"

definition between :: "rl \<Rightarrow> int multiset \<Rightarrow> int list \<Rightarrow> int multiset \<Rightarrow> int multiset \<Rightarrow> rl \<Rightarrow> bool" where
  "between s0 ps free g t s = (rl_ok s \<and> rl_locked s = {#} \<and> rl_frozen s = mset free \<and> rl_freed s = rl_freed s0 \<and>
     \<not> rl_tree s \<and> rl_gone s = rl_gone s0 + g \<and> rl_tails s = rl_tails s0 + t)"

definition loop_inv :: "renv \<Rightarrow> scw \<Rightarrow> int list \<Rightarrow> spl \<Rightarrow> scw \<Rightarrow> bool" where
  "loop_inv E w0 ps st w = (huge_tails w = huge_tails w0 \<and> target_mem_cgroup (sc w) = target_mem_cgroup (sc w0) \<and>
     (\<exists>g t. rls E w = (rls E w0)\<lparr>rl_frozen := mset (free_pages st), rl_gone := rl_gone (rls E w0) + g,
          rl_tails := rl_tails (rls E w0) + t\<rparr> \<and>
        mset ps + t = mset (page_list st) + mset (ret_pages st) + mset (free_pages st) + g \<and>
        spl_reclaimed st = of_nat (length (free_pages st) + size g)))"

lemma loop_inv_idle [simp]: "loop_inv E w0 ps st (w\<lparr>log := (Sy d, r) # log w\<rparr>) = loop_inv E w0 ps st w"
  by (simp add: loop_inv_def)

lemma page_settled:
  assumes d: "page_done E w p st v st1 w1" and s: "placed v p st1 st2"
    and m: "moved E (if v \<in> {Keep_locked, Activate_locked, Cull_mlocked} then unlock_p p else (\<lambda>s. s)) w1 w2"
  obtains ts where "ts \<in> tails_of w p" "moved E (\<lambda>s. (outcome v p s)\<lparr>rl_tails := rl_tails s + mset ts\<rparr>) w w2"
    "placed v p (st\<lparr>page_list := page_list st @ (if v = Same_again then [p] else ts)\<rparr>) st2"
    "v = Same_again \<Longrightarrow> ts = [] \<and> \<not> sane_reclaim E (sc w)"
proof -
  from d obtain ts where ts: "ts \<in> tails_of w p" "moved E (\<lambda>s. (after v p s)\<lparr>rl_tails := rl_tails s + mset ts\<rparr>) w w1"
    "same_lists (st\<lparr>page_list := page_list st @ (if v = Same_again then [p] else ts)\<rparr>) st1"
    "v = Same_again \<longrightarrow> ts = [] \<and> \<not> sane_reclaim E (sc w)"
    by (auto simp: page_done_def)
  show thesis
    by (rule that [OF ts(1)]) (use ts m s in \<open>cases v; auto simp: moved_def rl_defs same_lists_def\<close>)+
qed

lemma loop_inv_step:
  assumes inv: "loop_inv E w0 ps st w" and un: "unheld (rls E w0)" and ne: "page_list st = q @ [p]"
    and ts: "moved E (\<lambda>s. (outcome v p s)\<lparr>rl_tails := rl_tails s + mset ts\<rparr>) w w2"
      "placed v p (st\<lparr>page_list := q @ (if v = Same_again then [p] else ts)\<rparr>) st2" "v = Same_again \<Longrightarrow> ts = []"
  shows "loop_inv E w0 ps st2 w2"
proof -
  from inv obtain g t where *: "huge_tails w = huge_tails w0" "target_mem_cgroup (sc w) = target_mem_cgroup (sc w0)"
      "rls E w = (rls E w0)\<lparr>rl_frozen := mset (free_pages st), rl_gone := rl_gone (rls E w0) + g,
          rl_tails := rl_tails (rls E w0) + t\<rparr>"
      "mset ps + t = mset (page_list st) + mset (ret_pages st) + mset (free_pages st) + g"
      "spl_reclaimed st = of_nat (length (free_pages st) + size g)"
    by (auto simp: loop_inv_def)
  show ?thesis
    unfolding loop_inv_def
    by (rule conjI, use * ts in \<open>simp add: moved_def\<close>, rule conjI, use * ts in \<open>simp add: moved_def\<close>,
       rule exI [of _ "if v = Gone then add_mset p g else g"], rule exI [of _ "t + mset ts"], cases v)
     (use * ts ne in \<open>simp_all add: moved_def same_lists_def freeze_p_def gone_p_def\<close>)
qed

text \<open>The work that is left: a page, and the tails it can still leave, which have none themselves.\<close>

definition weight :: "(int \<Rightarrow> bool \<Rightarrow> int list) \<Rightarrow> int list \<Rightarrow> nat" where
  "weight T ps = (\<Sum>p\<leftarrow>ps. 1 + length (T p True) + length (T p False))"

definition tails_plain :: "(int \<Rightarrow> bool \<Rightarrow> int list) \<Rightarrow> int \<Rightarrow> bool" where
  "tails_plain T p = (\<forall>b. \<forall>q \<in> set (T p b). T q True = [] \<and> T q False = [])"

lemma weight_plain: "\<forall>q \<in> set ts. T q True = [] \<and> T q False = [] \<Longrightarrow> weight T ts = length ts"
  by (induction ts) (auto simp: weight_def)

lemma weight_tails: "ts \<in> tails_of w p \<Longrightarrow> tails_plain (huge_tails w) p \<Longrightarrow>
    weight (huge_tails w) ts < weight (huge_tails w) [p]"
  by (auto simp: tails_of_def tails_plain_def weight_plain) (auto simp: weight_def)

lemma plain_tails:
  assumes "ts \<in> tails_of w p" "tails_plain (huge_tails w) p" "q \<in> set ts"
  shows "tails_plain (huge_tails w) q"
proof -
  have "huge_tails w q b = []" for b
    using assms by (cases b) (auto simp: tails_of_def tails_plain_def)
  then show ?thesis by (simp add: tails_plain_def)
qed

text \<open>
  One round. It takes a page off the list for good, except that a page under writeback may be tried
  again when the scan is not a sane one (a control group of the old hierarchy).
\<close>

definition all_plain :: "scw \<Rightarrow> spl \<Rightarrow> bool" where
  "all_plain w st = (\<forall>p \<in> set (page_list st). tails_plain (huge_tails w) p)"

lemma spl_body_round:
  assumes inv: "loop_inv E w0 ps st w" and un: "unheld (rls E w0)"
  shows "tpost (\<lambda>(again, st2) w2. loop_inv E w0 ps st2 w2 \<and> (\<not> again \<longrightarrow> page_list st2 = []) \<and>
      (again \<longrightarrow> sane_reclaim E (sc w0) \<longrightarrow> all_plain w0 st \<longrightarrow> all_plain w0 st2 \<and>
         weight (huge_tails w0) (page_list st2) < weight (huge_tails w0) (page_list st)))
     (spl_body E z fl force st w)"
proof (cases "page_list st = []")
  case True
  then show ?thesis using inv by (simp add: spl_body_def)
next
  case False
  then obtain q p where qp: "page_list st = q @ [p]" by (metis append_butlast_last_id)
  let ?st = "st\<lparr>page_list := q\<rparr>"
  have inv': "loop_inv E w0 ps st (w\<lparr>log := (Sy Cond_resched, r) # log w\<rparr>)" for r
    using inv by simp
  have fin: "loop_inv E w0 ps st2 w2 \<and> (sane_reclaim E (sc w0) \<longrightarrow> all_plain w0 st \<longrightarrow> all_plain w0 st2 \<and>
         weight (huge_tails w0) (page_list st2) < weight (huge_tails w0) (page_list st))"
    if i: "loop_inv E w0 ps st v" and d: "page_done E v p ?st vd st1 w1" and s: "placed vd p st1 st2"
      "moved E (if vd \<in> {Keep_locked, Activate_locked, Cull_mlocked} then unlock_p p else (\<lambda>s. s)) w1 w2"
    for v vd st1 w1 st2 w2
  proof -
    from i have T: "huge_tails v = huge_tails w0" "sane_reclaim E (sc v) = sane_reclaim E (sc w0)"
      by (simp_all add: loop_inv_def sane_reclaim_def)
    from page_settled [OF d s] obtain ts where ts: "ts \<in> tails_of v p"
      "moved E (\<lambda>s. (outcome vd p s)\<lparr>rl_tails := rl_tails s + mset ts\<rparr>) v w2"
      "placed vd p (st\<lparr>page_list := q @ (if vd = Same_again then [p] else ts)\<rparr>) st2"
      "vd = Same_again \<Longrightarrow> ts = [] \<and> \<not> sane_reclaim E (sc v)"
      by auto
    have "loop_inv E w0 ps st2 w2"
      by (rule loop_inv_step [OF i un qp ts(2,3)]) (use ts(4) in simp)
    moreover have "all_plain w0 st2 \<and> weight (huge_tails w0) (page_list st2) < weight (huge_tails w0) (page_list st)"
      if sane: "sane_reclaim E (sc w0)" and pl: "all_plain w0 st"
    proof -
      have "page_list st2 = q @ ts" using ts(3,4) T sane by (cases vd) (auto simp: same_lists_def)
      moreover have "tails_plain (huge_tails w0) p" using pl qp by (simp add: all_plain_def)
      ultimately show ?thesis
        using weight_tails [OF ts(1)] plain_tails [OF ts(1)] T pl qp
        by (auto simp: all_plain_def weight_def)
    qed
    ultimately show ?thesis by blast
  qed
  have body: "tpost (\<lambda>(again, st2) w2. again \<and> loop_inv E w0 ps st2 w2 \<and>
      (sane_reclaim E (sc w0) \<longrightarrow> all_plain w0 st \<longrightarrow> all_plain w0 st2 \<and>
         weight (huge_tails w0) (page_list st2) < weight (huge_tails w0) (page_list st)))
     (bnd (spl_page E z fl force p ?st v) (\<lambda>(vd, st) w. bnd (spl_settle vd p st w) (\<lambda>st w. ret (True, st) w)))"
    if i: "loop_inv E w0 ps st v" for v
  proof (rule tpost_bndI [OF spl_page_done])
    show "\<not> rl_tree (rls E v)" using i un by (auto simp: loop_inv_def unheld_def)
    fix a w1 assume "(case a of (vd, st') \<Rightarrow> page_done E v p ?st vd st') w1"
    then show "tpost (\<lambda>(again, st2) w2. again \<and> loop_inv E w0 ps st2 w2 \<and>
      (sane_reclaim E (sc w0) \<longrightarrow> all_plain w0 st \<longrightarrow> all_plain w0 st2 \<and>
         weight (huge_tails w0) (page_list st2) < weight (huge_tails w0) (page_list st)))
      ((case a of (vd, st) \<Rightarrow> \<lambda>w. bnd (spl_settle vd p st w) (\<lambda>st w. ret (True, st) w)) w1)"
      by (cases a, simp) (rule tpost_bndI [OF spl_settle_placed [of _ _ _ E]], simp only: tpost_simps split_conv, use fin [OF i] in blast)
  qed
  show ?thesis
    unfolding spl_body_def using qp
    by (simp, intro run_intros) (simp, rule tpost_mono [OF body [OF inv']], auto)
qed

text \<open>The whole function, when nothing is held as it is called.\<close>

definition conserved :: "renv \<Rightarrow> scw \<Rightarrow> int list \<Rightarrow> u64 \<times> int list \<times> spl \<Rightarrow> scw \<Rightarrow> bool" where
  "conserved E w ps r w' = (case r of (n, left, st) \<Rightarrow>
     \<exists>free gone tails. rls E w' = (rls E w)\<lparr>rl_freed := rl_freed (rls E w) + free, rl_gone := rl_gone (rls E w) + gone,
          rl_tails := rl_tails (rls E w) + tails\<rparr> \<and>
        mset ps + tails = mset left + free + gone \<and> n = of_nat (size free + size gone))"

lemma loop_inv_init:
  assumes "unheld (rls E w)"
  shows "loop_inv E w ps (spl_init ps) (w\<lparr>log := (Sy Cond_resched, r) # log w\<rparr>)"
proof -
  have "\<exists>g t. rls E w = (rls E w)\<lparr>rl_frozen := {#}, rl_gone := rl_gone (rls E w) + g, rl_tails := rl_tails (rls E w) + t\<rparr> \<and>
      mset ps + t = mset ps + g \<and> size g = 0"
    by (rule exI [of _ "{#}"], rule exI [of _ "{#}"]) (use assms in \<open>simp add: unheld_def\<close>)
  then obtain g t where "rls E w = (rls E w)\<lparr>rl_frozen := {#}, rl_gone := rl_gone (rls E w) + g, rl_tails := rl_tails (rls E w) + t\<rparr>"
      "mset ps + t = mset ps + g" "size g = 0" by blast
  then show ?thesis unfolding loop_inv_idle loop_inv_def spl_init_def by (intro conjI exI [of _ g] exI [of _ t]) simp_all
qed

lemma conserved_end:
  assumes inv: "loop_inv E w ps st w'" and un: "unheld (rls E w)" and "page_list st = []"
  shows "tpost (conserved E w ps)
    (bnd (kdo (Zn (Mem_cgroup_uncharge_list (free_pages st))) w') (\<lambda>_ w.
     bnd (kdo (Mp Try_to_unmap_flush) w) (\<lambda>_ w.
     bnd (kdo (Zn (Free_hot_cold_page_list (free_pages st))) w) (\<lambda>_ w.
     bnd (kdo (Zn (Count_vm_events PGACTIVATE (ucast (pgactivate st)))) w) (\<lambda>_ w.
     ret (spl_reclaimed st, ret_pages st @ page_list st, st) w)))))"
proof -
  from inv obtain g t where *: "huge_tails w' = huge_tails w"
      "rls E w' = (rls E w)\<lparr>rl_frozen := mset (free_pages st), rl_gone := rl_gone (rls E w) + g,
          rl_tails := rl_tails (rls E w) + t\<rparr>"
      "mset ps + t = mset (page_list st) + mset (ret_pages st) + mset (free_pages st) + g"
      "spl_reclaimed st = of_nat (length (free_pages st) + size g)"
    by (auto simp: loop_inv_def)
  show ?thesis
    by (intro run_intros, unfold conserved_def, simp, rule exI [of _ "mset (free_pages st)"], rule exI [of _ g],
        rule exI [of _ t])
      (use * un assms(3) in \<open>simp add: unheld_def\<close>)
qed

lemma shrink_page_list_partial:
  assumes "unheld (rls E w)"
  shows "post (conserved E w ps) (shrink_page_list fuel E ps z fl force w)"
  unfolding shrink_page_list_def
proof (rule post_bndI [OF tpost_post [OF tpost_kdoI [where P = "\<lambda>_. loop_inv E w ps (spl_init ps)"]]])
  fix u w1 assume "loop_inv E w ps (spl_init ps) w1"
  then have "post (\<lambda>st w'. loop_inv E w ps st w' \<and> page_list st = []) (do_while fuel (spl_body E z fl force) (spl_init ps) w1)"
    by (rule post_do_while [where I = "loop_inv E w ps"])
       (rule post_mono [OF tpost_post [OF spl_body_round [OF _ assms]]], auto)
  then show "post (conserved E w ps) (bnd (do_while fuel (spl_body E z fl force) (spl_init ps) w1) (\<lambda>st w.
     bnd (kdo (Zn (Mem_cgroup_uncharge_list (free_pages st))) w) (\<lambda>_ w.
     bnd (kdo (Mp Try_to_unmap_flush) w) (\<lambda>_ w.
     bnd (kdo (Zn (Free_hot_cold_page_list (free_pages st))) w) (\<lambda>_ w.
     bnd (kdo (Zn (Count_vm_events PGACTIVATE (ucast (pgactivate st)))) w) (\<lambda>_ w.
     ret (spl_reclaimed st, ret_pages st @ page_list st, st) w))))))"
    by (rule post_bndI) (rule tpost_post [OF conserved_end [OF _ assms]], auto)
qed (rule loop_inv_init [OF assms])

lemma shrink_page_list_total:
  assumes un: "unheld (rls E w)" and sane: "sane_reclaim E (sc w)"
    and pl: "\<forall>p \<in> set ps. tails_plain (huge_tails w) p" and fuel: "weight (huge_tails w) ps < fuel"
  shows "tpost (conserved E w ps) (shrink_page_list fuel E ps z fl force w)"
  unfolding shrink_page_list_def
proof (intro run_intros, rule tpost_bndI)
  fix r
  let ?w = "w\<lparr>log := (Sy Cond_resched, r) # log w\<rparr>"
  show "tpost (\<lambda>st w'. loop_inv E w ps st w' \<and> page_list st = []) (do_while fuel (spl_body E z fl force) (spl_init ps) ?w)"
  proof (rule tpost_do_while [where I = "\<lambda>st w'. loop_inv E w ps st w' \<and> all_plain w st"
        and m = "\<lambda>st w'. weight (huge_tails w) (page_list st)"])
    show "loop_inv E w ps (spl_init ps) ?w \<and> all_plain w (spl_init ps)"
      using loop_inv_init [OF un] pl by (simp add: all_plain_def spl_init_def)
  qed (use fuel sane in \<open>auto simp: spl_init_def intro!: tpost_mono [OF spl_body_round [OF _ un]] split: if_splits\<close>)
qed (rule conserved_end [OF _ un], auto)

section \<open>The properties\<close>

text \<open>An example: a clean page of a file that nobody uses.\<close>

definition renv0 :: renv where
  "renv0 = \<lparr>pr_ptes = (\<lambda>r. r), pr_flags = (\<lambda>_. {}), dw_answer = (\<lambda>_. (False, False)), ttu_answer = (\<lambda>_. SWAP_SUCCESS),
     AOP_WRITEPAGE_ACTIVATE = 0x80000, cgroup_writeback = True, do_div = (\<lambda>a b. a div b), nr_node_ids = 1,
     lru_answer = (\<lambda>_. LRU_INACTIVE_FILE), total_swap_pages = 0, buffer_heads_over_limit = False,
     soft_answer = (\<lambda>_. (0, 0)), compact_answer = (\<lambda>_. COMPACT_SKIPPED), zone_at = (\<lambda>n i. 4 * n + i), nr_zones = (\<lambda>_. 3),
     zone_node = (\<lambda>z. z div 4), zone_idx = (\<lambda>z. z mod 4), gfp_zone = (\<lambda>_. 2), zonelist_zones = (\<lambda>l k m. [(2, 2), (1, 1)]),
     node_zonelist = (\<lambda>n g. n), allow_blocking = (\<lambda>g. GFP_WAIT \<in> g), ZONE_NORMAL = 2,
     GFP_RECLAIM_MASK = {GFP_IO, GFP_FS, GFP_WAIT, GFP_REPEAT}, config_compaction = True, laptop_mode = False,
     zone_reclaim_mode = {}, memory_nodes = [0]\<rparr>"

definition scw0 :: scw where
  "scw0 = \<lparr>ans = (\<lambda>h c. case c of Pg (Trylock_page p) \<Rightarrow> 1 | Pg (Test f p) \<Rightarrow> (if f = PageLocked then 1 else 0)
       | Pg (Page_zone p) \<Rightarrow> 1 | Pg (Page_mapping p) \<Rightarrow> 5 | Pg (Page_freeze_refs p n) \<Rightarrow> 1 | _ \<Rightarrow> 0), log = [],
     out_store = initial_OUT, out_rows = (\<lambda>_. []), firstTime_OUT = True, contents_OUT = [], out_pages = (\<lambda>_. \<lparr>page_value = 0, page_content = replicate 4096 0\<rparr>),
     pageFilled_OUT = 0, out_kmem = (\<lambda>_. []), sc = clean_control, huge_tails = (\<lambda>_ _. []), lru_contents = (\<lambda>_ _ _. []),
     shrinker_list = [], recent_rotated = (\<lambda>_ _. 0), recent_scanned = (\<lambda>_ _. 0)\<rparr>"


text \<open>The fields the example reads.\<close>

lemma scw0_simps:
  "ans scw0 h c = (case c of Pg (Trylock_page p) \<Rightarrow> 1 | Pg (Test f p) \<Rightarrow> (if f = PageLocked then 1 else 0)
       | Pg (Page_zone p) \<Rightarrow> 1 | Pg (Page_mapping p) \<Rightarrow> 5 | Pg (Page_freeze_refs p n) \<Rightarrow> 1 | _ \<Rightarrow> 0)"
  "log scw0 = []" "sc scw0 = clean_control" "huge_tails scw0 = (\<lambda>_ _. [])"
  by (simp_all add: scw0_def)

lemma scw0_unheld: "unheld (rls renv0 scw0)"
  by (simp add: unheld_def ghost_def scw0_simps rl0_def)

lemmas spl_code = shrink_page_list_def spl_init_def spl_body_def spl_page_def spl_admit_def scanned_one_def spl_stats_def
  page_check_dirty_writeback_def spl_writeback_def spl_reclaim_def spl_swap_def spl_unmap_def spl_dirty_def spl_release_def
  spl_remove_def raw_remove_mapping_def leave_page_cache_def page_evictable_def orelse_def page_check_references_def keep_page_def

lemma scw0_run:
  "rets (\<lambda>(n, left, st) w'. n = 1 \<and> left = [] \<and> Zn (Free_hot_cold_page_list [7]) \<in> fst ` set (log w'))
     (shrink_page_list 2 renv0 [7] 1 {} True scw0)"
  by (simp add: spl_code numeral_2_eq_2 scw0_simps by_value renv0_def clean_control_def cong: bnd_by_value rets_by_value)

text \<open>
  C29: \<open>shrink_page_list\<close> loses no page and frees none twice: if nothing is held when it is called and
  it returns, then the pages it was given and the tails of huge pages that were split on the way
  are, each exactly once, on the list it leaves, freed, or left to the holder of their last reference;
  the count it returns is that of the latter two; no page is left locked or with its count frozen,
  no lock of an address space is left held, nothing was unlocked or unfrozen that was not locked or
  frozen, and every page that left its address space was frozen, under the lock.
\<close>

theorem shrink_page_list_conserves:
  assumes "unheld (rls E w)"
  shows "post (conserved E w ps) (shrink_page_list fuel E ps z fl force w)"
  by (rule shrink_page_list_partial [OF assms])

theorem shrink_page_list_conserves_witness:
  "rets (\<lambda>r w'. fst r = 1 \<and> conserved renv0 scw0 [7] r w') (shrink_page_list 2 renv0 [7] 1 {} True scw0)"
  using scw0_run shrink_page_list_conserves [OF scw0_unheld, of "[7]" 2 1 "{}" True]
  by (auto simp: rets_iff)

text \<open>
  C30: When the scan is sane (of a zone, or of a control group of the default hierarchy),
  \<open>shrink_page_list\<close> ends: a page comes off its list in every round, and only the tails of a split
  huge page join it. (In the other case it waits for a page's writeback and tries it again, as
  often as the page comes back.)
\<close>

theorem shrink_page_list_terminates:
  assumes "unheld (rls E w)" and "sane_reclaim E (sc w)"
    and "\<forall>p \<in> set ps. tails_plain (huge_tails w) p" and "weight (huge_tails w) ps < fuel"
  shows "tpost (conserved E w ps) (shrink_page_list fuel E ps z fl force w)"
  by (rule shrink_page_list_total [OF assms])

theorem shrink_page_list_terminates_witness:
  "tpost (conserved renv0 scw0 [7, 8]) (shrink_page_list 3 renv0 [7, 8] 1 {} False scw0)"
  by (rule shrink_page_list_terminates)
    (rule scw0_unheld, simp_all add: scw0_simps sane_reclaim_def clean_control_def renv0_def tails_plain_def weight_def)

end
