(* ===== verification/LruLists.thy ===== *)
theory LruLists
  imports PageOut
begin

text \<open>
  The lists of least recently used pages, \<open>vmscan.c\<close> lines 265 to 291, 792 to 862 and 1369 to 1645: how
  pages are isolated from a list, and how they come back. What is on a list when its lock is taken is
  a parameter (\<open>lru_contents\<close>); a list is given from the head on, and is scanned from its end.
\<close>

definition EINVAL :: int where "EINVAL = 22"
definition EBUSY :: int where "EBUSY = 16"

section \<open>Sizes\<close>

definition is_file_lru :: "lru_list \<Rightarrow> bool" where
  "is_file_lru l = (l = LRU_INACTIVE_FILE \<or> l = LRU_ACTIVE_FILE)"

definition is_active_lru :: "lru_list \<Rightarrow> bool" where
  "is_active_lru l = (l = LRU_ACTIVE_ANON \<or> l = LRU_ACTIVE_FILE)"

text \<open>The counter of the zone for a list, \<open>NR_LRU_BASE + lru\<close>, and for isolated pages, \<open>NR_ISOLATED_ANON + file\<close>.\<close>

fun nr_lru :: "lru_list \<Rightarrow> zone_item" where
  "nr_lru LRU_INACTIVE_ANON = NR_INACTIVE_ANON"
| "nr_lru LRU_ACTIVE_ANON = NR_ACTIVE_ANON"
| "nr_lru LRU_INACTIVE_FILE = NR_INACTIVE_FILE"
| "nr_lru LRU_ACTIVE_FILE = NR_ACTIVE_FILE"
| "nr_lru LRU_UNEVICTABLE = NR_LRU_UNEVICTABLE"

definition nr_isolated :: "bool \<Rightarrow> zone_item" where
  "nr_isolated file = (if file then NR_ISOLATED_FILE else NR_ISOLATED_ANON)"

definition zone_state :: "int \<Rightarrow> zone_item \<Rightarrow> u64 sact" where
  "zone_state zone item w = bnd (kcall (Zn (Zone_page_state zone item)) w) (\<lambda>r w. ret (word_of_int r) w)"

definition zone_reclaimable_pages :: "int \<Rightarrow> u64 sact" where
  "zone_reclaimable_pages zone w =
     bnd (zone_state zone NR_ACTIVE_FILE w) (\<lambda>a w.
     bnd (zone_state zone NR_INACTIVE_FILE w) (\<lambda>b w.
     bnd (kcall (Zn Get_nr_swap_pages) w) (\<lambda>swap w.
     if 0 < swap
     then
       bnd (zone_state zone NR_ACTIVE_ANON w) (\<lambda>c w.
       bnd (zone_state zone NR_INACTIVE_ANON w) (\<lambda>d w. ret (a + b + (c + d)) w))
     else ret (a + b) w)))"

definition zone_reclaimable :: "int \<Rightarrow> bool sact" where
  "zone_reclaimable zone w =
     bnd (zone_state zone NR_PAGES_SCANNED w) (\<lambda>n w.
     bnd (zone_reclaimable_pages zone w) (\<lambda>m w. ret (n < m * 6) w))"

definition get_lru_size :: "int \<Rightarrow> lru_list \<Rightarrow> u64 sact" where
  "get_lru_size lruvec l w =
     bnd (kask (Zn Mem_cgroup_disabled) w) (\<lambda>disabled w.
     if \<not> disabled
     then bnd (kcall (Zn (Mem_cgroup_get_lru_size lruvec l)) w) (\<lambda>r w. ret (word_of_int r) w)
     else bnd (kcall (Zn (Lruvec_zone lruvec)) w) (\<lambda>zone w. zone_state zone (nr_lru l) w))"

section \<open>Isolation\<close>

datatype isolate_mode = ISOLATE_CLEAN | ISOLATE_UNMAPPED | ISOLATE_ASYNC_MIGRATE | ISOLATE_UNEVICTABLE

text \<open>Lines 1404 to 1425: a page that cannot be worked on without blocking.\<close>

definition isolate_blocks :: "isolate_mode set \<Rightarrow> int \<Rightarrow> bool sact" where
  "isolate_blocks mode page w =
     andalso (ISOLATE_CLEAN \<in> mode \<or> ISOLATE_ASYNC_MIGRATE \<in> mode) (\<lambda>w.
       bnd (test PageWriteback page w) (\<lambda>writeback w.
       if writeback then ret True w
       else
         bnd (test PageDirty page w) (\<lambda>dirty w.
         if \<not> dirty then ret False w
         else if ISOLATE_CLEAN \<in> mode then ret True w
         else
           bnd (kcall (Pg (Page_mapping page)) w) (\<lambda>mapping w.
           andalso (mapping \<noteq> 0) (\<lambda>w.
             bnd (kask (Mp (Has_migratepage mapping)) w) (\<lambda>m w. ret (\<not> m) w)) w)))) w"

definition raw_isolate_lru_page :: "int \<Rightarrow> isolate_mode set \<Rightarrow> int sact" where
  "raw_isolate_lru_page page mode w =
     bnd (test PageLRU page w) (\<lambda>lru w.
     if \<not> lru then ret (- EINVAL) w
     else
       bnd (test PageUnevictable page w) (\<lambda>unevictable w.
       if unevictable \<and> ISOLATE_UNEVICTABLE \<notin> mode then ret (- EINVAL) w
       else
         bnd (isolate_blocks mode page w) (\<lambda>blocks w.
         if blocks then ret (- EBUSY) w
         else
           bnd (andalso (ISOLATE_UNMAPPED \<in> mode) (test Page_mapped page) w) (\<lambda>mapped w.
           if mapped then ret (- EBUSY) w
           else
             bnd (kask (Pg (Get_page_unless_zero page)) w) (\<lambda>got w.
             if got then bnd (kdo (Pg (ClearF PageLRU page)) w) (\<lambda>_ w. ret 0 w)
             else ret (- EBUSY) w)))))"

text \<open>The state of the loop: pages looked at, pages taken, the list and the pages isolated so far.\<close>

definition isolate_body ::
  "u64 \<Rightarrow> int \<Rightarrow> lru_list \<Rightarrow> isolate_mode set \<Rightarrow> u64 \<times> u64 \<times> int list \<times> int list \<Rightarrow>
     (bool \<times> u64 \<times> u64 \<times> int list \<times> int list) sact" where
  "isolate_body nr_to_scan lruvec l mode = (\<lambda>(scan, nr_taken, src, dst) w.
     if \<not> (scan < nr_to_scan \<and> nr_taken < nr_to_scan \<and> src \<noteq> []) then ret (False, (scan, nr_taken, src, dst)) w
     else
       let page = last src in
       bnd (test PageLRU page w) (\<lambda>onlru w.
       bnd (BUG_ON (\<not> onlru) w) (\<lambda>_ w.
       bnd (raw_isolate_lru_page page mode w) (\<lambda>r w.
       if r = 0 then
         bnd (kcall (Pg (Hpage_nr_pages page)) w) (\<lambda>k w.
         let nr_pages = (word_of_int k :: u64) in
         bnd (kdo (Zn (Mem_cgroup_update_lru_size lruvec l (- nr_pages))) w) (\<lambda>_ w.
         ret (True, (scan + 1, nr_taken + nr_pages, butlast src, page # dst)) w))
       else if r = - EBUSY then ret (True, (scan + 1, nr_taken, page # butlast src, dst)) w
       else Inl (Oops, w)))))"

definition isolate_lru_pages ::
  "u64 \<Rightarrow> int \<Rightarrow> int list \<Rightarrow> isolate_mode set \<Rightarrow> lru_list \<Rightarrow> (u64 \<times> u64 \<times> int list \<times> int list) sact" where
  "isolate_lru_pages nr_to_scan lruvec src mode l w =
     bnd (do_while (Suc (unat nr_to_scan)) (isolate_body nr_to_scan lruvec l mode) (0, 0, src, []) w)
       (\<lambda>(scan, nr_taken, src, dst) w. ret (nr_taken, scan, src, dst) w)"

definition isolate_lru_page :: "renv \<Rightarrow> int \<Rightarrow> int sact" where
  "isolate_lru_page E page w =
     bnd (kcall (Pg (Page_count page)) w) (\<lambda>count w.
     bnd (BUG_ON (count = 0) w) (\<lambda>_ w.
     bnd (test PageLRU page w) (\<lambda>onlru w.
     if \<not> onlru then ret (- EBUSY) w
     else
       bnd (kcall (Pg (Page_zone page)) w) (\<lambda>zone w.
       bnd (kdo (Zn (Lru_lock zone)) w) (\<lambda>_ w.
       bnd (kcall (Zn (Mem_cgroup_page_lruvec page zone)) w) (\<lambda>lruvec w.
       bnd (test PageLRU page w) (\<lambda>onlru w.
       bnd (if onlru
            then
              bnd (kcall (Pg (Page_lru page)) w) (\<lambda>l w.
              bnd (page_do Get_page page w) (\<lambda>_ w.
              bnd (kdo (Pg (ClearF PageLRU page)) w) (\<lambda>_ w.
              bnd (kdo (Zn (Del_page_from_lru_list page lruvec (lru_answer E l))) w) (\<lambda>_ w. ret 0 w))))
            else ret (- EBUSY) w) (\<lambda>r w.
       bnd (kdo (Zn (Lru_unlock zone)) w) (\<lambda>_ w. ret r w)))))))))"

definition too_many_isolated :: "renv \<Rightarrow> int \<Rightarrow> bool \<Rightarrow> bool sact" where
  "too_many_isolated E zone file w =
     bnd (kask (Sy Current_is_kswapd) w) (\<lambda>kswapd w.
     if kswapd then ret False w
     else if \<not> sane_reclaim E (sc w) then ret False w
     else
       bnd (zone_state zone (if file then NR_INACTIVE_FILE else NR_INACTIVE_ANON) w) (\<lambda>inactive w.
       bnd (zone_state zone (if file then NR_ISOLATED_FILE else NR_ISOLATED_ANON) w) (\<lambda>isolated w.
       let inactive = (if {GFP_IO, GFP_FS} \<subseteq> gfp_mask (sc w) then drop_bit 3 inactive else inactive) in
       ret (inactive < isolated) w)))"

section \<open>Coming back\<close>

text \<open>One round of \<open>putback_lru_page\<close>: where the page was put, and whether to start again.\<close>

definition putback_round :: "renv \<Rightarrow> int \<Rightarrow> bool \<Rightarrow> (bool \<times> bool) sact" where
  "putback_round E page = (\<lambda>_ w.
     bnd (kdo (Pg (ClearF PageUnevictable page)) w) (\<lambda>_ w.
     bnd (page_evictable page w) (\<lambda>evictable w.
     if evictable
     then bnd (kdo (Zn (Lru_cache_add page)) w) (\<lambda>_ w. ret (False, False) w)
     else
       bnd (kdo (Zn (Add_page_to_unevictable_list page)) w) (\<lambda>_ w.
       bnd (kdo (Sy Smp_mb) w) (\<lambda>_ w.
       bnd (page_evictable page w) (\<lambda>evictable w.
       if \<not> evictable then ret (False, True) w
       else
         bnd (isolate_lru_page E page w) (\<lambda>r w.
         if r = 0
         then bnd (page_do Put_page page w) (\<lambda>_ w. ret (True, True) w)
         else ret (False, True) w)))))))"

definition putback_lru_page :: "nat \<Rightarrow> renv \<Rightarrow> int \<Rightarrow> unit sact" where
  "putback_lru_page fuel E page w =
     bnd (test PageUnevictable page w) (\<lambda>was_unevictable w.
     bnd (test PageLRU page w) (\<lambda>lru w.
     bnd (BUG_ON lru w) (\<lambda>_ w.
     bnd (do_while fuel (putback_round E page) False w) (\<lambda>is_unevictable w.
     bnd (if was_unevictable \<and> \<not> is_unevictable then kdo (Zn (Count_vm_events UNEVICTABLE_PGRESCUED 1)) w
          else cond (\<not> was_unevictable \<and> is_unevictable) (kdo (Zn (Count_vm_events UNEVICTABLE_PGCULLED 1))) w) (\<lambda>_ w.
     page_do Put_page page w)))))"

text \<open>
  A page goes to its list. If the reference was the last one it is taken off again and freed: a
  compound page at once, with the lock dropped, any other with the rest of the list.
\<close>

definition last_reference :: "int \<Rightarrow> int \<Rightarrow> int \<Rightarrow> lru_list \<Rightarrow> int list \<Rightarrow> int list sact" where
  "last_reference zone page lruvec l pages_to_free w =
     bnd (kask (Pg (Put_page_testzero page)) w) (\<lambda>zero w.
     if \<not> zero then ret pages_to_free w
     else
       bnd (kdo (Pg (ClearF PageLRU page)) w) (\<lambda>_ w.
       bnd (kdo (Pg (ClearF PageActive page)) w) (\<lambda>_ w.
       bnd (kdo (Zn (Del_page_from_lru_list page lruvec l)) w) (\<lambda>_ w.
       bnd (test PageCompound page w) (\<lambda>compound w.
       if compound
       then
         bnd (kdo (Zn (Lru_unlock zone)) w) (\<lambda>_ w.
         bnd (kdo (Zn (Mem_cgroup_uncharge page)) w) (\<lambda>_ w.
         bnd (kdo (Zn (Compound_dtor page)) w) (\<lambda>_ w.
         bnd (kdo (Zn (Lru_lock zone)) w) (\<lambda>_ w. ret pages_to_free w))))
       else ret (page # pages_to_free) w)))))"

definition putback_one :: "nat \<Rightarrow> renv \<Rightarrow> int \<Rightarrow> int \<Rightarrow> int \<Rightarrow> int list \<Rightarrow> int list sact" where
  "putback_one fuel E stat zone page pages_to_free w =
     bnd (test PageLRU page w) (\<lambda>onlru w.
     bnd (BUG_ON onlru w) (\<lambda>_ w.
     bnd (page_evictable page w) (\<lambda>evictable w.
     if \<not> evictable
     then
       bnd (kdo (Zn (Lru_unlock zone)) w) (\<lambda>_ w.
       bnd (putback_lru_page fuel E page w) (\<lambda>_ w.
       bnd (kdo (Zn (Lru_lock zone)) w) (\<lambda>_ w. ret pages_to_free w)))
     else
       bnd (kcall (Zn (Mem_cgroup_page_lruvec page zone)) w) (\<lambda>lruvec w.
       bnd (kdo (Pg (SetF PageLRU page)) w) (\<lambda>_ w.
       bnd (kcall (Pg (Page_lru page)) w) (\<lambda>r w.
       let l = lru_answer E r; file = is_file_lru l in
       bnd (kdo (Zn (Add_page_to_lru_list page lruvec l)) w) (\<lambda>_ w.
       bnd (cond (is_active_lru l) (\<lambda>w.
              bnd (kcall (Pg (Hpage_nr_pages page)) w) (\<lambda>k w.
              ret () (w\<lparr>recent_rotated := (recent_rotated w)(stat :=
                (recent_rotated w stat)(file := recent_rotated w stat file + word_of_int k))\<rparr>))) w) (\<lambda>_ w.
       last_reference zone page lruvec l pages_to_free w))))))))"

fun putback_each :: "nat \<Rightarrow> renv \<Rightarrow> int \<Rightarrow> int \<Rightarrow> int list \<Rightarrow> int list \<Rightarrow> int list sact" where
  "putback_each fuel E stat zone [] pages_to_free w = ret pages_to_free w"
| "putback_each fuel E stat zone (p # ps) pages_to_free w =
     bnd (putback_one fuel E stat zone p pages_to_free w) (\<lambda>pages_to_free w.
     putback_each fuel E stat zone ps pages_to_free w)"

definition putback_inactive_pages :: "nat \<Rightarrow> renv \<Rightarrow> int \<Rightarrow> int list \<Rightarrow> int list sact" where
  "putback_inactive_pages fuel E lruvec ps w =
     bnd (kcall (Zn (Lruvec_zone lruvec)) w) (\<lambda>zone w.
     putback_each fuel E lruvec zone (rev ps) [] w)"

end
