(* ===== verification/Shrinkers.thy ===== *)
theory Shrinkers
  imports ScanWorld "HOL-Library.Signed_Division"
begin

text \<open>
  The shrinkers of other caches, \<open>vmscan.c\<close> lines 293 to 552: their registration, one call of a
  shrinker, and the passes over all of them. C's \<open>long\<close> is \<open>u64\<close> read with a sign where the code
  compares and divides (\<open><s\<close>, \<open>sdiv\<close>).
\<close>

section \<open>Registration\<close>

definition ENOMEM :: int where "ENOMEM = 12"

text \<open>The size of \<open>nr_deferred\<close> is counted in longs.\<close>

definition register_shrinker :: "renv \<Rightarrow> shrinker \<Rightarrow> int sact" where
  "register_shrinker E s w =
     (let s = (if nr_node_ids E = 1 then s\<lparr>sh_numa_aware := False\<rparr> else s);
          longs = (if sh_numa_aware s then nr_node_ids E else 1) in
      bnd (kask (Sh (Kzalloc_deferred (sh_id s) longs)) w) (\<lambda>ok w.
      if \<not> ok then ret (- ENOMEM) w
      else
        bnd (kdo (Sh Down_write_shrinkers) w) (\<lambda>_ w.
        bnd (kdo (Sh Up_write_shrinkers) (w\<lparr>shrinker_list := shrinker_list w @ [s]\<rparr>)) (\<lambda>_ w.
        ret 0 w))))"

definition unregister_shrinker :: "shrinker \<Rightarrow> unit sact" where
  "unregister_shrinker s w =
     bnd (kdo (Sh Down_write_shrinkers) w) (\<lambda>_ w.
     bnd (kdo (Sh Up_write_shrinkers) (w\<lparr>shrinker_list := remove1 s (shrinker_list w)\<rparr>)) (\<lambda>_ w.
     kdo (Sh (Kfree_deferred (sh_id s))) w))"

section \<open>One shrinker\<close>

definition SHRINK_BATCH :: u64 where "SHRINK_BATCH = 128"

definition SHRINK_STOP :: u64 where "SHRINK_STOP = - 1"

definition smin :: "u64 \<Rightarrow> u64 \<Rightarrow> u64" where
  "smin a b = (if a <s b then a else b)"

definition half :: "u64 \<Rightarrow> int \<Rightarrow> u64" where
  "half a k = word_of_int (sint a sdiv k)"

text \<open>
  Lines 363 to 397: how much to scan, and how much is deferred. \<open>nr\<close> is what was deferred so far.
\<close>

definition scan_target :: "u64 \<Rightarrow> u64 \<Rightarrow> u64 \<Rightarrow> u64 \<times> u64" where
  "scan_target freeable nr delta =
     (let total_scan = nr + delta;
          (total_scan, next_deferred) = (if total_scan <s 0 then (freeable, nr) else (total_scan, total_scan));
          total_scan = (if delta < half freeable 4 then smin total_scan (half freeable 2) else total_scan);
          total_scan = (if freeable * 2 <s total_scan then freeable * 2 else total_scan) in
      (total_scan, next_deferred))"

text \<open>The loop of lines 418 to 434, over \<open>freed\<close>, \<open>total_scan\<close> and \<open>scanned\<close>.\<close>

definition scan_loop :: "int \<Rightarrow> int \<Rightarrow> int \<Rightarrow> u64 \<Rightarrow> u64 \<Rightarrow> u64 \<times> u64 \<times> u64 \<Rightarrow> (bool \<times> u64 \<times> u64 \<times> u64) sact" where
  "scan_loop shr nid memcg batch_size freeable = (\<lambda>(freed, total_scan, scanned) w.
     if \<not> (batch_size \<le>s total_scan \<or> freeable \<le>s total_scan) then ret (False, (freed, total_scan, scanned)) w
     else
       let nr_to_scan = smin batch_size total_scan in
       bnd (kcall (Sh (Scan_objects shr nid memcg nr_to_scan)) w) (\<lambda>r w.
       let n = (word_of_int r :: u64) in
       if n = SHRINK_STOP then ret (False, (freed, total_scan, scanned)) w
       else
         bnd (kdo (Zn (Count_vm_events SLABS_SCANNED nr_to_scan)) w) (\<lambda>_ w.
         bnd (kdo (Sy Cond_resched) w) (\<lambda>_ w.
         ret (True, (freed + n, total_scan - nr_to_scan, scanned + nr_to_scan)) w))))"

definition do_shrink_slab :: "renv \<Rightarrow> shrinker \<Rightarrow> int \<Rightarrow> int \<Rightarrow> u64 \<Rightarrow> u64 \<Rightarrow> u64 sact" where
  "do_shrink_slab E s nid memcg scanned_pages nr_eligible w =
     (let batch_size = (if sh_batch s \<noteq> 0 then sh_batch s else SHRINK_BATCH) in
      bnd (kcall (Sh (Count_objects (sh_id s) nid memcg)) w) (\<lambda>c w.
      let freeable = (word_of_int c :: u64) in
      if freeable = 0 then ret 0 w
      else
        bnd (kcall (Sh (Xchg_nr_deferred (sh_id s) nid)) w) (\<lambda>d w.
        let nr = (word_of_int d :: u64) in
        if sh_seeks s = 0 then Inl (Oops, w)
        else
          let delta = (4 * scanned_pages) div scast (sh_seeks s);
              delta = do_div E (delta * freeable) (nr_eligible + 1);
              (total_scan, next_deferred) = scan_target freeable nr delta in
          bnd (do_while (Suc (nat (sint total_scan))) (scan_loop (sh_id s) nid memcg batch_size freeable)
                (0, total_scan, 0) w) (\<lambda>(freed, total_scan, scanned) w.
          let next_deferred = (if scanned \<le>s next_deferred then next_deferred - scanned else 0) in
          bnd (if 0 <s next_deferred
               then kdo (Sh (Add_nr_deferred (sh_id s) nid next_deferred)) w
               else kdo (Sh (Read_nr_deferred (sh_id s) nid)) w) (\<lambda>_ w.
          ret freed w)))))"

section \<open>All shrinkers\<close>

fun shrink_each ::
  "renv \<Rightarrow> int \<Rightarrow> int \<Rightarrow> u64 \<Rightarrow> u64 \<Rightarrow> shrinker list \<Rightarrow> u64 \<Rightarrow> u64 sact" where
  "shrink_each E nid memcg scanned_pages nr_eligible [] freed w = ret freed w"
| "shrink_each E nid memcg scanned_pages nr_eligible (s # ss) freed w =
     (if memcg \<noteq> 0 \<and> \<not> sh_memcg_aware s then shrink_each E nid memcg scanned_pages nr_eligible ss freed w
      else
        bnd (do_shrink_slab E s (if sh_numa_aware s then nid else 0) memcg scanned_pages nr_eligible w) (\<lambda>n w.
        shrink_each E nid memcg scanned_pages nr_eligible ss (freed + n) w))"

definition SWAP_CLUSTER_MAX :: u64 where "SWAP_CLUSTER_MAX = 32"

definition shrink_slab :: "renv \<Rightarrow> int \<Rightarrow> int \<Rightarrow> u64 \<Rightarrow> u64 \<Rightarrow> u64 sact" where
  "shrink_slab E nid memcg scanned_pages nr_eligible w =
     bnd (andalso (memcg \<noteq> 0) (\<lambda>w. bnd (kask (Sh (Memcg_kmem_is_active memcg)) w) (\<lambda>a w. ret (\<not> a) w)) w) (\<lambda>idle w.
     if idle then ret 0 w
     else
       let scanned_pages = (if scanned_pages = 0 then SWAP_CLUSTER_MAX else scanned_pages) in
       bnd (kask (Sh Down_read_trylock_shrinkers) w) (\<lambda>locked w.
       bnd (if \<not> locked then ret 1 w
            else
              bnd (shrink_each E nid memcg scanned_pages nr_eligible (shrinker_list w) 0 w) (\<lambda>freed w.
              bnd (kdo (Sh Up_read_shrinkers) w) (\<lambda>_ w. ret freed w))) (\<lambda>freed w.
       bnd (kdo (Sy Cond_resched) w) (\<lambda>_ w. ret freed w))))"

text \<open>
  \<open>drop_slab_node\<close> goes on as long as a round over the memory groups frees more than ten objects: two
  loops on fuel, which other parts of the kernel decide the length of.
\<close>

definition drop_slab_round :: "nat \<Rightarrow> renv \<Rightarrow> int \<Rightarrow> u64 sact" where
  "drop_slab_round fuel E nid w =
     bnd (do_while fuel (\<lambda>(memcg, freed) w.
            bnd (shrink_slab E nid memcg 1000 1000 w) (\<lambda>n w.
            bnd (kcall (Sh (Mem_cgroup_iter 0 memcg)) w) (\<lambda>next w.
            ret (next \<noteq> 0, (next, freed + n)) w)))
          (0, 0) w) (\<lambda>(memcg, freed) w. ret freed w)"

definition drop_slab_node :: "nat \<Rightarrow> renv \<Rightarrow> int \<Rightarrow> unit sact" where
  "drop_slab_node fuel E nid w =
     bnd (do_while fuel (\<lambda>freed w. bnd (drop_slab_round fuel E nid w) (\<lambda>freed w. ret (10 < freed, freed) w)) 0 w)
       (\<lambda>_ w. ret () w)"

definition drop_slab :: "nat \<Rightarrow> renv \<Rightarrow> int list \<Rightarrow> unit sact" where
  "drop_slab fuel E online w = each (drop_slab_node fuel E) online w"

end
