(* ===== verification/ShrinkLists.thy ===== *)
theory ShrinkLists
  imports LruLists ShrinkPages Shrinkers
begin

text \<open>
  Reclaim from the lists of one lruvec, \<open>vmscan.c\<close> lines 1646 to 2385: the inactive and the active
  list, how much of each list is scanned, and the loop over the lists. \<open>fuel\<close> bounds the loops
  whose end other parts of the kernel decide.
\<close>

section \<open>The inactive list\<close>

definition current_may_throttle :: "bool sact" where
  "current_may_throttle w =
     bnd (kask (Sy Current_less_throttle) w) (\<lambda>less w.
     bnd (orelse (\<not> less) (\<lambda>w.
            bnd (kcall (Sy Current_backing_dev) w) (\<lambda>bdi w.
            orelse (bdi = 0) (kask (Sy Current_bdi_congested)) w)) w) (\<lambda>r w. ret r w))"

text \<open>The loop of lines 1682 to 1688: \<open>True\<close> if the task is about to die.\<close>

definition wait_isolated :: "nat \<Rightarrow> renv \<Rightarrow> int \<Rightarrow> bool \<Rightarrow> bool sact" where
  "wait_isolated fuel E zone file w =
     do_while fuel (\<lambda>_ w.
       bnd (too_many_isolated E zone file w) (\<lambda>many w.
       if \<not> many then ret (False, False) w
       else
         bnd (kdo (Sy Congestion_wait) w) (\<lambda>_ w.
         bnd (kask (Sy Fatal_signal_pending) w) (\<lambda>dying w.
         ret (\<not> dying, dying) w)))) False w"

definition isolate_mode_of :: "scan_control \<Rightarrow> isolate_mode set" where
  "isolate_mode_of c =
     (if may_unmap c then {} else {ISOLATE_UNMAPPED}) \<union> (if may_writepage c then {} else {ISOLATE_CLEAN})"

text \<open>Lines 1697 to 1712: pages are taken off the list under its lock.\<close>

definition take_inactive :: "int \<Rightarrow> int \<Rightarrow> u64 \<Rightarrow> lru_list \<Rightarrow> (u64 \<times> int list) sact" where
  "take_inactive lruvec zone nr_to_scan l w =
     bnd (kdo (Zn (Lru_lock zone)) w) (\<lambda>_ w.
     bnd (isolate_lru_pages nr_to_scan lruvec (lru_contents w (log w) lruvec l) (isolate_mode_of (sc w)) l w)
       (\<lambda>(nr_taken, scan, src, dst) w.
     bnd (kdo (Zn (Mod_zone_page_state zone (nr_lru l) (- nr_taken))) w) (\<lambda>_ w.
     bnd (kdo (Zn (Mod_zone_page_state zone (nr_isolated (is_file_lru l)) nr_taken)) w) (\<lambda>_ w.
     bnd (cond (global_reclaim (sc w)) (\<lambda>w.
            bnd (kdo (Zn (Mod_zone_page_state zone NR_PAGES_SCANNED scan)) w) (\<lambda>_ w.
            bnd (kask (Sy Current_is_kswapd) w) (\<lambda>kswapd w.
            kdo (Zn (Count_vm_events (if kswapd then PGSCAN_KSWAPD zone else PGSCAN_DIRECT zone) scan)) w))) w) (\<lambda>_ w.
     bnd (kdo (Zn (Lru_unlock zone)) w) (\<lambda>_ w.
     ret (nr_taken, dst) w))))))"

text \<open>Lines 1722 to 1742: what is left goes back to the lists.\<close>

definition return_inactive ::
  "nat \<Rightarrow> renv \<Rightarrow> int \<Rightarrow> int \<Rightarrow> lru_list \<Rightarrow> u64 \<Rightarrow> u64 \<Rightarrow> int list \<Rightarrow> unit sact" where
  "return_inactive fuel E lruvec zone l nr_taken reclaimed ps w =
     (let file = is_file_lru l in
      bnd (kdo (Zn (Lru_lock zone)) w) (\<lambda>_ w.
      let w = w\<lparr>recent_scanned := (recent_scanned w)(lruvec :=
                 (recent_scanned w lruvec)(file := recent_scanned w lruvec file + nr_taken))\<rparr> in
      bnd (cond (global_reclaim (sc w)) (\<lambda>w.
             bnd (kask (Sy Current_is_kswapd) w) (\<lambda>kswapd w.
             kdo (Zn (Count_vm_events (if kswapd then PGSTEAL_KSWAPD zone else PGSTEAL_DIRECT zone) reclaimed)) w)) w) (\<lambda>_ w.
      bnd (putback_inactive_pages fuel E lruvec ps w) (\<lambda>pages_to_free w.
      bnd (kdo (Zn (Mod_zone_page_state zone (nr_isolated file) (- nr_taken))) w) (\<lambda>_ w.
      bnd (kdo (Zn (Lru_unlock zone)) w) (\<lambda>_ w.
      bnd (kdo (Zn (Mem_cgroup_uncharge_list pages_to_free)) w) (\<lambda>_ w.
      kdo (Zn (Free_hot_cold_page_list pages_to_free)) w)))))))"

text \<open>Lines 1758 to 1799: what the counters say about the zone.\<close>

definition judge_zone :: "renv \<Rightarrow> int \<Rightarrow> u64 \<Rightarrow> spl \<Rightarrow> unit sact" where
  "judge_zone E zone nr_taken st w =
     bnd (cond (nr_writeback st \<noteq> 0 \<and> nr_writeback st = nr_taken) (kdo (Zn (Zone_set zone ZONE_WRITEBACK))) w) (\<lambda>_ w.
     bnd (cond (sane_reclaim E (sc w)) (\<lambda>w.
            bnd (cond (nr_dirty st \<noteq> 0 \<and> nr_dirty st = nr_congested st) (kdo (Zn (Zone_set zone ZONE_CONGESTED))) w) (\<lambda>_ w.
            bnd (cond (nr_unqueued_dirty st = nr_taken) (kdo (Zn (Zone_set zone ZONE_DIRTY))) w) (\<lambda>_ w.
            bnd (andalso (nr_immediate st \<noteq> 0) current_may_throttle w) (\<lambda>stall w.
            cond stall (kdo (Sy Congestion_wait)) w)))) w) (\<lambda>_ w.
     bnd (andalso (\<not> hibernation_mode (sc w)) (\<lambda>w.
            bnd (kask (Sy Current_is_kswapd) w) (\<lambda>kswapd w. andalso (\<not> kswapd) current_may_throttle w)) w) (\<lambda>throttle w.
     cond throttle (kdo (Sy (Wait_iff_congested zone))) w)))"

definition shrink_inactive_list :: "nat \<Rightarrow> renv \<Rightarrow> u64 \<Rightarrow> int \<Rightarrow> lru_list \<Rightarrow> u64 sact" where
  "shrink_inactive_list fuel E nr_to_scan lruvec l w =
     bnd (kcall (Zn (Lruvec_zone lruvec)) w) (\<lambda>zone w.
     bnd (wait_isolated fuel E zone (is_file_lru l) w) (\<lambda>dying w.
     if dying then ret SWAP_CLUSTER_MAX w
     else
       bnd (kdo (Zn Lru_add_drain) w) (\<lambda>_ w.
       bnd (take_inactive lruvec zone nr_to_scan l w) (\<lambda>(nr_taken, ps) w.
       if nr_taken = 0 then ret 0 w
       else
         bnd (shrink_page_list fuel E ps zone {TTU_UNMAP} False w) (\<lambda>(reclaimed, ps, st) w.
         bnd (return_inactive fuel E lruvec zone l nr_taken reclaimed ps w) (\<lambda>_ w.
         bnd (judge_zone E zone nr_taken st w) (\<lambda>_ w.
         ret reclaimed w)))))))"

section \<open>The active list\<close>

fun move_each :: "int \<Rightarrow> lru_list \<Rightarrow> int list \<Rightarrow> int list \<Rightarrow> u64 \<Rightarrow> (int list \<times> u64) sact" where
  "move_each zone l [] pages_to_free pgmoved w = ret (pages_to_free, pgmoved) w"
| "move_each zone l (page # ps) pages_to_free pgmoved w =
     bnd (kcall (Zn (Mem_cgroup_page_lruvec page zone)) w) (\<lambda>lruvec w.
     bnd (test PageLRU page w) (\<lambda>onlru w.
     bnd (BUG_ON onlru w) (\<lambda>_ w.
     bnd (kdo (Pg (SetF PageLRU page)) w) (\<lambda>_ w.
     bnd (kcall (Pg (Hpage_nr_pages page)) w) (\<lambda>k w.
     bnd (kdo (Zn (Mem_cgroup_update_lru_size lruvec l (word_of_int k))) w) (\<lambda>_ w.
     bnd (kdo (Zn (Add_page_to_lru_list page lruvec l)) w) (\<lambda>_ w.
     bnd (last_reference zone page lruvec l pages_to_free w) (\<lambda>pages_to_free w.
     move_each zone l ps pages_to_free (pgmoved + word_of_int k) w))))))))"

definition move_active_pages_to_lru :: "int \<Rightarrow> int list \<Rightarrow> int list \<Rightarrow> lru_list \<Rightarrow> int list sact" where
  "move_active_pages_to_lru lruvec ps pages_to_free l w =
     bnd (kcall (Zn (Lruvec_zone lruvec)) w) (\<lambda>zone w.
     bnd (move_each zone l (rev ps) pages_to_free 0 w) (\<lambda>(pages_to_free, pgmoved) w.
     bnd (kdo (Zn (Mod_zone_page_state zone (nr_lru l) pgmoved)) w) (\<lambda>_ w.
     bnd (cond (\<not> is_active_lru l) (kdo (Zn (Count_vm_events PGDEACTIVATE pgmoved))) w) (\<lambda>_ w.
     ret pages_to_free w))))"

text \<open>The loop over the pages taken: what stays active, what becomes inactive, how many were referenced.\<close>

definition drop_buffers :: "renv \<Rightarrow> int \<Rightarrow> unit sact" where
  "drop_buffers E page w =
     cond (buffer_heads_over_limit E) (\<lambda>w.
       bnd (test Page_has_private page w) (\<lambda>private w.
       bnd (andalso private (kask (Pg (Trylock_page page))) w) (\<lambda>locked w.
       cond locked (\<lambda>w.
         bnd (test Page_has_private page w) (\<lambda>private w.
         bnd (cond private (kdo (Mp (Try_to_release_page page {}))) w) (\<lambda>_ w.
         page_do Unlock_page page w))) w))) w"

fun age_each ::
  "nat \<Rightarrow> renv \<Rightarrow> int list \<Rightarrow> int list \<Rightarrow> int list \<Rightarrow> u64 \<Rightarrow> (int list \<times> int list \<times> u64) sact" where
  "age_each fuel E [] l_active l_inactive nr_rotated w = ret (l_active, l_inactive, nr_rotated) w"
| "age_each fuel E (page # ps) l_active l_inactive nr_rotated w =
     bnd (kdo (Sy Cond_resched) w) (\<lambda>_ w.
     bnd (page_evictable page w) (\<lambda>evictable w.
     if \<not> evictable
     then bnd (putback_lru_page fuel E page w) (\<lambda>_ w. age_each fuel E ps l_active l_inactive nr_rotated w)
     else
       bnd (drop_buffers E page w) (\<lambda>_ w.
       bnd (kcall (Pg (Page_referenced page (target_mem_cgroup (sc w)))) w) (\<lambda>r w.
       bnd (if pr_ptes E r \<noteq> 0
            then
              bnd (kcall (Pg (Hpage_nr_pages page)) w) (\<lambda>k w.
              bnd (andalso (VM_EXEC \<in> pr_flags E r) (test Page_is_file_cache page) w) (\<lambda>spare w.
              ret (spare, nr_rotated + word_of_int k) w))
            else ret (False, nr_rotated) w) (\<lambda>(spare, nr_rotated) w.
       if spare then age_each fuel E ps (page # l_active) l_inactive nr_rotated w
       else
         bnd (kdo (Pg (ClearF PageActive page)) w) (\<lambda>_ w.
         age_each fuel E ps l_active (page # l_inactive) nr_rotated w))))))"

definition inactive_of :: "lru_list \<Rightarrow> lru_list" where
  "inactive_of l = (if is_file_lru l then LRU_INACTIVE_FILE else LRU_INACTIVE_ANON)"

text \<open>Lines 1893 to 1905, and lines 1950 to 1965.\<close>

definition take_active :: "int \<Rightarrow> int \<Rightarrow> u64 \<Rightarrow> lru_list \<Rightarrow> (u64 \<times> int list) sact" where
  "take_active lruvec zone nr_to_scan l w =
     (let file = is_file_lru l in
      bnd (kdo (Zn (Lru_lock zone)) w) (\<lambda>_ w.
      bnd (isolate_lru_pages nr_to_scan lruvec (lru_contents w (log w) lruvec l) (isolate_mode_of (sc w)) l w)
        (\<lambda>(nr_taken, scan, src, dst) w.
      bnd (cond (global_reclaim (sc w)) (kdo (Zn (Mod_zone_page_state zone NR_PAGES_SCANNED scan))) w) (\<lambda>_ w.
      let w = w\<lparr>recent_scanned := (recent_scanned w)(lruvec :=
                 (recent_scanned w lruvec)(file := recent_scanned w lruvec file + nr_taken))\<rparr> in
      bnd (kdo (Zn (Count_vm_events (PGREFILL zone) scan)) w) (\<lambda>_ w.
      bnd (kdo (Zn (Mod_zone_page_state zone (nr_lru l) (- nr_taken))) w) (\<lambda>_ w.
      bnd (kdo (Zn (Mod_zone_page_state zone (nr_isolated file) nr_taken)) w) (\<lambda>_ w.
      bnd (kdo (Zn (Lru_unlock zone)) w) (\<lambda>_ w.
      ret (nr_taken, dst) w))))))))"

definition return_active ::
  "int \<Rightarrow> int \<Rightarrow> lru_list \<Rightarrow> u64 \<Rightarrow> int list \<Rightarrow> int list \<Rightarrow> u64 \<Rightarrow> unit sact" where
  "return_active lruvec zone l nr_taken l_active l_inactive nr_rotated w =
     (let file = is_file_lru l in
      bnd (kdo (Zn (Lru_lock zone)) w) (\<lambda>_ w.
      let w = w\<lparr>recent_rotated := (recent_rotated w)(lruvec :=
                 (recent_rotated w lruvec)(file := recent_rotated w lruvec file + nr_rotated))\<rparr> in
      bnd (move_active_pages_to_lru lruvec l_active [] l w) (\<lambda>l_hold w.
      bnd (move_active_pages_to_lru lruvec l_inactive l_hold (inactive_of l) w) (\<lambda>l_hold w.
      bnd (kdo (Zn (Mod_zone_page_state zone (nr_isolated file) (- nr_taken))) w) (\<lambda>_ w.
      bnd (kdo (Zn (Lru_unlock zone)) w) (\<lambda>_ w.
      bnd (kdo (Zn (Mem_cgroup_uncharge_list l_hold)) w) (\<lambda>_ w.
      kdo (Zn (Free_hot_cold_page_list l_hold)) w)))))))"

definition shrink_active_list :: "nat \<Rightarrow> renv \<Rightarrow> u64 \<Rightarrow> int \<Rightarrow> lru_list \<Rightarrow> unit sact" where
  "shrink_active_list fuel E nr_to_scan lruvec l w =
     bnd (kcall (Zn (Lruvec_zone lruvec)) w) (\<lambda>zone w.
     bnd (kdo (Zn Lru_add_drain) w) (\<lambda>_ w.
     bnd (take_active lruvec zone nr_to_scan l w) (\<lambda>(nr_taken, l_hold) w.
     bnd (age_each fuel E (rev l_hold) [] [] 0 w) (\<lambda>(l_active, l_inactive, nr_rotated) w.
     return_active lruvec zone l nr_taken l_active l_inactive nr_rotated w))))"

section \<open>Which list is short\<close>

definition inactive_anon_is_low_global :: "int \<Rightarrow> bool sact" where
  "inactive_anon_is_low_global zone w =
     bnd (zone_state zone NR_ACTIVE_ANON w) (\<lambda>active w.
     bnd (zone_state zone NR_INACTIVE_ANON w) (\<lambda>inactive w.
     bnd (kcall (Zn (Inactive_ratio zone)) w) (\<lambda>ratio w.
     ret (inactive * word_of_int ratio < active) w)))"

definition inactive_anon_is_low :: "renv \<Rightarrow> int \<Rightarrow> bool sact" where
  "inactive_anon_is_low E lruvec w =
     (if total_swap_pages E = 0 then ret False w
      else
        bnd (kask (Zn Mem_cgroup_disabled) w) (\<lambda>disabled w.
        if \<not> disabled then kask (Zn (Mem_cgroup_inactive_anon_is_low lruvec)) w
        else bnd (kcall (Zn (Lruvec_zone lruvec)) w) (\<lambda>zone w. inactive_anon_is_low_global zone w)))"

definition inactive_file_is_low :: "int \<Rightarrow> bool sact" where
  "inactive_file_is_low lruvec w =
     bnd (get_lru_size lruvec LRU_INACTIVE_FILE w) (\<lambda>inactive w.
     bnd (get_lru_size lruvec LRU_ACTIVE_FILE w) (\<lambda>active w.
     ret (inactive < active) w))"

definition inactive_list_is_low :: "renv \<Rightarrow> int \<Rightarrow> lru_list \<Rightarrow> bool sact" where
  "inactive_list_is_low E lruvec l w =
     (if is_file_lru l then inactive_file_is_low lruvec w else inactive_anon_is_low E lruvec w)"

definition shrink_list :: "nat \<Rightarrow> renv \<Rightarrow> lru_list \<Rightarrow> u64 \<Rightarrow> int \<Rightarrow> u64 sact" where
  "shrink_list fuel E l nr_to_scan lruvec w =
     (if is_active_lru l then
        bnd (inactive_list_is_low E lruvec l w) (\<lambda>low w.
        bnd (cond low (shrink_active_list fuel E nr_to_scan lruvec l) w) (\<lambda>_ w. ret 0 w))
      else shrink_inactive_list fuel E nr_to_scan lruvec l w)"

end
