(* ===== verification/ScanCount.thy ===== *)
theory ScanCount
  imports ShrinkLists
begin

text \<open>
  How many pages of each list are scanned, \<open>vmscan.c\<close> lines 2052 to 2267, and the loop that scans
  them, lines 2272 to 2385. The arithmetic is that of 64-bit words.
\<close>

datatype scan_balance = SCAN_EQUAL | SCAN_FRACT | SCAN_ANON | SCAN_FILE

section \<open>The balance\<close>

text \<open>
  The floating average of one kind of page (lines 2191 to 2199), and the pressure on it (lines 2206 to
  2210): scanned and rotated pages, and the size of its lists.
\<close>

definition average :: "u64 \<Rightarrow> u64 \<times> u64 \<Rightarrow> u64 \<times> u64" where
  "average pages = (\<lambda>(scanned, rotated). if pages div 4 < scanned then (scanned div 2, rotated div 2) else (scanned, rotated))"

definition pressure :: "u64 \<Rightarrow> u64 \<times> u64 \<Rightarrow> u64" where
  "pressure prio = (\<lambda>(scanned, rotated). prio * (scanned + 1) div (rotated + 1))"

text \<open>
  Lines 2170 to 2215: the fractions of the anonymous and of the file lists and their denominator. An
  index 0 or 1 of the code's arrays is \<open>False\<close> or \<open>True\<close>, the variable \<open>file\<close>.
\<close>

definition scan_fractions :: "int \<Rightarrow> u64 \<Rightarrow> ((bool \<Rightarrow> u64) \<times> u64) sact" where
  "scan_fractions lruvec swappiness w =
     (let anon_prio = swappiness; file_prio = 200 - anon_prio in
      bnd (get_lru_size lruvec LRU_ACTIVE_ANON w) (\<lambda>a w.
      bnd (get_lru_size lruvec LRU_INACTIVE_ANON w) (\<lambda>b w.
      bnd (get_lru_size lruvec LRU_ACTIVE_FILE w) (\<lambda>c w.
      bnd (get_lru_size lruvec LRU_INACTIVE_FILE w) (\<lambda>d w.
      bnd (kcall (Zn (Lruvec_zone lruvec)) w) (\<lambda>zone w.
      bnd (kdo (Zn (Lru_lock zone)) w) (\<lambda>_ w.
      let anon = average (a + b) (recent_scanned w lruvec False, recent_rotated w lruvec False);
          file = average (c + d) (recent_scanned w lruvec True, recent_rotated w lruvec True);
          w = w\<lparr>recent_scanned := (recent_scanned w)(lruvec := (\<lambda>f. if f then fst file else fst anon)),
                recent_rotated := (recent_rotated w)(lruvec := (\<lambda>f. if f then snd file else snd anon))\<rparr>;
          ap = pressure anon_prio anon; fp = pressure file_prio file in
      bnd (kdo (Zn (Lru_unlock zone)) w) (\<lambda>_ w.
      ret (\<lambda>f. if f then fp else ap, ap + fp + 1) w))))))))"

text \<open>Lines 2095 to 2164: whether small lists must be scanned, and the balance.\<close>

definition force_scan :: "int \<Rightarrow> bool sact" where
  "force_scan lruvec w =
     bnd (kask (Sy Current_is_kswapd) w) (\<lambda>kswapd w.
     bnd (andalso kswapd (\<lambda>w.
            bnd (kcall (Zn (Lruvec_zone lruvec)) w) (\<lambda>zone w.
            bnd (zone_reclaimable zone w) (\<lambda>reclaimable w.
            bnd (kask (Zn (Mem_cgroup_lruvec_online lruvec)) w) (\<lambda>online w.
            ret (\<not> reclaimable \<or> \<not> online) w)))) w) (\<lambda>force w.
     ret (force \<or> \<not> global_reclaim (sc w)) w))"

text \<open>Lines 2141 to 2164.\<close>

definition file_or_fract :: "int \<Rightarrow> scan_balance sact" where
  "file_or_fract lruvec w =
     bnd (andalso (global_reclaim (sc w)) (\<lambda>w.
            bnd (kcall (Zn (Lruvec_zone lruvec)) w) (\<lambda>zone w.
            bnd (zone_state zone NR_FREE_PAGES w) (\<lambda>zonefree w.
            bnd (zone_state zone NR_ACTIVE_FILE w) (\<lambda>a w.
            bnd (zone_state zone NR_INACTIVE_FILE w) (\<lambda>b w.
            bnd (kcall (Zn (High_wmark_pages zone)) w) (\<lambda>mark w.
            ret (a + b + zonefree \<le> word_of_int mark) w)))))) w) (\<lambda>trap w.
     if trap then ret SCAN_ANON w
     else
       bnd (inactive_file_is_low lruvec w) (\<lambda>low w.
       ret (if low then SCAN_FRACT else SCAN_FILE) w))"

definition choose_balance :: "int \<Rightarrow> u64 \<Rightarrow> scan_balance sact" where
  "choose_balance lruvec swappiness w =
     bnd (orelse (\<not> may_swap (sc w)) (\<lambda>w.
            bnd (kcall (Zn Get_nr_swap_pages) w) (\<lambda>n w. ret (n \<le> 0) w)) w) (\<lambda>noswap w.
     if noswap then ret SCAN_FILE w
     else if \<not> global_reclaim (sc w) \<and> swappiness = 0 then ret SCAN_FILE w
     else if priority (sc w) = 0 \<and> swappiness \<noteq> 0 then ret SCAN_EQUAL w
     else file_or_fract lruvec w)"

section \<open>The counts\<close>

text \<open>
  Lines 2227 to 2255, for a list of \<open>pages\<close> pages: its share of the size, and how much of it is
  scanned. \<open>small\<close> says that small lists are scanned too (second pass, forced).
\<close>

definition scan_amount ::
  "scan_balance \<Rightarrow> (bool \<Rightarrow> u64) \<Rightarrow> u64 \<Rightarrow> nat \<Rightarrow> bool \<Rightarrow> bool \<Rightarrow> u64 \<Rightarrow> u64 \<times> u64" where
  "scan_amount balance fraction denominator prio small file pages =
     (let scan = drop_bit prio pages;
          scan = (if scan = 0 \<and> small then min pages SWAP_CLUSTER_MAX else scan) in
      case balance of
        SCAN_EQUAL \<Rightarrow> (pages, scan)
      | SCAN_FRACT \<Rightarrow> (pages, scan * fraction file div denominator)
      | SCAN_FILE \<Rightarrow> if file then (pages, scan) else (0, 0)
      | SCAN_ANON \<Rightarrow> if file then (0, 0) else (pages, scan))"

definition evictable_lrus :: "lru_list list" where
  "evictable_lrus = [LRU_INACTIVE_ANON, LRU_ACTIVE_ANON, LRU_INACTIVE_FILE, LRU_ACTIVE_FILE]"

text \<open>One pass over the lists: the sum of the sizes, the counts, and whether there was anything.\<close>

type_synonym counts = "u64 \<times> (lru_list \<Rightarrow> u64) \<times> bool"

fun scan_pass ::
  "int \<Rightarrow> scan_balance \<Rightarrow> (bool \<Rightarrow> u64) \<Rightarrow> u64 \<Rightarrow> bool \<Rightarrow> lru_list list \<Rightarrow> counts \<Rightarrow> counts sact" where
  "scan_pass lruvec balance fraction denominator small [] c w = ret c w"
| "scan_pass lruvec balance fraction denominator small (l # ls) c w =
     bnd (get_lru_size lruvec l w) (\<lambda>pages w.
     let (lru_pages, nr, some_scanned) = c;
         (size', scan) = scan_amount balance fraction denominator (nat (priority (sc w))) small (is_file_lru l) pages in
     scan_pass lruvec balance fraction denominator small ls
       (lru_pages + size', nr(l := scan), some_scanned \<or> scan \<noteq> 0) w)"

text \<open>The division by \<open>denominator\<close> is an oops if it is 0, which it is only when \<open>ap + fp + 1\<close> wraps.\<close>

definition get_scan_count :: "int \<Rightarrow> u64 \<Rightarrow> ((lru_list \<Rightarrow> u64) \<times> u64) sact" where
  "get_scan_count lruvec swappiness w =
     bnd (force_scan lruvec w) (\<lambda>force w.
     bnd (choose_balance lruvec swappiness w) (\<lambda>balance w.
     bnd (if balance = SCAN_FRACT then scan_fractions lruvec swappiness w else ret (\<lambda>_. 0, 0) w) (\<lambda>(fraction, denominator) w.
     if balance = SCAN_FRACT \<and> denominator = 0 then Inl (Oops, w)
     else
       bnd (scan_pass lruvec balance fraction denominator False evictable_lrus (0, (\<lambda>_. 0), False) w) (\<lambda>(lru_pages, nr, some_scanned) w.
       if some_scanned then ret (nr, lru_pages) w
       else
         bnd (scan_pass lruvec balance fraction denominator force evictable_lrus (0, nr, False) w) (\<lambda>(lru_pages, nr, _) w.
         ret (nr, lru_pages) w)))))"

section \<open>The loop over the lists\<close>

text \<open>Lines 2309 to 2317: a batch from every list that has something left.\<close>

fun shrink_round ::
  "nat \<Rightarrow> renv \<Rightarrow> int \<Rightarrow> lru_list list \<Rightarrow> (lru_list \<Rightarrow> u64) \<times> u64 \<Rightarrow> ((lru_list \<Rightarrow> u64) \<times> u64) sact" where
  "shrink_round fuel E lruvec [] s w = ret s w"
| "shrink_round fuel E lruvec (l # ls) s w =
     (let (nr, reclaimed) = s in
      if nr l = 0 then shrink_round fuel E lruvec ls s w
      else
        let nr_to_scan = min (nr l) SWAP_CLUSTER_MAX in
        bnd (shrink_list fuel E l nr_to_scan lruvec w) (\<lambda>n w.
        shrink_round fuel E lruvec ls (nr(l := nr l - nr_to_scan), reclaimed + n) w))"

text \<open>
  Lines 2329 to 2369: once enough is reclaimed, the smaller kind is not scanned any more, and the other
  one in proportion to what was to be scanned of it. \<open>None\<close> is the \<open>break\<close>.
\<close>

definition rest_of :: "u64 \<Rightarrow> u64 \<Rightarrow> u64 \<Rightarrow> u64" where
  "rest_of target left percentage =
     (let scanned = target - left; n = target * (100 - percentage) div 100 in n - min n scanned)"

definition proportion :: "(lru_list \<Rightarrow> u64) \<Rightarrow> (lru_list \<Rightarrow> u64) \<Rightarrow> (lru_list \<Rightarrow> u64) option" where
  "proportion targets nr =
     (let nr_file = nr LRU_INACTIVE_FILE + nr LRU_ACTIVE_FILE;
          nr_anon = nr LRU_INACTIVE_ANON + nr LRU_ACTIVE_ANON in
      if nr_file = 0 \<or> nr_anon = 0 then None
      else if nr_anon < nr_file then
        let percentage = nr_anon * 100 div (targets LRU_INACTIVE_ANON + targets LRU_ACTIVE_ANON + 1) in
        Some (nr(LRU_INACTIVE_ANON := 0, LRU_ACTIVE_ANON := 0,
                 LRU_INACTIVE_FILE := rest_of (targets LRU_INACTIVE_FILE) (nr LRU_INACTIVE_FILE) percentage,
                 LRU_ACTIVE_FILE := rest_of (targets LRU_ACTIVE_FILE) (nr LRU_ACTIVE_FILE) percentage))
      else
        let percentage = nr_file * 100 div (targets LRU_INACTIVE_FILE + targets LRU_ACTIVE_FILE + 1) in
        Some (nr(LRU_INACTIVE_FILE := 0, LRU_ACTIVE_FILE := 0,
                 LRU_INACTIVE_ANON := rest_of (targets LRU_INACTIVE_ANON) (nr LRU_INACTIVE_ANON) percentage,
                 LRU_ACTIVE_ANON := rest_of (targets LRU_ACTIVE_ANON) (nr LRU_ACTIVE_ANON) percentage)))"

definition lruvec_body ::
  "nat \<Rightarrow> renv \<Rightarrow> int \<Rightarrow> u64 \<Rightarrow> (lru_list \<Rightarrow> u64) \<Rightarrow> (lru_list \<Rightarrow> u64) \<times> u64 \<times> bool \<Rightarrow>
     (bool \<times> (lru_list \<Rightarrow> u64) \<times> u64 \<times> bool) sact" where
  "lruvec_body fuel E lruvec goal targets = (\<lambda>(nr, reclaimed, scan_adjusted) w.
     if nr LRU_INACTIVE_ANON = 0 \<and> nr LRU_ACTIVE_FILE = 0 \<and> nr LRU_INACTIVE_FILE = 0
     then ret (False, (nr, reclaimed, scan_adjusted)) w
     else
       bnd (shrink_round fuel E lruvec evictable_lrus (nr, reclaimed) w) (\<lambda>(nr, reclaimed) w.
       if reclaimed < goal \<or> scan_adjusted then ret (True, (nr, reclaimed, scan_adjusted)) w
       else
         case proportion targets nr of
           None \<Rightarrow> ret (False, (nr, reclaimed, scan_adjusted)) w
         | Some nr \<Rightarrow> ret (True, (nr, reclaimed, True)) w))"

definition DEF_PRIORITY :: int where "DEF_PRIORITY = 12"

text \<open>
  Two passes over counts below \<open>2 ^ 64\<close> each are fewer than \<open>2 ^ 67\<close> rounds. The result is the sum of the
  sizes, for the shrinkers.
\<close>

definition shrink_lruvec :: "nat \<Rightarrow> renv \<Rightarrow> int \<Rightarrow> u64 \<Rightarrow> u64 sact" where
  "shrink_lruvec fuel E lruvec swappiness w =
     (let goal = nr_to_reclaim (sc w) in
      bnd (get_scan_count lruvec swappiness w) (\<lambda>(nr, lru_pages) w.
      bnd (andalso (global_reclaim (sc w)) (\<lambda>w.
             bnd (kask (Sy Current_is_kswapd) w) (\<lambda>kswapd w.
             ret (\<not> kswapd \<and> priority (sc w) = DEF_PRIORITY) w)) w) (\<lambda>scan_adjusted w.
      bnd (kdo (Sy Blk_plug) w) (\<lambda>_ w.
      bnd (do_while (2 ^ 67) (lruvec_body fuel E lruvec goal nr) (nr, 0, scan_adjusted) w) (\<lambda>(nr, reclaimed, _) w.
      bnd (kdo (Sy Blk_unplug) w) (\<lambda>_ w.
      let w = w\<lparr>sc := (sc w)\<lparr>nr_reclaimed := nr_reclaimed (sc w) + reclaimed\<rparr>\<rparr> in
      bnd (inactive_anon_is_low E lruvec w) (\<lambda>low w.
      bnd (cond low (shrink_active_list fuel E SWAP_CLUSTER_MAX lruvec LRU_ACTIVE_ANON) w) (\<lambda>_ w.
      bnd (kdo (Sy Throttle_vm_writeout) w) (\<lambda>_ w.
      ret lru_pages w)))))))))"

end
