(* ===== verification/ReclaimZones.thy ===== *)
theory ReclaimZones
  imports ScanCount
begin

text \<open>
  Reclaim from zones, \<open>vmscan.c\<close> lines 2387 to 2785: \<open>shrink_zone\<close> over the memory groups of a zone,
  \<open>shrink_zones\<close> over the zones an allocation may use, and \<open>do_try_to_free_pages\<close> over the priorities.
  \<open>fuel\<close> bounds the loops over memory groups and over rounds of \<open>shrink_zone\<close>, whose end other parts
  of the kernel decide; the loops over priorities have a fuel of their own.
\<close>

section \<open>Compaction\<close>

definition PAGE_ALLOC_COSTLY_ORDER :: int where "PAGE_ALLOC_COSTLY_ORDER = 3"

definition in_reclaim_compaction :: "renv \<Rightarrow> scan_control \<Rightarrow> bool" where
  "in_reclaim_compaction E c =
     (config_compaction E \<and> order c \<noteq> 0 \<and> (PAGE_ALLOC_COSTLY_ORDER < order c \<or> priority c < DEF_PRIORITY - 2))"

definition should_continue_reclaim :: "renv \<Rightarrow> int \<Rightarrow> u64 \<Rightarrow> u64 \<Rightarrow> bool sact" where
  "should_continue_reclaim E zone reclaimed scanned w =
     (if \<not> in_reclaim_compaction E (sc w) then ret False w
      else if (if GFP_REPEAT \<in> gfp_mask (sc w) then reclaimed = 0 \<and> scanned = 0 else reclaimed = 0) then ret False w
      else
        let pages_for_compaction = push_bit (nat (order (sc w))) 2 in
        bnd (zone_state zone NR_INACTIVE_FILE w) (\<lambda>file w.
        bnd (kcall (Zn Get_nr_swap_pages) w) (\<lambda>swap w.
        bnd (if 0 < swap then bnd (zone_state zone NR_INACTIVE_ANON w) (\<lambda>anon w. ret (file + anon) w)
             else ret file w) (\<lambda>inactive_lru_pages w.
        if nr_reclaimed (sc w) < pages_for_compaction \<and> pages_for_compaction < inactive_lru_pages then ret True w
        else
          bnd (kcall (Nd (Compaction_suitable zone (order (sc w)) 0)) w) (\<lambda>r w.
          ret (compact_answer E r \<noteq> COMPACT_PARTIAL \<and> compact_answer E r \<noteq> COMPACT_CONTINUE) w)))))"

definition KSWAPD_ZONE_BALANCE_GAP_RATIO :: u64 where "KSWAPD_ZONE_BALANCE_GAP_RATIO = 100"

text \<open>The gap above the high watermark: \<open>DIV_ROUND_UP\<close> of the managed pages, or the low watermark.\<close>

definition balance_gap :: "int \<Rightarrow> u64 sact" where
  "balance_gap zone w =
     bnd (kcall (Zn (Low_wmark_pages zone)) w) (\<lambda>low w.
     bnd (kcall (Zn (Managed_pages zone)) w) (\<lambda>managed w.
     ret (min (word_of_int low)
           ((word_of_int managed + KSWAPD_ZONE_BALANCE_GAP_RATIO - 1) div KSWAPD_ZONE_BALANCE_GAP_RATIO)) w))"

definition zone_compaction_ready :: "renv \<Rightarrow> int \<Rightarrow> int \<Rightarrow> bool sact" where
  "zone_compaction_ready E zone ord w =
     bnd (balance_gap zone w) (\<lambda>gap w.
     bnd (kcall (Zn (High_wmark_pages zone)) w) (\<lambda>high w.
     let watermark = word_of_int high + gap + push_bit (nat ord) 2 in
     bnd (kask (Nd (Zone_watermark_ok_safe zone 0 watermark 0)) w) (\<lambda>watermark_ok w.
     bnd (kask (Nd (Compaction_deferred zone ord)) w) (\<lambda>deferred w.
     if deferred then ret watermark_ok w
     else
       bnd (kcall (Nd (Compaction_suitable zone ord 0)) w) (\<lambda>r w.
       ret (if compact_answer E r = COMPACT_SKIPPED then False else watermark_ok) w)))))"

section \<open>One zone\<close>

text \<open>One memory group of a zone (lines 2482 to 2521); the state is the group and the sum of the sizes.\<close>

definition zone_memcg ::
  "nat \<Rightarrow> renv \<Rightarrow> int \<Rightarrow> bool \<Rightarrow> int \<Rightarrow> int \<times> u64 \<Rightarrow> (bool \<times> int \<times> u64) sact" where
  "zone_memcg fuel E zone is_classzone root = (\<lambda>(memcg, zone_lru_pages) w.
     bnd (kask (Nd (Mem_cgroup_low root memcg)) w) (\<lambda>low w.
     if low \<and> \<not> may_thrash (sc w) then
       bnd (kcall (Sh (Mem_cgroup_iter root memcg)) w) (\<lambda>next w. ret (next \<noteq> 0, (next, zone_lru_pages)) w)
     else
       bnd (cond low (kdo (Nd (Mem_cgroup_events_low memcg))) w) (\<lambda>_ w.
       bnd (kcall (Nd (Mem_cgroup_zone_lruvec zone memcg)) w) (\<lambda>lruvec w.
       bnd (kcall (Zn (Mem_cgroup_swappiness memcg)) w) (\<lambda>swappiness w.
       let scanned = nr_scanned (sc w) in
       bnd (shrink_lruvec fuel E lruvec (word_of_int swappiness) w) (\<lambda>lru_pages w.
       let zone_lru_pages = zone_lru_pages + lru_pages in
       bnd (cond (memcg \<noteq> 0 \<and> is_classzone) (\<lambda>w.
              bnd (shrink_slab E (zone_node E zone) memcg (nr_scanned (sc w) - scanned) lru_pages w) (\<lambda>_ w. ret () w)) w) (\<lambda>_ w.
       if \<not> global_reclaim (sc w) \<and> nr_to_reclaim (sc w) \<le> nr_reclaimed (sc w) then
         bnd (kdo (Nd (Mem_cgroup_iter_break root memcg)) w) (\<lambda>_ w. ret (False, (memcg, zone_lru_pages)) w)
       else
         bnd (kcall (Sh (Mem_cgroup_iter root memcg)) w) (\<lambda>next w. ret (next \<noteq> 0, (next, zone_lru_pages)) w))))))))"

text \<open>One round over the groups (lines 2469 to 2545); the state is \<open>reclaimable\<close>.\<close>

definition zone_round :: "nat \<Rightarrow> renv \<Rightarrow> int \<Rightarrow> bool \<Rightarrow> bool \<Rightarrow> bool \<Rightarrow> (bool \<times> bool) sact" where
  "zone_round fuel E zone is_classzone has_state reclaimable w =
     (let root = target_mem_cgroup (sc w); reclaimed = nr_reclaimed (sc w); scanned = nr_scanned (sc w) in
      bnd (kcall (Sh (Mem_cgroup_iter root 0)) w) (\<lambda>memcg w.
      bnd (do_while fuel (zone_memcg fuel E zone is_classzone root) (memcg, 0) w) (\<lambda>(_, zone_lru_pages) w.
      bnd (cond (global_reclaim (sc w) \<and> is_classzone) (\<lambda>w.
             bnd (shrink_slab E (zone_node E zone) 0 (nr_scanned (sc w) - scanned) zone_lru_pages w) (\<lambda>_ w. ret () w)) w) (\<lambda>_ w.
      bnd (cond has_state (\<lambda>w.
             bnd (kcall (Tk Reclaimed_slab) w) (\<lambda>slab w.
             kdo (Tk Clear_reclaimed_slab) (w\<lparr>sc := (sc w)\<lparr>nr_reclaimed := nr_reclaimed (sc w) + word_of_int slab\<rparr>\<rparr>))) w) (\<lambda>_ w.
      bnd (kdo (Nd (Vmpressure (gfp_mask (sc w)) (target_mem_cgroup (sc w)) (nr_scanned (sc w) - scanned)
             (nr_reclaimed (sc w) - reclaimed))) w) (\<lambda>_ w.
      let reclaimable = (reclaimable \<or> nr_reclaimed (sc w) - reclaimed \<noteq> 0) in
      bnd (should_continue_reclaim E zone (nr_reclaimed (sc w) - reclaimed) (nr_scanned (sc w) - scanned) w) (\<lambda>again w.
      ret (again, reclaimable) w)))))))"

definition shrink_zone :: "nat \<Rightarrow> renv \<Rightarrow> int \<Rightarrow> bool \<Rightarrow> bool sact" where
  "shrink_zone fuel E zone is_classzone w =
     bnd (kask (Tk Has_reclaim_state) w) (\<lambda>has_state w.
     do_while fuel (zone_round fuel E zone is_classzone has_state) False w)"

section \<open>The zones of an allocation\<close>

text \<open>The highest populated zone of a node from an index down; below index 0 it is out of bounds.\<close>

fun populated_below :: "renv \<Rightarrow> int \<Rightarrow> nat \<Rightarrow> int sact" where
  "populated_below E node 0 w =
     bnd (kask (Nd (Populated_zone (zone_at E node 0))) w) (\<lambda>p w. if p then ret 0 w else Inl (Oops, w))"
| "populated_below E node (Suc i) w =
     bnd (kask (Nd (Populated_zone (zone_at E node (int (Suc i))))) w) (\<lambda>p w.
     if p then ret (int (Suc i)) w else populated_below E node i w)"

text \<open>Lines 2640 to 2664: whether global reclaim passes the zone over. Lines 2672 to 2679: the soft limits.\<close>

definition pass_over :: "renv \<Rightarrow> int \<Rightarrow> int \<Rightarrow> int \<Rightarrow> bool sact" where
  "pass_over E requested zone idx w =
     bnd (kask (Nd (Cpuset_zone_allowed zone)) w) (\<lambda>allowed w.
     if \<not> allowed then ret True w
     else
       bnd (andalso (priority (sc w) \<noteq> DEF_PRIORITY) (\<lambda>w.
              bnd (zone_reclaimable zone w) (\<lambda>r w. ret (\<not> r) w)) w) (\<lambda>tired w.
       if tired then ret True w
       else
         bnd (andalso (config_compaction E \<and> PAGE_ALLOC_COSTLY_ORDER < order (sc w) \<and> idx \<le> requested)
                (zone_compaction_ready E zone (order (sc w))) w) (\<lambda>ready w.
         if ready then ret True (w\<lparr>sc := (sc w)\<lparr>compaction_ready := True\<rparr>\<rparr>)
         else ret False w)))"

definition soft_limit_reclaim :: "renv \<Rightarrow> int \<Rightarrow> bool sact" where
  "soft_limit_reclaim E zone w =
     bnd (kcall (Nd (Soft_limit_reclaim zone (order (sc w)) (gfp_mask (sc w)))) w) (\<lambda>r w.
     let (reclaimed, scanned) = soft_answer E r in
     ret (reclaimed \<noteq> 0) (w\<lparr>sc := (sc w)\<lparr>nr_reclaimed := nr_reclaimed (sc w) + reclaimed,
                                        nr_scanned := nr_scanned (sc w) + scanned\<rparr>\<rparr>))"

definition shrink_one_zone :: "nat \<Rightarrow> renv \<Rightarrow> int \<Rightarrow> int \<times> int \<Rightarrow> bool \<Rightarrow> bool sact" where
  "shrink_one_zone fuel E requested = (\<lambda>(zone, idx) reclaimable w.
     bnd (kask (Nd (Populated_zone zone)) w) (\<lambda>populated w.
     if \<not> populated then ret reclaimable w
     else
       bnd (populated_below E (zone_node E zone) (nat requested) w) (\<lambda>classzone_idx w.
       bnd (andalso (global_reclaim (sc w)) (pass_over E requested zone idx) w) (\<lambda>pass w.
       if pass then ret reclaimable w
       else
         bnd (andalso (global_reclaim (sc w)) (soft_limit_reclaim E zone) w) (\<lambda>soft w.
         bnd (shrink_zone fuel E zone (zone_idx E zone = classzone_idx) w) (\<lambda>r w.
         let reclaimable = (reclaimable \<or> soft \<or> r) in
         bnd (andalso (global_reclaim (sc w) \<and> \<not> reclaimable) (zone_reclaimable zone) w) (\<lambda>r w.
         ret (reclaimable \<or> r) w)))))))"

fun shrink_each_zone :: "nat \<Rightarrow> renv \<Rightarrow> int \<Rightarrow> (int \<times> int) list \<Rightarrow> bool \<Rightarrow> bool sact" where
  "shrink_each_zone fuel E requested [] reclaimable w = ret reclaimable w"
| "shrink_each_zone fuel E requested (z # zs) reclaimable w =
     bnd (shrink_one_zone fuel E requested z reclaimable w) (\<lambda>reclaimable w.
     shrink_each_zone fuel E requested zs reclaimable w)"

definition shrink_zones :: "nat \<Rightarrow> renv \<Rightarrow> int \<Rightarrow> bool sact" where
  "shrink_zones fuel E zonelist w =
     (let requested_highidx = gfp_zone E (gfp_mask (sc w)); orig_mask = gfp_mask (sc w);
          w = (if buffer_heads_over_limit E then w\<lparr>sc := (sc w)\<lparr>gfp_mask := insert GFP_HIGHMEM (gfp_mask (sc w))\<rparr>\<rparr> else w) in
      bnd (shrink_each_zone fuel E requested_highidx
             (zonelist_zones E zonelist (gfp_zone E (gfp_mask (sc w))) (nodemask (sc w))) False w) (\<lambda>reclaimable w.
      ret reclaimable (w\<lparr>sc := (sc w)\<lparr>gfp_mask := orig_mask\<rparr>\<rparr>)))"

section \<open>The priorities\<close>

text \<open>
  Lines 2729 to 2762, one priority; the state is the number of pages scanned so far and whether the
  last round found a zone that can be reclaimed from.
\<close>

definition priority_round :: "nat \<Rightarrow> renv \<Rightarrow> int \<Rightarrow> u64 \<times> bool \<Rightarrow> (bool \<times> u64 \<times> bool) sact" where
  "priority_round fuel E zonelist = (\<lambda>(total_scanned, _) w.
     bnd (kdo (Nd (Vmpressure_prio (gfp_mask (sc w)) (target_mem_cgroup (sc w)) (priority (sc w)))) w) (\<lambda>_ w.
     bnd (shrink_zones fuel E zonelist (w\<lparr>sc := (sc w)\<lparr>nr_scanned := 0\<rparr>\<rparr>)) (\<lambda>zones_reclaimable w.
     let total_scanned = total_scanned + nr_scanned (sc w) in
     if nr_to_reclaim (sc w) \<le> nr_reclaimed (sc w) then ret (False, (total_scanned, zones_reclaimable)) w
     else if compaction_ready (sc w) then ret (False, (total_scanned, zones_reclaimable)) w
     else
       let w = (if priority (sc w) < DEF_PRIORITY - 2 then w\<lparr>sc := (sc w)\<lparr>may_writepage := True\<rparr>\<rparr> else w);
           writeback_threshold = nr_to_reclaim (sc w) + nr_to_reclaim (sc w) div 2 in
       bnd (cond (writeback_threshold < total_scanned) (\<lambda>w.
              bnd (kdo (Tk (Wakeup_flusher (if laptop_mode E then 0 else total_scanned))) w) (\<lambda>_ w.
              ret () (w\<lparr>sc := (sc w)\<lparr>may_writepage := True\<rparr>\<rparr>))) w) (\<lambda>_ w.
       let w = w\<lparr>sc := (sc w)\<lparr>priority := priority (sc w) - 1\<rparr>\<rparr> in
       ret (0 \<le> priority (sc w), (total_scanned, zones_reclaimable)) w))))"

text \<open>From the label \<open>retry\<close> on: whether to go there again, and the pages scanned and the result.\<close>

definition free_round ::
  "nat \<Rightarrow> renv \<Rightarrow> int \<Rightarrow> int \<Rightarrow> u64 \<times> u64 \<Rightarrow> (bool \<times> u64 \<times> u64) sact" where
  "free_round fuel E zonelist initial_priority = (\<lambda>(total_scanned, _) w.
     bnd (kdo (Tk Delayacct_start) w) (\<lambda>_ w.
     bnd (cond (global_reclaim (sc w)) (kdo (Zn (Count_vm_events ALLOCSTALL 1))) w) (\<lambda>_ w.
     bnd (do_while (Suc (nat (priority (sc w)))) (priority_round fuel E zonelist) (total_scanned, False) w)
       (\<lambda>(total_scanned, zones_reclaimable) w.
     bnd (kdo (Tk Delayacct_end) w) (\<lambda>_ w.
     if nr_reclaimed (sc w) \<noteq> 0 then ret (False, (total_scanned, nr_reclaimed (sc w))) w
     else if compaction_ready (sc w) then ret (False, (total_scanned, 1)) w
     else if \<not> may_thrash (sc w)
     then ret (True, (total_scanned, 0)) (w\<lparr>sc := (sc w)\<lparr>priority := initial_priority, may_thrash := True\<rparr>\<rparr>)
     else ret (False, (total_scanned, if zones_reclaimable then 1 else 0)) w)))))"

definition do_try_to_free_pages :: "nat \<Rightarrow> renv \<Rightarrow> int \<Rightarrow> u64 sact" where
  "do_try_to_free_pages fuel E zonelist w =
     bnd (do_while 2 (free_round fuel E zonelist (priority (sc w))) (0, 0) w) (\<lambda>(_, result) w. ret result w)"

end
