(* ===== verification/DirectReclaim.thy ===== *)
theory DirectReclaim
  imports ReclaimZones
begin

text \<open>
  The entries to direct reclaim, \<open>vmscan.c\<close> lines 2787 to 3028 and 3633 to 3661: throttling, \<open>try_to_free_pages\<close>, hibernation, and
  reclaim for a memory group. A function with a control structure of its own installs it in the world
  and puts back the one it found. Trace points and lock annotations are left out.
\<close>

section \<open>Throttling\<close>

text \<open>Lines 2795 to 2805: the reserve and the free pages of the zones up to \<open>ZONE_NORMAL\<close>.\<close>

fun reserve_each :: "renv \<Rightarrow> int \<Rightarrow> int list \<Rightarrow> u64 \<Rightarrow> u64 \<Rightarrow> (u64 \<times> u64) sact" where
  "reserve_each E node [] reserve free w = ret (reserve, free) w"
| "reserve_each E node (i # js) reserve free w =
     bnd (kask (Nd (Populated_zone (zone_at E node i))) w) (\<lambda>populated w.
     bnd (orelse (\<not> populated) (\<lambda>w.
            bnd (zone_reclaimable_pages (zone_at E node i) w) (\<lambda>n w. ret (n = 0) w)) w) (\<lambda>skip w.
     if skip then reserve_each E node js reserve free w
     else
       bnd (kcall (Nd (Min_wmark_pages (zone_at E node i))) w) (\<lambda>mark w.
       bnd (zone_state (zone_at E node i) NR_FREE_PAGES w) (\<lambda>n w.
       reserve_each E node js (reserve + word_of_int mark) (free + n) w))))"

definition pfmemalloc_watermark_ok :: "renv \<Rightarrow> int \<Rightarrow> bool sact" where
  "pfmemalloc_watermark_ok E node w =
     bnd (reserve_each E node [0..ZONE_NORMAL E] 0 0 w) (\<lambda>(reserve, free) w.
     if reserve = 0 then ret True w
     else
       let wmark_ok = (reserve div 2 < free) in
       bnd (andalso (\<not> wmark_ok) (kask (Nd (Kswapd_waiting node))) w) (\<lambda>wake w.
       bnd (cond wake (\<lambda>w.
              bnd (kcall (Nd (Get_classzone_idx node)) w) (\<lambda>i w.
              bnd (kdo (Nd (Set_classzone_idx node (min i (ZONE_NORMAL E)))) w) (\<lambda>_ w.
              kdo (Nd (Wake_kswapd node)) w))) w) (\<lambda>_ w.
       ret wmark_ok w)))"

text \<open>
  The macros \<open>wait_event_interruptible_timeout\<close> and \<open>wait_event_killable\<close>: the condition is
  evaluated again after every sleep, until it holds or the sleep was the last one (time is up, or a signal came).
\<close>

definition wait_watermark :: "nat \<Rightarrow> renv \<Rightarrow> int \<Rightarrow> bool \<Rightarrow> unit sact" where
  "wait_watermark fuel E node timeout w =
     do_while fuel (\<lambda>_ w.
       bnd (pfmemalloc_watermark_ok E node w) (\<lambda>ok w.
       if ok then ret (False, ()) w
       else bnd (kask (Nd (Sleep_throttled node timeout)) w) (\<lambda>again w. ret (again, ()) w))) () w"

text \<open>
  Lines 2868 to 2882: the node of the first usable zone. The result is \<open>None\<close> when its reserve is in
  order (\<open>goto out\<close>), and \<open>Some None\<close> when there is no such zone.
\<close>

fun throttle_node :: "renv \<Rightarrow> (int \<times> int) list \<Rightarrow> int option option sact" where
  "throttle_node E [] w = ret (Some None) w"
| "throttle_node E ((zone, idx) # zs) w =
     (if ZONE_NORMAL E < zone_idx E zone then throttle_node E zs w
      else
        bnd (pfmemalloc_watermark_ok E (zone_node E zone) w) (\<lambda>ok w.
        ret (if ok then None else Some (Some (zone_node E zone))) w))"

definition throttle_direct_reclaim :: "nat \<Rightarrow> renv \<Rightarrow> gfp_flag set \<Rightarrow> int \<Rightarrow> int \<Rightarrow> bool sact" where
  "throttle_direct_reclaim fuel E flags zonelist nodes w =
     bnd (kask (Tk Is_kthread) w) (\<lambda>kthread w.
     if kthread then ret False w
     else
       bnd (kask (Sy Fatal_signal_pending) w) (\<lambda>dying w.
       if dying then ret False w
       else
         bnd (throttle_node E (zonelist_zones E zonelist (gfp_zone E flags) nodes) w) (\<lambda>n w.
         case n of
           None \<Rightarrow> ret False w
         | Some None \<Rightarrow> ret False w
         | Some (Some node) \<Rightarrow>
             bnd (kdo (Zn (Count_vm_events PGSCAN_DIRECT_THROTTLE 1)) w) (\<lambda>_ w.
             bnd (wait_watermark fuel E node (GFP_FS \<notin> flags) w) (\<lambda>_ w.
             kask (Sy Fatal_signal_pending) w)))))"

section \<open>The entries\<close>

text \<open>The flags that \<open>memalloc_noio_flags\<close> takes away from a task that must not do I/O.\<close>

definition noio_flags :: "gfp_flag set \<Rightarrow> gfp_flag set sact" where
  "noio_flags flags w = bnd (kask (Tk Memalloc_noio) w) (\<lambda>noio w. ret (if noio then flags - {GFP_IO, GFP_FS} else flags) w)"

definition GFP_KERNEL :: "gfp_flag set" where
  "GFP_KERNEL = {GFP_WAIT, GFP_IO, GFP_FS}"

definition GFP_HIGHUSER_MOVABLE :: "gfp_flag set" where
  "GFP_HIGHUSER_MOVABLE = {GFP_WAIT, GFP_IO, GFP_FS, GFP_HARDWALL, GFP_HIGHMEM, GFP_MOVABLE}"

text \<open>The fields that an initialiser does not name are zero.\<close>

definition control0 :: scan_control where
  "control0 = \<lparr>nr_to_reclaim = 0, gfp_mask = {}, order = 0, target_mem_cgroup = 0, priority = 0, may_writepage = False,
     may_unmap = False, may_swap = False, may_thrash = False, hibernation_mode = False, compaction_ready = False,
     nr_scanned = 0, nr_reclaimed = 0, nodemask = 0\<rparr>"

text \<open>A call with a control structure of its own.\<close>

definition with_control :: "scan_control \<Rightarrow> 'a sact \<Rightarrow> 'a sact" where
  "with_control c m w = (let outer = sc w in bnd (m (w\<lparr>sc := c\<rparr>)) (\<lambda>a w. ret a (w\<lparr>sc := outer\<rparr>)))"

definition try_to_free_pages :: "nat \<Rightarrow> renv \<Rightarrow> int \<Rightarrow> int \<Rightarrow> gfp_flag set \<Rightarrow> int \<Rightarrow> u64 sact" where
  "try_to_free_pages fuel E zonelist ord flags nodes w =
     bnd (noio_flags flags w) (\<lambda>flags w.
     bnd (throttle_direct_reclaim fuel E flags zonelist nodes w) (\<lambda>dying w.
     if dying then ret 1 w
     else
       with_control (control0\<lparr>nr_to_reclaim := SWAP_CLUSTER_MAX, gfp_mask := flags, order := ord, nodemask := nodes,
           priority := DEF_PRIORITY, may_writepage := \<not> laptop_mode E, may_unmap := True, may_swap := True\<rparr>)
         (do_try_to_free_pages fuel E zonelist) w))"

text \<open>The result is the number of pages scanned and reclaimed.\<close>

definition mem_cgroup_shrink_node_zone :: "nat \<Rightarrow> renv \<Rightarrow> int \<Rightarrow> gfp_flag set \<Rightarrow> bool \<Rightarrow> int \<Rightarrow> (u64 \<times> u64) sact" where
  "mem_cgroup_shrink_node_zone fuel E memcg flags noswap zone w =
     bnd (kcall (Nd (Mem_cgroup_zone_lruvec zone memcg)) w) (\<lambda>lruvec w.
     bnd (kcall (Zn (Mem_cgroup_swappiness memcg)) w) (\<lambda>swappiness w.
     with_control (control0\<lparr>nr_to_reclaim := SWAP_CLUSTER_MAX, target_mem_cgroup := memcg, may_writepage := \<not> laptop_mode E,
         may_unmap := True, may_swap := \<not> noswap,
         gfp_mask := flags \<inter> GFP_RECLAIM_MASK E \<union> (GFP_HIGHUSER_MOVABLE - GFP_RECLAIM_MASK E)\<rparr>)
       (\<lambda>w. bnd (shrink_lruvec fuel E lruvec (word_of_int swappiness) w) (\<lambda>_ w.
            ret (nr_scanned (sc w), nr_reclaimed (sc w)) w)) w))"

definition try_to_free_mem_cgroup_pages :: "nat \<Rightarrow> renv \<Rightarrow> int \<Rightarrow> u64 \<Rightarrow> gfp_flag set \<Rightarrow> bool \<Rightarrow> u64 sact" where
  "try_to_free_mem_cgroup_pages fuel E memcg nr_pages flags swap w =
     bnd (kcall (Nd (Select_victim_node memcg)) w) (\<lambda>nid w.
     bnd (kdo (Tk Set_memalloc) w) (\<lambda>_ w.
     bnd (with_control (control0\<lparr>nr_to_reclaim := max nr_pages SWAP_CLUSTER_MAX,
           gfp_mask := flags \<inter> GFP_RECLAIM_MASK E \<union> (GFP_HIGHUSER_MOVABLE - GFP_RECLAIM_MASK E), target_mem_cgroup := memcg,
           priority := DEF_PRIORITY, may_writepage := \<not> laptop_mode E, may_unmap := True, may_swap := swap\<rparr>)
         (do_try_to_free_pages fuel E (node_zonelist E nid {})) w) (\<lambda>reclaimed w.
     bnd (kdo (Tk Clear_memalloc) w) (\<lambda>_ w. ret reclaimed w))))"

definition shrink_all_memory :: "nat \<Rightarrow> renv \<Rightarrow> u64 \<Rightarrow> u64 sact" where
  "shrink_all_memory fuel E n w =
     bnd (kcall (Nd Numa_node_id) w) (\<lambda>nid w.
     bnd (kdo (Tk Set_memalloc) w) (\<lambda>_ w.
     bnd (kdo (Tk Set_reclaim_state) w) (\<lambda>_ w.
     bnd (with_control (control0\<lparr>nr_to_reclaim := n, gfp_mask := GFP_HIGHUSER_MOVABLE, priority := DEF_PRIORITY,
           may_writepage := True, may_unmap := True, may_swap := True, hibernation_mode := True\<rparr>)
         (do_try_to_free_pages fuel E (node_zonelist E nid GFP_HIGHUSER_MOVABLE)) w) (\<lambda>reclaimed w.
     bnd (kdo (Tk Drop_reclaim_state) w) (\<lambda>_ w.
     bnd (kdo (Tk Clear_memalloc) w) (\<lambda>_ w. ret reclaimed w))))))"

end
