(* ===== verification/Kswapd.thy ===== *)
theory Kswapd
  imports DirectReclaim
begin

text \<open>
  The page-out daemon of a node, \<open>vmscan.c\<close> lines 3030 to 3622 and 3664 to 3736. What a node shares with other
  tasks (the order and the zone that its \<open>kswapd\<close> is asked for, the two wait queues) is read and
  written by calls, so that anything may happen to it in between.
\<close>

section \<open>Whether a node is balanced\<close>

definition age_active_anon :: "nat \<Rightarrow> renv \<Rightarrow> int \<Rightarrow> unit sact" where
  "age_active_anon fuel E zone w =
     (if total_swap_pages E = 0 then ret () w
      else
        bnd (kcall (Sh (Mem_cgroup_iter 0 0)) w) (\<lambda>memcg w.
        bnd (do_while fuel (\<lambda>memcg w.
               bnd (kcall (Nd (Mem_cgroup_zone_lruvec zone memcg)) w) (\<lambda>lruvec w.
               bnd (inactive_anon_is_low E lruvec w) (\<lambda>low w.
               bnd (cond low (shrink_active_list fuel E SWAP_CLUSTER_MAX lruvec LRU_ACTIVE_ANON) w) (\<lambda>_ w.
               bnd (kcall (Sh (Mem_cgroup_iter 0 memcg)) w) (\<lambda>next w.
               ret (next \<noteq> 0, next) w))))) memcg w) (\<lambda>_ w.
        ret () w)))"

definition zone_balanced :: "renv \<Rightarrow> int \<Rightarrow> int \<Rightarrow> u64 \<Rightarrow> int \<Rightarrow> bool sact" where
  "zone_balanced E zone ord gap classzone_idx w =
     bnd (kcall (Zn (High_wmark_pages zone)) w) (\<lambda>high w.
     bnd (kask (Nd (Zone_watermark_ok_safe zone ord (word_of_int high + gap) classzone_idx)) w) (\<lambda>ok w.
     if \<not> ok then ret False w
     else if config_compaction E \<and> ord \<noteq> 0 then
       bnd (kcall (Nd (Compaction_suitable zone ord classzone_idx)) w) (\<lambda>r w.
       ret (compact_answer E r \<noteq> COMPACT_SKIPPED) w)
     else ret True w))"

text \<open>Lines 3090 to 3113: managed and balanced pages; \<open>None\<close> for the early \<open>return false\<close>.\<close>

fun balanced_each :: "renv \<Rightarrow> int \<Rightarrow> int \<Rightarrow> int list \<Rightarrow> u64 \<Rightarrow> u64 \<Rightarrow> (u64 \<times> u64) option sact" where
  "balanced_each E node ord [] managed balanced w = ret (Some (managed, balanced)) w"
| "balanced_each E node ord (i # js) managed balanced w =
     (let zone = zone_at E node i in
      bnd (kask (Nd (Populated_zone zone)) w) (\<lambda>populated w.
      if \<not> populated then balanced_each E node ord js managed balanced w
      else
        bnd (kcall (Zn (Managed_pages zone)) w) (\<lambda>m w.
        let managed = managed + word_of_int m in
        bnd (zone_reclaimable zone w) (\<lambda>reclaimable w.
        if \<not> reclaimable then
          bnd (kcall (Zn (Managed_pages zone)) w) (\<lambda>m w.
          balanced_each E node ord js managed (balanced + word_of_int m) w)
        else
          bnd (zone_balanced E zone ord 0 i w) (\<lambda>ok w.
          if ok then
            bnd (kcall (Zn (Managed_pages zone)) w) (\<lambda>m w.
            balanced_each E node ord js managed (balanced + word_of_int m) w)
          else if ord = 0 then ret None w
          else balanced_each E node ord js managed balanced w)))))"

definition pgdat_balanced :: "renv \<Rightarrow> int \<Rightarrow> int \<Rightarrow> int \<Rightarrow> bool sact" where
  "pgdat_balanced E node ord classzone_idx w =
     bnd (balanced_each E node ord [0..classzone_idx] 0 0 w) (\<lambda>r w.
     case r of
       None \<Rightarrow> ret False w
     | Some (managed, balanced) \<Rightarrow> ret (if ord \<noteq> 0 then drop_bit 2 managed \<le> balanced else True) w)"

definition prepare_kswapd_sleep :: "renv \<Rightarrow> int \<Rightarrow> int \<Rightarrow> int \<Rightarrow> int \<Rightarrow> bool sact" where
  "prepare_kswapd_sleep E node ord remaining classzone_idx w =
     (if remaining \<noteq> 0 then ret False w
      else
        bnd (kask (Nd (Throttled_waiting node)) w) (\<lambda>waiting w.
        bnd (cond waiting (kdo (Nd (Wake_all_throttled node))) w) (\<lambda>_ w.
        pgdat_balanced E node ord classzone_idx w)))"

section \<open>Balancing a node\<close>

text \<open>The result is whether enough was scanned, and the number of pages attempted so far.\<close>

definition kswapd_shrink_zone :: "nat \<Rightarrow> renv \<Rightarrow> int \<Rightarrow> int \<Rightarrow> u64 \<Rightarrow> (bool \<times> u64) sact" where
  "kswapd_shrink_zone fuel E zone classzone_idx nr_attempted w =
     bnd (kcall (Zn (High_wmark_pages zone)) w) (\<lambda>high w.
     let w = w\<lparr>sc := (sc w)\<lparr>nr_to_reclaim := max SWAP_CLUSTER_MAX (word_of_int high)\<rparr>\<rparr> in
     bnd (andalso (config_compaction E \<and> order (sc w) \<noteq> 0) (\<lambda>w.
            bnd (kcall (Nd (Compaction_suitable zone (order (sc w)) classzone_idx)) w) (\<lambda>r w.
            ret (compact_answer E r \<noteq> COMPACT_SKIPPED) w)) w) (\<lambda>compact w.
     let testorder = (if compact then 0 else order (sc w)) in
     bnd (balance_gap zone w) (\<lambda>gap w.
     bnd (andalso (buffer_heads_over_limit E) (kask (Nd (Is_highmem zone))) w) (\<lambda>lowmem_pressure w.
     bnd (andalso (\<not> lowmem_pressure) (zone_balanced E zone testorder gap classzone_idx) w) (\<lambda>balanced w.
     if balanced then ret (True, nr_attempted) w
     else
       bnd (shrink_zone fuel E zone (zone_idx E zone = classzone_idx) w) (\<lambda>_ w.
       let nr_attempted = nr_attempted + nr_to_reclaim (sc w) in
       bnd (kdo (Zn (Zone_clear zone ZONE_WRITEBACK)) w) (\<lambda>_ w.
       bnd (zone_reclaimable zone w) (\<lambda>r w.
       bnd (andalso r (zone_balanced E zone testorder 0 classzone_idx) w) (\<lambda>calm w.
       bnd (cond calm (\<lambda>w.
              bnd (kdo (Zn (Zone_clear zone ZONE_CONGESTED)) w) (\<lambda>_ w.
              kdo (Zn (Zone_clear zone ZONE_DIRTY)) w)) w) (\<lambda>_ w.
       ret (nr_to_reclaim (sc w) \<le> nr_scanned (sc w), nr_attempted) w))))))))))"

text \<open>Lines 3274 to 3312: the highest zone that needs a scan, \<open>None\<close> if there is none.\<close>

fun find_end_zone :: "nat \<Rightarrow> renv \<Rightarrow> int \<Rightarrow> int \<Rightarrow> int list \<Rightarrow> int option sact" where
  "find_end_zone fuel E node ord [] w = ret None w"
| "find_end_zone fuel E node ord (i # js) w =
     (let zone = zone_at E node i in
      bnd (kask (Nd (Populated_zone zone)) w) (\<lambda>populated w.
      if \<not> populated then find_end_zone fuel E node ord js w
      else
        bnd (andalso (priority (sc w) \<noteq> DEF_PRIORITY) (\<lambda>w.
               bnd (zone_reclaimable zone w) (\<lambda>r w. ret (\<not> r) w)) w) (\<lambda>tired w.
        if tired then find_end_zone fuel E node ord js w
        else
          bnd (age_active_anon fuel E zone w) (\<lambda>_ w.
          bnd (andalso (buffer_heads_over_limit E) (kask (Nd (Is_highmem zone))) w) (\<lambda>lowmem w.
          if lowmem then ret (Some i) w
          else
            bnd (zone_balanced E zone ord 0 0 w) (\<lambda>balanced w.
            if \<not> balanced then ret (Some i) w
            else
              bnd (kdo (Zn (Zone_clear zone ZONE_CONGESTED)) w) (\<lambda>_ w.
              bnd (kdo (Zn (Zone_clear zone ZONE_DIRTY)) w) (\<lambda>_ w.
              find_end_zone fuel E node ord js w))))))))"

text \<open>Lines 3317 to 3333.\<close>

fun needs_compaction :: "renv \<Rightarrow> int \<Rightarrow> int \<Rightarrow> int \<Rightarrow> int list \<Rightarrow> bool \<Rightarrow> bool sact" where
  "needs_compaction E node ord classzone_idx [] needs w = ret needs w"
| "needs_compaction E node ord classzone_idx (i # js) needs w =
     (let zone = zone_at E node i in
      bnd (kask (Nd (Populated_zone zone)) w) (\<lambda>populated w.
      if \<not> populated then needs_compaction E node ord classzone_idx js needs w
      else
        bnd (andalso needs (\<lambda>w.
               bnd (kcall (Zn (Low_wmark_pages zone)) w) (\<lambda>low w.
               kask (Nd (Zone_watermark_ok zone ord (word_of_int low) classzone_idx)) w)) w) (\<lambda>met w.
        needs_compaction E node ord classzone_idx js (needs \<and> \<not> met) w)))"

text \<open>Lines 3351 to 3381: the zones are scanned; the state is \<open>raise_priority\<close> and \<open>nr_attempted\<close>.\<close>

fun kswapd_each :: "nat \<Rightarrow> renv \<Rightarrow> int \<Rightarrow> int \<Rightarrow> int \<Rightarrow> int list \<Rightarrow> bool \<times> u64 \<Rightarrow> (bool \<times> u64) sact" where
  "kswapd_each fuel E node ord end_zone [] s w = ret s w"
| "kswapd_each fuel E node ord end_zone (i # js) s w =
     (let zone = zone_at E node i in
      bnd (kask (Nd (Populated_zone zone)) w) (\<lambda>populated w.
      if \<not> populated then kswapd_each fuel E node ord end_zone js s w
      else
        bnd (andalso (priority (sc w) \<noteq> DEF_PRIORITY) (\<lambda>w.
               bnd (zone_reclaimable zone w) (\<lambda>r w. ret (\<not> r) w)) w) (\<lambda>tired w.
        if tired then kswapd_each fuel E node ord end_zone js s w
        else
          bnd (kcall (Nd (Soft_limit_reclaim zone ord (gfp_mask (sc w)))) w) (\<lambda>r w.
          let w = w\<lparr>sc := (sc w)\<lparr>nr_scanned := 0, nr_reclaimed := nr_reclaimed (sc w) + fst (soft_answer E r)\<rparr>\<rparr> in
          bnd (kswapd_shrink_zone fuel E zone end_zone (snd s) w) (\<lambda>(enough, nr_attempted) w.
          kswapd_each fuel E node ord end_zone js (fst s \<and> \<not> enough, nr_attempted) w)))))"

text \<open>One round of the loop of \<open>balance_pgdat\<close> (lines 3263 to 3421); the state is the order and \<open>end_zone\<close>.\<close>

definition balance_round ::
  "nat \<Rightarrow> renv \<Rightarrow> int \<Rightarrow> int \<Rightarrow> int \<times> int \<Rightarrow> (bool \<times> int \<times> int) sact" where
  "balance_round fuel E node classzone_idx = (\<lambda>(ord, end_zone) w.
     bnd (find_end_zone fuel E node ord (rev [0..nr_zones E node - 1]) (w\<lparr>sc := (sc w)\<lparr>nr_reclaimed := 0\<rparr>\<rparr>)) (\<lambda>r w.
     case r of
       None \<Rightarrow> ret (False, (ord, end_zone)) w
     | Some end_zone \<Rightarrow>
         bnd (needs_compaction E node ord classzone_idx [0..end_zone] (0 < ord) w) (\<lambda>needs w.
         let w = (if priority (sc w) < DEF_PRIORITY - 2 then w\<lparr>sc := (sc w)\<lparr>may_writepage := True\<rparr>\<rparr> else w) in
         bnd (kswapd_each fuel E node ord end_zone [0..end_zone] (True, 0) w) (\<lambda>(raise_priority, nr_attempted) w.
         bnd (kask (Nd (Throttled_waiting node)) w) (\<lambda>waiting w.
         bnd (andalso waiting (pfmemalloc_watermark_ok E node) w) (\<lambda>wake w.
         bnd (cond wake (kdo (Nd (Wake_all_throttled node))) w) (\<lambda>_ w.
         let enough = (ord \<noteq> 0 \<and> push_bit (nat ord) 2 \<le> nr_reclaimed (sc w));
             ord = (if enough then 0 else ord);
             w = (if enough then w\<lparr>sc := (sc w)\<lparr>order := 0\<rparr>\<rparr> else w) in
         bnd (kask (Tk Try_to_freeze) w) (\<lambda>frozen w.
         bnd (orelse frozen (kask (Tk Kthread_should_stop)) w) (\<lambda>stop w.
         if stop then ret (False, (ord, end_zone)) w
         else
           bnd (cond (needs \<and> nr_attempted < nr_reclaimed (sc w)) (kdo (Nd (Compact_pgdat node ord))) w) (\<lambda>_ w.
           let w = (if raise_priority \<or> nr_reclaimed (sc w) = 0
                    then w\<lparr>sc := (sc w)\<lparr>priority := priority (sc w) - 1\<rparr>\<rparr> else w) in
           bnd (andalso (1 \<le> priority (sc w)) (\<lambda>w.
                  bnd (pgdat_balanced E node ord classzone_idx w) (\<lambda>b w. ret (\<not> b) w)) w) (\<lambda>again w.
           ret (again, (ord, end_zone)) w)))))))))))"

text \<open>The result is the order, and the index that the caller's \<open>classzone_idx\<close> is set to.\<close>

definition balance_pgdat :: "nat \<Rightarrow> renv \<Rightarrow> int \<Rightarrow> int \<Rightarrow> int \<Rightarrow> (int \<times> int) sact" where
  "balance_pgdat fuel E node ord classzone_idx w =
     with_control (control0\<lparr>gfp_mask := GFP_KERNEL, order := ord, priority := DEF_PRIORITY,
         may_writepage := \<not> laptop_mode E, may_unmap := True, may_swap := True\<rparr>)
       (\<lambda>w. bnd (kdo (Zn (Count_vm_events PAGEOUTRUN 1)) w) (\<lambda>_ w.
            do_while fuel (balance_round fuel E node classzone_idx) (ord, 0) w)) w"

section \<open>The daemon\<close>

definition kswapd_try_to_sleep :: "renv \<Rightarrow> int \<Rightarrow> int \<Rightarrow> int \<Rightarrow> unit sact" where
  "kswapd_try_to_sleep E node ord classzone_idx w =
     bnd (kask (Tk Freezing) w) (\<lambda>freezing w.
     bnd (orelse freezing (kask (Tk Kthread_should_stop)) w) (\<lambda>leave w.
     if leave then ret () w
     else
       bnd (kdo (Tk (Prepare_to_wait node)) w) (\<lambda>_ w.
       bnd (prepare_kswapd_sleep E node ord 0 classzone_idx w) (\<lambda>ready w.
       bnd (if ready then
              bnd (kcall (Tk Schedule_timeout) w) (\<lambda>remaining w.
              bnd (kdo (Tk (Finish_wait node)) w) (\<lambda>_ w.
              bnd (kdo (Tk (Prepare_to_wait node)) w) (\<lambda>_ w. ret remaining w)))
            else ret 0 w) (\<lambda>remaining w.
       bnd (prepare_kswapd_sleep E node ord remaining classzone_idx w) (\<lambda>ready w.
       bnd (if ready then
              bnd (kdo (Nd (Set_percpu_threshold node False)) w) (\<lambda>_ w.
              bnd (kdo (Nd (Reset_isolation_suitable node)) w) (\<lambda>_ w.
              bnd (kask (Tk Kthread_should_stop) w) (\<lambda>stop w.
              bnd (cond (\<not> stop) (kdo (Tk Schedule)) w) (\<lambda>_ w.
              kdo (Nd (Set_percpu_threshold node True)) w))))
            else kdo (Zn (Count_vm_events
                   (if remaining \<noteq> 0 then KSWAPD_LOW_WMARK_HIT_QUICKLY else KSWAPD_HIGH_WMARK_HIT_QUICKLY) 1)) w) (\<lambda>_ w.
       kdo (Tk (Finish_wait node)) w)))))))"

text \<open>
  The variables of \<open>kswapd\<close>: \<open>order\<close> and \<open>new_order\<close> are longs, \<open>balanced_order\<close> is an unsigned int; an
  order is passed on as an int.
\<close>

record kswapd_vars =
  kw_order :: u64
  kw_new_order :: u64
  kw_balanced_order :: u32
  kw_classzone :: int
  kw_new_classzone :: int
  kw_balanced_classzone :: int

definition int_of_long :: "u64 \<Rightarrow> int" where
  "int_of_long x = sint (ucast x :: u32)"

text \<open>Lines 3551 to 3554, and 3567 to 3572: what the node asks for is read and reset.\<close>

definition take_request :: "renv \<Rightarrow> int \<Rightarrow> (u64 \<times> int) sact" where
  "take_request E node w =
     bnd (kcall (Nd (Get_max_order node)) w) (\<lambda>ord w.
     bnd (kcall (Nd (Get_classzone_idx node)) w) (\<lambda>i w.
     bnd (kdo (Nd (Set_max_order node 0)) w) (\<lambda>_ w.
     bnd (kdo (Nd (Set_classzone_idx node (nr_zones E node - 1))) w) (\<lambda>_ w.
     ret (word_of_int ord, i) w))))"

definition kswapd_request :: "renv \<Rightarrow> int \<Rightarrow> kswapd_vars \<Rightarrow> kswapd_vars sact" where
  "kswapd_request E node s w =
     bnd (if kw_new_classzone s \<le> kw_balanced_classzone s \<and> ucast (kw_balanced_order s) = kw_new_order s
          then bnd (take_request E node w) (\<lambda>(ord, i) w. ret (s\<lparr>kw_new_order := ord, kw_new_classzone := i\<rparr>) w)
          else ret s w) (\<lambda>s w.
     if kw_order s < kw_new_order s \<or> kw_new_classzone s < kw_classzone s
     then ret (s\<lparr>kw_order := kw_new_order s, kw_classzone := kw_new_classzone s\<rparr>) w
     else
       bnd (kswapd_try_to_sleep E node (int_of_long (ucast (kw_balanced_order s))) (kw_balanced_classzone s) w) (\<lambda>_ w.
       bnd (take_request E node w) (\<lambda>(ord, i) w.
       ret (s\<lparr>kw_order := ord, kw_classzone := i, kw_new_order := ord, kw_new_classzone := i\<rparr>) w)))"

definition kswapd_round :: "nat \<Rightarrow> renv \<Rightarrow> int \<Rightarrow> kswapd_vars \<Rightarrow> (bool \<times> kswapd_vars) sact" where
  "kswapd_round fuel E node s w =
     bnd (kswapd_request E node s w) (\<lambda>s w.
     bnd (kask (Tk Try_to_freeze) w) (\<lambda>frozen w.
     bnd (kask (Tk Kthread_should_stop) w) (\<lambda>stop w.
     if stop then ret (False, s) w
     else if frozen then ret (True, s) w
     else
       bnd (balance_pgdat fuel E node (int_of_long (kw_order s)) (kw_classzone s) w) (\<lambda>(ord, i) w.
       ret (True, s\<lparr>kw_balanced_order := word_of_int ord, kw_balanced_classzone := i\<rparr>) w))))"

definition kswapd :: "nat \<Rightarrow> renv \<Rightarrow> int \<Rightarrow> int sact" where
  "kswapd fuel E node w =
     bnd (kask (Nd (Cpumask_empty node)) w) (\<lambda>empty w.
     bnd (cond (\<not> empty) (kdo (Nd (Bind_self node))) w) (\<lambda>_ w.
     bnd (kdo (Tk Set_reclaim_state) w) (\<lambda>_ w.
     bnd (kdo (Tk Set_kswapd_flags) w) (\<lambda>_ w.
     let last = nr_zones E node - 1 in
     bnd (do_while fuel (kswapd_round fuel E node)
            \<lparr>kw_order = 0, kw_new_order = 0, kw_balanced_order = 0, kw_classzone = last, kw_new_classzone = last,
             kw_balanced_classzone = last\<rparr> w) (\<lambda>_ w.
     bnd (kdo (Tk Clear_kswapd_flags) w) (\<lambda>_ w.
     bnd (kdo (Tk Drop_reclaim_state) w) (\<lambda>_ w.
     ret 0 w)))))))"

section \<open>Waking, starting and stopping it\<close>

definition wakeup_kswapd :: "renv \<Rightarrow> int \<Rightarrow> int \<Rightarrow> int \<Rightarrow> unit sact" where
  "wakeup_kswapd E zone ord classzone_idx w =
     bnd (kask (Nd (Populated_zone zone)) w) (\<lambda>populated w.
     if \<not> populated then ret () w
     else
       bnd (kask (Nd (Cpuset_zone_allowed zone)) w) (\<lambda>allowed w.
       if \<not> allowed then ret () w
       else
         let node = zone_node E zone in
         bnd (kcall (Nd (Get_max_order node)) w) (\<lambda>m w.
         bnd (cond (m < ord) (\<lambda>w.
                bnd (kdo (Nd (Set_max_order node ord)) w) (\<lambda>_ w.
                bnd (kcall (Nd (Get_classzone_idx node)) w) (\<lambda>i w.
                kdo (Nd (Set_classzone_idx node (min i classzone_idx))) w))) w) (\<lambda>_ w.
         bnd (kask (Nd (Kswapd_waiting node)) w) (\<lambda>waiting w.
         if \<not> waiting then ret () w
         else
           bnd (zone_balanced E zone ord 0 0 w) (\<lambda>balanced w.
           cond (\<not> balanced) (kdo (Nd (Wake_kswapd node))) w))))))"

definition cpu_callback :: "renv \<Rightarrow> bool \<Rightarrow> unit sact" where
  "cpu_callback E online w =
     cond online (each (\<lambda>nid w.
       bnd (kask (Nd (Any_cpu_online nid)) w) (\<lambda>any w.
       cond any (kdo (Nd (Bind_kswapd nid))) w)) (memory_nodes E)) w"

text \<open>An error of \<open>kthread_run\<close> is a negative number, a task is not.\<close>

definition kswapd_run :: "int \<Rightarrow> int sact" where
  "kswapd_run nid w =
     bnd (kcall (Nd (Get_kswapd nid)) w) (\<lambda>running w.
     if running \<noteq> 0 then ret 0 w
     else
       bnd (kcall (Nd (Kthread_run nid)) w) (\<lambda>t w.
       bnd (kdo (Nd (Set_kswapd nid t)) w) (\<lambda>_ w.
       if t < 0 then
         bnd (kask (Nd System_booting) w) (\<lambda>booting w.
         bnd (BUG_ON booting w) (\<lambda>_ w.
         bnd (kdo (Nd (Set_kswapd nid 0)) w) (\<lambda>_ w. ret t w)))
       else ret 0 w)))"

definition kswapd_stop :: "int \<Rightarrow> unit sact" where
  "kswapd_stop nid w =
     bnd (kcall (Nd (Get_kswapd nid)) w) (\<lambda>k w.
     cond (k \<noteq> 0) (\<lambda>w.
       bnd (kdo (Nd (Kthread_stop k)) w) (\<lambda>_ w. kdo (Nd (Set_kswapd nid 0)) w)) w)"

definition kswapd_init :: "renv \<Rightarrow> int sact" where
  "kswapd_init E w =
     bnd (kdo (Nd Swap_setup) w) (\<lambda>_ w.
     bnd (each (\<lambda>nid w. bnd (kswapd_run nid w) (\<lambda>_ w. ret () w)) (memory_nodes E) w) (\<lambda>_ w.
     bnd (kdo (Nd Hotcpu_notifier) w) (\<lambda>_ w. ret 0 w)))"

end
