(* ===== verification/ZoneReclaim.thy ===== *)
theory ZoneReclaim
  imports DirectReclaim
begin

text \<open>
  Reclaim on the zone of an allocation, before it goes to another node (\<open>vmscan.c\<close> lines 3738 to 3907), and
  the pages of a segment that was unlocked, which move back from the unevictable list (lines 3930 to 3978).
\<close>

section \<open>Zone reclaim\<close>

definition ZONE_RECLAIM_PRIORITY :: int where "ZONE_RECLAIM_PRIORITY = 4"

definition ZONE_RECLAIM_NOSCAN :: int where "ZONE_RECLAIM_NOSCAN = - 2"
definition ZONE_RECLAIM_FULL :: int where "ZONE_RECLAIM_FULL = - 1"

definition zone_unmapped_file_pages :: "int \<Rightarrow> u64 sact" where
  "zone_unmapped_file_pages zone w =
     bnd (zone_state zone NR_FILE_MAPPED w) (\<lambda>file_mapped w.
     bnd (zone_state zone NR_INACTIVE_FILE w) (\<lambda>a w.
     bnd (zone_state zone NR_ACTIVE_FILE w) (\<lambda>b w.
     let file_lru = a + b in
     ret (if file_mapped < file_lru then file_lru - file_mapped else 0) w)))"

definition zone_pagecache_reclaimable :: "renv \<Rightarrow> int \<Rightarrow> u64 sact" where
  "zone_pagecache_reclaimable E zone w =
     bnd (if RECLAIM_UNMAP \<in> zone_reclaim_mode E then zone_state zone NR_FILE_PAGES w
          else zone_unmapped_file_pages zone w) (\<lambda>n w.
     bnd (if RECLAIM_WRITE \<notin> zone_reclaim_mode E then zone_state zone NR_FILE_DIRTY w else ret 0 w) (\<lambda>delta w.
     let delta = (if n < delta then n else delta) in
     ret (n - delta) w))"

text \<open>The loop of lines 3848 to 3850.\<close>

definition reclaim_priorities :: "nat \<Rightarrow> renv \<Rightarrow> int \<Rightarrow> u64 \<Rightarrow> unit sact" where
  "reclaim_priorities fuel E zone nr_pages w =
     do_while (Suc (nat ZONE_RECLAIM_PRIORITY)) (\<lambda>_ w.
       bnd (shrink_zone fuel E zone True w) (\<lambda>_ w.
       if nr_pages \<le> nr_reclaimed (sc w) then ret (False, ()) w
       else
         let w = w\<lparr>sc := (sc w)\<lparr>priority := priority (sc w) - 1\<rparr>\<rparr> in
         ret (0 \<le> priority (sc w), ()) w)) () w"

definition raw_zone_reclaim :: "nat \<Rightarrow> renv \<Rightarrow> int \<Rightarrow> gfp_flag set \<Rightarrow> int \<Rightarrow> bool sact" where
  "raw_zone_reclaim fuel E zone flags ord w =
     (let nr_pages = push_bit (nat ord) 1 in
      bnd (noio_flags flags w) (\<lambda>flags w.
      bnd (kdo (Sy Cond_resched) w) (\<lambda>_ w.
      bnd (kdo (Tk Set_memalloc) w) (\<lambda>_ w.
      bnd (kdo (Tk Set_reclaim_state) w) (\<lambda>_ w.
      with_control (control0\<lparr>nr_to_reclaim := max nr_pages SWAP_CLUSTER_MAX, gfp_mask := flags, order := ord,
          priority := ZONE_RECLAIM_PRIORITY, may_writepage := RECLAIM_WRITE \<in> zone_reclaim_mode E,
          may_unmap := RECLAIM_UNMAP \<in> zone_reclaim_mode E, may_swap := True\<rparr>)
        (\<lambda>w. bnd (zone_pagecache_reclaimable E zone w) (\<lambda>n w.
             bnd (kcall (Nd (Min_unmapped_pages zone)) w) (\<lambda>m w.
             bnd (cond (word_of_int m < n) (reclaim_priorities fuel E zone nr_pages) w) (\<lambda>_ w.
             bnd (kdo (Tk Drop_reclaim_state) w) (\<lambda>_ w.
             bnd (kdo (Tk Clear_memalloc) w) (\<lambda>_ w.
             ret (nr_pages \<le> nr_reclaimed (sc w)) w)))))) w)))))"

definition zone_reclaim :: "nat \<Rightarrow> renv \<Rightarrow> int \<Rightarrow> gfp_flag set \<Rightarrow> int \<Rightarrow> int sact" where
  "zone_reclaim fuel E zone flags ord w =
     bnd (zone_pagecache_reclaimable E zone w) (\<lambda>n w.
     bnd (kcall (Nd (Min_unmapped_pages zone)) w) (\<lambda>m w.
     bnd (andalso (n \<le> word_of_int m) (\<lambda>w.
            bnd (zone_state zone NR_SLAB_RECLAIMABLE w) (\<lambda>slab w.
            bnd (kcall (Nd (Min_slab_pages zone)) w) (\<lambda>k w. ret (slab \<le> word_of_int k) w))) w) (\<lambda>full w.
     if full then ret ZONE_RECLAIM_FULL w
     else
       bnd (zone_reclaimable zone w) (\<lambda>reclaimable w.
       if \<not> reclaimable then ret ZONE_RECLAIM_FULL w
       else
         bnd (orelse (\<not> allow_blocking E flags) (kask (Tk Is_memalloc)) w) (\<lambda>hurry w.
         if hurry then ret ZONE_RECLAIM_NOSCAN w
         else
           bnd (kask (Nd (Node_has_cpu (zone_node E zone))) w) (\<lambda>cpu w.
           bnd (andalso cpu (\<lambda>w.
                  bnd (kcall (Nd Numa_node_id) w) (\<lambda>here w. ret (zone_node E zone \<noteq> here) w)) w) (\<lambda>remote w.
           if remote then ret ZONE_RECLAIM_NOSCAN w
           else
             bnd (kask (Zn (Zone_test_and_set zone ZONE_RECLAIM_LOCKED)) w) (\<lambda>locked w.
             if locked then ret ZONE_RECLAIM_NOSCAN w
             else
               bnd (raw_zone_reclaim fuel E zone flags ord w) (\<lambda>r w.
               bnd (kdo (Zn (Zone_clear zone ZONE_RECLAIM_LOCKED)) w) (\<lambda>_ w.
               bnd (cond (\<not> r) (kdo (Zn (Count_vm_events PGSCAN_ZONE_RECLAIM_FAILED 1))) w) (\<lambda>_ w.
               ret (if r then 1 else 0) w)))))))))))"

section \<open>Unlocked pages\<close>

text \<open>
  The loop over the pages; the state is the zone whose lock is held (0 for none) and the two counters.
\<close>

fun rescue_each :: "renv \<Rightarrow> int list \<Rightarrow> int \<times> u64 \<times> u64 \<Rightarrow> (int \<times> u64 \<times> u64) sact" where
  "rescue_each E [] s w = ret s w"
| "rescue_each E (page # ps) s w =
     (let (zone, pgscanned, pgrescued) = s in
      bnd (kcall (Pg (Page_zone page)) w) (\<lambda>pagezone w.
      bnd (cond (pagezone \<noteq> zone) (\<lambda>w.
             bnd (cond (zone \<noteq> 0) (kdo (Zn (Lru_unlock zone))) w) (\<lambda>_ w.
             kdo (Zn (Lru_lock pagezone)) w)) w) (\<lambda>_ w.
      bnd (kcall (Zn (Mem_cgroup_page_lruvec page pagezone)) w) (\<lambda>lruvec w.
      bnd (test PageLRU page w) (\<lambda>lru w.
      bnd (andalso lru (test PageUnevictable page) w) (\<lambda>stuck w.
      bnd (andalso stuck (page_evictable page) w) (\<lambda>rescue w.
      if rescue then
        bnd (kcall (Pg (Page_lru_base_type page)) w) (\<lambda>l w.
        bnd (test PageActive page w) (\<lambda>active w.
        bnd (BUG_ON active w) (\<lambda>_ w.
        bnd (kdo (Pg (ClearF PageUnevictable page)) w) (\<lambda>_ w.
        bnd (kdo (Zn (Del_page_from_lru_list page lruvec LRU_UNEVICTABLE)) w) (\<lambda>_ w.
        bnd (kdo (Zn (Add_page_to_lru_list page lruvec (lru_answer E l))) w) (\<lambda>_ w.
        rescue_each E ps (pagezone, pgscanned + 1, pgrescued + 1) w))))))
      else rescue_each E ps (pagezone, pgscanned + 1, pgrescued) w)))))))"

definition check_move_unevictable_pages :: "renv \<Rightarrow> int list \<Rightarrow> unit sact" where
  "check_move_unevictable_pages E ps w =
     bnd (rescue_each E ps (0, 0, 0) w) (\<lambda>(zone, pgscanned, pgrescued) w.
     cond (zone \<noteq> 0) (\<lambda>w.
       bnd (kdo (Zn (Count_vm_events UNEVICTABLE_PGRESCUED pgrescued)) w) (\<lambda>_ w.
       bnd (kdo (Zn (Count_vm_events UNEVICTABLE_PGSCANNED pgscanned)) w) (\<lambda>_ w.
       kdo (Zn (Lru_unlock zone)) w))) w)"

end
