(* ===== verification/ReclaimFrame.thy ===== *)
theory ReclaimFrame
  imports Kswapd ZoneReclaim
begin

text \<open>
  What reclaim leaves alone. The functions of \<open>vmscan.c\<close> act on the rest of the kernel through calls,
  on the control structure of their scan and the statistics of the lists, and on the trace only
  through \<open>record_out\<close>. So whatever does not depend on the history and the statistics, and of the
  control structure only on what \<open>same_scan\<close> keeps (\<open>J\<close>), is kept by everything up to \<open>shrink_zones\<close> if
  \<open>record_out\<close> keeps it (locale \<open>calm\<close>), and by all of reclaim if it does not depend on the control
  structure at all (locale \<open>calm_all\<close>). \<open>K\<close> is what holds when \<open>record_out\<close>, the only function that
  stores into an array of the trace, leaves one of them.
\<close>

definition same_scan :: "scan_control \<Rightarrow> scan_control \<Rightarrow> bool" where
  "same_scan c d = (priority c = priority d \<and> may_thrash c = may_thrash d \<and> nr_to_reclaim c = nr_to_reclaim d \<and>
     target_mem_cgroup c = target_mem_cgroup d \<and> order c = order d)"

lemma same_scan_updates [intro, simp]:
  "same_scan (c\<lparr>nr_scanned := n\<rparr>) c" "same_scan (c\<lparr>nr_reclaimed := m\<rparr>) c" "same_scan (c\<lparr>compaction_ready := b\<rparr>) c"
  "same_scan (c\<lparr>gfp_mask := g\<rparr>) c" "same_scan (c\<lparr>nr_scanned := n, nr_reclaimed := m\<rparr>) c"
  "same_scan (c\<lparr>nr_reclaimed := m, nr_scanned := n\<rparr>) c" "same_scan (c\<lparr>may_writepage := b\<rparr>) c"
  by (simp_all add: same_scan_def)

text \<open>What does not depend on the history is kept by every construct of the code whose parts keep it.\<close>

locale steady =
  fixes J :: "scw \<Rightarrow> bool"
    and K :: "scw \<Rightarrow> bool"
  assumes J_log: "J w \<Longrightarrow> J (w\<lparr>log := x # log w\<rparr>)"
begin

abbreviation keeps :: "(scw, 'a) act \<Rightarrow> bool" where
  "keeps m \<equiv> xpost K (\<lambda>_. J) m"

lemma keeps_bnd: "keeps m \<Longrightarrow> (\<And>a w. J w \<Longrightarrow> keeps (f a w)) \<Longrightarrow> keeps (bnd m f)"
  by (rule xpost_bndI)

lemma keeps_calls: "J w \<Longrightarrow> keeps (kcall c w)" "J w \<Longrightarrow> keeps (kdo c w)" "J w \<Longrightarrow> keeps (kask c w)"
  by (simp_all add: kdo_def kask_def kcall_def Let_def J_log)

lemma keeps_ret: "J w \<Longrightarrow> keeps (ret a w)" "keeps (Inl (Oops, w))" "keeps (Inl (NoFuel, w))" "J w \<Longrightarrow> keeps (BUG_ON b w)"
  by (simp_all add: BUG_ON_def)

lemma keeps_out: "K w \<Longrightarrow> keeps (Inl (OutOfBounds, w))"
  by simp

lemma keeps_if:
  "(b \<Longrightarrow> keeps x) \<Longrightarrow> (\<not> b \<Longrightarrow> keeps y) \<Longrightarrow> keeps (if b then x else y)"
  "(b \<Longrightarrow> keeps (m w)) \<Longrightarrow> J w \<Longrightarrow> keeps (cond b m w)"
  "(b \<Longrightarrow> keeps (n w)) \<Longrightarrow> J w \<Longrightarrow> keeps (andalso b n w)"
  "(\<not> b \<Longrightarrow> keeps (n w)) \<Longrightarrow> J w \<Longrightarrow> keeps (orelse b n w)"
  by (simp_all add: cond_def andalso_def orelse_def)

lemma keeps_cases:
  "(c = None \<Longrightarrow> keeps y) \<Longrightarrow> (\<And>z. c = Some z \<Longrightarrow> keeps (f z)) \<Longrightarrow> keeps (case c of None \<Rightarrow> y | Some z \<Rightarrow> f z)"
  "(\<And>a. d = Inl a \<Longrightarrow> keeps (f1 a)) \<Longrightarrow> (\<And>a. d = Inr a \<Longrightarrow> keeps (f2 a)) \<Longrightarrow>
    keeps (case d of Inl a \<Rightarrow> f1 a | Inr b \<Rightarrow> f2 b)"
  "(\<And>a b. p = (a, b) \<Longrightarrow> keeps (g a b)) \<Longrightarrow> keeps (case p of (a, b) \<Rightarrow> g a b)"
  "(\<And>a b. q = (a, b) \<Longrightarrow> keeps (h a b w)) \<Longrightarrow> keeps ((case q of (a, b) \<Rightarrow> h a b) w)"
  "(\<And>a b. q = (a, b) \<Longrightarrow> keeps (h2 a b v w)) \<Longrightarrow> keeps ((case q of (a, b) \<Rightarrow> h2 a b) v w)"
  by (simp_all split: option.splits sum.splits prod.splits)

lemma J_if: "(b \<Longrightarrow> J v) \<Longrightarrow> (\<not> b \<Longrightarrow> J w) \<Longrightarrow> J (if b then v else w)"
  by simp

lemma keeps_pageout_cases:
  "keeps a \<Longrightarrow> keeps b \<Longrightarrow> keeps c \<Longrightarrow> keeps d \<Longrightarrow>
    keeps (case r of PAGE_KEEP \<Rightarrow> a | PAGE_ACTIVATE \<Rightarrow> b | PAGE_SUCCESS \<Rightarrow> c | PAGE_CLEAN \<Rightarrow> d)"
  by (cases r) simp_all

lemma keeps_Let: "keeps (f x) \<Longrightarrow> keeps (Let x f)"
  by simp

lemma keeps_do_while: "J w \<Longrightarrow> (\<And>s w. J w \<Longrightarrow> keeps (body s w)) \<Longrightarrow> keeps (do_while n body s w)"
  by (rule xpost_do_while [where I = "\<lambda>_. J"], assumption, rule xpost_mono) auto

lemma keeps_each: "J w \<Longrightarrow> (\<And>x w. J w \<Longrightarrow> keeps (f x w)) \<Longrightarrow> keeps (each f xs w)"
  by (induction xs arbitrary: w) (auto intro: xpost_bndI)

lemmas base_intros = keeps_ret keeps_calls keeps_if keeps_cases keeps_pageout_cases keeps_Let keeps_do_while keeps_each
  keeps_bnd J_if J_log

end

locale calm = steady +
  assumes J_sc: "same_scan c (sc w) \<Longrightarrow> J w \<Longrightarrow> J (w\<lparr>sc := c\<rparr>)"
    and J_shrinkers: "J w \<Longrightarrow> J (w\<lparr>shrinker_list := s\<rparr>)"
    and J_rotated: "J w \<Longrightarrow> J (w\<lparr>recent_rotated := f\<rparr>)"
    and J_scanned: "J w \<Longrightarrow> J (w\<lparr>recent_scanned := f\<rparr>)"
    and J_record: "J w \<Longrightarrow> xpost K (\<lambda>_. J) (record_out p w)"
begin

lemmas keeps_intros = base_intros J_sc J_shrinkers J_rotated J_scanned same_scan_updates

section \<open>Writing out and removing pages\<close>

lemma page_evictable_keeps: "J w \<Longrightarrow> keeps (page_evictable p w)"
  unfolding page_evictable_def by (intro keeps_intros)

lemma pageout_keeps: "J w \<Longrightarrow> keeps (pageout E p m w)"
  unfolding pageout_def pageout_write_def is_page_cache_freeable_def may_write_to_inode_def handle_write_error_def
  by (intro keeps_intros)

lemma raw_remove_mapping_keeps: "J w \<Longrightarrow> keeps (raw_remove_mapping m p r w)"
  unfolding raw_remove_mapping_def cannot_free_def leave_swap_cache_def leave_page_cache_def by (intro keeps_intros)

lemma remove_mapping_keeps: "J w \<Longrightarrow> keeps (remove_mapping m p w)"
  unfolding remove_mapping_def by (intro keeps_intros raw_remove_mapping_keeps)

lemma page_check_references_keeps: "J w \<Longrightarrow> keeps (page_check_references E p w)"
  unfolding page_check_references_def by (intro keeps_intros)

lemma spl_page_keeps: "J w \<Longrightarrow> keeps (spl_page E z fl force p st w)"
  unfolding spl_page_def spl_admit_def scanned_one_def spl_stats_def page_check_dirty_writeback_def spl_writeback_def
    spl_reclaim_def spl_swap_def spl_unmap_def spl_dirty_def spl_pageout_def spl_release_def spl_remove_def
  by (intro keeps_intros page_evictable_keeps page_check_references_keeps pageout_keeps raw_remove_mapping_keeps J_record)

lemma keep_page_keeps: "J w \<Longrightarrow> keeps (keep_page p st w)"
  unfolding keep_page_def by (intro keeps_intros)

lemma activate_page_keeps: "J w \<Longrightarrow> keeps (activate_page p w)"
  unfolding activate_page_def by (intro keeps_intros)

lemma spl_settle_keeps: "J w \<Longrightarrow> keeps (spl_settle v p st w)"
  by (cases v; simp; intro keeps_intros keep_page_keeps activate_page_keeps)

lemma shrink_page_list_keeps: "J w \<Longrightarrow> keeps (shrink_page_list fuel E ps z fl force w)"
  unfolding shrink_page_list_def spl_body_def by (intro keeps_intros spl_page_keeps spl_settle_keeps)

lemma pick_clean_keeps: "J w \<Longrightarrow> keeps (pick_clean ps c r w)"
  by (induction ps arbitrary: c r w) (simp, simp only: pick_clean.simps, intro keeps_intros)

section \<open>Shrinkers\<close>

lemma scan_loop_keeps: "J w \<Longrightarrow> keeps (scan_loop sh nid m b fr s w)"
  unfolding scan_loop_def by (intro keeps_intros)

lemma do_shrink_slab_keeps: "J w \<Longrightarrow> keeps (do_shrink_slab E s nid m a b w)"
  unfolding do_shrink_slab_def by (intro keeps_intros scan_loop_keeps)

lemma shrink_each_keeps: "J w \<Longrightarrow> keeps (shrink_each E nid m a b ss n w)"
  by (induction ss arbitrary: n w) (simp, simp only: shrink_each.simps, intro keeps_intros do_shrink_slab_keeps)

lemma shrink_slab_keeps: "J w \<Longrightarrow> keeps (shrink_slab E nid m a b w)"
  unfolding shrink_slab_def by (intro keeps_intros shrink_each_keeps)

lemma drop_slab_keeps: "J w \<Longrightarrow> keeps (drop_slab fuel E online w)"
  unfolding drop_slab_def drop_slab_node_def drop_slab_round_def by (intro keeps_intros shrink_slab_keeps)

lemma register_shrinker_keeps: "J w \<Longrightarrow> keeps (register_shrinker E s w)"
  unfolding register_shrinker_def by (intro keeps_intros)

lemma unregister_shrinker_keeps: "J w \<Longrightarrow> keeps (unregister_shrinker s w)"
  unfolding unregister_shrinker_def by (intro keeps_intros)

section \<open>The lists\<close>

lemma zone_state_keeps: "J w \<Longrightarrow> keeps (zone_state z i w)"
  unfolding zone_state_def by (intro keeps_intros)

lemma zone_reclaimable_pages_keeps: "J w \<Longrightarrow> keeps (zone_reclaimable_pages z w)"
  unfolding zone_reclaimable_pages_def by (intro keeps_intros zone_state_keeps)

lemma zone_reclaimable_keeps: "J w \<Longrightarrow> keeps (zone_reclaimable z w)"
  unfolding zone_reclaimable_def by (intro keeps_intros zone_state_keeps zone_reclaimable_pages_keeps)

lemma get_lru_size_keeps: "J w \<Longrightarrow> keeps (get_lru_size v l w)"
  unfolding get_lru_size_def by (intro keeps_intros zone_state_keeps)

lemma isolate_lru_pages_keeps: "J w \<Longrightarrow> keeps (isolate_lru_pages n v src mode l w)"
  unfolding isolate_lru_pages_def isolate_body_def raw_isolate_lru_page_def isolate_blocks_def by (intro keeps_intros)

lemma isolate_lru_page_keeps: "J w \<Longrightarrow> keeps (isolate_lru_page E p w)"
  unfolding isolate_lru_page_def by (intro keeps_intros)

lemma too_many_isolated_keeps: "J w \<Longrightarrow> keeps (too_many_isolated E z file w)"
  unfolding too_many_isolated_def by (intro keeps_intros zone_state_keeps)

lemma putback_lru_page_keeps: "J w \<Longrightarrow> keeps (putback_lru_page fuel E p w)"
  unfolding putback_lru_page_def putback_round_def by (intro keeps_intros isolate_lru_page_keeps page_evictable_keeps)

lemma last_reference_keeps: "J w \<Longrightarrow> keeps (last_reference z p v l fr w)"
  unfolding last_reference_def by (intro keeps_intros)

lemma putback_each_keeps: "J w \<Longrightarrow> keeps (putback_each fuel E s z ps fr w)"
  by (induction ps arbitrary: fr w)
    (simp, unfold putback_each.simps putback_one_def, intro keeps_intros putback_lru_page_keeps last_reference_keeps page_evictable_keeps)

lemma putback_inactive_pages_keeps: "J w \<Longrightarrow> keeps (putback_inactive_pages fuel E v ps w)"
  unfolding putback_inactive_pages_def by (intro keeps_intros putback_each_keeps)

lemma shrink_inactive_list_keeps: "J w \<Longrightarrow> keeps (shrink_inactive_list fuel E n v l w)"
  unfolding shrink_inactive_list_def wait_isolated_def take_inactive_def return_inactive_def judge_zone_def
    current_may_throttle_def
  by (intro keeps_intros too_many_isolated_keeps isolate_lru_pages_keeps shrink_page_list_keeps putback_inactive_pages_keeps)

lemma move_each_keeps: "J w \<Longrightarrow> keeps (move_each z l ps fr n w)"
  by (induction ps arbitrary: fr n w) (simp, simp only: move_each.simps, intro keeps_intros last_reference_keeps)

lemma move_active_keeps: "J w \<Longrightarrow> keeps (move_active_pages_to_lru v ps fr l w)"
  unfolding move_active_pages_to_lru_def by (intro keeps_intros move_each_keeps)

lemma age_each_keeps: "J w \<Longrightarrow> keeps (age_each fuel E ps a i n w)"
  by (induction ps arbitrary: a i n w)
    (simp, unfold age_each.simps drop_buffers_def, intro keeps_intros putback_lru_page_keeps page_evictable_keeps)

lemma shrink_active_list_keeps: "J w \<Longrightarrow> keeps (shrink_active_list fuel E n v l w)"
  unfolding shrink_active_list_def take_active_def return_active_def
  by (intro keeps_intros isolate_lru_pages_keeps age_each_keeps move_active_keeps)

lemma inactive_anon_is_low_keeps: "J w \<Longrightarrow> keeps (inactive_anon_is_low E v w)"
  unfolding inactive_anon_is_low_def inactive_anon_is_low_global_def by (intro keeps_intros zone_state_keeps)

lemma inactive_list_is_low_keeps: "J w \<Longrightarrow> keeps (inactive_list_is_low E v l w)"
  unfolding inactive_list_is_low_def inactive_file_is_low_def
  by (intro keeps_intros inactive_anon_is_low_keeps get_lru_size_keeps)

lemma shrink_list_keeps: "J w \<Longrightarrow> keeps (shrink_list fuel E l n v w)"
  unfolding shrink_list_def
  by (intro keeps_intros inactive_list_is_low_keeps shrink_active_list_keeps shrink_inactive_list_keeps)

section \<open>The loop over the lists\<close>

lemma scan_pass_keeps: "J w \<Longrightarrow> keeps (scan_pass v b fr d small ls c w)"
  by (induction ls arbitrary: c w) (simp, simp only: scan_pass.simps, intro keeps_intros get_lru_size_keeps)

lemma get_scan_count_keeps: "J w \<Longrightarrow> keeps (get_scan_count v sw w)"
  unfolding get_scan_count_def force_scan_def choose_balance_def file_or_fract_def scan_fractions_def inactive_file_is_low_def
  by (intro keeps_intros scan_pass_keeps zone_state_keeps get_lru_size_keeps zone_reclaimable_keeps)

lemma shrink_round_keeps: "J w \<Longrightarrow> keeps (shrink_round fuel E v ls s w)"
  by (induction ls arbitrary: s w) (simp, simp only: shrink_round.simps, intro keeps_intros shrink_list_keeps)

lemma shrink_lruvec_keeps: "J w \<Longrightarrow> keeps (shrink_lruvec fuel E v sw w)"
  unfolding shrink_lruvec_def lruvec_body_def
  by (intro keeps_intros get_scan_count_keeps shrink_round_keeps inactive_anon_is_low_keeps shrink_active_list_keeps)

section \<open>Zones\<close>

lemma should_continue_reclaim_keeps: "J w \<Longrightarrow> keeps (should_continue_reclaim E z a b w)"
  unfolding should_continue_reclaim_def by (intro keeps_intros zone_state_keeps)

lemma zone_compaction_ready_keeps: "J w \<Longrightarrow> keeps (zone_compaction_ready E z n w)"
  unfolding zone_compaction_ready_def balance_gap_def by (intro keeps_intros)

lemma zone_memcg_keeps: "J w \<Longrightarrow> keeps (zone_memcg fuel E z c r s w)"
  unfolding zone_memcg_def by (intro keeps_intros shrink_lruvec_keeps shrink_slab_keeps)

lemma shrink_zone_keeps: "J w \<Longrightarrow> keeps (shrink_zone fuel E z c w)"
  unfolding shrink_zone_def zone_round_def
  by (intro keeps_intros zone_memcg_keeps shrink_slab_keeps should_continue_reclaim_keeps)

lemma populated_below_keeps: "J w \<Longrightarrow> keeps (populated_below E n i w)"
  by (induction i arbitrary: w) (simp_all only: populated_below.simps, (intro keeps_intros | assumption)+)

lemma shrink_one_zone_keeps: "J w \<Longrightarrow> keeps (shrink_one_zone fuel E r z b w)"
  unfolding shrink_one_zone_def pass_over_def soft_limit_reclaim_def
  by (intro keeps_intros populated_below_keeps zone_reclaimable_keeps zone_compaction_ready_keeps shrink_zone_keeps)

lemma shrink_each_zone_keeps: "J w \<Longrightarrow> keeps (shrink_each_zone fuel E r zs b w)"
  by (induction zs arbitrary: b w) (simp, simp only: shrink_each_zone.simps, intro keeps_intros shrink_one_zone_keeps)

lemma shrink_zones_keeps: "J w \<Longrightarrow> keeps (shrink_zones fuel E zl w)"
  unfolding shrink_zones_def by (intro keeps_intros shrink_each_zone_keeps)

end

section \<open>All of reclaim\<close>

locale calm_all = calm +
  assumes J_any: "J w \<Longrightarrow> J (w\<lparr>sc := c\<rparr>)"
begin

lemmas all_intros = base_intros J_any

lemma reclaim_clean_keeps: "J w \<Longrightarrow> keeps (reclaim_clean_pages_from_list fuel E z ps w)"
  unfolding reclaim_clean_pages_from_list_def by (intro all_intros pick_clean_keeps shrink_page_list_keeps)

lemma do_try_to_free_pages_keeps: "J w \<Longrightarrow> keeps (do_try_to_free_pages fuel E zl w)"
  unfolding do_try_to_free_pages_def free_round_def priority_round_def by (intro all_intros shrink_zones_keeps)

lemma with_control_keeps: "J w \<Longrightarrow> (\<And>w. J w \<Longrightarrow> keeps (m w)) \<Longrightarrow> keeps (with_control c m w)"
  unfolding with_control_def Let_def by (rule keeps_bnd) (auto intro: J_any)

lemma reserve_each_keeps: "J w \<Longrightarrow> keeps (reserve_each E n js r f w)"
  by (induction js arbitrary: r f w)
    (simp, simp only: reserve_each.simps, intro all_intros zone_reclaimable_pages_keeps zone_state_keeps)

lemma pfmemalloc_watermark_ok_keeps: "J w \<Longrightarrow> keeps (pfmemalloc_watermark_ok E n w)"
  unfolding pfmemalloc_watermark_ok_def by (intro all_intros reserve_each_keeps)

lemma throttle_node_keeps: "J w \<Longrightarrow> keeps (throttle_node E zs w)"
proof (induction zs arbitrary: w)
  case (Cons z zs)
  then show ?case by (cases z) (simp, intro conjI impI all_intros pfmemalloc_watermark_ok_keeps)
qed simp

lemma throttle_direct_reclaim_keeps: "J w \<Longrightarrow> keeps (throttle_direct_reclaim fuel E g zl m w)"
  unfolding throttle_direct_reclaim_def wait_watermark_def
  by (intro all_intros throttle_node_keeps pfmemalloc_watermark_ok_keeps)

lemma try_to_free_pages_keeps: "J w \<Longrightarrow> keeps (try_to_free_pages fuel E zl n g m w)"
  unfolding try_to_free_pages_def noio_flags_def
  by (intro all_intros throttle_direct_reclaim_keeps with_control_keeps do_try_to_free_pages_keeps)

lemma try_to_free_mem_cgroup_pages_keeps: "J w \<Longrightarrow> keeps (try_to_free_mem_cgroup_pages fuel E m n g b w)"
  unfolding try_to_free_mem_cgroup_pages_def by (intro all_intros with_control_keeps do_try_to_free_pages_keeps)

lemma mem_cgroup_shrink_node_zone_keeps: "J w \<Longrightarrow> keeps (mem_cgroup_shrink_node_zone fuel E m g b z w)"
  unfolding mem_cgroup_shrink_node_zone_def by (intro all_intros with_control_keeps shrink_lruvec_keeps)

lemma shrink_all_memory_keeps: "J w \<Longrightarrow> keeps (shrink_all_memory fuel E n w)"
  unfolding shrink_all_memory_def by (intro all_intros with_control_keeps do_try_to_free_pages_keeps)

section \<open>The daemon\<close>

lemma age_active_anon_keeps: "J w \<Longrightarrow> keeps (age_active_anon fuel E z w)"
  unfolding age_active_anon_def by (intro all_intros inactive_anon_is_low_keeps shrink_active_list_keeps)

lemma zone_balanced_keeps: "J w \<Longrightarrow> keeps (zone_balanced E z n g i w)"
  unfolding zone_balanced_def by (intro all_intros)

lemma balanced_each_keeps: "J w \<Longrightarrow> keeps (balanced_each E n k js a b w)"
  by (induction js arbitrary: a b w)
    (simp, simp only: balanced_each.simps, intro all_intros zone_reclaimable_keeps zone_balanced_keeps)

lemma pgdat_balanced_keeps: "J w \<Longrightarrow> keeps (pgdat_balanced E n k i w)"
  unfolding pgdat_balanced_def by (intro all_intros balanced_each_keeps)

lemma prepare_kswapd_sleep_keeps: "J w \<Longrightarrow> keeps (prepare_kswapd_sleep E n k r i w)"
  unfolding prepare_kswapd_sleep_def by (intro all_intros pgdat_balanced_keeps)

lemma kswapd_shrink_zone_keeps: "J w \<Longrightarrow> keeps (kswapd_shrink_zone fuel E z i a w)"
  unfolding kswapd_shrink_zone_def balance_gap_def
  by (intro all_intros zone_balanced_keeps zone_reclaimable_keeps shrink_zone_keeps)

lemma find_end_zone_keeps: "J w \<Longrightarrow> keeps (find_end_zone fuel E n k js w)"
  by (induction js arbitrary: w)
    (simp, simp only: find_end_zone.simps, intro all_intros zone_reclaimable_keeps age_active_anon_keeps zone_balanced_keeps)

lemma needs_compaction_keeps: "J w \<Longrightarrow> keeps (needs_compaction E n k i js b w)"
  by (induction js arbitrary: b w) (simp, simp only: needs_compaction.simps, intro all_intros)

lemma kswapd_each_keeps: "J w \<Longrightarrow> keeps (kswapd_each fuel E n k z js s w)"
  by (induction js arbitrary: s w)
    (simp, simp only: kswapd_each.simps, intro all_intros zone_reclaimable_keeps kswapd_shrink_zone_keeps)

lemma balance_pgdat_keeps: "J w \<Longrightarrow> keeps (balance_pgdat fuel E n k i w)"
  unfolding balance_pgdat_def balance_round_def
  by (intro all_intros with_control_keeps find_end_zone_keeps needs_compaction_keeps kswapd_each_keeps
      pfmemalloc_watermark_ok_keeps pgdat_balanced_keeps)

lemma kswapd_try_to_sleep_keeps: "J w \<Longrightarrow> keeps (kswapd_try_to_sleep E n k i w)"
  unfolding kswapd_try_to_sleep_def by (intro all_intros prepare_kswapd_sleep_keeps)

lemma kswapd_keeps: "J w \<Longrightarrow> keeps (kswapd fuel E n w)"
  unfolding kswapd_def kswapd_round_def kswapd_request_def take_request_def
  by (intro all_intros kswapd_try_to_sleep_keeps balance_pgdat_keeps)

lemma zone_pagecache_reclaimable_keeps: "J w \<Longrightarrow> keeps (zone_pagecache_reclaimable E z w)"
  unfolding zone_pagecache_reclaimable_def zone_unmapped_file_pages_def by (intro all_intros zone_state_keeps)

lemma zone_reclaim_keeps: "J w \<Longrightarrow> keeps (zone_reclaim fuel E z g n w)"
  unfolding zone_reclaim_def raw_zone_reclaim_def reclaim_priorities_def noio_flags_def
  by (intro all_intros with_control_keeps zone_pagecache_reclaimable_keeps zone_reclaimable_keeps zone_state_keeps
      shrink_zone_keeps)

end

end
