(* ===== verification/ReclaimTrace.thy ===== *)
theory ReclaimTrace
  imports ReclaimFrame ReclaimProps ExperimentProps
begin

text \<open>
  The trace that reclaim keeps of the pages it writes out: its type, that all of reclaim stays inside its arrays and only appends
  to it.
\<close>

section \<open>The type of the trace\<close>

text \<open>
  What the allocator returns: rows of 20000 entries, and page records of 4096 bytes; a mapped page has
  4096 bytes. How many rows and records there are is the code's.
\<close>

definition trace_env :: "scw \<Rightarrow> bool" where
  "trace_env w = ((\<forall>i < 20. length (out_rows w i) = 20000) \<and> (\<forall>i. length (page_content (out_pages w i)) = 4096) \<and>
     (\<forall>a. length (out_kmem w a) = 4096))"

definition trace_typed :: "scw \<Rightarrow> bool" where
  "trace_typed w = (0 \<le> pageFilled_OUT w \<and> pageFilled_OUT w \<le> int (length (contents_OUT w)) \<and>
     (if firstTime_OUT w then out_store w = initial_OUT \<and> contents_OUT w = []
      else valid_store (out_store w) \<and> store_capacity (out_store w) = 20 * 20000 \<and> length (contents_OUT w) \<in> {0, 100}) \<and>
     (\<forall>c \<in> set (contents_OUT w). length (page_content c) = 4096))"

text \<open>The entries, and the page records that are complete.\<close>

definition trace_of :: "scw \<Rightarrow> u64 list" where
  "trace_of w = (if firstTime_OUT w then [] else stored (out_store w))"

definition pages_of :: "scw \<Rightarrow> page_content_store list" where
  "pages_of w = take (nat (pageFilled_OUT w)) (contents_OUT w)"

definition trace_grown :: "scw \<Rightarrow> scw \<Rightarrow> bool" where
  "trace_grown w0 w = (trace_env w \<and> trace_typed w \<and> (\<exists>es. trace_of w = trace_of w0 @ es) \<and> (\<exists>cs. pages_of w = pages_of w0 @ cs))"

text \<open>The only way out of an array: one entry more than the table has room for.\<close>

definition trace_full :: "scw \<Rightarrow> scw \<Rightarrow> bool" where
  "trace_full w0 w = (trace_grown w0 w \<and> length (trace_of w) = 20 * 20000)"

lemma trace_grown_refl: "trace_env w \<Longrightarrow> trace_typed w \<Longrightarrow> trace_grown w w"
  by (simp add: trace_grown_def)

lemma trace_grown_trans: "trace_grown w0 w1 \<Longrightarrow> trace_grown w1 w2 \<Longrightarrow> trace_grown w0 w2"
  by (auto simp: trace_grown_def)

text \<open>None of it looks at the history, the control structure and the statistics.\<close>

lemma trace_frame [simp]:
  "trace_env (w\<lparr>log := h\<rparr>) = trace_env w" "trace_env (w\<lparr>sc := c\<rparr>) = trace_env w"
  "trace_env (w\<lparr>shrinker_list := s\<rparr>) = trace_env w" "trace_env (w\<lparr>recent_rotated := f\<rparr>) = trace_env w"
  "trace_env (w\<lparr>recent_scanned := f\<rparr>) = trace_env w" "trace_env (w\<lparr>out_store := a\<rparr>) = trace_env w"
  "trace_env (w\<lparr>firstTime_OUT := b\<rparr>) = trace_env w" "trace_env (w\<lparr>contents_OUT := cs\<rparr>) = trace_env w"
  "trace_env (w\<lparr>pageFilled_OUT := n\<rparr>) = trace_env w"
  "trace_typed (w\<lparr>log := h\<rparr>) = trace_typed w" "trace_typed (w\<lparr>sc := c\<rparr>) = trace_typed w"
  "trace_typed (w\<lparr>shrinker_list := s\<rparr>) = trace_typed w" "trace_typed (w\<lparr>recent_rotated := f\<rparr>) = trace_typed w"
  "trace_typed (w\<lparr>recent_scanned := f\<rparr>) = trace_typed w"
  "trace_of (w\<lparr>log := h\<rparr>) = trace_of w" "trace_of (w\<lparr>sc := c\<rparr>) = trace_of w"
  "trace_of (w\<lparr>shrinker_list := s\<rparr>) = trace_of w" "trace_of (w\<lparr>recent_rotated := f\<rparr>) = trace_of w"
  "trace_of (w\<lparr>recent_scanned := f\<rparr>) = trace_of w" "trace_of (w\<lparr>contents_OUT := cs\<rparr>) = trace_of w"
  "trace_of (w\<lparr>pageFilled_OUT := n\<rparr>) = trace_of w"
  "pages_of (w\<lparr>log := h\<rparr>) = pages_of w" "pages_of (w\<lparr>sc := c\<rparr>) = pages_of w"
  "pages_of (w\<lparr>shrinker_list := s\<rparr>) = pages_of w" "pages_of (w\<lparr>recent_rotated := f\<rparr>) = pages_of w"
  "pages_of (w\<lparr>recent_scanned := f\<rparr>) = pages_of w"  "pages_of (w\<lparr>out_store := a\<rparr>) = pages_of w"
  "pages_of (w\<lparr>firstTime_OUT := b\<rparr>) = pages_of w"
  by (simp_all add: trace_env_def trace_typed_def trace_of_def pages_of_def)

lemma trace_grown_frame [simp]:
  "trace_grown w0 (w\<lparr>log := h\<rparr>) = trace_grown w0 w" "trace_grown w0 (w\<lparr>sc := c\<rparr>) = trace_grown w0 w"
  "trace_grown w0 (w\<lparr>shrinker_list := s\<rparr>) = trace_grown w0 w" "trace_grown w0 (w\<lparr>recent_rotated := f\<rparr>) = trace_grown w0 w"
  "trace_grown w0 (w\<lparr>recent_scanned := f\<rparr>) = trace_grown w0 w"
  by (simp_all add: trace_grown_def)

section \<open>Recording a page\<close>

declare tpost_cases [run_intros] tpost_Inl [run_intros] tpost_bnd_Inl [run_intros]

lemma fresh_trace:
  assumes "trace_env w" "trace_typed w" "firstTime_OUT w" "allocateArray_OUT t (out_rows w) (out_store w) = Some s"
  shows "valid_store s" "stored s = []" "store_capacity s = 20 * 20000"
proof -
  have s: "s = initial_OUT\<lparr>myPtes := map (out_rows w) [0..<nat (numberOfArrays initial_OUT)]\<rparr>"
    using assms by (auto simp: trace_typed_def allocateArray_OUT_def initial_OUT_def split: if_splits)
  have "length (out_rows w i) = nat (maxSizeArray initial_OUT)" if "i < nat (numberOfArrays initial_OUT)" for i
    using assms(1) that by (simp add: trace_env_def initial_OUT_def)
  from fresh_valid [of initial_OUT "out_rows w", OF _ this]
  show "valid_store s" "stored s = []" "store_capacity s = 20 * 20000"
    unfolding s by (simp_all add: store_capacity_def initial_OUT_def)
qed

lemma record_first_grown:
  assumes "trace_env w" "trace_typed w"
  shows "tpost (\<lambda>_ w'. trace_grown w w' \<and> \<not> firstTime_OUT w') (record_first w)"
proof (cases "firstTime_OUT w")
  case False
  then show ?thesis using assms by (simp add: record_first_def trace_grown_refl)
next
  case True
  note fresh = fresh_trace [OF assms True]
  have e: "contents_OUT w = []" "pageFilled_OUT w = 0" "\<forall>i. length (page_content (out_pages w i)) = 4096" "trace_of w = []" "pages_of w = []"
    using assms True by (auto simp: trace_typed_def trace_env_def trace_of_def pages_of_def)
  show ?thesis
    unfolding record_first_def using True
    by (simp, intro run_intros)
      (use assms True fresh e in \<open>auto simp: trace_grown_def trace_typed_def trace_of_def pages_of_def\<close>)
qed

lemma record_content_grown:
  assumes env: "trace_env w" and ty: "trace_typed w" and first: "\<not> firstTime_OUT w"
    and room: "pageFilled_OUT w < 100" "contents_OUT w \<noteq> []"
  shows "rets (\<lambda>_. trace_grown w) (record_content p w)"
proof -
  have len: "length (contents_OUT w) = 100" and bnd: "0 \<le> pageFilled_OUT w"
    using ty first room(2) by (auto simp: trace_typed_def)
  let ?i = "nat (pageFilled_OUT w)"
  have i: "?i < length (contents_OUT w)" using len room(1) by simp
  then have slot: "fetch (contents_OUT w) (pageFilled_OUT w) = Some (contents_OUT w ! ?i)"
    using bnd by (simp add: fetch_def)
  have full: "\<forall>c \<in> set (contents_OUT w). length (page_content c) = 4096" "length (page_content (contents_OUT w ! ?i)) = 4096"
    using ty i by (auto simp: trace_typed_def)
  have step: "take (nat (pageFilled_OUT w + 1)) ((contents_OUT w)[?i := c]) = take ?i (contents_OUT w) @ [c]" for c
    using i bnd by (simp add: nat_add_distrib take_Suc_conv_app_nth)
  have set: "length (page_content c) = 4096" if "c \<in> set ((contents_OUT w)[?i := x])" "length (page_content x) = 4096" for c x
    using full that set_update_subset_insert by fastforce
  show ?thesis
    unfolding record_content_def
    by (simp add: by_value slot)
      (use env ty first i bnd len full step room in
        \<open>auto intro: set simp: trace_grown_def trace_typed_def pages_of_def trace_of_def trace_env_def\<close>)
qed

lemma append_OUT:
  assumes "valid_store s" "addInArray_OUT s x = Some s'"
  shows "valid_store s'" "stored s' = stored s @ [x]" "store_capacity s' = store_capacity s"
proof -
  have "length (stored s) \<le> store_capacity s" using assms(1) by (simp add: length_stored used_le_capacity)
  moreover have "length (stored s) \<noteq> store_capacity s" using swapout_store.add_full [OF assms(1)] assms(2) by auto
  ultimately have "length (stored s) < store_capacity s" by simp
  from swapout_store.add_room [OF assms(1) this, of x] assms(2)
  show "valid_store s'" "stored s' = stored s @ [x]" "store_capacity s' = store_capacity s" by auto
qed

lemma trace_appended:
  assumes "trace_env w" "trace_typed w" "\<not> firstTime_OUT w" "addInArray_OUT (out_store w) x = Some s"
  shows "trace_grown w (w\<lparr>out_store := s\<rparr>)"
  using append_OUT [OF _ assms(4)] assms(1-3) by (auto simp: trace_grown_def trace_typed_def trace_of_def)

lemma record_out_grown:
  assumes "trace_env w" "trace_typed w"
  shows "xpost (trace_full w) (\<lambda>_. trace_grown w) (record_out p w)"
  unfolding record_out_def
proof (rule xpost_bndI)
  have "\<exists>v. record_first w = Inr ((), v) \<or> record_first w = Inl (Oops, v)"
    by (auto simp: record_first_def by_value ret_def split: option.splits)
  then show "xpost (trace_full w) (\<lambda>_ w'. trace_grown w w' \<and> \<not> firstTime_OUT w') (record_first w)"
    using record_first_grown [OF assms] by auto
next
  fix u w1
  assume "trace_grown w w1 \<and> \<not> firstTime_OUT w1"
  then have g: "trace_grown w w1" and f: "\<not> firstTime_OUT w1" and t: "trace_env w1" "trace_typed w1"
    by (auto simp: trace_grown_def)
  then have v: "valid_store (out_store w1)" "store_capacity (out_store w1) = 20 * 20000" "trace_of w1 = stored (out_store w1)"
    by (auto simp: trace_typed_def trace_of_def)
  have full: "trace_full w (w1\<lparr>log := h\<rparr>)" if "addInArray_OUT (out_store w1) x = None" for x h
  proof -
    have "length (stored (out_store w1)) = store_capacity (out_store w1)"
      using swapout_store.add_room [OF v(1), of x] that v(1) length_stored used_le_capacity by (metis le_neq_implies_less option.discI)
    then show ?thesis using g v by (simp add: trace_full_def)
  qed
  have app: "trace_grown w (w1\<lparr>out_store := s\<rparr>)" "trace_env (w1\<lparr>out_store := s\<rparr>)" "trace_typed (w1\<lparr>out_store := s\<rparr>)"
    if "addInArray_OUT (out_store w1) x = Some s" for x s
    using trace_grown_trans [OF g trace_appended [OF t f that]] by (auto simp: trace_grown_def)
  have content: "xpost (trace_full w) (\<lambda>_. trace_grown w) (record_content p (w1\<lparr>out_store := s, log := h\<rparr>))"
    if "addInArray_OUT (out_store w1) x = Some s" "pageFilled_OUT w1 < 100" "contents_OUT w1 \<noteq> []" for x s h
    using record_content_grown [of "w1\<lparr>out_store := s, log := h\<rparr>" p] app [OF that(1)] that f
    by (auto simp: rets_iff elim!: trace_grown_trans [rotated])
  show "xpost (trace_full w) (\<lambda>_. trace_grown w) (bnd (kcall (Pg (Page_private p)) w1) (\<lambda>q w.
     cond ((word_of_int q :: u64) \<noteq> 0) (\<lambda>w.
       bnd (kcall (Pg (Page_private p)) w) (\<lambda>q w.
       case addInArray_OUT (out_store w) (word_of_int q) of
         None \<Rightarrow> Inl (OutOfBounds, w)
       | Some s \<Rightarrow>
           bnd (kcall (Pg (Page_private p)) (w\<lparr>out_store := s\<rparr>)) (\<lambda>q w.
           cond ((word_of_int q :: u64) mod 100 = 0 \<and> pageFilled_OUT w < 100 \<and> contents_OUT w \<noteq> [])
             (record_content p) w))) w))"
    using full app content g by (auto simp: by_value split: option.split)
qed

text \<open>So the trace is one of the things that all of reclaim keeps.\<close>

interpretation trace: calm_all "trace_grown w0" "trace_full w0" for w0
proof unfold_locales
  fix w p assume g: "trace_grown w0 w"
  then have "xpost (trace_full w) (\<lambda>_. trace_grown w) (record_out p w)"
    by (intro record_out_grown) (simp_all add: trace_grown_def)
  then show "xpost (trace_full w0) (\<lambda>_. trace_grown w0) (record_out p w)"
    by (auto simp: xpost_def trace_full_def dest: trace_grown_trans [OF g] split: sum.splits)
qed auto

section \<open>What is recorded of one page\<close>

lemma record_first_returns:
  assumes "trace_env w" "trace_typed w" and table: "\<And>h. ans w h (Sy Kmalloc_table) \<noteq> 0"
    and ok: "\<And>h. ans w h (Sy Kmalloc_contents) \<noteq> 0 \<longleftrightarrow> ok"
  obtains w1 where "record_first w = Inr ((), w1)" "trace_grown w w1" "\<not> firstTime_OUT w1" "trace_of w1 = trace_of w"
    "pages_of w1 = pages_of w" "ans w1 = ans w" "out_kmem w1 = out_kmem w"
    "contents_OUT w1 \<noteq> [] \<longleftrightarrow> (if firstTime_OUT w then ok else contents_OUT w \<noteq> [])"
proof (cases "firstTime_OUT w")
  case False
  then show thesis using that [of w] assms by (simp add: record_first_def ret_def trace_grown_refl)
next
  case True
  have init: "out_store w = initial_OUT" "contents_OUT w = []" "pageFilled_OUT w = 0"
    using assms(2) True by (auto simp: trace_typed_def)
  obtain s where s: "allocateArray_OUT True (out_rows w) (out_store w) = Some s"
    by (simp add: allocateArray_OUT_def)
  note fresh = fresh_trace [OF assms(1,2) True s]
  have run: "record_first w = Inr ((), w1)" if "w1 = snd (projr (record_first w))" for w1
    using s table True that by (simp add: record_first_def by_value ret_def)
  let ?w1 = "snd (projr (record_first w))"
  have "tpost (\<lambda>_ w'. trace_grown w w' \<and> \<not> firstTime_OUT w') (record_first w)"
    by (rule record_first_grown [OF assms(1,2)])
  then have "trace_grown w ?w1 \<and> \<not> firstTime_OUT ?w1" by (subst (asm) run [OF refl]) simp
  then have g: "trace_grown w ?w1" "\<not> firstTime_OUT ?w1" by simp_all
  have "out_store ?w1 = s" "pageFilled_OUT ?w1 = 0" "ans ?w1 = ans w" "out_kmem ?w1 = out_kmem w"
      "contents_OUT ?w1 \<noteq> [] \<longleftrightarrow> ok"
    using s table True init by (simp_all add: record_first_def by_value ret_def ok)
  then show thesis using that [OF run [OF refl] g] fresh True init g by (simp add: trace_of_def pages_of_def)
qed

text \<open>
  The page record, if there is to be one: for an entry that is a multiple of 100, while fewer than a hundred
  are filled, the array is there and the page can be mapped (\<open>a\<close> is its address, \<open>ok\<close> whether there is memory
  for the array when it is made).
\<close>

definition recorded_page :: "scw \<Rightarrow> u64 \<Rightarrow> int \<Rightarrow> bool \<Rightarrow> page_content_store list" where
  "recorded_page w v a ok =
     (if v mod 100 = 0 \<and> length (pages_of w) < 100 \<and> (if firstTime_OUT w then ok else contents_OUT w \<noteq> []) \<and> a \<noteq> 0
      then [\<lparr>page_value = v, page_content = out_kmem w a\<rparr>] else [])"

lemma pages_of_length: "trace_typed w \<Longrightarrow> int (length (pages_of w)) = pageFilled_OUT w"
  by (auto simp: pages_of_def trace_typed_def min_def)

lemma record_content_returns:
  assumes env: "trace_env w" and ty: "trace_typed w" and first: "\<not> firstTime_OUT w"
    and room: "pageFilled_OUT w < 100" "contents_OUT w \<noteq> []"
    and priv: "\<And>h. ans w h (Pg (Page_private p)) = v" and map: "\<And>h. ans w h (Pg (Kmap p)) = a"
  shows "rets (\<lambda>_ w'. trace_of w' = trace_of w \<and> pages_of w' = pages_of w @
      (if a \<noteq> 0 then [\<lparr>page_value = word_of_int v, page_content = out_kmem w a\<rparr>] else [])) (record_content p w)"
proof -
  have len: "length (contents_OUT w) = 100" and bnd: "0 \<le> pageFilled_OUT w"
    using ty first room(2) by (auto simp: trace_typed_def)
  let ?i = "nat (pageFilled_OUT w)"
  have i: "?i < length (contents_OUT w)" using len room(1) by simp
  then have slot: "fetch (contents_OUT w) (pageFilled_OUT w) = Some (contents_OUT w ! ?i)"
    using bnd by (simp add: fetch_def)
  have step: "take (nat (pageFilled_OUT w + 1)) ((contents_OUT w)[?i := c]) = take ?i (contents_OUT w) @ [c]" for c
    using i bnd by (simp add: nat_add_distrib take_Suc_conv_app_nth)
  have put: "q\<lparr>page_value := x, page_content := y\<rparr> = \<lparr>page_value = x, page_content = y\<rparr>" for q :: page_content_store and x y
    by (cases q) simp
  show ?thesis
    by (simp add: record_content_def by_value slot priv map)
      (use i bnd len step put in \<open>auto simp: pages_of_def trace_of_def\<close>)
qed

lemma record_out_run:
  assumes ty: "trace_env w" "trace_typed w" and table: "\<And>h. ans w h (Sy Kmalloc_table) \<noteq> 0"
    and ok: "\<And>h. ans w h (Sy Kmalloc_contents) \<noteq> 0 \<longleftrightarrow> ok"
    and priv: "\<And>h. ans w h (Pg (Page_private p)) = v" and map: "\<And>h. ans w h (Pg (Kmap p)) = a"
  shows "if word_of_int v = (0 :: u64) then rets (\<lambda>_ w'. trace_of w' = trace_of w \<and> pages_of w' = pages_of w) (record_out p w)
    else if length (trace_of w) < 20 * 20000 then
      rets (\<lambda>_ w'. trace_of w' = trace_of w @ [word_of_int v] \<and>
        pages_of w' = pages_of w @ recorded_page w (word_of_int v) a ok) (record_out p w)
    else \<exists>w'. record_out p w = Inl (OutOfBounds, w')"
proof -
  obtain w1 where w1: "record_first w = Inr ((), w1)" "trace_grown w w1" "\<not> firstTime_OUT w1" "trace_of w1 = trace_of w"
    "pages_of w1 = pages_of w" "ans w1 = ans w" "out_kmem w1 = out_kmem w"
    "contents_OUT w1 \<noteq> [] \<longleftrightarrow> (if firstTime_OUT w then ok else contents_OUT w \<noteq> [])"
    using record_first_returns [OF ty table ok] by blast
  then have t: "trace_env w1" "trace_typed w1" and v: "valid_store (out_store w1)" "store_capacity (out_store w1) = 20 * 20000"
    by (auto simp: trace_grown_def trace_typed_def)
  have st: "stored (out_store w1) = trace_of w" using w1(3,4) by (simp add: trace_of_def)
  have filled: "pageFilled_OUT w1 < 100 \<longleftrightarrow> length (pages_of w) < 100"
    by (simp only: pages_of_length [OF t(2), unfolded w1(5), symmetric]) simp
  show ?thesis
  proof (cases "word_of_int v = (0 :: u64)")
    case True
    then show ?thesis using w1 priv by (simp add: record_out_def by_value ret_def)
  next
    case nz: False
    show ?thesis
    proof (cases "length (trace_of w) < 20 * 20000")
      case False
      then have "length (stored (out_store w1)) = store_capacity (out_store w1)"
        using st v length_stored used_le_capacity by (metis le_neq_implies_less)
      then have "addInArray_OUT (out_store w1) (word_of_int v) = None"
        by (rule swapout_store.add_full [OF v(1)])
      then show ?thesis using nz False w1 priv by (simp add: record_out_def by_value)
    next
      case True
      then obtain s where s: "addInArray_OUT (out_store w1) (word_of_int v) = Some s"
        using swapout_store.add_room [OF v(1)] st v(2) by metis
      let ?h = "(Pg (Page_private p), v) # (Pg (Page_private p), v) # (Pg (Page_private p), v) # log w1"
      let ?w2 = "w1\<lparr>out_store := s, log := ?h\<rparr>"
      have g: "trace_grown w1 (w1\<lparr>out_store := s\<rparr>)" by (rule trace_appended [OF t w1(3) s])
      have app: "trace_of ?w2 = trace_of w @ [word_of_int v]" "pages_of ?w2 = pages_of w"
        using append_OUT(2) [OF v(1) s] st w1(3,5) by (simp_all add: trace_of_def)
      have ty2: "trace_env ?w2" "trace_typed ?w2" using g by (simp_all add: trace_grown_def)
      have run: "record_out p w = cond ((word_of_int v :: u64) mod 100 = 0 \<and> pageFilled_OUT w1 < 100 \<and> contents_OUT w1 \<noteq> [])
          (record_content p) ?w2"
        using nz s w1(1,6) priv by (simp add: record_out_def by_value)
      show ?thesis
      proof (cases "(word_of_int v :: u64) mod 100 = 0 \<and> pageFilled_OUT w1 < 100 \<and> contents_OUT w1 \<noteq> []")
        case c: True
        then have rp: "recorded_page w (word_of_int v) a ok =
            (if a \<noteq> 0 then [\<lparr>page_value = word_of_int v, page_content = out_kmem ?w2 a\<rparr>] else [])"
          using w1(7,8) filled by (simp add: recorded_page_def)
        have "rets (\<lambda>_ w'. trace_of w' = trace_of ?w2 \<and> pages_of w' = pages_of ?w2 @
            (if a \<noteq> 0 then [\<lparr>page_value = word_of_int v, page_content = out_kmem ?w2 a\<rparr>] else [])) (record_content p ?w2)"
          by (rule record_content_returns [OF ty2]) (use w1(3,6) c priv map in simp_all)
        then have "rets (\<lambda>_ w'. trace_of w' = trace_of w @ [word_of_int v] \<and>
            pages_of w' = pages_of w @ recorded_page w (word_of_int v) a ok) (record_out p w)"
          unfolding rp app by (simp only: run cond_def if_P [OF c])
        then show ?thesis using nz True by simp
      next
        case c: False
        then have "recorded_page w (word_of_int v) a ok = []"
          using w1(8) filled by (auto simp: recorded_page_def)
        moreover have "record_out p w = ret () ?w2" using c run by (simp only: cond_def if_False)
        ultimately show ?thesis using nz True app by simp
      qed
    qed
  qed
qed

section \<open>The properties\<close>

text \<open>An example: a trace that has not been started.\<close>

definition traced :: "int \<Rightarrow> scw \<Rightarrow> scw" where
  "traced v w = w\<lparr>ans := (\<lambda>h c. case c of Pg (Page_private p) \<Rightarrow> v | Pg (Kmap p) \<Rightarrow> 1 | _ \<Rightarrow> 1), out_store := initial_OUT,
     out_rows := (\<lambda>_. replicate 20000 0), firstTime_OUT := True, contents_OUT := [],
     out_pages := (\<lambda>_. \<lparr>page_value = 0, page_content = replicate 4096 0\<rparr>), pageFilled_OUT := 0, out_kmem := (\<lambda>_. replicate 4096 0)\<rparr>"

lemma traced_typed: "trace_env (traced v w)" "trace_typed (traced v w)" "trace_of (traced v w) = []" "pages_of (traced v w) = []"
  "ans (traced v w) h (Sy Kmalloc_table) \<noteq> 0" "ans (traced v w) h (Pg (Page_private p)) = v"
  "ans (traced v w) h (Sy Kmalloc_contents) \<noteq> 0" "ans (traced v w) h (Pg (Kmap p)) = 1"
  by (simp_all add: traced_def trace_env_def trace_typed_def trace_of_def pages_of_def)


lemma kswapd_stops: "rets (\<lambda>r w'. r = 0) (kswapd 2 renv0 0 (traced 100 scw0))"
proof -
  have "ans (traced 100 scw0) h c = (case c of Pg (Page_private p) \<Rightarrow> 100 | Pg (Kmap p) \<Rightarrow> 1 | _ \<Rightarrow> 1)" for h c
    by (simp add: traced_def)
  then show ?thesis
    by (simp add: kswapd_def kswapd_round_def kswapd_request_def take_request_def by_value numeral_2_eq_2 cong: bnd_by_value rets_by_value)
qed


text \<open>
  C32: What is recorded of a page that is about to be written, on every branch, when the table can be
  allocated and neither the page's \<open>private\<close> field \<open>v\<close> nor its mapping \<open>a\<close> changes meanwhile: nothing if the field
  is 0; otherwise the field is appended to the entries, and if it is a multiple of 100, fewer than a
  hundred page records are filled, their array could be allocated and the page can be mapped, a record of
  the field and the 4096 bytes of the page is appended to the records, and nothing otherwise; and when
  20 * 20000 entries are stored the code writes behind the table.
\<close>

theorem record_out_appends:
  assumes "trace_env w" and "trace_typed w" and "\<And>h. ans w h (Sy Kmalloc_table) \<noteq> 0"
    and "\<And>h. ans w h (Sy Kmalloc_contents) \<noteq> 0 \<longleftrightarrow> ok"
    and "\<And>h. ans w h (Pg (Page_private p)) = v" and "\<And>h. ans w h (Pg (Kmap p)) = a"
  shows "if word_of_int v = (0 :: u64) then rets (\<lambda>_ w'. trace_of w' = trace_of w \<and> pages_of w' = pages_of w) (record_out p w)
    else if length (trace_of w) < 20 * 20000 then
      rets (\<lambda>_ w'. trace_of w' = trace_of w @ [word_of_int v] \<and>
        pages_of w' = pages_of w @
          (if (word_of_int v :: u64) mod 100 = 0 \<and> length (pages_of w) < 100 \<and>
              (if firstTime_OUT w then ok else contents_OUT w \<noteq> []) \<and> a \<noteq> 0
           then [\<lparr>page_value = word_of_int v, page_content = out_kmem w a\<rparr>] else [])) (record_out p w)
    else \<exists>w'. record_out p w = Inl (OutOfBounds, w')"
  unfolding recorded_page_def [symmetric] by (rule record_out_run) (use assms in simp_all)

theorem record_out_appends_witness:
  "rets (\<lambda>_ w'. trace_of w' = [100] \<and> pages_of w' = [\<lparr>page_value = 100, page_content = replicate 4096 0\<rparr>])
     (record_out 7 (traced 100 scw0))"
proof -
  have "firstTime_OUT (traced 100 scw0)" "out_kmem (traced 100 scw0) 1 = replicate 4096 0" by (simp_all add: traced_def)
  then show ?thesis
    using record_out_appends [of "traced 100 scw0" True 7 100 1] by (auto simp: traced_typed elim: rets_mono)
qed

text \<open>
  C37: The module that compares the traces asks for 1000 page records, reclaim makes an array of 100: after
  any recording, whatever was recorded before, the array has at most 100 elements, and the module reads
  behind it as soon as a page was read back in and the first one has no record with its entry and contents.
\<close>

theorem module_overreads:
  assumes "trace_env w" and "trace_typed w" and "0 < filled" and "length (page_content p) = 4096"
  shows "post (\<lambda>_ w'. length (contents_OUT w') \<le> 100 \<and>
      ((\<forall>q \<in> set (contents_OUT w'). page_value q = page_value p \<longrightarrow> page_content q \<noteq> page_content p) \<longrightarrow>
        init_module_exp s_in s_out (contents_OUT w') (p # ps) filled = None))
    (record_out page w)"
proof (rule post_mono [OF xpost_post [OF record_out_grown [OF assms(1,2)]]], intro conjI impI)
  fix w'
  assume "trace_grown w w'"
  then have len: "length (contents_OUT w') \<le> 100" and full: "\<forall>q \<in> set (contents_OUT w'). length (page_content q) = 4096"
    by (auto simp: trace_grown_def trace_typed_def split: if_splits)
  show "length (contents_OUT w') \<le> 100" by (rule len)
  assume "\<forall>q \<in> set (contents_OUT w'). page_value q = page_value p \<longrightarrow> page_content q \<noteq> page_content p"
  then have "scan_k (contents_OUT w') p True (map int [0..<1000]) = None"
    using len full assms(4) by (intro scan_k_overread) (auto simp: same_value_def intro: bexI [of _ 999])
  moreover have "map int [0..<filled] = 0 # map int [1..<filled]" using assms(3) by (simp add: upt_conv_Cons)
  ultimately have "scan_i (contents_OUT w') (p # ps) (map int [0..<filled]) = None"
    by (simp add: fetch_def)
  then show "init_module_exp s_in s_out (contents_OUT w') (p # ps) filled = None"
    by (simp add: init_module_exp_def Option.bind_eq_None_conv)
qed

theorem module_overreads_witness:
  "rets (\<lambda>_ w'. length (contents_OUT w') = 100 \<and>
      init_module_exp None None (contents_OUT w') [\<lparr>page_value = 5, page_content = blank 0\<rparr>] 1 = None)
    (record_out 7 (traced 0 scw0))"
proof -
  have run: "rets (\<lambda>_ w'. contents_OUT w' = map (\<lambda>_. \<lparr>page_value = 0, page_content = blank 0\<rparr>) [0..<100])
      (record_out 7 (traced 0 scw0))"
    by (simp add: record_out_def record_first_def by_value ret_def traced_def allocateArray_OUT_def blank_def)
  have "post (\<lambda>_ w'. length (contents_OUT w') \<le> 100 \<and>
      ((\<forall>q \<in> set (contents_OUT w'). page_value q = 5 \<longrightarrow> page_content q \<noteq> blank 0) \<longrightarrow>
        init_module_exp None None (contents_OUT w') [\<lparr>page_value = 5, page_content = blank 0\<rparr>] 1 = None))
    (record_out 7 (traced 0 scw0))"
    using module_overreads [OF traced_typed(1,2), of 1 "\<lparr>page_value = 5, page_content = blank 0\<rparr>"] by simp
  with run show ?thesis by (auto simp: rets_iff)
qed

end
