(* ===== verification/ReclaimResult.thy ===== *)
theory ReclaimResult
  imports ReclaimFrame ReclaimProps "HOL-Library.Sublist"
begin

text \<open>What direct reclaim reports: when it says that nothing could be freed, it has tried everything.\<close>

text \<open>
  The priority \<open>p\<close> was scanned in the course of a run: somewhere between its start in \<open>w0\<close> and the history
  \<open>h\<close>, \<open>shrink_zones\<close> was called with that priority, and reported \<open>z\<close> (whether some zone can be reclaimed from).
  The newest call is the first of a history, so an earlier history is a suffix.
\<close>

definition scanned :: "nat \<Rightarrow> renv \<Rightarrow> int \<Rightarrow> scw \<Rightarrow> (rk \<times> int) list \<Rightarrow> bool \<Rightarrow> int \<Rightarrow> bool \<Rightarrow> bool" where
  "scanned fuel E zonelist w0 h thrash p z =
     (\<exists>u v. suffix (log w0) (log u) \<and> ans u = ans w0 \<and> priority (sc u) = p \<and> may_thrash (sc u) = thrash \<and>
        shrink_zones fuel E zonelist u = Inr (z, v) \<and> suffix (log v) h)"

lemma scanned_later: "scanned fuel E zl w0 h b p z \<Longrightarrow> suffix h h' \<Longrightarrow> scanned fuel E zl w0 h' b p z"
  by (auto simp: scanned_def intro: suffix_order.trans)

text \<open>The scan stays what it is, and the history only grows.\<close>

definition scanning :: "scan_control \<Rightarrow> (rk \<times> int) list \<Rightarrow> ((rk \<times> int) list \<Rightarrow> rk \<Rightarrow> int) \<Rightarrow> scw \<Rightarrow> bool" where
  "scanning c h a w = (same_scan (sc w) c \<and> suffix h (log w) \<and> ans w = a)"

lemma scanning_simps [simp]:
  "scanning c h a (w\<lparr>out_store := s\<rparr>) = scanning c h a w" "scanning c h a (w\<lparr>firstTime_OUT := b\<rparr>) = scanning c h a w"
  "scanning c h a (w\<lparr>contents_OUT := cs\<rparr>) = scanning c h a w" "scanning c h a (w\<lparr>pageFilled_OUT := n\<rparr>) = scanning c h a w"
  by (simp_all add: scanning_def)

interpretation scan_steady: steady "scanning c h a" "\<lambda>_. True" for c h a
  by unfold_locales (auto simp: scanning_def suffix_ConsI)

lemma scanning_out:
  "scanning c h a w \<Longrightarrow> scanning c h a (w\<lparr>out_store := s\<rparr>)" "scanning c h a w \<Longrightarrow> scanning c h a (w\<lparr>firstTime_OUT := b\<rparr>)"
  "scanning c h a w \<Longrightarrow> scanning c h a (w\<lparr>contents_OUT := cs\<rparr>)" "scanning c h a w \<Longrightarrow> scanning c h a (w\<lparr>pageFilled_OUT := n\<rparr>)"
  by simp_all

lemma record_out_scanning: "scanning c h a w \<Longrightarrow> xpost (\<lambda>_. True) (\<lambda>_. scanning c h a) (record_out p w)"
  unfolding record_out_def record_first_def record_content_def
  by (intro scan_steady.base_intros scan_steady.keeps_out TrueI scanning_out)

interpretation scan: calm "scanning c h a" "\<lambda>_. True" for c h a
proof unfold_locales
  fix w p assume "scanning c h a w"
  then show "xpost (\<lambda>_. True) (\<lambda>_. scanning c h a) (record_out p w)" by (rule record_out_scanning)
qed (auto simp: scanning_def same_scan_def)

lemma shrink_zones_scanning: "post (\<lambda>_ w'. scanning (sc w) (log w) (ans w) w') (shrink_zones fuel E zl w)"
  by (rule xpost_post, rule scan.shrink_zones_keeps) (simp add: scanning_def same_scan_def)

text \<open>What stays the same from a world of the run to a later one.\<close>

definition onward :: "scw \<Rightarrow> scw \<Rightarrow> bool" where
  "onward w w' = (may_thrash (sc w') = may_thrash (sc w) \<and> nr_to_reclaim (sc w') = nr_to_reclaim (sc w) \<and>
     suffix (log w) (log w') \<and> ans w' = ans w)"

lemma onward_refl [simp]: "onward w w"
  by (simp add: onward_def)

lemma onward_trans: "onward u v \<Longrightarrow> onward v w \<Longrightarrow> onward u w"
  by (auto simp: onward_def intro: suffix_order.trans)

lemma priority_round_scans:
  assumes "onward w0 w"
  shows "post (\<lambda>(again, t, z) w'. onward w0 w' \<and> suffix (log w) (log w') \<and>
      scanned fuel E zl w0 (log w') (may_thrash (sc w0)) (priority (sc w)) z \<and>
      (if again then priority (sc w') = priority (sc w) - 1 \<and> 0 \<le> priority (sc w')
       else nr_to_reclaim (sc w) \<le> nr_reclaimed (sc w') \<or> compaction_ready (sc w') \<or> priority (sc w) - 1 < 0))
    (priority_round fuel E zl s w)"
proof (cases s)
  case (Pair t z0)
  define c where "c = Nd (Vmpressure_prio (gfp_mask (sc w)) (target_mem_cgroup (sc w)) (priority (sc w)))"
  define u where "u = w\<lparr>log := (c, ans w (log w) c) # log w, sc := (sc w)\<lparr>nr_scanned := 0\<rparr>\<rparr>"
  have u: "onward w0 u" "suffix (log w) (log u)" "priority (sc u) = priority (sc w)" "may_thrash (sc u) = may_thrash (sc w0)"
    "nr_to_reclaim (sc u) = nr_to_reclaim (sc w)" "nr_to_reclaim (sc w) = nr_to_reclaim (sc w0)"
    using assms by (auto simp: u_def onward_def suffix_ConsI)
  have step: "priority_round fuel E zl s w = bnd (shrink_zones fuel E zl u) (\<lambda>zones_reclaimable w.
     let total_scanned = t + nr_scanned (sc w) in
     if nr_to_reclaim (sc w) \<le> nr_reclaimed (sc w) then ret (False, (total_scanned, zones_reclaimable)) w
     else if compaction_ready (sc w) then ret (False, (total_scanned, zones_reclaimable)) w
     else
       let w = (if priority (sc w) < DEF_PRIORITY - 2 then w\<lparr>sc := (sc w)\<lparr>may_writepage := True\<rparr>\<rparr> else w);
           writeback_threshold = nr_to_reclaim (sc w) + nr_to_reclaim (sc w) div 2 in
       bnd (cond (writeback_threshold < total_scanned) (\<lambda>w.
              bnd (kdo (Tk (Wakeup_flusher (if laptop_mode E then 0 else total_scanned))) w) (\<lambda>_ w.
              ret () (w\<lparr>sc := (sc w)\<lparr>may_writepage := True\<rparr>\<rparr>))) w) (\<lambda>_ w.
       let w = w\<lparr>sc := (sc w)\<lparr>priority := priority (sc w) - 1\<rparr>\<rparr> in
       ret (0 \<le> priority (sc w), (total_scanned, zones_reclaimable)) w))"
    by (simp add: priority_round_def Pair kdo_run u_def c_def)
  show ?thesis
  proof (cases "shrink_zones fuel E zl u")
    case (Inr r)
    then obtain z v where v: "shrink_zones fuel E zl u = Inr (z, v)" by (cases r) auto
    then have "scanning (sc u) (log u) (ans u) v" using shrink_zones_scanning [of u fuel E zl] by simp
    then have k: "onward u v" "priority (sc v) = priority (sc w)"
      using u(3) by (auto simp: scanning_def same_scan_def onward_def)
    have on: "onward w0 v" "suffix (log w) (log v)" "nr_to_reclaim (sc v) = nr_to_reclaim (sc w)"
      using onward_trans [OF u(1) k(1)] u k(1) by (auto simp: onward_def intro: suffix_order.trans)
    have "scanned fuel E zl w0 (log v) (may_thrash (sc w0)) (priority (sc w)) z"
      using u v by (auto simp: scanned_def onward_def)
    then have sc: "scanned fuel E zl w0 (log v) (may_thrash (sc w0)) (priority (sc w)) z"
      "scanned fuel E zl w0 (x # log v) (may_thrash (sc w0)) (priority (sc w)) z" for x
      by (auto elim: scanned_later intro: suffix_ConsI)
    show ?thesis
      unfolding step v
      using on sc k(2) by (auto simp: cond_def kdo_run Let_def onward_def suffix_ConsI)
  qed (simp add: step)
qed

text \<open>All the priorities of a pass, from \<open>p0\<close> down.\<close>

lemma priorities_scanned:
  assumes "0 \<le> priority (sc w)" "priority (sc w) = p0"
  shows "post (\<lambda>(t, z) w'. onward w w' \<and>
      (nr_to_reclaim (sc w) \<le> nr_reclaimed (sc w') \<or> compaction_ready (sc w') \<or>
        (\<forall>p \<in> {0..p0}. \<exists>z. scanned fuel E zl w (log w') (may_thrash (sc w)) p z) \<and>
        scanned fuel E zl w (log w') (may_thrash (sc w)) 0 z))
    (do_while n (priority_round fuel E zl) s w)"
proof (rule post_do_while [where I = "\<lambda>_ w'. onward w w' \<and> 0 \<le> priority (sc w') \<and>
      (\<forall>p \<in> {priority (sc w') + 1..p0}. \<exists>z. scanned fuel E zl w (log w') (may_thrash (sc w)) p z)"])
  fix t :: "u64 \<times> bool" and v
  assume v: "onward w v \<and> 0 \<le> priority (sc v) \<and>
    (\<forall>p \<in> {priority (sc v) + 1..p0}. \<exists>z. scanned fuel E zl w (log v) (may_thrash (sc w)) p z)"
  then have nr: "nr_to_reclaim (sc v) = nr_to_reclaim (sc w)" by (simp add: onward_def)
  have more: "\<forall>p \<in> {priority (sc v)..p0}. \<exists>z. scanned fuel E zl w h (may_thrash (sc w)) p z"
    if "scanned fuel E zl w h (may_thrash (sc w)) (priority (sc v)) z" "suffix (log v) h" for z h
  proof
    fix p assume "p \<in> {priority (sc v)..p0}"
    then consider "p = priority (sc v)" | "p \<in> {priority (sc v) + 1..p0}" by fastforce
    then show "\<exists>z. scanned fuel E zl w h (may_thrash (sc w)) p z"
    proof cases
      case 2
      then obtain y where "scanned fuel E zl w (log v) (may_thrash (sc w)) p y" using v by blast
      then show ?thesis using scanned_later that(2) by blast
    qed (use that in blast)
  qed
  show "post (\<lambda>(again, s') w'. if again then onward w w' \<and> 0 \<le> priority (sc w') \<and>
        (\<forall>p \<in> {priority (sc w') + 1..p0}. \<exists>z. scanned fuel E zl w (log w') (may_thrash (sc w)) p z)
      else (case s' of (t, z) \<Rightarrow> \<lambda>w'. onward w w' \<and>
        (nr_to_reclaim (sc w) \<le> nr_reclaimed (sc w') \<or> compaction_ready (sc w') \<or>
          (\<forall>p \<in> {0..p0}. \<exists>z. scanned fuel E zl w (log w') (may_thrash (sc w)) p z) \<and>
          scanned fuel E zl w (log w') (may_thrash (sc w)) 0 z)) w')
    (priority_round fuel E zl t v)"
  proof (rule post_mono [OF priority_round_scans [of w]], use v in simp, clarify, goal_cases)
    case (1 again t1 z v')
    note all = more [OF 1(3,2)]
    show ?case
    proof (cases again)
      case True
      then show ?thesis using 1 all by auto
    next
      case False
      then have "priority (sc v) = 0 \<or> nr_to_reclaim (sc w) \<le> nr_reclaimed (sc v') \<or> compaction_ready (sc v')"
        using 1 v nr by auto
      then show ?thesis using False 1 all by auto
    qed
  qed
qed (use assms in simp)

text \<open>One pass over the priorities and what is made of it.\<close>

definition pass_result :: "nat \<Rightarrow> renv \<Rightarrow> int \<Rightarrow> scw \<Rightarrow> u64 \<Rightarrow> scw \<Rightarrow> bool" where
  "pass_result fuel E zl w result w' =
     (if nr_reclaimed (sc w') \<noteq> 0 then result = nr_reclaimed (sc w')
      else if compaction_ready (sc w') then result = 1
      else (\<forall>p \<in> {0..priority (sc w)}. \<exists>z. scanned fuel E zl w (log w') True p z) \<and>
        (\<exists>z. scanned fuel E zl w (log w') True 0 z \<and> result = (if z then 1 else 0)))"

lemma scanned_from: "scanned fuel E zl v h b p z \<Longrightarrow> suffix (log w) (log v) \<Longrightarrow> ans v = ans w \<Longrightarrow> scanned fuel E zl w h b p z"
  by (auto simp: scanned_def intro: suffix_order.trans)

lemma free_round_result:
  assumes "0 \<le> priority (sc w0)" "nr_to_reclaim (sc w0) \<noteq> 0" "priority (sc w) = priority (sc w0)"
    "nr_to_reclaim (sc w) = nr_to_reclaim (sc w0)" "suffix (log w0) (log w)" "ans w = ans w0"
  shows "post (\<lambda>(again, t, result) w'. if again then priority (sc w') = priority (sc w0) \<and>
        nr_to_reclaim (sc w') = nr_to_reclaim (sc w0) \<and> suffix (log w0) (log w') \<and> ans w' = ans w0
      else pass_result fuel E zl w0 result w') (free_round fuel E zl (priority (sc w0)) s w)"
proof -
  let ?p0 = "priority (sc w0)"
  have pass: "post (\<lambda>(again, t, result) w'. if again then priority (sc w') = ?p0 \<and>
        nr_to_reclaim (sc w') = nr_to_reclaim (sc w0) \<and> suffix (log w0) (log w') \<and> ans w' = ans w0
      else pass_result fuel E zl w0 result w')
     (bnd (do_while n (priority_round fuel E zl) (fst s, False) v) (\<lambda>(total_scanned, zones_reclaimable) w.
     bnd (kdo (Tk Delayacct_end) w) (\<lambda>_ w.
     if nr_reclaimed (sc w) \<noteq> 0 then ret (False, (total_scanned, nr_reclaimed (sc w))) w
     else if compaction_ready (sc w) then ret (False, (total_scanned, 1)) w
     else if \<not> may_thrash (sc w)
     then ret (True, (total_scanned, 0)) (w\<lparr>sc := (sc w)\<lparr>priority := ?p0, may_thrash := True\<rparr>\<rparr>)
     else ret (False, (total_scanned, if zones_reclaimable then 1 else 0)) w)))"
    if "sc v = sc w" "suffix (log w0) (log v)" "ans v = ans w0" for v n
  proof (rule post_bndI [OF priorities_scanned])
    show "0 \<le> priority (sc v)" "priority (sc v) = ?p0" using assms that by simp_all
  next
    fix r and w' :: scw
    assume "(case r of (t, z) \<Rightarrow> \<lambda>w'. onward v w' \<and>
      (nr_to_reclaim (sc v) \<le> nr_reclaimed (sc w') \<or> compaction_ready (sc w') \<or>
        (\<forall>p \<in> {0..?p0}. \<exists>z. scanned fuel E zl v (log w') (may_thrash (sc v)) p z) \<and>
        scanned fuel E zl v (log w') (may_thrash (sc v)) 0 z)) w'"
    then obtain t z where r: "r = (t, z)" and on: "onward v w'"
      and why: "nr_to_reclaim (sc v) \<le> nr_reclaimed (sc w') \<or> compaction_ready (sc w') \<or>
        (\<forall>p \<in> {0..?p0}. \<exists>z. scanned fuel E zl v (log w') (may_thrash (sc v)) p z) \<and>
        scanned fuel E zl v (log w') (may_thrash (sc v)) 0 z"
      by (cases r) auto
    have later: "scanned fuel E zl v (log w') b p y \<Longrightarrow> scanned fuel E zl w0 (x # log w') b p y" for b p y x
      using that by (auto intro: scanned_from scanned_later suffix_ConsI)
    have go: "suffix (log w0) (x # log w')" "ans w' = ans w0" "nr_to_reclaim (sc w') = nr_to_reclaim (sc w0)"
      "may_thrash (sc w') = may_thrash (sc v)" for x
      using on that assms(4) by (auto simp: onward_def intro: suffix_ConsI suffix_order.trans)
    have nr: "nr_to_reclaim (sc v) \<noteq> 0" using assms(2,4) that(1) by simp
    show "post (\<lambda>(again, t, result) w'. if again then priority (sc w') = ?p0 \<and>
        nr_to_reclaim (sc w') = nr_to_reclaim (sc w0) \<and> suffix (log w0) (log w') \<and> ans w' = ans w0
      else pass_result fuel E zl w0 result w')
     ((case r of (total_scanned, zones_reclaimable) \<Rightarrow> \<lambda>w.
     bnd (kdo (Tk Delayacct_end) w) (\<lambda>_ w.
     if nr_reclaimed (sc w) \<noteq> 0 then ret (False, (total_scanned, nr_reclaimed (sc w))) w
     else if compaction_ready (sc w) then ret (False, (total_scanned, 1)) w
     else if \<not> may_thrash (sc w)
     then ret (True, (total_scanned, 0)) (w\<lparr>sc := (sc w)\<lparr>priority := ?p0, may_thrash := True\<rparr>\<rparr>)
     else ret (False, (total_scanned, if zones_reclaimable then 1 else 0)) w)) w')"
    proof (cases "nr_reclaimed (sc w') \<noteq> 0 \<or> compaction_ready (sc w')")
      case True
      then show ?thesis by (cases "nr_reclaimed (sc w') = 0") (simp_all add: r kdo_run pass_result_def)
    next
      case False
      then have all: "\<forall>p \<in> {0..?p0}. \<exists>z. scanned fuel E zl v (log w') (may_thrash (sc v)) p z"
        and last: "scanned fuel E zl v (log w') (may_thrash (sc v)) 0 z"
        using why nr by auto
      show ?thesis
      proof (cases "may_thrash (sc v)")
        case False
        then show ?thesis using \<open>\<not> (nr_reclaimed (sc w') \<noteq> 0 \<or> compaction_ready (sc w'))\<close> go
          by (simp add: r kdo_run)
      next
        case thrash: True
        have "\<forall>p \<in> {0..?p0}. \<exists>y. scanned fuel E zl w0 (x # log w') True p y"
          "scanned fuel E zl w0 (x # log w') True 0 z" for x
          using all last later thrash by (simp_all, blast)
        then have "pass_result fuel E zl w0 (if z then 1 else 0) (w'\<lparr>log := x # log w'\<rparr>)" for x
          unfolding pass_result_def using False by (cases x) (auto intro!: exI [of _ z])
        then show ?thesis using False thrash go(4) by (simp add: r kdo_run)
      qed
    qed
  qed
  have calls: "post (\<lambda>_ v'. sc v' = sc v \<and> suffix (log v) (log v') \<and> ans v' = ans v) (kdo c v)"
    "post (\<lambda>_ v'. sc v' = sc v \<and> suffix (log v) (log v') \<and> ans v' = ans v) (cond b (kdo c) v)" for c b v
    by (simp_all add: kdo_run cond_def suffix_ConsI)
  show ?thesis
    unfolding free_round_def case_prod_beta
    by (rule post_bndI [OF calls(1)], rule post_bndI [OF calls(2)], rule pass [unfolded case_prod_beta])
      (use assms in \<open>auto intro: suffix_order.trans\<close>)
qed

lemma do_try_to_free_pages_result:
  assumes "0 \<le> priority (sc w)" "nr_to_reclaim (sc w) \<noteq> 0"
  shows "post (pass_result fuel E zl w) (do_try_to_free_pages fuel E zl w)"
  unfolding do_try_to_free_pages_def
proof (rule post_bndI [OF post_do_while [where I = "\<lambda>_ w'. priority (sc w') = priority (sc w) \<and>
        nr_to_reclaim (sc w') = nr_to_reclaim (sc w) \<and> suffix (log w) (log w') \<and> ans w' = ans w"
      and Q = "\<lambda>(t, result). pass_result fuel E zl w result"]])
  fix s and v :: scw
  assume v: "priority (sc v) = priority (sc w) \<and> nr_to_reclaim (sc v) = nr_to_reclaim (sc w) \<and>
    suffix (log w) (log v) \<and> ans v = ans w"
  show "post (\<lambda>(again, s') w'. if again then priority (sc w') = priority (sc w) \<and>
        nr_to_reclaim (sc w') = nr_to_reclaim (sc w) \<and> suffix (log w) (log w') \<and> ans w' = ans w
      else (case s' of (t, result) \<Rightarrow> pass_result fuel E zl w result) w')
    (free_round fuel E zl (priority (sc w)) s v)"
    by (rule post_mono [OF free_round_result]) (use v assms in \<open>auto split: if_splits\<close>)
qed auto

section \<open>The property\<close>

text \<open>An example: two populated zones that the task may not allocate from, scanned at the priorities 1 and 0.\<close>

definition idle :: scw where
  "idle = scw0\<lparr>ans := (\<lambda>_ c. case c of Nd (Populated_zone z) \<Rightarrow> 1 | _ \<Rightarrow> 0), log := [],
     sc := control0\<lparr>nr_to_reclaim := 32, priority := 1\<rparr>\<rparr>"

lemma idle_simps: "ans idle h c = (case c of Nd (Populated_zone z) \<Rightarrow> 1 | _ \<Rightarrow> 0)" "log idle = []"
  "sc idle = control0\<lparr>nr_to_reclaim := 32, priority := 1\<rparr>"
  by (simp_all add: idle_def)

lemma idle_run: "rets (\<lambda>r w'. r = 0 \<and> nr_reclaimed (sc w') = 0 \<and> \<not> compaction_ready (sc w')) (do_try_to_free_pages 5 renv0 0 idle)"
  by (simp add: do_try_to_free_pages_def free_round_def [THEN fun_cong, THEN fun_cong]
      priority_round_def [THEN fun_cong, THEN fun_cong] numeral_2_eq_2 shrink_zones_def renv0_def shrink_one_zone_def
      pass_over_def by_value idle_simps control0_def DEF_PRIORITY_def global_reclaim_def cong: bnd_by_value rets_by_value)



end
