(* ===== verification/TestPrograms.thy ===== *)
theory TestPrograms
  imports Prelude
begin

text \<open>
  The two user programs that give the experiments something to run on: \<open>SharedPageExperiment/forkCall.c\<close>
  fills an array and forks, \<open>heap copy/mult.c\<close> adds two numbers. What the C library answers
  (\<open>malloc\<close>, \<open>fork\<close>, \<open>getpid\<close>, \<open>atoi\<close>) is an argument; \<open>None\<close> is an access out of bounds.
\<close>

section \<open>forkCall.c\<close>

text \<open>A block of \<open>malloc\<close> as an array of 4-byte integers; \<open>ok\<close> says whether there was memory.\<close>

definition malloc_ints :: "bool \<Rightarrow> nat \<Rightarrow> int list" where
  "malloc_ints ok bytes = (if ok then replicate (bytes div 4) 0 else [])"

fun fill_from :: "nat \<Rightarrow> int \<Rightarrow> int list \<Rightarrow> int list option" where
  "fill_from 0 i a = Some a"
| "fill_from (Suc n) i a = Option.bind (store a i i) (fill_from n (i + 1))"

datatype process = Child int | Parent int

text \<open>The loop, and which process prints its number; \<open>pid\<close> is what \<open>fork\<close> returned.\<close>

definition main_forkCall :: "bool \<Rightarrow> int \<Rightarrow> int \<Rightarrow> process option" where
  "main_forkCall ok pid own =
     Option.bind (fill_from 10000 0 (malloc_ints ok 10000)) (\<lambda>a. Some (if pid = 0 then Child own else Parent own))"

lemma fill_from_length: "0 \<le> i \<Longrightarrow> fill_from n i a \<noteq> None \<longleftrightarrow> n = 0 \<or> nat i + n \<le> length a"
proof (induction n i a rule: fill_from.induct)
  case (2 n i a)
  show ?case
  proof (cases "store a i i")
    case None
    then show ?thesis using 2(2) by (auto simp: store_def split: if_splits)
  next
    case (Some b)
    then have "length b = length a" "i < int (length a)" by (auto simp: store_def split: if_splits)
    moreover have "fill_from n (i + 1) b \<noteq> None \<longleftrightarrow> n = 0 \<or> nat (i + 1) + n \<le> length b"
      using 2(1) [OF Some] 2(2) by simp
    ultimately show ?thesis using Some 2(2) by (simp add: nat_add_distrib) linarith
  qed
qed simp

text \<open>
  \<open>malloc(10000)\<close> asks for bytes and the loop stores 10000 integers: the program never gets to its
  \<open>fork\<close> without having written behind the block.
\<close>

lemma main_forkCall_overruns: "main_forkCall ok pid own = None"
proof -
  have "fill_from 10000 0 (malloc_ints ok 10000) = None"
    using fill_from_length [of 0 10000 "malloc_ints ok 10000"] by (simp add: malloc_ints_def split: if_splits)
  then show ?thesis by (simp add: main_forkCall_def)
qed

section \<open>mult.c\<close>

text \<open>
  \<open>argv\<close> and the numbers that \<open>atoi\<close> reads from its words; \<open>heap\<close> says whether there is memory for the
  two integers. The result is what is printed; without an argument, or without memory, the program
  follows a null pointer.
\<close>

definition main_mult :: "(string \<Rightarrow> u32) \<Rightarrow> bool \<times> bool \<Rightarrow> string list \<Rightarrow> u32 option" where
  "main_mult atoi heap argv =
     (if \<not> fst heap \<or> \<not> snd heap then None
      else
        Option.bind (fetch argv 1) (\<lambda>s.
        let a = atoi s in
        Option.bind (fetch argv 1) (\<lambda>s. let b = atoi s in Some (a + b))))"

lemma main_mult_doubles: "main_mult atoi (True, True) [prog, s] = Some (2 * atoi s)"
  by (simp add: main_mult_def fetch_def)

end
