(* ===== verification/SwapHeader.thy ===== *)
theory SwapHeader
  imports Prelude
begin

text \<open>
  The inline functions of \<open>swap.h\<close>. The number of pages and of shadow entries of a node of a page
  cache share the field \<open>count\<close>, an unsigned int: the pages are its low \<open>k\<close> bits, where \<open>k\<close>
  (\<open>RADIX_TREE_COUNT_SHIFT\<close>, with the mask \<open>RADIX_TREE_COUNT_MASK\<close> below it) comes from the radix tree.
  The warnings of \<open>VM_WARN_ON_ONCE\<close> are left out.
\<close>

unbundle bit_operations_syntax

section \<open>The counts of a node\<close>

record radix_tree_node =
  node_count :: u32

definition workingset_node_pages :: "nat \<Rightarrow> radix_tree_node \<Rightarrow> u32" where
  "workingset_node_pages k node = (node_count node AND mask k)"

definition workingset_node_pages_inc :: "radix_tree_node \<Rightarrow> radix_tree_node" where
  "workingset_node_pages_inc node = node\<lparr>node_count := node_count node + 1\<rparr>"

definition workingset_node_pages_dec :: "radix_tree_node \<Rightarrow> radix_tree_node" where
  "workingset_node_pages_dec node = node\<lparr>node_count := node_count node - 1\<rparr>"

definition workingset_node_shadows :: "nat \<Rightarrow> radix_tree_node \<Rightarrow> u32" where
  "workingset_node_shadows k node = drop_bit k (node_count node)"

definition workingset_node_shadows_inc :: "nat \<Rightarrow> radix_tree_node \<Rightarrow> radix_tree_node" where
  "workingset_node_shadows_inc k node = node\<lparr>node_count := node_count node + push_bit k 1\<rparr>"

definition workingset_node_shadows_dec :: "nat \<Rightarrow> radix_tree_node \<Rightarrow> radix_tree_node" where
  "workingset_node_shadows_dec k node = node\<lparr>node_count := node_count node - push_bit k 1\<rparr>"

text \<open>What the packing gives: counting shadows does not touch the pages, and an undone count is undone.\<close>

lemma take_bit_add_push: "take_bit k (x + push_bit k 1) = take_bit k x" for x :: u32
proof (cases "k < 32")
  case True
  have "(2 :: nat) ^ k < 2 ^ 32" using True by (rule power_strict_increasing) simp
  then have "unat (word_of_nat (2 ^ k) :: u32) = 2 ^ k" by (simp only: unat_of_nat) simp
  then have p: "unat ((2 :: u32) ^ k) = 2 ^ k" by simp
  have d: "(2 :: nat) ^ k dvd 2 ^ 32" using True by (intro le_imp_power_dvd) simp
  have "unat (take_bit k (x + push_bit k 1)) = (unat x + 2 ^ k) mod 2 ^ 32 mod 2 ^ k"
    by (simp only: unsigned_take_bit_eq take_bit_eq_mod push_bit_eq_mult mult_1 unat_word_ariths p)
      (simp, rule mod_less, rule le_less_trans [OF mod_less_eq_dividend], simp)
  also have "\<dots> = unat (take_bit k x)"
    by (simp only: mod_mod_cancel [OF d] mod_add_self2 unsigned_take_bit_eq take_bit_nat_def)
  finally show ?thesis by (simp only: word_unat_eq_iff)
next
  case False
  have "push_bit k 1 = (0 :: u32)" by (rule bit_word_eqI) (use False in \<open>auto simp: bit_simps\<close>)
  then show ?thesis by (simp only: add_0_right)
qed

lemma shadows_leave_pages:
  "workingset_node_pages k (workingset_node_shadows_inc k node) = workingset_node_pages k node"
  "workingset_node_pages k (workingset_node_shadows_dec k node) = workingset_node_pages k node"
  using take_bit_add_push [of k "node_count node"] take_bit_add_push [of k "node_count node - push_bit k 1"]
  by (simp_all add: workingset_node_pages_def workingset_node_shadows_inc_def workingset_node_shadows_dec_def
      take_bit_eq_mask [symmetric])

lemma node_counts_undone:
  "workingset_node_pages_dec (workingset_node_pages_inc node) = node"
  "workingset_node_shadows_dec k (workingset_node_shadows_inc k node) = node"
  by (simp_all add: workingset_node_pages_dec_def workingset_node_pages_inc_def workingset_node_shadows_dec_def
      workingset_node_shadows_inc_def)

section \<open>The state of the swap code\<close>

text \<open>
  A task's flags and the flag of a page-out daemon; a memory group is its own swappiness and whether
  it has a parent; the numbers of free and of all swap slots are signed longs.
\<close>

definition current_is_kswapd :: "u32 \<Rightarrow> u32 \<Rightarrow> u32" where
  "current_is_kswapd PF_KSWAPD flags = (flags AND PF_KSWAPD)"

record mem_cgroup =
  css_parent :: int
  swappiness :: int

definition mem_cgroup_swappiness :: "bool \<Rightarrow> int \<Rightarrow> mem_cgroup \<Rightarrow> int" where
  "mem_cgroup_swappiness disabled vm_swappiness memcg =
     (if disabled \<or> css_parent memcg = 0 then vm_swappiness else swappiness memcg)"

definition get_nr_swap_pages :: "u64 \<Rightarrow> u64" where
  "get_nr_swap_pages nr_swap_pages = nr_swap_pages"

definition vm_swap_full :: "u64 \<Rightarrow> u64 \<Rightarrow> bool" where
  "vm_swap_full nr_swap_pages total_swap_pages = (nr_swap_pages * 2 <s total_swap_pages)"

text \<open>With a sane number of slots the product does not overflow: swap is full when less than half is free.\<close>

lemma vm_swap_full_half:
  assumes "0 \<le> sint nr_free" "sint nr_free < 2 ^ 62"
  shows "vm_swap_full nr_free nr_total \<longleftrightarrow> 2 * sint nr_free < sint nr_total"
proof -
  have "sint (nr_free * 2) = signed_take_bit 63 (sint nr_free * 2)" by (simp add: sint_word_ariths)
  also have "\<dots> = sint nr_free * 2" by (rule signed_take_bit_int_eq_self) (use assms in simp_all)
  finally show ?thesis by (simp add: vm_swap_full_def word_sless_alt mult.commute)
qed

end
