(* ===== verification/CopyRange.thy ===== *)
theory CopyRange
  imports Zap
begin

text \<open>
  Copying the page tables of an area into a new address space, as \<open>fork\<close> does: \<open>memory.c\<close> lines 914
  to 1179, from the single entry (\<open>copy_one_pte\<close>) up to \<open>copy_page_range\<close>.
\<close>

section \<open>One entry\<close>

definition inc_rss :: "rss_vec \<Rightarrow> mm_member \<Rightarrow> rss_vec" where
  "inc_rss rss i = rss(i := rss i + 1)"

text \<open>The global lock \<open>mmlist_lock\<close>.\<close>

definition mmlist_lock :: int where "mmlist_lock = 2"

definition on_mmlist :: "int \<Rightarrow> int \<Rightarrow> unit mact" where
  "on_mmlist dst_mm src_mm w =
     bnd (kask (Sw (List_empty_mmlist dst_mm)) w) (\<lambda>empty w.
     cond empty (\<lambda>w.
       bnd (kdo (Lk (Spin_lock mmlist_lock)) w) (\<lambda>_ w.
       bnd (kask (Sw (List_empty_mmlist dst_mm)) w) (\<lambda>empty w.
       bnd (cond empty (kdo (Sw (List_add_mmlist dst_mm src_mm))) w) (\<lambda>_ w.
       kdo (Lk (Spin_unlock mmlist_lock)) w)))) w)"

text \<open>
  An entry that is not present. \<open>Inl\<close> the swap entry if the count of the slot could not be raised,
  otherwise the value for the copy and the counts.
\<close>

definition copy_migration :: "arch \<Rightarrow> vma \<Rightarrow> int \<Rightarrow> int \<Rightarrow> u64 \<Rightarrow> u64 \<Rightarrow> u64 \<Rightarrow> rss_vec \<Rightarrow> (u64 \<times> rss_vec) mact" where
  "copy_migration A v src_mm src_pte addr pte entry rss w =
     (let page = migration_entry_to_page A entry in
      bnd (kask (Pg (PageAnon page)) w) (\<lambda>anon w.
      let rss = inc_rss rss (if anon then MM_ANONPAGES else MM_FILEPAGES) in
      if is_write_migration_entry A entry \<and> is_cow_mapping A (vm_flags v)
      then
        let pte = swp_entry_to_pte A (make_migration_entry_read A entry) in
        bnd (read_pte src_pte w) (\<lambda>old w.
        let pte = (if pte_swp_soft_dirty A old then pte_swp_mksoft_dirty A pte else pte) in
        bnd (kdo (Pe (Set_pte_at src_mm addr src_pte pte)) w) (\<lambda>_ w. ret (pte, rss) w))
      else ret (pte, rss) w))"

definition copy_absent :: "arch \<Rightarrow> vma \<Rightarrow> int \<Rightarrow> int \<Rightarrow> int \<Rightarrow> u64 \<Rightarrow> u64 \<Rightarrow> rss_vec \<Rightarrow> (u64 + u64 \<times> rss_vec) mact" where
  "copy_absent A v dst_mm src_mm src_pte addr pte rss w =
     (let entry = pte_to_swp_entry A pte in
      if \<not> non_swap_entry A entry then
        bnd (kcall (Sw (Swap_duplicate entry)) w) (\<lambda>err w.
        if err < 0 then ret (Inl entry) w
        else bnd (on_mmlist dst_mm src_mm w) (\<lambda>_ w. ret (Inr (pte, inc_rss rss MM_SWAPENTS)) w))
      else if is_migration_entry A entry then
        bnd (copy_migration A v src_mm src_pte addr pte entry rss w) (\<lambda>copied w. ret (Inr copied) w)
      else ret (Inr (pte, rss)) w)"

definition copy_present :: "arch \<Rightarrow> vma \<Rightarrow> int \<Rightarrow> int \<Rightarrow> u64 \<Rightarrow> u64 \<Rightarrow> rss_vec \<Rightarrow> (u64 \<times> rss_vec) mact" where
  "copy_present A v src_mm src_pte addr pte rss w =
     (let cow = is_cow_mapping A (vm_flags v) in
      bnd (cond cow (kdo (Pe (Ptep_set_wrprotect src_mm addr src_pte))) w) (\<lambda>_ w.
      let pte = (if cow then pte_wrprotect A pte else pte);
          pte = (if VM_SHARED \<in> vm_flags v then pte_mkclean A pte else pte);
          pte = pte_mkold A pte in
      bnd (vm_normal_page A v addr pte w) (\<lambda>page w.
      if page = 0 then ret (pte, rss) w
      else
        bnd (kdo (Pg (Get_page page)) w) (\<lambda>_ w.
        bnd (kdo (Pg (Page_dup_rmap page)) w) (\<lambda>_ w.
        bnd (kask (Pg (PageAnon page)) w) (\<lambda>anon w.
        ret (pte, inc_rss rss (if anon then MM_ANONPAGES else MM_FILEPAGES)) w))))))"

text \<open>The result is 0 or the entry whose count could not be raised, and the counts.\<close>

definition copy_one_pte :: "arch \<Rightarrow> vma \<Rightarrow> int \<Rightarrow> int \<Rightarrow> int \<Rightarrow> int \<Rightarrow> u64 \<Rightarrow> rss_vec \<Rightarrow> (u64 \<times> rss_vec) mact" where
  "copy_one_pte A v dst_mm src_mm dst_pte src_pte addr rss w =
     bnd (read_pte src_pte w) (\<lambda>pte w.
     bnd (if \<not> pte_present A pte then copy_absent A v dst_mm src_mm src_pte addr pte rss w
          else bnd (copy_present A v src_mm src_pte addr pte rss w) (\<lambda>copied w. ret (Inr copied) w)) (\<lambda>copied w.
     case copied of
       Inl entry \<Rightarrow> ret (entry, rss) w
     | Inr (pte, rss) \<Rightarrow>
         bnd (kdo (Pe (Set_pte_at dst_mm addr dst_pte pte)) w) (\<lambda>_ w. ret (0, rss) w)))"

section \<open>A table of entries\<close>

text \<open>
  One pass of \<open>copy_pte_range\<close> under both locks. \<open>progress\<close> and the value of \<open>entry\<close> survive a pass:
  the code declares them before the label \<open>again\<close>.
\<close>

definition lock_wanted :: "int \<Rightarrow> int \<Rightarrow> bool mact" where
  "lock_wanted src_ptl dst_ptl w =
     bnd (kask (Lk Need_resched) w) (\<lambda>resched w.
     if resched then ret True w
     else bnd (kask (Lk (Spin_needbreak src_ptl)) w) (\<lambda>src w.
          if src then ret True w else kask (Lk (Spin_needbreak dst_ptl)) w))"

record copy_state =
  cp_dst :: int
  cp_src :: int
  cp_addr :: u64
  cp_entry :: u64
  cp_progress :: nat
  cp_rss :: rss_vec

text \<open>The step \<open>dst_pte++, src_pte++, addr += PAGE_SIZE\<close> and the test at the end of the loop.\<close>

definition copy_next :: "u64 \<Rightarrow> copy_state \<Rightarrow> bool \<times> copy_state" where
  "copy_next e s =
     (cp_addr s + PAGE_SIZE \<noteq> e,
      s\<lparr>cp_dst := cp_dst s + 1, cp_src := cp_src s + 1, cp_addr := cp_addr s + PAGE_SIZE\<rparr>)"

definition copy_value :: "arch \<Rightarrow> vma \<Rightarrow> int \<Rightarrow> int \<Rightarrow> u64 \<Rightarrow> copy_state \<Rightarrow> (bool \<times> copy_state) mact" where
  "copy_value A v dst_mm src_mm e s w =
     bnd (read_pte (cp_src s) w) (\<lambda>pte w.
     if pte_none A pte then ret (copy_next e (s\<lparr>cp_progress := cp_progress s + 1\<rparr>)) w
     else
       bnd (copy_one_pte A v dst_mm src_mm (cp_dst s) (cp_src s) (cp_addr s) (cp_rss s) w) (\<lambda>(val, rss) w.
       let s = s\<lparr>cp_entry := val, cp_rss := rss\<rparr> in
       if val \<noteq> 0 then ret (False, s) w
       else ret (copy_next e (s\<lparr>cp_progress := cp_progress s + 8\<rparr>)) w))"

definition copy_entry :: "arch \<Rightarrow> vma \<Rightarrow> int \<Rightarrow> int \<Rightarrow> int \<Rightarrow> int \<Rightarrow> u64 \<Rightarrow> copy_state \<Rightarrow> (bool \<times> copy_state) mact" where
  "copy_entry A v dst_mm src_mm src_ptl dst_ptl e s w =
     (let due = (32 \<le> cp_progress s); s = (if due then s\<lparr>cp_progress := 0\<rparr> else s) in
      bnd (andalso due (lock_wanted src_ptl dst_ptl) w) (\<lambda>stop w.
      if stop then ret (False, s) w else copy_value A v dst_mm src_mm e s w))"

text \<open>The pass returns \<open>None\<close> if no table could be allocated, otherwise where it has come to.\<close>

definition copy_pass :: "arch \<Rightarrow> vma \<Rightarrow> int \<Rightarrow> int \<Rightarrow> int \<Rightarrow> int \<Rightarrow> u64 \<Rightarrow> u64 \<Rightarrow> u64 \<Rightarrow> nat \<Rightarrow> copy_state option mact" where
  "copy_pass A v dst_mm src_mm dst_pmd src_pmd e addr entry progress w =
     bnd (kcall (Lk (Pte_alloc_map_lock dst_pmd addr)) w) (\<lambda>dst_pte w.
     if dst_pte = 0 then ret None w
     else
       bnd (kcall (Lk (Pte_lockptr dst_mm dst_pmd)) w) (\<lambda>dst_ptl w.
       bnd (kcall (Lk (Pte_offset_map_nested src_pmd addr)) w) (\<lambda>src_pte w.
       bnd (kcall (Lk (Pte_lockptr src_mm src_pmd)) w) (\<lambda>src_ptl w.
       bnd (kdo (Lk (Spin_lock src_ptl)) w) (\<lambda>_ w.
       bnd (kdo (Lk Enter_lazy_mmu) w) (\<lambda>_ w.
       bnd (do_while (range_fuel addr e) (copy_entry A v dst_mm src_mm src_ptl dst_ptl e)
              \<lparr>cp_dst = dst_pte, cp_src = src_pte, cp_addr = addr, cp_entry = entry, cp_progress = progress,
               cp_rss = init_rss_vec\<rparr> w) (\<lambda>s w.
       bnd (kdo (Lk Leave_lazy_mmu) w) (\<lambda>_ w.
       bnd (kdo (Lk (Spin_unlock src_ptl)) w) (\<lambda>_ w.
       bnd (kdo (Lk (Pte_unmap src_pte)) w) (\<lambda>_ w.
       bnd (add_mm_rss_vec dst_mm (cp_rss s) w) (\<lambda>_ w.
       bnd (kdo (Lk (Pte_unmap_unlock dst_pte)) w) (\<lambda>_ w.
       bnd (kdo (Lk Cond_resched) w) (\<lambda>_ w. ret (Some s) w)))))))))))))"

definition copy_round :: "arch \<Rightarrow> vma \<Rightarrow> int \<Rightarrow> int \<Rightarrow> int \<Rightarrow> int \<Rightarrow> u64 \<Rightarrow>
    u64 \<times> u64 \<times> nat \<times> int \<Rightarrow> (bool \<times> u64 \<times> u64 \<times> nat \<times> int) mact" where
  "copy_round A v dst_mm src_mm dst_pmd src_pmd e = (\<lambda>(addr, entry, progress, _) w.
     bnd (copy_pass A v dst_mm src_mm dst_pmd src_pmd e addr entry progress w) (\<lambda>pass w.
     case pass of
       None \<Rightarrow> ret (False, (addr, entry, progress, - ENOMEM)) w
     | Some s \<Rightarrow>
         if cp_entry s \<noteq> 0 then
           bnd (kcall (Sw (Add_swap_count_continuation (cp_entry s))) w) (\<lambda>err w.
           if err < 0 then ret (False, (cp_addr s, cp_entry s, cp_progress s, - ENOMEM)) w
           else ret (cp_addr s \<noteq> e, (cp_addr s, cp_entry s, 0, 0)) w)
         else ret (cp_addr s \<noteq> e, (cp_addr s, cp_entry s, cp_progress s, 0)) w))"

text \<open>
  The passes run on fuel: as long as the slot's count cannot be raised and the continuation page can
  be added, the code tries the same entry again.
\<close>

definition copy_pte_range :: "nat \<Rightarrow> arch \<Rightarrow> vma \<Rightarrow> int \<Rightarrow> int \<Rightarrow> int \<Rightarrow> int \<Rightarrow> u64 \<Rightarrow> u64 \<Rightarrow> int mact" where
  "copy_pte_range fuel A v dst_mm src_mm dst_pmd src_pmd addr e w =
     bnd (do_while fuel (copy_round A v dst_mm src_mm dst_pmd src_pmd e) (addr, 0, 0, 0) w)
       (\<lambda>(addr, entry, progress, r) w. ret r w)"

section \<open>The upper levels\<close>

text \<open>One entry of the middle level: \<open>True\<close> if the copy failed for want of memory.\<close>

definition copy_pmd_entry :: "nat \<Rightarrow> arch \<Rightarrow> vma \<Rightarrow> int \<Rightarrow> int \<Rightarrow> int \<Rightarrow> int \<Rightarrow> u64 \<Rightarrow> u64 \<Rightarrow> bool mact" where
  "copy_pmd_entry fuel A v dst_mm src_mm dst_pmd src_pmd addr next w =
     bnd (kask (Tb (Pmd_trans_huge src_pmd)) w) (\<lambda>huge w.
     bnd (if huge
          then bnd (BUG_ON (next - addr \<noteq> HPAGE_PMD_SIZE A) w) (\<lambda>_ w.
               bnd (kcall (Fr (Copy_huge_pmd dst_pmd src_pmd addr)) w) (\<lambda>err w. ret (Some err) w))
          else ret None w) (\<lambda>copied w.
     if copied = Some (- ENOMEM) then ret True w
     else if copied = Some 0 then ret False w
     else
       bnd (kask (Tb (Pmd_none_or_clear_bad src_pmd)) w) (\<lambda>none w.
       if none then ret False w
       else bnd (copy_pte_range fuel A v dst_mm src_mm dst_pmd src_pmd addr next w) (\<lambda>r w. ret (r \<noteq> 0) w))))"

definition copy_pmd_range :: "nat \<Rightarrow> arch \<Rightarrow> vma \<Rightarrow> int \<Rightarrow> int \<Rightarrow> int \<Rightarrow> int \<Rightarrow> u64 \<Rightarrow> u64 \<Rightarrow> int mact" where
  "copy_pmd_range fuel A v dst_mm src_mm dst_pud src_pud addr e w =
     bnd (kcall (Fr (Pmd_alloc dst_pud addr)) w) (\<lambda>dst_pmd w.
     if dst_pmd = 0 then ret (- ENOMEM) w
     else
       bnd (kcall (Tb (Pmd_offset src_pud addr)) w) (\<lambda>src_pmd w.
       bnd (do_while (range_fuel addr e) (\<lambda>((dst_pmd, src_pmd, _), addr) w.
              let next = pmd_addr_end A addr e in
              bnd (copy_pmd_entry fuel A v dst_mm src_mm dst_pmd src_pmd addr next w) (\<lambda>failed w.
              if failed then ret (False, ((dst_pmd, src_pmd, - ENOMEM), addr)) w
              else ret (next \<noteq> e, ((dst_pmd + 1, src_pmd + 1, 0), next)) w))
            ((dst_pmd, src_pmd, 0), addr) w) (\<lambda>((_, _, r), _) w. ret r w)))"

definition copy_pud_range :: "nat \<Rightarrow> arch \<Rightarrow> vma \<Rightarrow> int \<Rightarrow> int \<Rightarrow> int \<Rightarrow> int \<Rightarrow> u64 \<Rightarrow> u64 \<Rightarrow> int mact" where
  "copy_pud_range fuel A v dst_mm src_mm dst_pgd src_pgd addr e w =
     bnd (kcall (Fr (Pud_alloc dst_pgd addr)) w) (\<lambda>dst_pud w.
     if dst_pud = 0 then ret (- ENOMEM) w
     else
       bnd (kcall (Tb (Pud_offset src_pgd addr)) w) (\<lambda>src_pud w.
       bnd (do_while (range_fuel addr e) (\<lambda>((dst_pud, src_pud, _), addr) w.
              let next = pud_addr_end A addr e in
              bnd (kask (Tb (Pud_none_or_clear_bad src_pud)) w) (\<lambda>none w.
              bnd (if none then ret 0 w else copy_pmd_range fuel A v dst_mm src_mm dst_pud src_pud addr next w) (\<lambda>r w.
              if r \<noteq> 0 then ret (False, ((dst_pud, src_pud, - ENOMEM), addr)) w
              else ret (next \<noteq> e, ((dst_pud + 1, src_pud + 1, 0), next)) w)))
            ((dst_pud, src_pud, 0), addr) w) (\<lambda>((_, _, r), _) w. ret r w)))"

text \<open>Areas whose pages a fault fills in again are not copied.\<close>

definition fills_by_fault :: "vma \<Rightarrow> bool" where
  "fills_by_fault v = (vm_flags v \<inter> {VM_HUGETLB, VM_PFNMAP, VM_MIXEDMAP} = {} \<and> anon_vma v = 0)"

definition copy_page_range :: "nat \<Rightarrow> arch \<Rightarrow> int \<Rightarrow> int \<Rightarrow> vma \<Rightarrow> int mact" where
  "copy_page_range fuel A dst_mm src_mm v w =
     (let addr = vm_start v; e = vm_end v in
      if fills_by_fault v then ret 0 w
      else if is_vm_hugetlb_page v then kcall (Vm (Copy_hugetlb_page_range (vma_ptr v))) w
      else
        bnd (if VM_PFNMAP \<in> vm_flags v then kcall (Vm (Track_pfn_copy (vma_ptr v))) w else ret 0 w) (\<lambda>err w.
        if err \<noteq> 0 then ret err w
        else
          let is_cow = is_cow_mapping A (vm_flags v) in
          bnd (cond is_cow (kdo (Tl (Notifier_start src_mm addr e))) w) (\<lambda>_ w.
          bnd (kcall (Tb (Pgd_offset dst_mm addr)) w) (\<lambda>dst_pgd w.
          bnd (kcall (Tb (Pgd_offset src_mm addr)) w) (\<lambda>src_pgd w.
          bnd (do_while (range_fuel addr e) (\<lambda>((dst_pgd, src_pgd, _), addr) w.
                 let next = pgd_addr_end A addr e in
                 bnd (kask (Tb (Pgd_none_or_clear_bad src_pgd)) w) (\<lambda>none w.
                 bnd (if none then ret 0 w else copy_pud_range fuel A v dst_mm src_mm dst_pgd src_pgd addr next w) (\<lambda>r w.
                 if r \<noteq> 0 then ret (False, ((dst_pgd, src_pgd, - ENOMEM), addr)) w
                 else ret (next \<noteq> e, ((dst_pgd + 1, src_pgd + 1, 0), next)) w)))
               ((dst_pgd, src_pgd, 0), addr) w) (\<lambda>((_, _, r), _) w.
          bnd (cond is_cow (kdo (Tl (Notifier_end src_mm addr e))) w) (\<lambda>_ w. ret r w)))))))"

end
