(* ===== verification/CopyProps.thy ===== *)
theory CopyProps
  imports TableProps CopyRange
begin

text \<open>
  What \<open>copy_page_range\<close> guarantees. Its protocol is an automaton over the calls: the lock of the table of
  the new address space (\<open>cq_dst\<close>), the locks taken under it (\<open>cq_spin\<close> of them, the first that of
  the table copied from), the section of the notifiers, the pages referenced and those whose mapping
  was counted, and for each kind of page the number met (\<open>cq_due\<close>) and the number added to the
  counters of the new address space (\<open>cq_given\<close>).
\<close>

section \<open>The protocol of copying\<close>

record copy_proto =
  cq_ok :: bool
  cq_dst :: bool
  cq_spin :: nat
  cq_notify :: bool
  cq_refs :: "int list"
  cq_dups :: "int list"
  cq_due :: rss_vec
  cq_given :: rss_vec
  cq_failed :: nat

text \<open>
  The rules: entries change only under both locks, locks nest, nothing that may sleep is called under
  a lock. \<open>cq_failed\<close> counts the times the count of a swap slot could not be raised.
\<close>

definition may_sleep :: "copy_proto \<Rightarrow> copy_proto" where
  "may_sleep z = z\<lparr>cq_ok := cq_ok z \<and> \<not> cq_dst z \<and> cq_spin z = 0\<rparr>"

definition both_locked :: "copy_proto \<Rightarrow> copy_proto" where
  "both_locked z = z\<lparr>cq_ok := cq_ok z \<and> cq_dst z \<and> 0 < cq_spin z\<rparr>"

definition count_one :: "mm_member \<Rightarrow> copy_proto \<Rightarrow> copy_proto" where
  "count_one i z = z\<lparr>cq_due := inc_rss (cq_due z) i\<rparr>"

fun copy_lock_step :: "copy_proto \<Rightarrow> lock_call \<Rightarrow> int \<Rightarrow> copy_proto" where
  "copy_lock_step z (Pte_alloc_map_lock pmd a) r = (let z = may_sleep z in if r = 0 then z else z\<lparr>cq_dst := True\<rparr>)"
| "copy_lock_step z (Pte_unmap_unlock p) r = z\<lparr>cq_ok := cq_ok z \<and> cq_dst z \<and> cq_spin z = 0, cq_dst := False\<rparr>"
| "copy_lock_step z (Spin_lock l) r = z\<lparr>cq_ok := cq_ok z \<and> cq_dst z, cq_spin := cq_spin z + 1\<rparr>"
| "copy_lock_step z (Spin_unlock l) r = z\<lparr>cq_ok := cq_ok z \<and> 0 < cq_spin z, cq_spin := cq_spin z - 1\<rparr>"
| "copy_lock_step z Cond_resched r = may_sleep z"
| "copy_lock_step z c r = z"

fun copy_page_step :: "copy_proto \<Rightarrow> page_call \<Rightarrow> int \<Rightarrow> copy_proto" where
  "copy_page_step z (Get_page p) r = z\<lparr>cq_refs := cq_refs z @ [p]\<rparr>"
| "copy_page_step z (Page_dup_rmap p) r = z\<lparr>cq_dups := cq_dups z @ [p]\<rparr>"
| "copy_page_step z (PageAnon p) r = count_one (if r \<noteq> 0 then MM_ANONPAGES else MM_FILEPAGES) z"
| "copy_page_step z c r = z"

fun copy_swap_step :: "copy_proto \<Rightarrow> swap_call \<Rightarrow> int \<Rightarrow> copy_proto" where
  "copy_swap_step z (Swap_duplicate e) r = (if r < 0 then z\<lparr>cq_failed := cq_failed z + 1\<rparr> else count_one MM_SWAPENTS z)"
| "copy_swap_step z (Add_swap_count_continuation e) r = may_sleep z"
| "copy_swap_step z c r = z"

fun copy_step :: "int \<Rightarrow> copy_proto \<Rightarrow> kc \<Rightarrow> int \<Rightarrow> copy_proto" where
  "copy_step dst z (Lk c) r = copy_lock_step z c r"
| "copy_step dst z (Pg c) r = copy_page_step z c r"
| "copy_step dst z (Sw c) r = copy_swap_step z c r"
| "copy_step dst z (Pe (Set_pte_at mm a p e)) r = both_locked z"
| "copy_step dst z (Pe (Ptep_set_wrprotect mm a p)) r = both_locked z"
| "copy_step dst z (Fr (Pmd_alloc p a)) r = may_sleep z"
| "copy_step dst z (Fr (Pud_alloc p a)) r = may_sleep z"
| "copy_step dst z (Vm (Add_mm_counter mm i x)) r =
     (if mm = dst then z\<lparr>cq_given := (cq_given z)(i := cq_given z i + ucast x)\<rparr> else z)"
| "copy_step dst z (Tl (Notifier_start mm a e)) r = z\<lparr>cq_ok := cq_ok z \<and> \<not> cq_notify z, cq_notify := True\<rparr>"
| "copy_step dst z (Tl (Notifier_end mm a e)) r = z\<lparr>cq_ok := cq_ok z \<and> cq_notify z, cq_notify := False\<rparr>"
| "copy_step dst z c r = z"

definition copy_proto0 :: copy_proto where
  "copy_proto0 = \<lparr>cq_ok = True, cq_dst = False, cq_spin = 0, cq_notify = False, cq_refs = [], cq_dups = [],
     cq_due = (\<lambda>_. 0), cq_given = (\<lambda>_. 0), cq_failed = 0\<rparr>"

abbreviation copying :: "int \<Rightarrow> mmw \<Rightarrow> copy_proto" where
  "copying dst w \<equiv> ghost (copy_step dst) copy_proto0 w"

text \<open>
  The environment: another address space than the current one is filled, and once \<open>K\<close> attempts to raise
  the count of a swap slot have failed the next ones succeed (\<open>add_swap_count_continuation\<close> is there
  to make room for the count).
\<close>

definition fork_env :: "int \<Rightarrow> nat \<Rightarrow> ((kc \<times> int) list \<Rightarrow> kc \<Rightarrow> int) \<Rightarrow> int \<Rightarrow> bool" where
  "fork_env dst K answers cur =
     (cur \<noteq> dst \<and> (\<forall>h e. K \<le> cq_failed (replay (copy_step dst) copy_proto0 h) \<longrightarrow> 0 \<le> answers h (Sw (Swap_duplicate e))))"

definition cstate :: "int \<Rightarrow> nat \<Rightarrow> bool \<Rightarrow> nat \<Rightarrow> bool \<Rightarrow> rss_vec \<Rightarrow> nat \<Rightarrow> mmw \<Rightarrow> bool" where
  "cstate dst K d k n rss f w =
     (fork_env dst K (ans w) (cur_mm w) \<and>
      (let z = copying dst w in
        cq_ok z \<and> cq_dst z = d \<and> cq_spin z = k \<and> cq_notify z = n \<and> cq_refs z = cq_dups z \<and>
        cq_due z = (\<lambda>i. cq_given z i + rss i) \<and> cq_failed z = f))"

lemmas copy_defs = cstate_def may_sleep_def both_locked_def count_one_def Let_def

declare tpost_cases [run_intros] tpost_Inl [run_intros] tpost_bnd_Inl [run_intros]

lemma cstate_mmw [simp]:
  "cstate dst K d k n rss f (w\<lparr>nr_shown := x\<rparr>) = cstate dst K d k n rss f w"
  "cstate dst K d k n rss f (w\<lparr>nr_unshown := x\<rparr>) = cstate dst K d k n rss f w"
  "cstate dst K d k n rss f (w\<lparr>resume := x\<rparr>) = cstate dst K d k n rss f w"
  by (simp_all add: cstate_def)

lemma print_bad_pte_cstate:
  "cstate dst K d k n rss f w \<Longrightarrow> tpost (\<lambda>_. cstate dst K d k n rss f) (print_bad_pte A v addr pte page w)"
  unfolding print_bad_pte_def by (intro run_intros) (simp_all add: copy_defs)

lemma vm_normal_page_cstate:
  "cstate dst K d k n rss f w \<Longrightarrow> tpost (\<lambda>_. cstate dst K d k n rss f) (vm_normal_page A v addr pte w)"
  unfolding vm_normal_page_def check_pfn_def
  by (intro run_intros tpost_bndI [OF print_bad_pte_cstate [of dst K d k n rss f]]) (simp_all add: copy_defs)

lemma inc_rss_due: "(\<lambda>i. g i + rss i)(j := g j + rss j + 1) = (\<lambda>i. g i + inc_rss rss j i)"
  by (auto simp: inc_rss_def)

lemma inc_due: "inc_rss (\<lambda>i. g i + rss i) j = (\<lambda>i. g i + inc_rss rss j i)"
  by (auto simp: inc_rss_def)

section \<open>One entry\<close>

lemma copy_present_cstate:
  assumes "cstate dst K True (Suc 0) n rss f w"
  shows "tpost (\<lambda>(pte, rss). cstate dst K True (Suc 0) n rss f) (copy_present A v src pt a e rss w)"
  unfolding copy_present_def Let_def
  by (intro run_intros tpost_bndI [OF vm_normal_page_cstate [of dst K True "Suc 0" n rss f]])
    (use assms in \<open>simp_all add: copy_defs inc_due\<close>)

lemma on_mmlist_cstate:
  assumes "cstate dst K True (Suc 0) n rss f w"
  shows "tpost (\<lambda>_. cstate dst K True (Suc 0) n rss f) (on_mmlist d s w)"
  unfolding on_mmlist_def by (intro run_intros) (use assms in \<open>simp_all add: copy_defs\<close>)

lemma copy_migration_cstate:
  assumes "cstate dst K True (Suc 0) n rss f w"
  shows "tpost (\<lambda>(pte, rss). cstate dst K True (Suc 0) n rss f) (copy_migration A v src pt a e entry rss w)"
  unfolding copy_migration_def Let_def
  by (intro run_intros) (use assms in \<open>simp_all add: copy_defs inc_due\<close>)

lemma tpost_bnd_dup:
  assumes "cstate dst K d k n rss f w"
    and "\<And>r. (r < 0 \<Longrightarrow> f < K) \<Longrightarrow> tpost P (g r (w\<lparr>log := (Sw (Swap_duplicate x), r) # log w\<rparr>))"
  shows "tpost P (bnd (kcall (Sw (Swap_duplicate x)) w) g)"
proof -
  have "f < K" if "ans w (log w) (Sw (Swap_duplicate x)) < 0"
    using assms(1) that by (auto simp: cstate_def fork_env_def Let_def not_le [symmetric])
  then show ?thesis using assms(2) [of "ans w (log w) (Sw (Swap_duplicate x))"] by (simp add: kcall_run)
qed

text \<open>What a copied entry leaves: the counts with it, or one more failure.\<close>

definition counted :: "int \<Rightarrow> nat \<Rightarrow> bool \<Rightarrow> rss_vec \<Rightarrow> nat \<Rightarrow> u64 \<Rightarrow> mmw \<Rightarrow> bool" where
  "counted dst K n rss f val w =
     (val = 0 \<and> cstate dst K True (Suc 0) n rss f w \<or> f < K \<and> cstate dst K True (Suc 0) n rss (Suc f) w)"

lemma copy_absent_cstate:
  assumes "cstate dst K True (Suc 0) n rss f w"
  shows "tpost (\<lambda>x w'. case x of Inl e \<Rightarrow> counted dst K n rss f e w'
      | Inr (pte, rss) \<Rightarrow> cstate dst K True (Suc 0) n rss f w') (copy_absent A v dst' src pt a e rss w)"
  unfolding copy_absent_def Let_def
  by (intro tpost_bnd_dup [OF assms] run_intros tpost_bndI [OF on_mmlist_cstate [of dst K n "inc_rss rss MM_SWAPENTS" f]]
      tpost_bndI [OF copy_migration_cstate [OF assms]])
    (use assms in \<open>auto simp: counted_def copy_defs inc_due split: prod.splits\<close>)

lemma set_copy_cstate:
  "cstate dst K True (Suc 0) n rss f w \<Longrightarrow>
    tpost (\<lambda>(val, rss). counted dst K n rss f val) (bnd (kdo (Pe (Set_pte_at m a p e)) w) (\<lambda>_ w. ret (0, rss) w))"
  by (intro run_intros) (simp add: counted_def copy_defs)

lemma copy_one_pte_cstate:
  assumes "cstate dst K True (Suc 0) n rss f w"
  shows "tpost (\<lambda>(val, rss). counted dst K n rss f val) (copy_one_pte A v dst' src dpt spt a rss w)"
proof -
  have present: "tpost (\<lambda>(pte, rss). cstate dst K True (Suc 0) n rss f)
      (copy_present A v src spt a e rss (w\<lparr>log := (Tb (Pte_read spt), r) # log w\<rparr>))" for e r
    by (rule copy_present_cstate) (use assms in \<open>simp add: copy_defs\<close>)
  have absent: "tpost (\<lambda>x w'. case x of Inl e \<Rightarrow> counted dst K n rss f e w' | Inr (pte, rss) \<Rightarrow> cstate dst K True (Suc 0) n rss f w')
      (copy_absent A v dst' src spt a e rss (w\<lparr>log := (Tb (Pte_read spt), r) # log w\<rparr>))" for e r
    by (rule copy_absent_cstate) (use assms in \<open>simp add: copy_defs\<close>)
  show ?thesis
    unfolding copy_one_pte_def
    by (intro run_intros tpost_bndI [OF present] tpost_bndI [OF absent])
      (auto split: sum.splits prod.splits intro!: set_copy_cstate)
qed

section \<open>A table\<close>

lemma lock_wanted_cstate:
  "cstate dst K d k n rss f w \<Longrightarrow> tpost (\<lambda>_. cstate dst K d k n rss f) (lock_wanted sp dp w)"
  unfolding lock_wanted_def by (intro run_intros) (simp_all add: copy_defs)

text \<open>
  In a pass from \<open>sa\<close>, begun after \<open>fs\<close> failures: the entries up to the current one are counted. The pass
  moves forward or fails once more.
\<close>

definition in_pass :: "int \<Rightarrow> nat \<Rightarrow> bool \<Rightarrow> nat \<Rightarrow> copy_state \<Rightarrow> nat \<Rightarrow> mmw \<Rightarrow> bool" where
  "in_pass dst K n fs s f w = (fs \<le> f \<and> (fs < f \<longrightarrow> fs < K) \<and> cstate dst K True (Suc 0) n (cp_rss s) f w)"

definition pass_end :: "u64 \<Rightarrow> u64 \<Rightarrow> nat \<Rightarrow> copy_state \<Rightarrow> nat \<Rightarrow> bool" where
  "pass_end sa e fs s f =
     (sa \<le> cp_addr s \<and> cp_addr s \<le> e \<and> PAGE_ALIGNED (cp_addr s) \<and> (sa < cp_addr s \<or> fs < f) \<and>
      (cp_entry s = 0 \<and> cp_addr s \<noteq> e \<longrightarrow> cp_progress s = 0))"

definition pass_goal :: "int \<Rightarrow> nat \<Rightarrow> bool \<Rightarrow> nat \<Rightarrow> u64 \<Rightarrow> u64 \<Rightarrow> u64 \<Rightarrow> bool \<times> copy_state \<Rightarrow> mmw \<Rightarrow> bool" where
  "pass_goal dst K n fs sa e a = (\<lambda>(again, s') w'. \<exists>f'. in_pass dst K n fs s' f' w' \<and>
      (if again then sa < cp_addr s' \<and> cp_addr s' < e \<and> PAGE_ALIGNED (cp_addr s') \<and> a < cp_addr s'
       else pass_end sa e fs s' f'))"

lemma pass_next:
  assumes "PAGE_ALIGNED e" "sa \<le> cp_addr s" "cp_addr s < e" "PAGE_ALIGNED (cp_addr s)" "in_pass dst K n fs s f w"
  shows "pass_goal dst K n fs sa e (cp_addr s) (copy_next e (s\<lparr>cp_progress := p\<rparr>)) w"
  using page_step [OF assms(4,1,3)] assms(2,5)
  by (auto simp: pass_goal_def copy_next_def in_pass_def pass_end_def)

lemma copy_value_pass:
  assumes "PAGE_ALIGNED e" "sa \<le> cp_addr s" "cp_addr s < e" "PAGE_ALIGNED (cp_addr s)" "in_pass dst K n fs s f w"
  shows "tpost (pass_goal dst K n fs sa e (cp_addr s)) (copy_value A v dst' src e s w)"
proof -
  have c: "cstate dst K True (Suc 0) n (cp_rss s) f w" and f: "fs \<le> f" "fs < f \<longrightarrow> fs < K"
    using assms(5) by (auto simp: in_pass_def)
  have one: "tpost (\<lambda>(val, rss). counted dst K n rss f val)
      (copy_one_pte A v dst' src dp sp a (cp_rss s) (w\<lparr>log := (Tb (Pte_read q), r) # log w\<rparr>))" for dp sp a q r
    by (rule copy_one_pte_cstate) (use c in \<open>simp add: copy_defs\<close>)
  have next0: "pass_goal dst K n fs sa e (cp_addr s) (copy_next e (s\<lparr>cp_progress := p\<rparr>)) (w\<lparr>log := (Tb (Pte_read q), r) # log w\<rparr>)" for p q r
    by (rule pass_next [where f = f, OF assms(1-4)]) (use assms(5) in \<open>simp add: in_pass_def copy_defs\<close>)
  have next1: "pass_goal dst K n fs sa e (cp_addr s) (copy_next e (s\<lparr>cp_entry := 0, cp_rss := rss, cp_progress := p\<rparr>)) u"
    if "counted dst K n rss f 0 u" for rss p u
  proof -
    have "\<exists>g. (g = f \<or> g = Suc f \<and> f < K) \<and> cstate dst K True (Suc 0) n rss g u"
      using that by (auto simp: counted_def)
    then obtain g where "g = f \<or> g = Suc f \<and> f < K" "cstate dst K True (Suc 0) n rss g u" by blast
    then have "in_pass dst K n fs (s\<lparr>cp_entry := 0, cp_rss := rss\<rparr>) g u" using f by (auto simp: in_pass_def)
    from pass_next [OF assms(1) _ _ _ this, of sa p] assms(2-4) show ?thesis by simp
  qed
  have stop: "pass_goal dst K n fs sa e (cp_addr s) (False, s\<lparr>cp_entry := val, cp_rss := rss\<rparr>) u"
    if "counted dst K n rss f val u" "val \<noteq> 0" for rss val u
    using that assms f by (auto simp: counted_def in_pass_def pass_goal_def pass_end_def intro!: exI [of _ "Suc f"])
  show ?thesis
    unfolding copy_value_def Let_def
    by (intro run_intros tpost_bndI [OF one]) (auto simp: next0 next1 stop split: prod.splits)
qed

lemma copy_entry_pass:
  assumes "PAGE_ALIGNED e" "sa \<le> cp_addr s" "cp_addr s < e" "PAGE_ALIGNED (cp_addr s)"
    "cp_addr s = sa \<longrightarrow> cp_progress s = 0" "in_pass dst K n fs s f w"
  shows "tpost (pass_goal dst K n fs sa e (cp_addr s)) (copy_entry A v dst' src sp dp e s w)"
proof -
  have c: "cstate dst K True (Suc 0) n (cp_rss s) f w" and f: "fs \<le> f" "fs < f \<longrightarrow> fs < K"
    using assms(6) by (auto simp: in_pass_def)
  have moved: "sa < cp_addr s" if "32 \<le> cp_progress s" using assms(2,5) that by (cases "cp_addr s = sa") auto
  have rest: "tpost (pass_goal dst K n fs sa e (cp_addr s)) (copy_value A v dst' src e t u)"
    if "t = s \<or> t = s\<lparr>cp_progress := 0\<rparr>" "cstate dst K True (Suc 0) n (cp_rss s) f u" for t u
  proof -
    have "in_pass dst K n fs t f u" using that f by (auto simp: in_pass_def)
    from copy_value_pass [OF assms(1) _ _ _ this, of sa] that(1) assms(2-4) show ?thesis by auto
  qed
  have stop: "pass_goal dst K n fs sa e (cp_addr s) (False, s\<lparr>cp_progress := 0\<rparr>) u"
    if "32 \<le> cp_progress s" "cstate dst K True (Suc 0) n (cp_rss s) f u" for u
    using that f moved assms by (auto simp: pass_goal_def in_pass_def pass_end_def)
  show ?thesis
    unfolding copy_entry_def Let_def
    by (intro run_intros tpost_bndI [OF lock_wanted_cstate [OF c]]) (simp_all add: c rest stop)
qed

lemma copy_loop_pass:
  assumes al: "PAGE_ALIGNED a" "PAGE_ALIGNED e" "a < e" and s: "cp_addr s = a" "cp_progress s = 0"
    and c: "cstate dst K True (Suc 0) n (cp_rss s) fs w"
  shows "tpost (\<lambda>s' w'. \<exists>f'. in_pass dst K n fs s' f' w' \<and> pass_end a e fs s' f')
     (do_while (range_fuel a e) (copy_entry A v dst' src sp dp e) s w)"
proof (rule tpost_do_while [where I = "\<lambda>s w. a \<le> cp_addr s \<and> cp_addr s < e \<and> PAGE_ALIGNED (cp_addr s) \<and>
      (cp_addr s = a \<longrightarrow> cp_progress s = 0) \<and> (\<exists>f. in_pass dst K n fs s f w)" and m = "\<lambda>s w. unat (e - cp_addr s)"])
  fix s :: copy_state and w
  assume I: "a \<le> cp_addr s \<and> cp_addr s < e \<and> PAGE_ALIGNED (cp_addr s) \<and>
      (cp_addr s = a \<longrightarrow> cp_progress s = 0) \<and> (\<exists>f. in_pass dst K n fs s f w)"
  then obtain f where "in_pass dst K n fs s f w" by blast
  note body = copy_entry_pass [OF al(2) _ _ _ _ this, of a A v dst' src sp dp]
  have "tpost (pass_goal dst K n fs a e (cp_addr s)) (copy_entry A v dst' src sp dp e s w)"
    by (rule body) (use I in simp_all)
  then show "tpost (\<lambda>(again, s') w'. if again then (a \<le> cp_addr s' \<and> cp_addr s' < e \<and> PAGE_ALIGNED (cp_addr s') \<and>
      (cp_addr s' = a \<longrightarrow> cp_progress s' = 0) \<and> (\<exists>f. in_pass dst K n fs s' f w')) \<and>
      unat (e - cp_addr s') < unat (e - cp_addr s) else \<exists>f'. in_pass dst K n fs s' f' w' \<and> pass_end a e fs s' f')
      (copy_entry A v dst' src sp dp e s w)"
    by (rule tpost_mono) (auto simp: pass_goal_def range_fuel_less split: if_splits)
qed (use al s c in \<open>auto simp: range_fuel_def in_pass_def\<close>)

lemma ucast_scast_rss: "ucast (scast (x :: u32) :: u64) = x"
  by (rule bit_word_eqI) (simp add: bit_simps)

lemma given_all:
  "(\<lambda>i. g i + rss i) = g(MM_FILEPAGES := g MM_FILEPAGES + rss MM_FILEPAGES, MM_ANONPAGES := g MM_ANONPAGES + rss MM_ANONPAGES,
     MM_SWAPENTS := g MM_SWAPENTS + rss MM_SWAPENTS)" for g rss :: rss_vec
proof
  fix i
  show "g i + rss i = (g(MM_FILEPAGES := g MM_FILEPAGES + rss MM_FILEPAGES, MM_ANONPAGES := g MM_ANONPAGES + rss MM_ANONPAGES,
     MM_SWAPENTS := g MM_SWAPENTS + rss MM_SWAPENTS)) i"
    by (cases i) simp_all
qed

lemma add_mm_rss_vec_cstate:
  assumes "cstate dst K True 0 n rss f w"
  shows "tpost (\<lambda>_. cstate dst K True 0 n (\<lambda>_. 0) f) (add_mm_rss_vec dst rss w)"
proof -
  have other: "cur_mm w \<noteq> dst" using assms by (simp add: cstate_def fork_env_def)
  show ?thesis
    unfolding add_mm_rss_vec_def members_def each.simps
    by (intro run_intros) (use assms other in \<open>simp_all add: copy_defs given_all ucast_scast_rss fun_upd_idem\<close>)
qed

lemma copy_pass_ends:
  assumes al: "PAGE_ALIGNED a" "PAGE_ALIGNED e" "a < e" and c: "cstate dst K False 0 n (\<lambda>_. 0) fs w"
  shows "tpost (\<lambda>pass w'. \<exists>f. cstate dst K False 0 n (\<lambda>_. 0) f w' \<and>
      (case pass of None \<Rightarrow> True | Some s \<Rightarrow> fs \<le> f \<and> (fs < f \<longrightarrow> fs < K) \<and> pass_end a e fs s f))
    (copy_pass A v dst src dpmd spmd e a entry 0 w)"
    (is "tpost ?Q _")
proof -
  have tail: "tpost ?Q (bnd (kdo (Lk Leave_lazy_mmu) u) (\<lambda>_ w.
       bnd (kdo (Lk (Spin_unlock sl)) w) (\<lambda>_ w.
       bnd (kdo (Lk (Pte_unmap sp)) w) (\<lambda>_ w.
       bnd (add_mm_rss_vec dst (cp_rss s) w) (\<lambda>_ w.
       bnd (kdo (Lk (Pte_unmap_unlock dp)) w) (\<lambda>_ w.
       bnd (kdo (Lk Cond_resched) w) (\<lambda>_ w. ret (Some s) w)))))))"
    if ex: "\<exists>f. in_pass dst K n fs s f u \<and> pass_end a e fs s f" for s u sl sp dp
  proof -
    obtain f where f: "in_pass dst K n fs s f u" "pass_end a e fs s f" using ex by blast
    then have c: "cstate dst K True (Suc 0) n (cp_rss s) f u" and le: "fs \<le> f \<and> (fs < f \<longrightarrow> fs < K)"
      by (auto simp: in_pass_def)
    have fin: "?Q (Some s) v" if "cstate dst K False 0 n (\<lambda>_. 0) f v" for v
      using that le f(2) by auto
    show ?thesis
      by (intro run_intros tpost_bndI [OF add_mm_rss_vec_cstate [of dst K n "cp_rss s" f]] fin) (use c in \<open>simp_all add: copy_defs\<close>)
  qed
  show ?thesis
    unfolding copy_pass_def
    by (intro run_intros tpost_bndI [OF copy_loop_pass [OF al, of _ dst K n fs]] tail)
      (use c in \<open>simp_all add: copy_defs init_rss_vec_def\<close>)
qed

section \<open>The passes over a table\<close>

abbreviation resting :: "int \<Rightarrow> nat \<Rightarrow> bool \<Rightarrow> mmw \<Rightarrow> bool" where
  "resting dst K n w \<equiv> cstate dst K False 0 n (\<lambda>_. 0) (cq_failed (copying dst w)) w"

lemma cstate_failed: "cstate dst K d k n rss f w \<Longrightarrow> f = cq_failed (copying dst w)"
  by (simp add: cstate_def Let_def)

definition copy_left :: "int \<Rightarrow> nat \<Rightarrow> u64 \<Rightarrow> u64 \<Rightarrow> mmw \<Rightarrow> nat" where
  "copy_left dst K e a w = (K - cq_failed (copying dst w)) + unat (e - a)"

lemma copy_round_ends:
  assumes al: "PAGE_ALIGNED a" "PAGE_ALIGNED e" "a < e" and c: "resting dst K n w"
  shows "tpost (\<lambda>(again, (a', entry', progress', r)) w'. resting dst K n w' \<and>
      (again \<longrightarrow> PAGE_ALIGNED a' \<and> a' < e \<and> progress' = 0 \<and> copy_left dst K e a' w' < copy_left dst K e a w))
    (copy_round A v dst src dpmd spmd e (a, entry, 0, r0) w)"
    (is "tpost ?Q _")
proof -
  let ?f = "cq_failed (copying dst w)"
  have some: "tpost ?Q (if cp_entry s \<noteq> 0 then
           bnd (kcall (Sw (Add_swap_count_continuation (cp_entry s))) u) (\<lambda>err w.
           if err < 0 then ret (False, (cp_addr s, cp_entry s, cp_progress s, - ENOMEM)) w
           else ret (cp_addr s \<noteq> e, (cp_addr s, cp_entry s, 0, 0)) w)
         else ret (cp_addr s \<noteq> e, (cp_addr s, cp_entry s, cp_progress s, 0)) u)"
    if s: "cstate dst K False 0 n (\<lambda>_. 0) f u" "?f \<le> f" "?f < f \<longrightarrow> ?f < K" "pass_end a e ?f s f" for s u f
  proof -
    have moved: "a < cp_addr s \<or> ?f < f" and le: "a \<le> cp_addr s" "cp_addr s \<le> e" and "PAGE_ALIGNED (cp_addr s)"
      using s(4) by (simp_all add: pass_end_def)
    have less: "(K - f) + unat (e - cp_addr s) < (K - ?f) + unat (e - a)"
    proof -
      note unat_sub [OF le(2)] unat_sub [OF order_trans [OF le]]
      moreover have "unat a \<le> unat (cp_addr s)" "unat (cp_addr s) \<le> unat e" using le by (simp_all add: word_le_nat_alt)
      moreover have "unat a < unat (cp_addr s) \<or> ?f < f" using moved by (auto simp: word_less_nat_alt)
      ultimately show ?thesis using s(2,3) by linarith
    qed
    show ?thesis
      by (intro run_intros) (use s less le in \<open>auto simp: copy_defs pass_end_def copy_left_def\<close>)
  qed
  show ?thesis
    unfolding copy_round_def prod.case
  proof (rule tpost_bndI [OF copy_pass_ends [OF al c]], goal_cases)
    case (1 pass u)
    then obtain f where f: "cstate dst K False 0 n (\<lambda>_. 0) f u"
        "case pass of None \<Rightarrow> True | Some s \<Rightarrow> ?f \<le> f \<and> (?f < f \<longrightarrow> ?f < K) \<and> pass_end a e ?f s f"
      by blast
    show ?case
    proof (cases pass)
      case None
      then show ?thesis using f(1) cstate_failed [OF f(1)] by simp
    next
      case (Some s)
      then show ?thesis using some [OF f(1), of s] f(2) by simp
    qed
  qed
qed

lemma copy_pte_range_rests:
  assumes al: "PAGE_ALIGNED a" "PAGE_ALIGNED e" "a < e" and c: "resting dst K n w" and fuel: "K + unat (e - a) < fuel"
  shows "tpost (\<lambda>_. resting dst K n) (copy_pte_range fuel A v dst src dpmd spmd a e w)"
  unfolding copy_pte_range_def
proof (rule tpost_bndI)
  show "tpost (\<lambda>_ w. resting dst K n w) (do_while fuel (copy_round A v dst src dpmd spmd e) (a, 0, 0, 0) w)"
  proof (rule tpost_do_while [where I = "\<lambda>(a, entry, progress, r) w. PAGE_ALIGNED a \<and> a < e \<and> progress = 0 \<and> resting dst K n w"
        and m = "\<lambda>(a, entry, progress, r) w. copy_left dst K e a w"], goal_cases)
    case (3 s w)
    obtain a entry r where s: "s = (a, entry, 0, r)" "PAGE_ALIGNED a" "a < e" "resting dst K n w"
      using 3 by (cases s) auto
    show ?case unfolding s(1) by (rule tpost_mono [OF copy_round_ends [OF s(2) al(2) s(3,4)]]) auto
  qed (use al c fuel in \<open>auto simp: copy_left_def\<close>)
qed auto

section \<open>The walk\<close>

text \<open>A loop over a range whose body may break off.\<close>

lemma tpost_range_break:
  fixes e :: u64 and p0 :: 'p
  assumes nxt: "addr_end_aligned nxt" and al: "PAGE_ALIGNED s" "PAGE_ALIGNED e" "s < e" and J: "J w"
    and body: "\<And>p a v. J v \<Longrightarrow> PAGE_ALIGNED a \<Longrightarrow> PAGE_ALIGNED (nxt a e) \<Longrightarrow> s \<le> a \<Longrightarrow> a < nxt a e \<Longrightarrow> nxt a e \<le> e \<Longrightarrow>
      tpost (\<lambda>(again, q, b) v'. J v' \<and> (again \<longrightarrow> b = nxt a e \<and> b \<noteq> e)) (B (p, a) v)"
  shows "tpost (\<lambda>_. J) (do_while (range_fuel s e) B (p0, s) w)"
proof (rule tpost_do_while [where I = "\<lambda>(p :: 'p, a) v. J v \<and> PAGE_ALIGNED a \<and> s \<le> a \<and> a < e" and m = "\<lambda>(p, a) v. unat (e - a)"], goal_cases)
  case (3 t v)
  then obtain p a where t: "t = (p, a)" "J v" "PAGE_ALIGNED a" "s \<le> a" "a < e" by (cases t) auto
  have nx: "a < nxt a e" "nxt a e \<le> e" "PAGE_ALIGNED (nxt a e)"
    using nxt t(3,5) al(2) by (auto simp: addr_end_aligned_def addr_end_ok_def)
  show ?case unfolding t(1)
    by (rule tpost_mono [OF body [OF t(2,3) nx(3) t(4) nx(1,2)]]) (use nx t in \<open>auto simp: range_fuel_less\<close>)
qed (use al J in \<open>auto simp: range_fuel_def\<close>)

lemma fuel_part: "s \<le> a \<Longrightarrow> a \<le> b \<Longrightarrow> b \<le> e \<Longrightarrow> K + unat (e - s) < fuel \<Longrightarrow> K + unat (b - a) < fuel" for a b s e :: u64
proof -
  assume le: "s \<le> a" "a \<le> b" "b \<le> e" and f: "K + unat (e - s) < fuel"
  note unat_sub [OF le(2)] unat_sub [OF order_trans [OF order_trans [OF le(1,2)] le(3)]]
  moreover have "unat s \<le> unat a" "unat b \<le> unat e" using le by (simp_all add: word_le_nat_alt)
  ultimately show ?thesis using f by linarith
qed

lemma copy_pmd_entry_rests:
  assumes "PAGE_ALIGNED a" "PAGE_ALIGNED e" "a < e" "resting dst K n w" "K + unat (e - a) < fuel"
  shows "tpost (\<lambda>_. resting dst K n) (copy_pmd_entry fuel A v dst src dpmd spmd a e w)"
  unfolding copy_pmd_entry_def
  by (intro run_intros tpost_bndI [OF copy_pte_range_rests [OF assms(1-3) _ assms(5), of dst n]])
    (use assms(4) in \<open>simp_all add: copy_defs\<close>)

lemma copy_pmd_range_rests:
  assumes "tables_aligned A" "PAGE_ALIGNED a" "PAGE_ALIGNED e" "a < e" "resting dst K n w" "K + unat (e - a) < fuel"
  shows "tpost (\<lambda>_. resting dst K n) (copy_pmd_range fuel A v dst src dpud spud a e w)"
proof -
  have entry: "tpost (\<lambda>_. resting dst K n) (copy_pmd_entry fuel A v dst src dp sp b (pmd_addr_end A b e) u)"
    if "resting dst K n u" "PAGE_ALIGNED b" "PAGE_ALIGNED (pmd_addr_end A b e)" "a \<le> b" "b < pmd_addr_end A b e" "pmd_addr_end A b e \<le> e"
    for b dp sp u
    by (rule copy_pmd_entry_rests) (use that assms(6) fuel_part [OF that(4) less_imp_le [OF that(5)] that(6)] in simp_all)
  have loop: "tpost (\<lambda>_. resting dst K n) (do_while (range_fuel a e) (\<lambda>((dst_pmd, src_pmd, _), addr) w.
              let next = pmd_addr_end A addr e in
              bnd (copy_pmd_entry fuel A v dst src dst_pmd src_pmd addr next w) (\<lambda>failed w.
              if failed then ret (False, ((dst_pmd, src_pmd, - ENOMEM), addr)) w
              else ret (next \<noteq> e, ((dst_pmd + 1, src_pmd + 1, 0), next)) w))
            (p0, a) u)" if "resting dst K n u" for p0 :: "int \<times> int \<times> int" and u
  proof (rule tpost_range_break [where nxt = "pmd_addr_end A"], goal_cases)
    case (6 p b u)
    obtain d s r where p: "p = (d, s, r)" by (cases p)
    show ?case unfolding p prod.case Let_def
      by (rule tpost_bndI [OF entry [OF 6]]) auto
  qed (use that assms in \<open>auto simp: tables_aligned_def\<close>)
  show ?thesis
    unfolding copy_pmd_range_def
    by (intro run_intros tpost_bndI [OF loop]) (use assms(5) in \<open>auto simp: copy_defs split: prod.splits\<close>)
qed

lemma copy_pud_range_rests:
  assumes "tables_aligned A" "PAGE_ALIGNED a" "PAGE_ALIGNED e" "a < e" "resting dst K n w" "K + unat (e - a) < fuel"
  shows "tpost (\<lambda>_. resting dst K n) (copy_pud_range fuel A v dst src dpgd spgd a e w)"
proof -
  have entry: "tpost (\<lambda>_. resting dst K n) (copy_pmd_range fuel A v dst src dp sp b (pud_addr_end A b e) u)"
    if "resting dst K n u" "PAGE_ALIGNED b" "PAGE_ALIGNED (pud_addr_end A b e)" "a \<le> b" "b < pud_addr_end A b e" "pud_addr_end A b e \<le> e"
    for b dp sp u
    by (rule copy_pmd_range_rests) (use that assms(1,6) fuel_part [OF that(4) less_imp_le [OF that(5)] that(6)] in simp_all)
  have loop: "tpost (\<lambda>_. resting dst K n) (do_while (range_fuel a e) (\<lambda>((dst_pud, src_pud, _), addr) w.
              let next = pud_addr_end A addr e in
              bnd (kask (Tb (Pud_none_or_clear_bad src_pud)) w) (\<lambda>none w.
              bnd (if none then ret 0 w else copy_pmd_range fuel A v dst src dst_pud src_pud addr next w) (\<lambda>r w.
              if r \<noteq> 0 then ret (False, ((dst_pud, src_pud, - ENOMEM), addr)) w
              else ret (next \<noteq> e, ((dst_pud + 1, src_pud + 1, 0), next)) w)))
            (p0, a) u)" if "resting dst K n u" for p0 :: "int \<times> int \<times> int" and u
  proof (rule tpost_range_break [where nxt = "pud_addr_end A"], goal_cases)
    case (6 p b u)
    obtain d s r where p: "p = (d, s, r)" by (cases p)
    show ?case unfolding p prod.case Let_def
      by (intro run_intros tpost_bndI [OF entry [OF _ 6(2-6)]]) (use 6(1) in \<open>auto simp: copy_defs\<close>)
  qed (use that assms in \<open>auto simp: tables_aligned_def\<close>)
  show ?thesis
    unfolding copy_pud_range_def
    by (intro run_intros tpost_bndI [OF loop]) (use assms(5) in \<open>auto simp: copy_defs split: prod.splits\<close>)
qed

lemma resting_start:
  assumes "fork_env dst K (ans w) (cur_mm w)" "log w = []"
  shows "resting dst K False w"
proof -
  have "copying dst w = copy_proto0" using assms(2) by (simp add: ghost_def del: ghost_log)
  then show ?thesis using assms(1) by (simp add: cstate_def copy_proto0_def)
qed

text \<open>
  C27: Copying the tables of an area for \<open>fork\<close> is balanced on every path, those that run out of memory
  included. Provided that raising the count of a swap slot does not fail for ever, the copy ends; then
  no table lock and no notifier section is open; entries of either table were changed only under both
  locks, and nothing that may sleep was called under a lock; every page that was referenced had its
  mapping counted, in the same order; and the counters of the new address space have been raised,
  kind by kind, by exactly the pages and swap entries met.
\<close>

theorem copy_page_range_balanced:
  assumes "tables_aligned A" "fork_env dst_mm K (ans w) (cur_mm w)" "log w = []"
    and "PAGE_ALIGNED (vm_start v)" "PAGE_ALIGNED (vm_end v)" "vm_start v < vm_end v"
    and "K + unat (vm_end v - vm_start v) < fuel"
  shows "tpost (\<lambda>r w'. let z = copying dst_mm w' in
       cq_ok z \<and> \<not> cq_dst z \<and> cq_spin z = 0 \<and> \<not> cq_notify z \<and> cq_refs z = cq_dups z \<and> cq_given z = cq_due z)
     (copy_page_range fuel A dst_mm src_mm v w)"
    (is "tpost ?Q _")
proof -
  let ?a = "vm_start v" and ?e = "vm_end v"
  have fin: "?Q r u" if "resting dst_mm K False u" for r :: int and u
    using that by (auto simp: cstate_def Let_def)
  have start: "resting dst_mm K False w" by (rule resting_start [OF assms(2,3)])
  have entry: "tpost (\<lambda>_. resting dst_mm K n) (copy_pud_range fuel A v dst_mm src_mm dp sp b (pgd_addr_end A b ?e) u)"
    if "resting dst_mm K n u" "PAGE_ALIGNED b" "PAGE_ALIGNED (pgd_addr_end A b ?e)" "?a \<le> b" "b < pgd_addr_end A b ?e"
      "pgd_addr_end A b ?e \<le> ?e" for b dp sp u n
    by (rule copy_pud_range_rests) (use that assms(1,7) fuel_part [OF that(4) less_imp_le [OF that(5)] that(6)] in simp_all)
  have loop: "tpost (\<lambda>_. resting dst_mm K n) (do_while (range_fuel ?a ?e) (\<lambda>((dst_pgd, src_pgd, _), addr) w.
                 let next = pgd_addr_end A addr ?e in
                 bnd (kask (Tb (Pgd_none_or_clear_bad src_pgd)) w) (\<lambda>none w.
                 bnd (if none then ret 0 w else copy_pud_range fuel A v dst_mm src_mm dst_pgd src_pgd addr next w) (\<lambda>r w.
                 if r \<noteq> 0 then ret (False, ((dst_pgd, src_pgd, - ENOMEM), addr)) w
                 else ret (next \<noteq> ?e, ((dst_pgd + 1, src_pgd + 1, 0), next)) w)))
               (p0, ?a) u)" if "resting dst_mm K n u" for p0 :: "int \<times> int \<times> int" and u n
  proof (rule tpost_range_break [where nxt = "pgd_addr_end A"], goal_cases)
    case (6 p b u)
    obtain d s r where p: "p = (d, s, r)" by (cases p)
    show ?case unfolding p prod.case Let_def
      by (intro run_intros tpost_bndI [OF entry [OF _ 6(2-6)]]) (use 6(1) in \<open>auto simp: copy_defs\<close>)
  qed (use that assms in \<open>auto simp: tables_aligned_def\<close>)
  show ?thesis
    unfolding copy_page_range_def Let_def [of "vm_start v"] Let_def [of "vm_end v"] Let_def [of "is_cow_mapping A (vm_flags v)"]
    by (intro run_intros fin tpost_bndI [OF loop [where n = "is_cow_mapping A (vm_flags v)"]])
      (use start in \<open>auto simp: copy_defs cond_def kdo_run split: prod.splits\<close>)
qed

text \<open>
  A fork of two pages, in a kernel in which every table can be allocated: the first entry maps an
  anonymous page, the second holds a swap entry.
\<close>

definition fork_world :: mmw where
  "fork_world = mmw0\<lparr>ans := (\<lambda>h c. case c of
       Fr (Pud_alloc p a) \<Rightarrow> 11 | Fr (Pmd_alloc p a) \<Rightarrow> 12 | Lk (Pte_alloc_map_lock p a) \<Rightarrow> 14
     | Lk (Pte_offset_map_nested p a) \<Rightarrow> 20 | Tb (Pte_read p) \<Rightarrow> (if p = 20 then 0x100003 else 8)
     | Vm (Pfn_to_page f) \<Rightarrow> 55 | Pg (PageAnon p) \<Rightarrow> 1 | _ \<Rightarrow> 0)\<rparr>"

definition fork_vma :: vma where
  "fork_vma = vma0\<lparr>vm_end := 0x402000, anon_vma := 5\<rparr>"

lemma fork_world_simps:
  "ans fork_world h c = (case c of
       Fr (Pud_alloc p a) \<Rightarrow> 11 | Fr (Pmd_alloc p a) \<Rightarrow> 12 | Lk (Pte_alloc_map_lock p a) \<Rightarrow> 14
     | Lk (Pte_offset_map_nested p a) \<Rightarrow> 20 | Tb (Pte_read p) \<Rightarrow> (if p = 20 then 0x100003 else 8)
     | Vm (Pfn_to_page f) \<Rightarrow> 55 | Pg (PageAnon p) \<Rightarrow> 1 | _ \<Rightarrow> 0)"
  "log fork_world = []" "cur_mm fork_world = 1"
  by (simp_all add: fork_world_def mmw0_def)

lemma fork_vma_simps:
  "vm_start fork_vma = 0x400000" "vm_end fork_vma = 0x402000" "vm_flags fork_vma = {VM_READ, VM_WRITE, VM_MAYWRITE}"
  "anon_vma fork_vma = 5" "vm_ops fork_vma = 0"
  by (simp_all add: fork_vma_def vma0_def)

lemma fork_arch0_simps:
  "\<not> pte_none arch0 8" "\<not> pte_none arch0 0x100003" "\<not> pte_present arch0 8" "pte_present arch0 0x100003"
  "is_cow_mapping arch0 {VM_READ, VM_WRITE, VM_MAYWRITE}" "pte_to_swp_entry arch0 8 = 4" "\<not> non_swap_entry arch0 4"
  "HAVE_PTE_SPECIAL arch0" "pte_mkold arch0 (pte_wrprotect arch0 0x100003) = 0x100001" "\<not> pte_special arch0 0x100001"
  "pte_pfn arch0 0x100001 = 0x100" "highest_memmap_pfn arch0 = 0xFFFFF"
  "pmd_addr_end arch0 0x400000 0x402000 = 0x402000" "pud_addr_end arch0 0x400000 0x402000 = 0x402000"
  "pgd_addr_end arch0 0x400000 0x402000 = 0x402000"
  by (simp_all add: arch0_def std_addr_end_def Let_def mask_eq_exp_minus_1 drop_bit_eq_div bit_iff_odd)

lemma fork_world_run:
  "rets (\<lambda>r w'. r = 0 \<and> cq_refs (copying 2 w') = [55] \<and>
       cq_given (copying 2 w') = (\<lambda>_. 0)(MM_ANONPAGES := 1, MM_SWAPENTS := 1))
     (copy_page_range 0x2001 arch0 2 1 fork_vma fork_world)"
  by (simp add: copy_page_range_def fills_by_fault_def is_vm_hugetlb_page_def copy_pud_range_def copy_pmd_range_def
     copy_pmd_entry_def copy_pte_range_def copy_round_def copy_pass_def copy_entry_def copy_value_def
     copy_one_pte_def copy_present_def copy_absent_def on_mmlist_def vm_normal_page_def check_pfn_def copy_next_def
     add_mm_rss_vec_def members_def init_rss_vec_def inc_rss_def
     PAGE_SIZE_def by_value read_pte_def range_fuel_def fork_world_simps fork_vma_simps fork_arch0_simps
     copy_proto0_def may_sleep_def both_locked_def count_one_def
     cong: bnd_by_value rets_by_value)

theorem copy_page_range_balanced_witness:
  "rets (\<lambda>r w'. r = 0 \<and> cq_dups (copying 2 w') = [55] \<and> cq_due (copying 2 w') = (\<lambda>_. 0)(MM_ANONPAGES := 1, MM_SWAPENTS := 1) \<and>
       cq_ok (copying 2 w') \<and> cq_spin (copying 2 w') = 0)
     (copy_page_range 0x2001 arch0 2 1 fork_vma fork_world)"
proof -
  have "fork_env 2 0 (ans fork_world) (cur_mm fork_world)" "log fork_world = []"
    by (simp_all add: fork_env_def fork_world_simps)
  note copy_page_range_balanced [OF tables_aligned_arch0 this, where v = fork_vma and fuel = "0x2001" and src_mm = 1]
  with fork_world_run show ?thesis
    by (auto simp: rets_iff Let_def fork_vma_simps PAGE_ALIGNED_def)
qed

end
