(* ===== verification/InsertMap.thy ===== *)
theory InsertMap
  imports Zap
begin

text \<open>
  Putting single pages, ranges of physical memory and the work of a callback into the page tables:
  \<open>memory.c\<close> lines 1527 to 2004. Where the code changes the area it is given (\<open>vm_flags\<close>,
  \<open>vm_pgoff\<close>), the changed area is part of the result.
\<close>

unbundle bit_operations_syntax

section \<open>Single pages\<close>

definition raw_get_locked_pte :: "int \<Rightarrow> u64 \<Rightarrow> int mact" where
  "raw_get_locked_pte mm addr w =
     bnd (kcall (Tb (Pgd_offset mm addr)) w) (\<lambda>pgd w.
     bnd (kcall (Fr (Pud_alloc pgd addr)) w) (\<lambda>pud w.
     if pud = 0 then ret 0 w
     else
       bnd (kcall (Fr (Pmd_alloc pud addr)) w) (\<lambda>pmd w.
       if pmd = 0 then ret 0 w
       else
         bnd (kask (Tb (Pmd_trans_huge pmd)) w) (\<lambda>huge w.
         bnd (BUG_ON huge w) (\<lambda>_ w.
         kcall (Lk (Pte_alloc_map_lock pmd addr)) w)))))"

definition insert_page :: "arch \<Rightarrow> vma \<Rightarrow> u64 \<Rightarrow> int \<Rightarrow> u64 \<Rightarrow> int mact" where
  "insert_page A v addr page prot w =
     (let mm = vm_mm v in
      bnd (kask (Pg (PageAnon page)) w) (\<lambda>anon w.
      if anon then ret (- EINVAL) w
      else
        bnd (kdo (Pg (Flush_dcache_page page)) w) (\<lambda>_ w.
        bnd (raw_get_locked_pte mm addr w) (\<lambda>pte w.
        if pte = 0 then ret (- ENOMEM) w
        else
          bnd (read_pte pte w) (\<lambda>old w.
          if \<not> pte_none A old
          then bnd (kdo (Lk (Pte_unmap_unlock pte)) w) (\<lambda>_ w. ret (- EBUSY) w)
          else
            bnd (kdo (Pg (Get_page page)) w) (\<lambda>_ w.
            bnd (add_mm_counter_fast mm MM_FILEPAGES 1 w) (\<lambda>_ w.
            bnd (kdo (Pg (Page_add_file_rmap page)) w) (\<lambda>_ w.
            bnd (kdo (Pe (Set_pte_at mm addr pte (mk_pte A page prot))) w) (\<lambda>_ w.
            bnd (kdo (Lk (Pte_unmap_unlock pte)) w) (\<lambda>_ w. ret 0 w))))))))))"

definition outside :: "vma \<Rightarrow> u64 \<Rightarrow> bool" where
  "outside v addr = (addr < vm_start v \<or> vm_end v \<le> addr)"

definition vm_insert_page :: "arch \<Rightarrow> vma \<Rightarrow> u64 \<Rightarrow> int \<Rightarrow> (int \<times> vma) mact" where
  "vm_insert_page A v addr page w =
     (if outside v addr then ret (- EFAULT, v) w
      else
        bnd (kask (Mp (Page_count page)) w) (\<lambda>counted w.
        if \<not> counted then ret (- EINVAL, v) w
        else
          bnd (if VM_MIXEDMAP \<notin> vm_flags v
               then bnd (kask (Mp (Down_read_trylock (vm_mm v))) w) (\<lambda>got w.
                    bnd (BUG_ON got w) (\<lambda>_ w.
                    bnd (BUG_ON (VM_PFNMAP \<in> vm_flags v) w) (\<lambda>_ w.
                    ret (v\<lparr>vm_flags := insert VM_MIXEDMAP (vm_flags v)\<rparr>) w)))
               else ret v w) (\<lambda>v w.
          bnd (insert_page A v addr page (vm_page_prot v) w) (\<lambda>r w. ret (r, v) w))))"

definition insert_pfn :: "arch \<Rightarrow> vma \<Rightarrow> u64 \<Rightarrow> u64 \<Rightarrow> u64 \<Rightarrow> int mact" where
  "insert_pfn A v addr pfn prot w =
     (let mm = vm_mm v in
      bnd (raw_get_locked_pte mm addr w) (\<lambda>pte w.
      if pte = 0 then ret (- ENOMEM) w
      else
        bnd (read_pte pte w) (\<lambda>old w.
        bnd (if \<not> pte_none A old then ret (- EBUSY) w
             else
               bnd (kdo (Pe (Set_pte_at mm addr pte (pte_mkspecial A (pfn_pte A pfn prot)))) w) (\<lambda>_ w.
               bnd (kdo (Pe (Update_mmu_cache addr pte)) w) (\<lambda>_ w. ret 0 w))) (\<lambda>r w.
        bnd (kdo (Lk (Pte_unmap_unlock pte)) w) (\<lambda>_ w. ret r w)))))"

definition vm_insert_pfn :: "arch \<Rightarrow> vma \<Rightarrow> u64 \<Rightarrow> u64 \<Rightarrow> int mact" where
  "vm_insert_pfn A v addr pfn w =
     (let raw = vm_flags v \<inter> {VM_PFNMAP, VM_MIXEDMAP} in
      bnd (BUG_ON (raw = {}) w) (\<lambda>_ w.
      bnd (BUG_ON (raw = {VM_PFNMAP, VM_MIXEDMAP}) w) (\<lambda>_ w.
      bnd (BUG_ON (VM_PFNMAP \<in> vm_flags v \<and> is_cow_mapping A (vm_flags v)) w) (\<lambda>_ w.
      bnd (andalso (VM_MIXEDMAP \<in> vm_flags v) (kask (Vm (Pfn_valid pfn))) w) (\<lambda>valid w.
      bnd (BUG_ON valid w) (\<lambda>_ w.
      if outside v addr then ret (- EFAULT) w
      else
        bnd (kask (Vm (Track_pfn_insert (vma_ptr v) pfn)) w) (\<lambda>err w.
        if err then ret (- EINVAL) w
        else
          bnd (kcall (Mp (Track_prot (vma_ptr v))) w) (\<lambda>prot w.
          insert_pfn A v addr pfn (word_of_int prot) w))))))))"

definition vm_insert_mixed :: "arch \<Rightarrow> vma \<Rightarrow> u64 \<Rightarrow> u64 \<Rightarrow> int mact" where
  "vm_insert_mixed A v addr pfn w =
     bnd (BUG_ON (VM_MIXEDMAP \<notin> vm_flags v) w) (\<lambda>_ w.
     if outside v addr then ret (- EFAULT) w
     else
       bnd (andalso (\<not> HAVE_PTE_SPECIAL A) (kask (Vm (Pfn_valid pfn))) w) (\<lambda>valid w.
       if valid
       then bnd (kcall (Vm (Pfn_to_page pfn)) w) (\<lambda>page w. insert_page A v addr page (vm_page_prot v) w)
       else insert_pfn A v addr pfn (vm_page_prot v) w))"

section \<open>Ranges of physical memory\<close>

definition remap_pte_range :: "arch \<Rightarrow> int \<Rightarrow> int \<Rightarrow> u64 \<Rightarrow> u64 \<Rightarrow> u64 \<Rightarrow> u64 \<Rightarrow> int mact" where
  "remap_pte_range A mm pmd addr e pfn prot w =
     bnd (kcall (Lk (Pte_alloc_map_lock pmd addr)) w) (\<lambda>pte w.
     if pte = 0 then ret (- ENOMEM) w
     else
       bnd (kdo (Lk Enter_lazy_mmu) w) (\<lambda>_ w.
       bnd (do_while (range_fuel addr e) (\<lambda>((pte, pfn), addr) w.
              bnd (read_pte pte w) (\<lambda>old w.
              bnd (BUG_ON (\<not> pte_none A old) w) (\<lambda>_ w.
              bnd (kdo (Pe (Set_pte_at mm addr pte (pte_mkspecial A (pfn_pte A pfn prot)))) w) (\<lambda>_ w.
              ret (addr + PAGE_SIZE \<noteq> e, ((pte + 1, pfn + 1), addr + PAGE_SIZE)) w))))
            ((pte, pfn), addr) w) (\<lambda>((pte, pfn), addr) w.
       bnd (kdo (Lk Leave_lazy_mmu) w) (\<lambda>_ w.
       bnd (kdo (Lk (Pte_unmap_unlock (pte - 1))) w) (\<lambda>_ w. ret 0 w)))))"

text \<open>
  The two levels above: \<open>pfn\<close> is first made relative to address 0, so that the frame of an address is
  \<open>pfn + (addr >> PAGE_SHIFT)\<close>, on words that wrap around.
\<close>

definition remap_pmd_range :: "arch \<Rightarrow> int \<Rightarrow> int \<Rightarrow> u64 \<Rightarrow> u64 \<Rightarrow> u64 \<Rightarrow> u64 \<Rightarrow> int mact" where
  "remap_pmd_range A mm pud addr e pfn prot w =
     (let pfn = pfn - drop_bit 12 addr in
      bnd (kcall (Fr (Pmd_alloc pud addr)) w) (\<lambda>pmd w.
      if pmd = 0 then ret (- ENOMEM) w
      else
        bnd (kask (Tb (Pmd_trans_huge pmd)) w) (\<lambda>huge w.
        bnd (BUG_ON huge w) (\<lambda>_ w.
        bnd (do_while (range_fuel addr e) (\<lambda>((pmd, _), addr) w.
               let next = pmd_addr_end A addr e in
               bnd (remap_pte_range A mm pmd addr next (pfn + drop_bit 12 addr) prot w) (\<lambda>r w.
               if r \<noteq> 0 then ret (False, ((pmd, - ENOMEM), addr)) w
               else ret (next \<noteq> e, ((pmd + 1, 0), next)) w))
             ((pmd, 0), addr) w) (\<lambda>((_, r), _) w. ret r w)))))"

definition remap_pud_range :: "arch \<Rightarrow> int \<Rightarrow> int \<Rightarrow> u64 \<Rightarrow> u64 \<Rightarrow> u64 \<Rightarrow> u64 \<Rightarrow> int mact" where
  "remap_pud_range A mm pgd addr e pfn prot w =
     (let pfn = pfn - drop_bit 12 addr in
      bnd (kcall (Fr (Pud_alloc pgd addr)) w) (\<lambda>pud w.
      if pud = 0 then ret (- ENOMEM) w
      else
        bnd (do_while (range_fuel addr e) (\<lambda>((pud, _), addr) w.
               let next = pud_addr_end A addr e in
               bnd (remap_pmd_range A mm pud addr next (pfn + drop_bit 12 addr) prot w) (\<lambda>r w.
               if r \<noteq> 0 then ret (False, ((pud, - ENOMEM), addr)) w
               else ret (next \<noteq> e, ((pud + 1, 0), next)) w))
             ((pud, 0), addr) w) (\<lambda>((_, r), _) w. ret r w)))"

definition PAGE_ALIGN :: "u64 \<Rightarrow> u64" where
  "PAGE_ALIGN x = ((x + PAGE_SIZE - 1) AND NOT (PAGE_SIZE - 1))"

text \<open>The loop over the top level, on \<open>pfn\<close> relative to address 0.\<close>

definition remap_pgd_loop :: "arch \<Rightarrow> int \<Rightarrow> int \<Rightarrow> u64 \<Rightarrow> u64 \<Rightarrow> u64 \<Rightarrow> u64 \<Rightarrow> int mact" where
  "remap_pgd_loop A mm pgd addr e pfn prot w =
     bnd (do_while (range_fuel addr e) (\<lambda>((pgd, _), addr) w.
            let next = pgd_addr_end A addr e in
            bnd (remap_pud_range A mm pgd addr next (pfn + drop_bit 12 addr) prot w) (\<lambda>r w.
            if r \<noteq> 0 then ret (False, ((pgd, r), addr)) w
            else ret (next \<noteq> e, ((pgd + 1, 0), next)) w))
          ((pgd, 0), addr) w) (\<lambda>((_, r), _) w. ret r w)"

definition remap_pfn_range :: "arch \<Rightarrow> vma \<Rightarrow> u64 \<Rightarrow> u64 \<Rightarrow> u64 \<Rightarrow> (int \<times> vma) mact" where
  "remap_pfn_range A v addr pfn sz w =
     (let e = addr + PAGE_ALIGN sz; mm = vm_mm v; cow = is_cow_mapping A (vm_flags v) in
      if cow \<and> (addr \<noteq> vm_start v \<or> e \<noteq> vm_end v) then ret (- EINVAL, v) w
      else
        let v = (if cow then v\<lparr>vm_pgoff := pfn\<rparr> else v) in
        bnd (kask (Vm (Track_pfn_remap (vma_ptr v) pfn addr)) w) (\<lambda>err w.
        if err then ret (- EINVAL, v) w
        else
          bnd (kcall (Mp (Track_prot (vma_ptr v))) w) (\<lambda>prot w.
          let v = v\<lparr>vm_flags := vm_flags v \<union> {VM_IO, VM_PFNMAP, VM_DONTEXPAND, VM_DONTDUMP}\<rparr> in
          bnd (BUG_ON (e \<le> addr) w) (\<lambda>_ w.
          let pfn = pfn - drop_bit 12 addr in
          bnd (kcall (Tb (Pgd_offset mm addr)) w) (\<lambda>pgd w.
          bnd (kdo (Vm (Flush_cache_range addr e)) w) (\<lambda>_ w.
          bnd (remap_pgd_loop A mm pgd addr e pfn (word_of_int prot) w) (\<lambda>err w.
          bnd (cond (err \<noteq> 0) (kdo (Vm (Untrack_pfn (vma_ptr v) pfn (PAGE_ALIGN sz)))) w) (\<lambda>_ w.
          ret (err, v) w))))))))"

text \<open>\<open>None\<close> if the physical range does not fit the area, otherwise the first frame and the length.\<close>

definition iomap_frames :: "vma \<Rightarrow> u64 \<Rightarrow> u64 \<Rightarrow> (u64 \<times> u64) option" where
  "iomap_frames v start len =
     (if start + len < start then None
      else
        let len = len + take_bit 12 start; pfn = drop_bit 12 start;
            pages = drop_bit 12 (len + (PAGE_SIZE - 1)) in
        if pfn + pages < pfn then None
        else if pages < vm_pgoff v then None
        else
          let pfn = pfn + vm_pgoff v; pages = pages - vm_pgoff v; vm_len = vm_end v - vm_start v in
          if pages < drop_bit 12 vm_len then None else Some (pfn, vm_len))"

definition vm_iomap_memory :: "vma \<Rightarrow> u64 \<Rightarrow> u64 \<Rightarrow> int mact" where
  "vm_iomap_memory v start len w =
     (case iomap_frames v start len of
        None \<Rightarrow> ret (- EINVAL) w
      | Some (pfn, vm_len) \<Rightarrow> kcall (Mp (Io_remap_pfn_range (vma_ptr v) (vm_start v) pfn vm_len (vm_page_prot v))) w)"

section \<open>The work of a callback\<close>

text \<open>The address of the kernel's own address space, which is none of those of the tasks.\<close>

definition init_mm :: int where "init_mm = - 1"

definition apply_to_pte_range :: "int \<Rightarrow> int \<Rightarrow> u64 \<Rightarrow> u64 \<Rightarrow> int mact" where
  "apply_to_pte_range mm pmd addr e w =
     bnd (if mm = init_mm then kcall (Mp (Pte_alloc_kernel pmd addr)) w
          else kcall (Lk (Pte_alloc_map_lock pmd addr)) w) (\<lambda>pte w.
     if pte = 0 then ret (- ENOMEM) w
     else
       bnd (kask (Mp (Pmd_huge pmd)) w) (\<lambda>huge w.
       bnd (BUG_ON huge w) (\<lambda>_ w.
       bnd (kdo (Lk Enter_lazy_mmu) w) (\<lambda>_ w.
       bnd (kcall (Tb (Pmd_pgtable pmd)) w) (\<lambda>token w.
       bnd (do_while (range_fuel addr e) (\<lambda>((pte, _), addr) w.
              bnd (kcall (Vm (Apply_fn pte token addr)) w) (\<lambda>err w.
              if err \<noteq> 0 then ret (False, ((pte + 1, err), addr)) w
              else ret (addr + PAGE_SIZE \<noteq> e, ((pte + 1, 0), addr + PAGE_SIZE)) w))
            ((pte, 0), addr) w) (\<lambda>((pte, err), _) w.
       bnd (kdo (Lk Leave_lazy_mmu) w) (\<lambda>_ w.
       bnd (cond (mm \<noteq> init_mm) (kdo (Lk (Pte_unmap_unlock (pte - 1)))) w) (\<lambda>_ w. ret err w))))))))"

definition apply_to_pmd_range :: "arch \<Rightarrow> int \<Rightarrow> int \<Rightarrow> u64 \<Rightarrow> u64 \<Rightarrow> int mact" where
  "apply_to_pmd_range A mm pud addr e w =
     bnd (kask (Mp (Pud_huge pud)) w) (\<lambda>huge w.
     bnd (BUG_ON huge w) (\<lambda>_ w.
     bnd (kcall (Fr (Pmd_alloc pud addr)) w) (\<lambda>pmd w.
     if pmd = 0 then ret (- ENOMEM) w
     else
       bnd (do_while (range_fuel addr e) (\<lambda>((pmd, _), addr) w.
              let next = pmd_addr_end A addr e in
              bnd (apply_to_pte_range mm pmd addr next w) (\<lambda>err w.
              if err \<noteq> 0 then ret (False, ((pmd, err), addr)) w
              else ret (next \<noteq> e, ((pmd + 1, 0), next)) w))
            ((pmd, 0), addr) w) (\<lambda>((_, err), _) w. ret err w))))"

definition apply_to_pud_range :: "arch \<Rightarrow> int \<Rightarrow> int \<Rightarrow> u64 \<Rightarrow> u64 \<Rightarrow> int mact" where
  "apply_to_pud_range A mm pgd addr e w =
     bnd (kcall (Fr (Pud_alloc pgd addr)) w) (\<lambda>pud w.
     if pud = 0 then ret (- ENOMEM) w
     else
       bnd (do_while (range_fuel addr e) (\<lambda>((pud, _), addr) w.
              let next = pud_addr_end A addr e in
              bnd (apply_to_pmd_range A mm pud addr next w) (\<lambda>err w.
              if err \<noteq> 0 then ret (False, ((pud, err), addr)) w
              else ret (next \<noteq> e, ((pud + 1, 0), next)) w))
            ((pud, 0), addr) w) (\<lambda>((_, err), _) w. ret err w))"

definition apply_to_page_range :: "arch \<Rightarrow> int \<Rightarrow> u64 \<Rightarrow> u64 \<Rightarrow> int mact" where
  "apply_to_page_range A mm addr sz w =
     (let e = addr + sz in
      bnd (BUG_ON (e \<le> addr) w) (\<lambda>_ w.
      bnd (kcall (Tb (Pgd_offset mm addr)) w) (\<lambda>pgd w.
      bnd (do_while (range_fuel addr e) (\<lambda>((pgd, _), addr) w.
             let next = pgd_addr_end A addr e in
             bnd (apply_to_pud_range A mm pgd addr next w) (\<lambda>err w.
             if err \<noteq> 0 then ret (False, ((pgd, err), addr)) w
             else ret (next \<noteq> e, ((pgd + 1, 0), next)) w))
           ((pgd, 0), addr) w) (\<lambda>((_, err), _) w. ret err w))))"

end
