(* ===== verification/RemapProps.thy ===== *)
theory RemapProps
  imports TableProps InsertMap
begin

text \<open>
  What \<open>remap_pfn_range\<close> guarantees: the frames of the range, in order, one entry each, under the lock
  of their table.
\<close>

section \<open>Page addresses\<close>

definition pages_from :: "u64 \<Rightarrow> u64 \<Rightarrow> u64 list" where
  "pages_from a e = map (\<lambda>i. a + of_nat i * PAGE_SIZE) [0..<unat (e - a) div 4096]"

lemma pages_from_refl [simp]: "pages_from a a = []"
  by (simp add: pages_from_def)

lemma pages_from_step:
  assumes "PAGE_ALIGNED a" "PAGE_ALIGNED e" "a < e"
  shows "pages_from a e = a # pages_from (a + PAGE_SIZE) e"
proof -
  let ?n = "\<lambda>x. unat (e - x) div 4096"
  note st = page_step [OF assms]
  have "unat (e - a) = unat (e - (a + PAGE_SIZE)) + 4096"
  proof -
    have "unat (a + PAGE_SIZE) = unat a + 4096"
      using st(1) unsigned_less [of a, where 'a = nat]
      by (auto simp: unat_word_ariths PAGE_SIZE_def word_less_nat_alt mod_if split: if_splits)
    then show ?thesis
      using st(2) assms(3) by (simp add: unat_sub word_le_nat_alt less_imp_le)
  qed
  then have n: "?n a = Suc (?n (a + PAGE_SIZE))" by simp
  have sh: "a + of_nat (Suc i) * PAGE_SIZE = (a + PAGE_SIZE) + of_nat i * PAGE_SIZE" for i
    by (simp add: algebra_simps)
  show ?thesis
    unfolding pages_from_def n upt_conv_Cons [OF zero_less_Suc] list.map map_Suc_upt [symmetric] map_map o_def sh
    by simp
qed

lemma pages_from_append:
  assumes "PAGE_ALIGNED a" "PAGE_ALIGNED b" "PAGE_ALIGNED e" "a \<le> b" "b \<le> e"
  shows "pages_from a b @ pages_from b e = pages_from a e"
  using assms
proof (induction "unat (b - a)" arbitrary: a rule: less_induct)
  case less
  show ?case
  proof (cases "a = b")
    case False
    then have ab: "a < b" and ae: "a < e" using less.prems by auto
    note st = page_step [OF less.prems(1,2) ab]
    have "pages_from (a + PAGE_SIZE) b @ pages_from b e = pages_from (a + PAGE_SIZE) e"
      by (rule less.hyps) (use st less.prems in \<open>auto simp: range_fuel_less\<close>)
    then show ?thesis
      using less.prems ab ae by (simp add: pages_from_step)
  qed simp
qed

lemma pages_from_snoc:
  assumes "PAGE_ALIGNED a" "PAGE_ALIGNED b" "a \<le> b" "b < b + PAGE_SIZE" "PAGE_ALIGNED (b + PAGE_SIZE)"
  shows "pages_from a (b + PAGE_SIZE) = pages_from a b @ [b]"
  using pages_from_append [of a b "b + PAGE_SIZE"] pages_from_step [of b "b + PAGE_SIZE"] assms by auto

lemma drop_bit_next:
  fixes a :: u64
  assumes "a < a + PAGE_SIZE"
  shows "drop_bit 12 (a + PAGE_SIZE) = drop_bit 12 a + 1"
proof -
  have u: "unat (a + PAGE_SIZE) = unat a + 4096"
    using assms unsigned_less [of a, where 'a = nat]
    by (auto simp: unat_word_ariths PAGE_SIZE_def word_less_nat_alt mod_if split: if_splits)
  have d: "unat (drop_bit 12 x) = unat x div 4096" for x :: u64
    by (simp add: drop_bit_eq_div unat_div)
  have "unat (drop_bit 12 a + 1) = unat (drop_bit 12 a) + 1"
    using unsigned_less [of a, where 'a = nat] by (simp add: unat_word_ariths d)
  then have "unat (drop_bit 12 (a + PAGE_SIZE)) = unat (drop_bit 12 a + 1)"
    by (simp add: u d)
  then show ?thesis by (simp only: word_unat_eq_iff)
qed


section \<open>The protocol of mapping\<close>

text \<open>
  The entries set so far, in order, and the protection that the tracking of frames left; \<open>mp_ok\<close> is lost when an entry is set or a lock released without a
  page-table lock held, or a second lock taken.
\<close>

record map_proto =
  mp_ok :: bool
  mp_held :: bool
  mp_sets :: "(int \<times> u64 \<times> u64) list"
  mp_prot :: u64

fun map_proto_step :: "map_proto \<Rightarrow> kc \<Rightarrow> int \<Rightarrow> map_proto" where
  "map_proto_step z (Lk (Pte_alloc_map_lock pmd a)) r =
     (if r = 0 then z else z\<lparr>mp_ok := mp_ok z \<and> \<not> mp_held z, mp_held := True\<rparr>)"
| "map_proto_step z (Lk (Pte_unmap_unlock p)) r = z\<lparr>mp_ok := mp_ok z \<and> mp_held z, mp_held := False\<rparr>"
| "map_proto_step z (Pe (Set_pte_at mm a p e)) r =
     z\<lparr>mp_ok := mp_ok z \<and> mp_held z, mp_sets := mp_sets z @ [(mm, a, e)]\<rparr>"
| "map_proto_step z (Mp (Track_prot v)) r = z\<lparr>mp_prot := word_of_int r\<rparr>"
| "map_proto_step z c r = z"

definition map_proto0 :: map_proto where
  "map_proto0 = \<lparr>mp_ok = True, mp_held = False, mp_sets = [], mp_prot = 0\<rparr>"

abbreviation mapping_of :: "mmw \<Rightarrow> map_proto" where
  "mapping_of w \<equiv> ghost map_proto_step map_proto0 w"

definition at_rest :: "u64 \<Rightarrow> (int \<times> u64 \<times> u64) list \<Rightarrow> mmw \<Rightarrow> bool" where
  "at_rest q S w = (mapping_of w = \<lparr>mp_ok = True, mp_held = False, mp_sets = S, mp_prot = q\<rparr>)"

definition at_work :: "u64 \<Rightarrow> (int \<times> u64 \<times> u64) list \<Rightarrow> mmw \<Rightarrow> bool" where
  "at_work q S w = (mapping_of w = \<lparr>mp_ok = True, mp_held = True, mp_sets = S, mp_prot = q\<rparr>)"

lemmas mapping_states = at_rest_def at_work_def

text \<open>The frame at address \<open>x\<close> is \<open>B + (x >> PAGE_SHIFT)\<close>.\<close>

definition frame_sets :: "arch \<Rightarrow> int \<Rightarrow> u64 \<Rightarrow> u64 \<Rightarrow> u64 \<Rightarrow> u64 \<Rightarrow> (int \<times> u64 \<times> u64) list" where
  "frame_sets A mm B prot a e =
     map (\<lambda>x. (mm, x, pte_mkspecial A (pfn_pte A (B + drop_bit 12 x) prot))) (pages_from a e)"

lemma frame_sets_refl [simp]: "frame_sets A mm B prot a a = []"
  by (simp add: frame_sets_def)

lemma frame_sets_append:
  "PAGE_ALIGNED a \<Longrightarrow> PAGE_ALIGNED b \<Longrightarrow> PAGE_ALIGNED e \<Longrightarrow> a \<le> b \<Longrightarrow> b \<le> e \<Longrightarrow>
    frame_sets A mm B prot a b @ frame_sets A mm B prot b e = frame_sets A mm B prot a e"
  by (simp add: frame_sets_def map_append [symmetric] pages_from_append del: map_append)

lemma frame_sets_snoc:
  "PAGE_ALIGNED a \<Longrightarrow> PAGE_ALIGNED b \<Longrightarrow> a \<le> b \<Longrightarrow> b < b + PAGE_SIZE \<Longrightarrow> PAGE_ALIGNED (b + PAGE_SIZE) \<Longrightarrow>
    frame_sets A mm B prot a (b + PAGE_SIZE) =
      frame_sets A mm B prot a b @ [(mm, b, pte_mkspecial A (pfn_pte A (B + drop_bit 12 b) prot))]"
  by (simp add: frame_sets_def pages_from_snoc)

text \<open>The entries of a prefix of the range are set, those of all of it if the result is 0.\<close>

definition filled :: "arch \<Rightarrow> int \<Rightarrow> u64 \<Rightarrow> u64 \<Rightarrow> (int \<times> u64 \<times> u64) list \<Rightarrow> u64 \<Rightarrow> u64 \<Rightarrow> int \<Rightarrow> mmw \<Rightarrow> bool" where
  "filled A mm B prot S s e r w =
     (\<exists>b. s \<le> b \<and> b \<le> e \<and> PAGE_ALIGNED b \<and> (r = 0 \<longrightarrow> b = e) \<and> at_rest prot (S @ frame_sets A mm B prot s b) w)"

lemma filled_failed: "at_rest prot S w \<Longrightarrow> s \<le> e \<Longrightarrow> PAGE_ALIGNED s \<Longrightarrow> r \<noteq> 0 \<Longrightarrow> filled A mm B prot S s e r w"
  by (auto simp: filled_def intro: exI [of _ s])

lemma remap_pte_range_fills:
  assumes "at_rest prot S w" "PAGE_ALIGNED a" "PAGE_ALIGNED e" "a < e"
  shows "tpost (filled A mm B prot S a e) (remap_pte_range A mm pmd a e (B + drop_bit 12 a) prot w)"
proof -
  let ?al = "\<lambda>x. PAGE_ALIGNED x"
  let ?J = "\<lambda>p x v. snd p = B + drop_bit 12 x \<and> at_work prot (S @ frame_sets A mm B prot a x) v"
  let ?body = "\<lambda>((pte, pfn), addr) w.
              bnd (read_pte pte w) (\<lambda>old w.
              bnd (BUG_ON (\<not> pte_none A old) w) (\<lambda>_ w.
              bnd (kdo (Pe (Set_pte_at mm addr pte (pte_mkspecial A (pfn_pte A pfn prot)))) w) (\<lambda>_ w.
              ret (addr + PAGE_SIZE \<noteq> e, ((pte + 1, pfn + 1), addr + PAGE_SIZE)) w)))"
  have loop: "tpost (\<lambda>(p, x) v. at_work prot (S @ frame_sets A mm B prot a e) v)
      (do_while (range_fuel a e) ?body ((pte, B + drop_bit 12 a), a) v)"
    if v: "at_work prot S v" for pte :: int and v
  proof (rule tpost_do_while [where I = "\<lambda>(p, x) v. a \<le> x \<and> x < e \<and> ?al x \<and> ?J p x v" and m = "\<lambda>(p, x) v. unat (e - x)"])
    fix t :: "(int \<times> u64) \<times> u64" and u
    assume t: "(case t of (p, x) \<Rightarrow> \<lambda>v. a \<le> x \<and> x < e \<and> ?al x \<and> ?J p x v) u"
    obtain pte x where tx: "t = ((pte, B + drop_bit 12 x), x)" and x: "a \<le> x" "x < e" "?al x" "at_work prot (S @ frame_sets A mm B prot a x) u"
      using t by (cases t) auto
    note st = page_step [OF x(3) assms(3) x(2)]
    note sn = frame_sets_snoc [OF assms(2) x(3) x(1) st(1) st(3), of A mm B prot]
    show "tpost (\<lambda>(again, t') v'. if again then (case t' of (p, x) \<Rightarrow> \<lambda>v. a \<le> x \<and> x < e \<and> ?al x \<and> ?J p x v) v' \<and>
        (case t' of (p, x) \<Rightarrow> \<lambda>v. unat (e - x)) v' < (case t of (p, x) \<Rightarrow> \<lambda>v. unat (e - x)) u
        else (case t' of (p, x) \<Rightarrow> \<lambda>v. at_work prot (S @ frame_sets A mm B prot a e) v) v') (?body t u)"
      unfolding tx prod.case
      by (intro run_intros) (use x st in \<open>auto simp: at_work_def sn drop_bit_next range_fuel_less\<close>)
  qed (use v assms in \<open>auto simp: range_fuel_def\<close>)
  show ?thesis
    unfolding remap_pte_range_def
    by (intro run_intros tpost_bndI [OF loop] filled_failed)
      (use assms in \<open>auto simp: mapping_states filled_def ENOMEM_def split: prod.splits intro!: exI [of _ e] run_intros\<close>)
qed

text \<open>A level of the walk: each entry is handed to the level below, until the end or a failure.\<close>

lemma tpost_level:
  fixes F :: "int \<Rightarrow> u64 \<Rightarrow> u64 \<Rightarrow> int mact" and G :: "int \<Rightarrow> int"
  assumes nxt: "addr_end_aligned nxt" and S: "at_rest prot S w" and al: "PAGE_ALIGNED s" "PAGE_ALIGNED e" "s < e"
    and G: "\<And>r. r \<noteq> 0 \<Longrightarrow> G r \<noteq> 0"
    and step: "\<And>p a v S. at_rest prot S v \<Longrightarrow> PAGE_ALIGNED a \<Longrightarrow> PAGE_ALIGNED (nxt a e) \<Longrightarrow> a < nxt a e \<Longrightarrow>
      tpost (filled A mm B prot S a (nxt a e)) (F p a (nxt a e) v)"
  shows "tpost (\<lambda>((_, r), _). filled A mm B prot S s e r) (do_while (range_fuel s e) (\<lambda>((p, _), a) w.
      let next = nxt a e in
      bnd (F p a next w) (\<lambda>r w.
      if r \<noteq> 0 then ret (False, ((p, G r), a)) w else ret (next \<noteq> e, ((p + 1, 0), next)) w)) ((p0, 0), s) w)"
    (is "tpost ?Q (do_while _ ?body _ _)")
proof (rule tpost_do_while [where I = "\<lambda>(p, x) v. s \<le> x \<and> x < e \<and> PAGE_ALIGNED x \<and> at_rest prot (S @ frame_sets A mm B prot s x) v"
      and m = "\<lambda>(p, x) v. unat (e - x)"])
  fix t :: "(int \<times> int) \<times> u64" and u
  assume t: "(case t of (p, x) \<Rightarrow> \<lambda>v. s \<le> x \<and> x < e \<and> PAGE_ALIGNED x \<and> at_rest prot (S @ frame_sets A mm B prot s x) v) u"
  obtain p r0 x where tx: "t = ((p, r0), x)" and x: "s \<le> x" "x < e" "PAGE_ALIGNED x" "at_rest prot (S @ frame_sets A mm B prot s x) u"
    using t by (cases t) auto
  have nx: "x < nxt x e" "nxt x e \<le> e" "PAGE_ALIGNED (nxt x e)"
    using nxt x(2,3) al(2) by (auto simp: addr_end_aligned_def addr_end_ok_def)
  note ap = frame_sets_append [OF al(1) x(3) _ x(1)]
  show "tpost (\<lambda>(again, t') v'. if again then (case t' of (p, x) \<Rightarrow> \<lambda>v. s \<le> x \<and> x < e \<and> PAGE_ALIGNED x \<and>
          at_rest prot (S @ frame_sets A mm B prot s x) v) v' \<and>
      (case t' of (p, x) \<Rightarrow> \<lambda>v. unat (e - x)) v' < (case t of (p, x) \<Rightarrow> \<lambda>v. unat (e - x)) u else ?Q t' v') (?body t u)"
    unfolding tx prod.case Let_def
  proof (rule tpost_bndI [OF step [OF x(4) x(3) nx(3) nx(1)]])
    fix r v
    assume f: "filled A mm B prot (S @ frame_sets A mm B prot s x) x (nxt x e) r v"
    then obtain b where b: "x \<le> b" "b \<le> nxt x e" "PAGE_ALIGNED b" "r = 0 \<longrightarrow> b = nxt x e"
        "at_rest prot (S @ frame_sets A mm B prot s b) v"
      by (auto simp: filled_def ap)
    have le: "s \<le> b" "b \<le> e" using b(1,2) x(1) nx(2) by auto
    show "tpost (\<lambda>(again, t') v'. if again then (case t' of (p, x) \<Rightarrow> \<lambda>v. s \<le> x \<and> x < e \<and> PAGE_ALIGNED x \<and>
            at_rest prot (S @ frame_sets A mm B prot s x) v) v' \<and>
        (case t' of (p, x) \<Rightarrow> \<lambda>v. unat (e - x)) v' < unat (e - x) else ?Q t' v')
       (if r \<noteq> 0 then ret (False, ((p, G r), x)) v else ret (nxt x e \<noteq> e, ((p + 1, 0), nxt x e)) v)"
    proof (cases "r = 0")
      case True
      then show ?thesis using b le nx al x by (auto simp: filled_def range_fuel_less)
    next
      case False
      then show ?thesis using b le G by (auto simp: filled_def)
    qed
  qed
qed (use S al in \<open>auto simp: range_fuel_def\<close>)

lemma remap_pmd_range_fills:
  assumes "tables_aligned A" "at_rest prot S w" "PAGE_ALIGNED a" "PAGE_ALIGNED e" "a < e"
  shows "tpost (filled A mm B prot S a e) (remap_pmd_range A mm pud a e (B + drop_bit 12 a) prot w)"
  unfolding remap_pmd_range_def Let_def add_diff_cancel_right'
  by (intro run_intros filled_failed
      tpost_bndI [OF tpost_level [unfolded Let_def, where S = S and mm = mm and A = A and B = B and prot = prot and G = "\<lambda>_. - ENOMEM"]]
      remap_pte_range_fills)
    (use assms in \<open>auto simp: tables_aligned_def mapping_states ENOMEM_def split: prod.splits\<close>)

lemma remap_pud_range_fills:
  assumes "tables_aligned A" "at_rest prot S w" "PAGE_ALIGNED a" "PAGE_ALIGNED e" "a < e"
  shows "tpost (filled A mm B prot S a e) (remap_pud_range A mm pgd a e (B + drop_bit 12 a) prot w)"
  unfolding remap_pud_range_def Let_def add_diff_cancel_right'
  by (intro run_intros filled_failed
      tpost_bndI [OF tpost_level [unfolded Let_def, where S = S and mm = mm and A = A and B = B and prot = prot and G = "\<lambda>_. - ENOMEM"]]
      remap_pmd_range_fills)
    (use assms in \<open>auto simp: tables_aligned_def mapping_states ENOMEM_def split: prod.splits\<close>)


section \<open>The whole range\<close>

lemma page_frame:
  fixes a :: u64
  assumes "unat a + i * 4096 < 2 ^ 64"
  shows "drop_bit 12 (a + of_nat i * PAGE_SIZE) = drop_bit 12 a + of_nat i"
  using assms
proof (induction i)
  case (Suc i)
  let ?x = "a + of_nat i * PAGE_SIZE"
  have m: "of_nat i * PAGE_SIZE = (word_of_nat (i * 4096) :: u64)" by (simp add: PAGE_SIZE_def)
  have "unat ?x = unat a + i * 4096"
    unfolding m using Suc.prems by (simp add: unat_word_ariths unat_of_nat mod_simps)
  then have "?x < ?x + PAGE_SIZE"
    using Suc.prems by (simp add: word_less_nat_alt unat_word_ariths PAGE_SIZE_def)
  from drop_bit_next [OF this] Suc show ?case by (simp add: algebra_simps)
qed simp

text \<open>The entries of \<open>k\<close> pages from \<open>addr\<close> on, for the frames from \<open>pfn\<close> on.\<close>

definition consecutive :: "arch \<Rightarrow> int \<Rightarrow> u64 \<Rightarrow> u64 \<Rightarrow> u64 \<Rightarrow> nat \<Rightarrow> (int \<times> u64 \<times> u64) list" where
  "consecutive A mm addr pfn prot k =
     map (\<lambda>i. (mm, addr + of_nat i * PAGE_SIZE, pte_mkspecial A (pfn_pte A (pfn + of_nat i) prot))) [0..<k]"

lemma frame_sets_consecutive:
  assumes "a \<le> b"
  shows "frame_sets A mm (pfn - drop_bit 12 a) prot a b = consecutive A mm a pfn prot (unat (b - a) div 4096)"
proof -
  have "pte_mkspecial A (pfn_pte A (pfn - drop_bit 12 a + drop_bit 12 (a + of_nat i * PAGE_SIZE)) prot) =
      pte_mkspecial A (pfn_pte A (pfn + of_nat i) prot)" if "i < unat (b - a) div 4096" for i
  proof -
    have "i * 4096 < unat (b - a)" using that by linarith
    then have "unat a + i * 4096 < 2 ^ 64"
      using assms unsigned_less [of b, where 'a = nat] by (simp add: unat_sub word_le_nat_alt)
    from page_frame [OF this] show ?thesis by simp
  qed
  then show ?thesis by (simp del: add_diff_eq diff_add_eq diff_diff_eq2 add: frame_sets_def consecutive_def pages_from_def)
qed

lemma PAGE_ALIGNED_PAGE_ALIGN [simp]: "PAGE_ALIGNED (PAGE_ALIGN x)"
proof -
  have "take_bit 12 (y AND NOT (mask 12)) = (0 :: u64)" for y
    by (rule bit_word_eqI) (auto simp: bit_simps)
  moreover have "PAGE_SIZE - 1 = mask 12" by (simp add: PAGE_SIZE_def mask_eq_exp_minus_1)
  ultimately show ?thesis by (simp add: PAGE_ALIGNED_def PAGE_ALIGN_def)
qed

lemma remap_pgd_loop_fills:
  assumes "tables_aligned A" "at_rest prot S w" "PAGE_ALIGNED a" "PAGE_ALIGNED e" "a < e"
  shows "tpost (filled A mm B prot S a e) (remap_pgd_loop A mm pgd a e B prot w)"
  unfolding remap_pgd_loop_def
  by (intro tpost_bndI [OF tpost_level [where S = S and mm = mm and A = A and B = B and prot = prot and G = "\<lambda>r. r"]]
      remap_pud_range_fills)
    (use assms in \<open>auto simp: tables_aligned_def split: prod.splits\<close>)

text \<open>
  C28: For an address at the start of a page, \<open>remap_pfn_range\<close> maps what it is asked to. It returns on every path; the entries it has set are
  those of the first \<open>k\<close> pages of the range, in order, each under the lock of its table, page \<open>i\<close> mapping
  frame \<open>pfn + i\<close> with the protection that \<open>track_pfn_remap\<close> left. If it returns 0 these are all pages
  and the area is marked as a raw mapping. If it runs out of memory the last thing it does is to
  take the range back from the tracking, but under a frame number from which the page number
  of the address has been subtracted.
\<close>

theorem remap_pfn_range_maps:
  assumes "tables_aligned A" "log w = []" "PAGE_ALIGNED addr"
  shows "tpost (\<lambda>(r, v') w'. let z = mapping_of w'; n = unat (PAGE_ALIGN sz) div 4096 in
       mp_ok z \<and> \<not> mp_held z \<and>
       (\<exists>k \<le> n. mp_sets z = consecutive A (vm_mm v) addr pfn (mp_prot z) k \<and> (r = 0 \<longrightarrow> k = n)) \<and>
       (r = 0 \<longrightarrow> {VM_IO, VM_PFNMAP, VM_DONTEXPAND, VM_DONTDUMP} \<subseteq> vm_flags v') \<and>
       (r \<noteq> 0 \<and> r \<noteq> - EINVAL \<longrightarrow> fst (hd (log w')) = Vm (Untrack_pfn (vma_ptr v) (pfn - drop_bit 12 addr) (PAGE_ALIGN sz))))
     (remap_pfn_range A v addr pfn sz w)"
proof -
  let ?e = "addr + PAGE_ALIGN sz"
  have e: "PAGE_ALIGNED ?e" by (rule PAGE_ALIGNED_add) (use assms in simp_all)
  have start: "mapping_of w = \<lparr>mp_ok = True, mp_held = False, mp_sets = [], mp_prot = 0\<rparr>"
    using assms(2) by (simp add: ghost_def map_proto0_def del: ghost_log)
  define n where "n = unat (PAGE_ALIGN sz) div 4096"
  define first where "first z r = (\<exists>k \<le> n. mp_sets z = consecutive A (vm_mm v) addr pfn (mp_prot z) k \<and> (r = 0 \<longrightarrow> k = n))"
    for z :: map_proto and r :: int
  have none: "first z r" if "mp_sets z = []" "r \<noteq> 0" for z r
    using that by (auto simp: first_def consecutive_def intro!: exI [of _ 0])
  have some: "mp_ok (mapping_of u) \<and> \<not> mp_held (mapping_of u) \<and> first (mapping_of u) r"
    if filled: "filled A (vm_mm v) (pfn - drop_bit 12 addr) prot [] addr ?e r u" for prot r u
  proof -
    obtain b where b: "addr \<le> b" "b \<le> ?e" "r = 0 \<longrightarrow> b = ?e"
        "at_rest prot (frame_sets A (vm_mm v) (pfn - drop_bit 12 addr) prot addr b) u"
      using filled by (auto simp: filled_def)
    note unat_sub [OF b(1)] unat_sub [OF order_trans [OF b(1,2)]]
    moreover have "unat b \<le> unat ?e" using b(2) by (simp only: word_le_nat_alt)
    ultimately have "unat (b - addr) div 4096 \<le> n" by (simp add: n_def div_le_mono)
    moreover have "r = 0 \<longrightarrow> unat (b - addr) div 4096 = n" using b(3) by (auto simp: n_def)
    ultimately show ?thesis
      using b(4) frame_sets_consecutive [OF b(1)] by (auto simp: first_def at_rest_def)
  qed
  have loop: "tpost (\<lambda>r u. mp_ok (mapping_of u) \<and> \<not> mp_held (mapping_of u) \<and> first (mapping_of u) r)
      (remap_pgd_loop A (vm_mm v) pgd addr ?e (pfn - drop_bit 12 addr) prot u)"
    if "at_rest prot [] u" "addr < ?e" for pgd prot u
    by (rule tpost_mono [OF remap_pgd_loop_fills [OF assms(1) that(1) assms(3) e that(2)]]) (rule some)
  show ?thesis
    unfolding remap_pfn_range_def Let_def n_def [symmetric] first_def [symmetric]
    by (intro run_intros tpost_bndI [OF loop])
      (use start in \<open>simp_all add: at_rest_def EINVAL_def not_le none\<close>)
qed

text \<open>Two pages of a device, in a kernel in which every table can be allocated.\<close>

definition remap_world :: mmw where
  "remap_world = mmw0\<lparr>ans := (\<lambda>h c. case c of
       Fr (Pud_alloc p a) \<Rightarrow> 11 | Fr (Pmd_alloc p a) \<Rightarrow> 12 | Lk (Pte_alloc_map_lock p a) \<Rightarrow> 14 | Mp (Track_prot v) \<Rightarrow> 0x70
     | _ \<Rightarrow> 0)\<rparr>"

lemma remap_world_simps:
  "ans remap_world h c = (case c of
       Fr (Pud_alloc p a) \<Rightarrow> 11 | Fr (Pmd_alloc p a) \<Rightarrow> 12 | Lk (Pte_alloc_map_lock p a) \<Rightarrow> 14 | Mp (Track_prot v) \<Rightarrow> 0x70
     | _ \<Rightarrow> 0)"
  "log remap_world = []"
  by (simp_all add: remap_world_def mmw0_def)

lemma remap_vma0_simps:
  "vm_flags vma0 = {VM_READ, VM_WRITE, VM_MAYWRITE}" "vm_mm vma0 = 1" "vma_ptr vma0 = 70" "vm_start vma0 = 0x400000"
  "vm_end vma0 = 0x600000"
  by (simp_all add: vma0_def)

lemma remap_arch0_simps:
  "pte_none arch0 0" "\<not> is_cow_mapping arch0 {VM_READ, VM_WRITE, VM_SHARED}"
  "pmd_addr_end arch0 0x400000 0x402000 = 0x402000" "pud_addr_end arch0 0x400000 0x402000 = 0x402000"
  "pgd_addr_end arch0 0x400000 0x402000 = 0x402000"
  by (simp_all add: arch0_def std_addr_end_def Let_def mask_eq_exp_minus_1)

lemma remap_world_run:
  "rets (\<lambda>(r, v') w'. r = 0 \<and> mp_prot (mapping_of w') = 0x70)
     (remap_pfn_range arch0 (vma0\<lparr>vm_flags := {VM_READ, VM_WRITE, VM_SHARED}\<rparr>) 0x400000 0x100 0x2000 remap_world)"
  by (simp add: remap_pfn_range_def remap_pgd_loop_def remap_pud_range_def remap_pmd_range_def remap_pte_range_def PAGE_ALIGN_def
     PAGE_SIZE_def by_value read_pte_def range_fuel_def remap_world_simps remap_vma0_simps remap_arch0_simps map_proto0_def
     cong: bnd_by_value rets_by_value)

lemma two_frames: "consecutive arch0 1 0x400000 0x100 0x70 2 = [(1, 0x400000, 0x100271), (1, 0x401000, 0x101271)]"
  by (simp add: consecutive_def PAGE_SIZE_def arch0_def upt_rec)

lemma two_pages: "unat (PAGE_ALIGN 0x2000) div 4096 = 2"
  by (simp add: PAGE_ALIGN_def PAGE_SIZE_def)

theorem remap_pfn_range_maps_witness:
  "rets (\<lambda>(r, v') w'. r = 0 \<and> VM_PFNMAP \<in> vm_flags v' \<and>
       mp_sets (mapping_of w') = [(1, 0x400000, 0x100271), (1, 0x401000, 0x101271)])
     (remap_pfn_range arch0 (vma0\<lparr>vm_flags := {VM_READ, VM_WRITE, VM_SHARED}\<rparr>) 0x400000 0x100 0x2000 remap_world)"
proof -
  have "log remap_world = []" "PAGE_ALIGNED 0x400000" by (simp_all add: remap_world_simps PAGE_ALIGNED_def)
  note remap_pfn_range_maps [OF tables_aligned_arch0 this, where v = "vma0\<lparr>vm_flags := {VM_READ, VM_WRITE, VM_SHARED}\<rparr>" and sz = "0x2000" and pfn = "0x100"]
  with remap_world_run show ?thesis
    by (auto simp: rets_iff Let_def two_pages two_frames remap_vma0_simps)
qed

end
