(* ===== verification/AccessMem.thy ===== *)
theory AccessMem
  imports InsertMap
begin

text \<open>
  Looking up the entry of an address and reaching into other address spaces, \<open>memory.c\<close> lines 3662 to
  3939, and the clearing and copying of huge pages and the locks of page tables, lines 3941 to 4046.
\<close>

section \<open>The entry behind an address\<close>

definition absent :: "kc \<Rightarrow> kc \<Rightarrow> bool mact" where
  "absent none bad w = bnd (kask none w) (\<lambda>n w. if n then ret True w else kask bad w)"

text \<open>
  \<open>Some\<close> the pointer to a present entry, with the lock of its table held, or \<open>None\<close> for the result
  \<open>-EINVAL\<close>.
\<close>

definition raw_follow_pte :: "arch \<Rightarrow> int \<Rightarrow> u64 \<Rightarrow> int option mact" where
  "raw_follow_pte A mm address w =
     bnd (kcall (Tb (Pgd_offset mm address)) w) (\<lambda>pgd w.
     bnd (absent (Fr (Pgd_none pgd)) (Mp (Pgd_bad pgd)) w) (\<lambda>out w.
     if out then ret None w
     else
       bnd (kcall (Tb (Pud_offset pgd address)) w) (\<lambda>pud w.
       bnd (absent (Fr (Pud_none pud)) (Mp (Pud_bad pud)) w) (\<lambda>out w.
       if out then ret None w
       else
         bnd (kcall (Tb (Pmd_offset pud address)) w) (\<lambda>pmd w.
         bnd (kask (Tb (Pmd_trans_huge pmd)) w) (\<lambda>trans w.
         bnd (BUG_ON trans w) (\<lambda>_ w.
         bnd (absent (Tb (Pmd_none pmd)) (Mp (Pmd_bad pmd)) w) (\<lambda>out w.
         if out then ret None w
         else
           bnd (kask (Mp (Pmd_huge pmd)) w) (\<lambda>huge w.
           if huge then ret None w
           else
             bnd (kcall (Lk (Pte_offset_map_lock pmd address)) w) (\<lambda>ptep w.
             if ptep = 0 then ret None w
             else
               bnd (read_pte ptep w) (\<lambda>pte w.
               if \<not> pte_present A pte
               then bnd (kdo (Lk (Pte_unmap_unlock ptep)) w) (\<lambda>_ w. ret None w)
               else ret (Some ptep) w)))))))))))"

definition follow_pte :: "arch \<Rightarrow> int \<Rightarrow> u64 \<Rightarrow> int option mact" where
  "follow_pte A mm address w = raw_follow_pte A mm address w"

text \<open>\<open>Inl\<close> the error code, \<open>Inr\<close> the frame number.\<close>

definition follow_pfn :: "arch \<Rightarrow> vma \<Rightarrow> u64 \<Rightarrow> (int + u64) mact" where
  "follow_pfn A v address w =
     (if vm_flags v \<inter> {VM_IO, VM_PFNMAP} = {} then ret (Inl (- EINVAL)) w
      else
        bnd (follow_pte A (vm_mm v) address w) (\<lambda>found w.
        case found of
          None \<Rightarrow> ret (Inl (- EINVAL)) w
        | Some ptep \<Rightarrow>
            bnd (read_pte ptep w) (\<lambda>pte w.
            bnd (kdo (Lk (Pte_unmap_unlock ptep)) w) (\<lambda>_ w. ret (Inr (pte_pfn A pte)) w))))"

text \<open>\<open>FOLL_WRITE\<close> is bit 0 of the flags. \<open>Some\<close> the protection and the physical address of the page.\<close>

definition follow_phys :: "arch \<Rightarrow> vma \<Rightarrow> u64 \<Rightarrow> u32 \<Rightarrow> (u64 \<times> u64) option mact" where
  "follow_phys A v address flags w =
     (if vm_flags v \<inter> {VM_IO, VM_PFNMAP} = {} then ret None w
      else
        bnd (follow_pte A (vm_mm v) address w) (\<lambda>found w.
        case found of
          None \<Rightarrow> ret None w
        | Some ptep \<Rightarrow>
            bnd (read_pte ptep w) (\<lambda>pte w.
            bnd (kdo (Lk (Pte_unmap_unlock ptep)) w) (\<lambda>_ w.
            if bit flags 0 \<and> \<not> pte_write A pte then ret None w
            else ret (Some (pte_pgprot A pte, push_bit 12 (pte_pfn A pte))) w))))"

text \<open>
  Lengths are of type \<open>int\<close>: 32-bit words read with their sign, whose sums wrap around and are extended where
  they meet a long. \<open>PAGE_ALIGN\<close> of an \<open>int\<close> is computed in that type. The mapping that \<open>ioremap_prot\<close> returns
  is used as it is.
\<close>

definition PAGE_ALIGN_int :: "u32 \<Rightarrow> u32" where
  "PAGE_ALIGN_int x = ((x + 4095) AND NOT 4095)"

definition generic_access_phys :: "arch \<Rightarrow> vma \<Rightarrow> u64 \<Rightarrow> int \<Rightarrow> u32 \<Rightarrow> u32 \<Rightarrow> int mact" where
  "generic_access_phys A v addr buf len write w =
     (let offset = ucast (take_bit 12 addr) :: u32 in
      bnd (follow_phys A v addr write w) (\<lambda>found w.
      case found of
        None \<Rightarrow> ret (- EINVAL) w
      | Some (prot, phys_addr) \<Rightarrow>
          bnd (kcall (Ac (Ioremap_prot phys_addr (scast (PAGE_ALIGN_int (len + offset))) prot)) w) (\<lambda>maddr w.
          bnd (if write \<noteq> 0 then kdo (Ac (Memcpy_toio (maddr + sint offset) buf (sint len))) w
               else kdo (Ac (Memcpy_fromio buf (maddr + sint offset) (sint len))) w) (\<lambda>_ w.
          bnd (kdo (Ac (Iounmap maddr)) w) (\<lambda>_ w. ret (sint len) w)))))"

section \<open>Other address spaces\<close>

text \<open>
  \<open>area\<close> is the memory behind the pointers to areas that \<open>find_vma\<close> returns. One page: the number of
  bytes transferred, or \<open>None\<close> if the loop ends here. The comparison of the remaining length with the rest
  of the page is one of unsigned longs. A call that returns an \<open>int\<close> is cut to 32 bits.
\<close>

definition access_mapped :: "u32 \<Rightarrow> u64 \<Rightarrow> int \<Rightarrow> bool \<Rightarrow> u32 mact" where
  "access_mapped len addr buf write w =
     (let offset = ucast (take_bit 12 addr) :: u32;
          bytes = (if PAGE_SIZE - scast offset < scast len then ucast (PAGE_SIZE - scast offset) else len) in
      bnd (kcall (Ac Gup_page) w) (\<lambda>page w.
      bnd (kcall (Ac Gup_vma) w) (\<lambda>vma w.
      bnd (kcall (Sw (Kmap page)) w) (\<lambda>maddr w.
      bnd (if write
           then bnd (kdo (Ac (Copy_to_user_page vma page addr (maddr + sint offset) buf (sint bytes))) w) (\<lambda>_ w.
                kdo (Ac (Set_page_dirty_lock page)) w)
           else kdo (Ac (Copy_from_user_page vma page addr buf (maddr + sint offset) (sint bytes))) w) (\<lambda>_ w.
      bnd (kdo (Sw (Kunmap page)) w) (\<lambda>_ w.
      bnd (kdo (Pg (Page_cache_release page)) w) (\<lambda>_ w. ret bytes w)))))))"

definition access_unmapped :: "(int \<Rightarrow> vma) \<Rightarrow> int \<Rightarrow> u32 \<Rightarrow> u64 \<Rightarrow> int \<Rightarrow> bool \<Rightarrow> u32 \<Rightarrow> u32 option mact" where
  "access_unmapped area mm len addr buf write r w =
     bnd (kcall (Ac (Find_vma mm addr)) w) (\<lambda>p w.
     if p = 0 \<or> addr < vm_start (area p) then ret None w
     else
       bnd (if vm_ops (area p) \<noteq> 0 \<and> has_access (area p)
            then bnd (kcall (Ac (Vma_access p addr buf (sint len) write)) w) (\<lambda>r w. ret (word_of_int r) w)
            else ret r w) (\<lambda>r w.
       ret (if sint r \<le> 0 then None else Some r) w))"

definition access_step :: "(int \<Rightarrow> vma) \<Rightarrow> int \<Rightarrow> int \<Rightarrow> u32 \<Rightarrow> u64 \<Rightarrow> int \<Rightarrow> bool \<Rightarrow> u32 option mact" where
  "access_step area tsk mm len addr buf write w =
     bnd (kcall (Ac (Get_user_pages tsk mm addr write)) w) (\<lambda>r w.
     let r = word_of_int r :: u32 in
     if sint r \<le> 0 then access_unmapped area mm len addr buf write r w
     else bnd (access_mapped len addr buf write w) (\<lambda>bytes w. ret (Some bytes) w))"

text \<open>
  The loop \<open>while (len)\<close> runs on fuel: an \<open>access\<close> operation may transfer more than was left. The result is
  the distance the buffer pointer has moved, as an \<open>int\<close>.
\<close>

definition raw_access_remote_vm ::
  "nat \<Rightarrow> (int \<Rightarrow> vma) \<Rightarrow> int \<Rightarrow> int \<Rightarrow> u64 \<Rightarrow> int \<Rightarrow> u32 \<Rightarrow> bool \<Rightarrow> u32 mact" where
  "raw_access_remote_vm fuel area tsk mm addr buf len write w =
     bnd (kdo (Lk (Down_read mm)) w) (\<lambda>_ w.
     bnd (if len = 0 then ret (len, buf, addr) w
          else do_while fuel (\<lambda>(len, b, addr) w.
                 bnd (access_step area tsk mm len addr b write w) (\<lambda>moved w.
                 case moved of
                   None \<Rightarrow> ret (False, (len, b, addr)) w
                 | Some bytes \<Rightarrow> ret (len - bytes \<noteq> 0, (len - bytes, b + sint bytes, addr + scast bytes)) w))
               (len, buf, addr) w) (\<lambda>(_, b, _) w.
     bnd (kdo (Lk (Up_read mm)) w) (\<lambda>_ w. ret (word_of_int (b - buf)) w)))"

definition access_remote_vm :: "nat \<Rightarrow> (int \<Rightarrow> vma) \<Rightarrow> int \<Rightarrow> u64 \<Rightarrow> int \<Rightarrow> u32 \<Rightarrow> bool \<Rightarrow> u32 mact" where
  "access_remote_vm fuel area mm addr buf len write = raw_access_remote_vm fuel area 0 mm addr buf len write"

definition access_process_vm :: "nat \<Rightarrow> (int \<Rightarrow> vma) \<Rightarrow> int \<Rightarrow> u64 \<Rightarrow> int \<Rightarrow> u32 \<Rightarrow> bool \<Rightarrow> u32 mact" where
  "access_process_vm fuel area tsk addr buf len write w =
     bnd (kcall (Ac (Get_task_mm tsk)) w) (\<lambda>mm w.
     if mm = 0 then ret 0 w
     else
       bnd (raw_access_remote_vm fuel area tsk mm addr buf len write w) (\<lambda>r w.
       bnd (kdo (Ac (Mmput mm)) w) (\<lambda>_ w. ret r w)))"

text \<open>What is printed of an area: the prefix, the name, the start and the length. An error pointer prints as \<open>?\<close>.\<close>

definition IS_ERR_VALUE :: "int \<Rightarrow> bool" where
  "IS_ERR_VALUE p = (- 4095 \<le> p \<and> p < 0)"

definition question_mark :: int where "question_mark = 0"

definition print_vma_addr :: "(int \<Rightarrow> vma) \<Rightarrow> string \<Rightarrow> u64 \<Rightarrow> unit mact" where
  "print_vma_addr area prefix ip w =
     bnd (kcall (Ac Current_mm) w) (\<lambda>mm w.
     bnd (kask (Ac Preempt_count) w) (\<lambda>atomic w.
     if atomic then ret () w
     else
       bnd (kdo (Lk (Down_read mm)) w) (\<lambda>_ w.
       bnd (kcall (Ac (Find_vma mm ip)) w) (\<lambda>p w.
       bnd (cond (p \<noteq> 0 \<and> vm_file (area p) \<noteq> 0) (\<lambda>w.
              bnd (kcall (Tl Get_free_page) w) (\<lambda>buf w.
              cond (buf \<noteq> 0) (\<lambda>w.
                bnd (kcall (Ac (File_path (vm_file (area p)) buf PAGE_SIZE)) w) (\<lambda>name w.
                bnd (kcall (Ac (Kbasename (if IS_ERR_VALUE name then question_mark else name))) w) (\<lambda>base w.
                bnd (kdo (Ac (Print_vma prefix base (vm_start (area p)) (vm_end (area p) - vm_start (area p)))) w) (\<lambda>_ w.
                kdo (Tl (Free_page buf)) w)))) w)) w) (\<lambda>_ w.
       kdo (Lk (Up_read mm)) w)))))"

definition raw_might_fault :: "string \<Rightarrow> int \<Rightarrow> unit mact" where
  "raw_might_fault file line w =
     bnd (kask (Ac Fs_is_kernel) w) (\<lambda>kernel w.
     if kernel then ret () w
     else
       bnd (kask (Ac Pagefault_disabled) w) (\<lambda>disabled w.
       if disabled then ret () w
       else
         bnd (kdo (Ac (Might_sleep_at file line)) w) (\<lambda>_ w.
         bnd (kcall (Ac Current_mm) w) (\<lambda>mm w.
         cond (mm \<noteq> 0) (kdo (Ac (Might_lock_read mm))) w))))"

section \<open>Huge pages\<close>

text \<open>The loops over the pages of a huge page: \<open>n\<close> pages are left, \<open>i\<close> is the index of the next one.\<close>

fun clear_gigantic_from :: "nat \<Rightarrow> nat \<Rightarrow> int \<Rightarrow> int \<Rightarrow> u64 \<Rightarrow> unit mact" where
  "clear_gigantic_from 0 i p page addr w = ret () w"
| "clear_gigantic_from (Suc n) i p page addr w =
     bnd (kdo (Lk Cond_resched) w) (\<lambda>_ w.
     bnd (kdo (Ac (Clear_user_highpage p (addr + of_nat i * PAGE_SIZE))) w) (\<lambda>_ w.
     bnd (kcall (Ac (Mem_map_next p page (Suc i))) w) (\<lambda>p w.
     clear_gigantic_from n (Suc i) p page addr w)))"

definition clear_gigantic_page :: "int \<Rightarrow> u64 \<Rightarrow> nat \<Rightarrow> unit mact" where
  "clear_gigantic_page page addr pages_per_huge_page w =
     bnd (kdo (Ac Might_sleep) w) (\<lambda>_ w. clear_gigantic_from pages_per_huge_page 0 page page addr w)"

definition clear_huge_page :: "arch \<Rightarrow> int \<Rightarrow> u64 \<Rightarrow> nat \<Rightarrow> unit mact" where
  "clear_huge_page A page addr pages_per_huge_page w =
     (if MAX_ORDER_NR_PAGES A < pages_per_huge_page then clear_gigantic_page page addr pages_per_huge_page w
      else
        bnd (kdo (Ac Might_sleep) w) (\<lambda>_ w.
        each (\<lambda>i w.
          bnd (kdo (Lk Cond_resched) w) (\<lambda>_ w.
          kdo (Ac (Clear_user_highpage (page + int i) (addr + of_nat i * PAGE_SIZE))) w)) [0..<pages_per_huge_page] w))"

fun copy_gigantic_from :: "nat \<Rightarrow> nat \<Rightarrow> int \<Rightarrow> int \<Rightarrow> int \<Rightarrow> int \<Rightarrow> u64 \<Rightarrow> int \<Rightarrow> unit mact" where
  "copy_gigantic_from 0 i dst src dst_base src_base addr vma w = ret () w"
| "copy_gigantic_from (Suc n) i dst src dst_base src_base addr vma w =
     bnd (kdo (Lk Cond_resched) w) (\<lambda>_ w.
     bnd (kdo (Ac (Copy_user_highpage dst src (addr + of_nat i * PAGE_SIZE) vma)) w) (\<lambda>_ w.
     bnd (kcall (Ac (Mem_map_next dst dst_base (Suc i))) w) (\<lambda>dst w.
     bnd (kcall (Ac (Mem_map_next src src_base (Suc i))) w) (\<lambda>src w.
     copy_gigantic_from n (Suc i) dst src dst_base src_base addr vma w))))"

definition copy_user_gigantic_page :: "int \<Rightarrow> int \<Rightarrow> u64 \<Rightarrow> int \<Rightarrow> nat \<Rightarrow> unit mact" where
  "copy_user_gigantic_page dst src addr vma pages_per_huge_page w =
     copy_gigantic_from pages_per_huge_page 0 dst src dst src addr vma w"

definition copy_user_huge_page :: "arch \<Rightarrow> int \<Rightarrow> int \<Rightarrow> u64 \<Rightarrow> int \<Rightarrow> nat \<Rightarrow> unit mact" where
  "copy_user_huge_page A dst src addr vma pages_per_huge_page w =
     (if MAX_ORDER_NR_PAGES A < pages_per_huge_page then copy_user_gigantic_page dst src addr vma pages_per_huge_page w
      else
        bnd (kdo (Ac Might_sleep) w) (\<lambda>_ w.
        each (\<lambda>i w.
          bnd (kdo (Lk Cond_resched) w) (\<lambda>_ w.
          kdo (Ac (Copy_user_highpage (dst + int i) (src + int i) (addr + of_nat i * PAGE_SIZE) vma)) w))
          [0..<pages_per_huge_page] w))"

section \<open>The locks of page tables\<close>

definition ptlock_cache_init :: "unit mact" where
  "ptlock_cache_init w =
     bnd (kcall (Ac (Kmem_cache_create ''page->ptl'')) w) (\<lambda>cache w. ret () (w\<lparr>page_ptl_cachep := cache\<rparr>))"

definition ptlock_alloc :: "int \<Rightarrow> bool mact" where
  "ptlock_alloc page w =
     bnd (kcall (Ac (Kmem_cache_alloc (page_ptl_cachep w))) w) (\<lambda>ptl w.
     if ptl = 0 then ret False w
     else bnd (kdo (Ac (Set_ptl page ptl)) w) (\<lambda>_ w. ret True w))"

definition ptlock_free :: "int \<Rightarrow> unit mact" where
  "ptlock_free page w =
     bnd (kcall (Ac (Page_ptl page)) w) (\<lambda>ptl w. kdo (Ac (Kmem_cache_free (page_ptl_cachep w) ptl)) w)"

end
