(* ===== verification/Spec2Isabelle.thy ===== *)
theory Spec2Isabelle
  imports ServerProps ClientProps ExperimentProps GatherProps TableProps ZapProps FaultProps ReclaimProps ReclaimTrace ReclaimResult TestPrograms SwapHeader
    CopyProps RemapProps AccessMem
begin

text \<open>
  A verification of the Infiniband repository: two kernel modules that play RDMA ping-pong
  (\<open>server/megaVM_server.c\<close>, \<open>client/megaVM_client.c\<close>), a module that exchanges the heaps of two
  processes (\<open>heap copy/file_fault.c\<close>), and an experiment on swapping: patched copies of the Linux
  files \<open>mm/memory.c\<close> and \<open>mm/vmscan.c\<close> (\<open>SharedPageExperiment/kernelFiles\<close>) record which swap entries and
  pages are written out and read back in, \<open>pteExp.c\<close> compares the two traces, and \<open>pteStore.c\<close> is the
  trace store as a user program.

  How code is modelled. A C function is a definition of the same name (a leading double underscore
  becomes \<open>raw_\<close>; \<open>_server\<close> and \<open>_client\<close> tell apart functions of the same name, \<open>_IN\<close> and \<open>_OUT\<close> the copies of
  the trace store). It takes the state of the world and returns the result with the new state
  (\<open>Inr\<close>), or the reason why it does not come back (\<open>Inl\<close>): it sleeps and nothing wakes it
  (\<open>Asleep\<close>), it follows a bad pointer, runs off a string or stops at a \<open>BUG_ON\<close> or
  \<open>VM_BUG_ON\<close> (\<open>Oops\<close>), it leaves an array of the traces (\<open>OutOfBounds\<close>), or a loop used up its fuel (\<open>NoFuel\<close>). Parts of a long function are definitions of
  their own, named after what they do; a \<open>goto\<close> to a label is a call of the definition that holds the
  code behind it. Integers keep their width (\<open>u8\<close> to \<open>u64\<close>, words that wrap around) where the code relies
  on it: addresses, frame numbers, counters, byte orders. Pointers that are only passed on are
  integers, 0 being NULL. Linked lists are lists, flag words sets of flags.

  What is outside. Code that is not in the repository is a parameter. For the modules it is the
  record \<open>verbs\<close> (theory \<open>Verbs\<close>): the answer of each call of the RDMA and DMA interfaces as a function of the
  history of calls, together with the callbacks that run before the call returns. For the kernel
  files it is the field \<open>ans\<close> of the world (theory \<open>Kernel\<close>): every call is a constructor (\<open>kc\<close> in \<open>MmWorld\<close>,
  its counterpart in \<open>ScanWorld\<close>), answered by an arbitrary function of the history, and recorded in \<open>log\<close>. A
  theorem for all worlds therefore covers every behaviour of the rest of the kernel, and every
  interleaving that shows itself in answers. Pure functions of the architecture headers (page-table
  entries, range ends, swap entries) are the fields of a record \<open>arch\<close> (\<open>renv\<close> for reclaim). Hypotheses about
  them are named: \<open>addr_end_ok\<close> and \<open>addr_end_aligned\<close> (range ends move forward, on page boundaries), \<open>walk_arch\<close>,
  \<open>tables_aligned\<close>, \<open>geom\<close>, \<open>codes_ok\<close>, \<open>fork_env\<close>, \<open>trace_env\<close>; the witnesses discharge them on \<open>arch0\<close>, which has the
  layout of x86-64, and on small concrete worlds that are run inside the logic.

  The theories.

  \<open>Prelude\<close>: results of actions, sequencing, partial post-conditions, pointers, arrays with bounds, byte
  swaps. \<open>Kernel\<close>: the world of calls, loops on fuel, total post-conditions (\<open>tpost\<close>: no loop is lost),
  returning runs (\<open>rets\<close>), runs that leave an array only where a condition holds (\<open>xpost\<close>), rules of symbolic execution (\<open>run_intros\<close>), page addresses. Properties over the
  history are stated by \<open>ghost\<close>, which folds a step function over the recorded calls: an automaton that
  sees locks, references, flushes.

  RDMA: \<open>Verbs\<close> (control block, work requests, the parameter; the contracts \<open>event_inv\<close> and \<open>poll_loop\<close> of callbacks
  and polling loops as locales), \<open>ServerHandlers\<close> and \<open>ClientHandlers\<close> (event and completion handlers, the protocol as a
  step relation), \<open>ServerMain\<close> and \<open>ClientMain\<close> (set-up, RDMA operations, life cycle with its cleanup labels), then
  \<open>ServerLemmas\<close>, \<open>ClientLemmas\<close> (one rule per function) and \<open>ServerProps\<close>, \<open>ClientProps\<close>: the polling loops implement the
  protocol; wake-ups are not lost, but for one event; what is posted and with which lengths, and what happens
  when the peer's string does not end; round trip of the advertisement; and the places where the code sleeps
  for ever, forgets an error, or reports success after a failure. What a connection acquires and releases is
  stated over the \<open>ledger\<close>, the calls of the history that do so (\<open>balanced\<close> in \<open>ServerLemmas\<close>). The witnesses of the life
  cycles run both modules to their end against a peer that talks (\<open>serving\<close>, \<open>answering\<close>).

  Traces and experiments: \<open>PteStore\<close> (the two-level store and its copies; the contract \<open>append_trace\<close> as a
  locale, interpreted on all three), \<open>SwapExperiment\<close> (\<open>pteExp.c\<close>), \<open>HeapSwap\<close> (\<open>file_fault.c\<close>), \<open>TestPrograms\<close>, with
  \<open>ExperimentProps\<close>: the store is a list up to 400000 entries and out of bounds behind it; the comparison
  counts common entries; the content scan finds the first page with an entry; the heap exchange exchanges, or never ends, or keeps its locks.

  \<open>memory.c\<close>: \<open>MmWorld\<close> (calls, areas, architecture, state), \<open>MmuGather\<close> (lines 204 to 451: counters, the gathers of pages
  and of tables), \<open>PageTables\<close> (458 to 690, 3612 to 3659), \<open>Zap\<close> (715 to 905, 1181 to 1524, 2466 to 2543), \<open>CopyRange\<close> (914 to
  1179), \<open>InsertMap\<close> (1527 to 2005), \<open>WpFault\<close>, \<open>Fault\<close>, \<open>NumaFault\<close>, \<open>FileFault\<close> (2016 to 3604, with the recording of
  swapped-in pages in \<open>do_swap_page\<close>), \<open>AccessMem\<close> (3662 to 4045). Their guarantees: \<open>GatherProps\<close> (every page and table
  is freed once; counters lose nothing), \<open>TableProps\<close> (only tables inside floor and ceiling go), \<open>ZapProps\<close>
  (flush before unlock and before free), \<open>CopyProps\<close> (fork is balanced and counts what it copies), \<open>RemapProps\<close>
  (page i gets frame \<open>pfn + i\<close>), \<open>FaultProps\<close> (a fault leaves no lock, reference or charge behind).

  \<open>vmscan.c\<close>: \<open>ScanWorld\<close>, \<open>PageOut\<close> (writing one page, taking it out of its address space), \<open>ShrinkPages\<close>
  (\<open>shrink_page_list\<close>, with the recording of swapped-out pages), \<open>Shrinkers\<close>, \<open>LruLists\<close>, \<open>ShrinkLists\<close>, \<open>ScanCount\<close>, \<open>ReclaimZones\<close>,
  \<open>DirectReclaim\<close>, \<open>Kswapd\<close>, \<open>ZoneReclaim\<close>, in the order of the file. \<open>ReclaimFrame\<close> proves once, in the locales \<open>steady\<close>,
  \<open>calm\<close> and \<open>calm_all\<close>, that every function keeps whatever depends only on what it does not touch; \<open>ReclaimTrace\<close>
  interprets them on the trace (all of reclaim stays inside its arrays, but for the entry after 400000, keeps its type and only
  appends; what is recorded of one page; \<open>pteExp.c\<close> asks for more page records than there are), \<open>ReclaimResult\<close> on
  the history (direct reclaim gives up only after \<open>shrink_zones\<close> was called at every priority), \<open>ReclaimProps\<close> shows that
  \<open>shrink_page_list\<close> conserves its pages and ends. \<open>SwapHeader\<close> has the inline functions of \<open>swap.h\<close>.

  Fuel. Loops over a range of addresses run on \<open>range_fuel\<close>, one more than the bytes of the range, which is
  enough as each round moves forward (the theorems show it). The passes of \<open>copy_pte_range\<close>, the rounds of
  \<open>__access_remote_vm\<close> and the loops of reclaim that the rest of the kernel may prolong take their fuel as an
  argument; \<open>copy_page_range_balanced\<close> and \<open>shrink_page_list_terminates\<close> say how much is enough under which
  condition. Other theorems on reclaim speak of the runs that return.

  Not modelled. Log output and trace points, module glue, \<open>EXPORT_SYMBOL\<close>, debugfs files and sysctl
  variables; debug counters and lock annotations. The bodies of the calls: page-table walks of
  the architecture, reverse mapping, the page allocator, the swap cache, memory groups, huge-page
  faults, compaction. Answers of the kernel that change memory behind the code's back are covered only
  as far as the code reads them again through a call. The two processes whose heaps \<open>file_fault.c\<close> exchanges are
  taken to be different: their locks are counted, so that the code waits for itself when both numbers name
  one process is not expressed. Of \<open>swap.h\<close> the declarations, the structures of
  the swap files, which no code of the repository uses, and the empty functions of a kernel without
  swap are left out. So are \<open>lol_fault\<close> and \<open>file_ops\<close> of \<open>pteExp.c\<close>, which nothing uses.
\<close>

end
